(* ===== verification/Prelude.thy ===== *)
theory Prelude
  imports Main "HOL-Library.AList"
begin

text \<open>
  Shared vocabulary of the development: instants and durations, results that may carry an
  error, the association lists that stand for Go maps, and the generic lemmas about them that the
  component theories use through the simplifier.

  A Go \<^verbatim>\<open>map[string]T\<close> is an association list with distinct keys. The order of the list
  stands for the (unspecified) iteration order of one \<^verbatim>\<open>range\<close> loop over the map; the
  component theories prove that what they return does not depend on it.
\<close>

section \<open>Time, results\<close>

text \<open>Instants and durations are counted in nanoseconds, as \<^verbatim>\<open>time.Duration\<close> does. Converting
  an instant to UTC does not change the instant.\<close>

type_synonym time = int
type_synonym duration = int

abbreviation Second :: duration where "Second \<equiv> 1000000000"
abbreviation Minute :: duration where "Minute \<equiv> 60000000000"
abbreviation Hour :: duration where "Hour \<equiv> 3600000000000"

text \<open>The zero \<^verbatim>\<open>time.Time\<close> is the first instant of the year 1.\<close>

definition ZeroTime :: time where
  "ZeroTime = - 62135596800 * Second"

text \<open>Durations are 64-bit: the product of seconds and \<^verbatim>\<open>time.Second\<close> wraps around.\<close>

definition int64_wrap :: "int \<Rightarrow> int" where
  "int64_wrap x = (x + 2 ^ 63) mod 2 ^ 64 - 2 ^ 63"

definition seconds_duration :: "int \<Rightarrow> duration" where
  "seconds_duration n = int64_wrap (n * Second)"

text \<open>An operation that may fail returns a sum, \<open>Inl\<close> for the error.\<close>

type_synonym ('e, 'a) result = "'e + 'a"

text \<open>Facts that unfold the wrappers of the code (configuration records, store dictionaries).\<close>

named_theorems wiring \<open>selectors and dictionaries of the wired components\<close>

text \<open>Definitions of the string constants of the contract.\<close>

named_theorems enums \<open>values of the enumerations of the contract\<close>

section \<open>Go maps\<close>

type_synonym 'a gomap = "(string \<times> 'a) list"

definition map_put :: "string \<Rightarrow> 'a \<Rightarrow> 'a gomap \<Rightarrow> 'a gomap" where
  "map_put k v m = AList.update k v m"

definition map_del :: "string \<Rightarrow> 'a gomap \<Rightarrow> 'a gomap" where
  "map_del k m = AList.delete k m"

text \<open>The first value a loop over the map finds with property \<open>P\<close>.\<close>

definition map_find :: "('a \<Rightarrow> bool) \<Rightarrow> 'a gomap \<Rightarrow> (string \<times> 'a) option" where
  "map_find P m = List.find (\<lambda>kv. P (snd kv)) m"

definition map_keys :: "'a gomap \<Rightarrow> string set" where
  "map_keys m = fst ` set m"

text \<open>Well-formed maps: distinct keys, and every row stored under its own id.\<close>

definition keyed_by :: "('a \<Rightarrow> string) \<Rightarrow> 'a gomap \<Rightarrow> bool" where
  "keyed_by key m \<longleftrightarrow> distinct (map fst m) \<and> list_all (\<lambda>(k, v). key v = k) m"

text \<open>At most one row carries each value of \<open>f\<close>, among the rows with property \<open>P\<close>: a unique index.\<close>

definition unique_on :: "('a \<Rightarrow> bool) \<Rightarrow> ('a \<Rightarrow> 'b) \<Rightarrow> 'a gomap \<Rightarrow> bool" where
  "unique_on P f m \<longleftrightarrow>
     list_all (\<lambda>(k, v). list_all (\<lambda>(k', v').
       P v \<and> P v' \<and> f v = f v' \<longrightarrow> k = k') m) m"

section \<open>Options\<close>

text \<open>\<^verbatim>\<open>deref\<close>-style reading of a nullable column against an instant: nil means for ever.\<close>

definition unexpired :: "time option \<Rightarrow> time \<Rightarrow> bool" where
  "unexpired exp now = (case exp of None \<Rightarrow> True | Some e \<Rightarrow> now < e)"

section \<open>Lemmas\<close>

lemma int64_wrap_id: "- (2 ^ 63) \<le> x \<Longrightarrow> x < 2 ^ 63 \<Longrightarrow> int64_wrap x = x"
  by (simp add: int64_wrap_def)

lemma seconds_duration_exact: "0 < n \<Longrightarrow> n \<le> 9223372036 \<Longrightarrow> seconds_duration n = n * Second"
  unfolding seconds_duration_def by (rule int64_wrap_id) simp_all

lemma map_of_map_put [simp]:
  "map_of (map_put k v m) = (map_of m)(k \<mapsto> v)"
  by (simp add: map_put_def update_conv')

lemma map_of_map_del [simp]:
  "map_of (map_del k m) = (map_of m)(k := None)"
  by (simp add: map_del_def delete_conv')

lemma map_keys_iff: "k \<in> map_keys m \<longleftrightarrow> map_of m k \<noteq> None"
  by (auto simp: map_keys_def map_of_eq_None_iff)

lemma map_keys_put [simp]: "map_keys (map_put k v m) = insert k (map_keys m)"
  by (auto simp: map_keys_iff split: if_splits)

lemma map_keys_del [simp]: "map_keys (map_del k m) = map_keys m - {k}"
  by (auto simp: map_keys_iff split: if_splits)

lemma map_keys_empty [simp]: "map_keys [] = {}"
  by (simp add: map_keys_def)

lemma map_keysI: "map_of m k = Some v \<Longrightarrow> k \<in> map_keys m"
  by (simp add: map_keys_iff)

lemma map_of_iff_mem:
  "distinct (map fst m) \<Longrightarrow> map_of m k = Some v \<longleftrightarrow> (k, v) \<in> set m"
  by (simp add: map_of_eq_Some_iff)

lemma keyed_byD:
  assumes "keyed_by key m"
  shows "distinct (map fst m)" and "(k, v) \<in> set m \<Longrightarrow> key v = k"
  using assms by (auto simp: keyed_by_def list_all_iff)

lemma keyed_by_map_of: "keyed_by key m \<Longrightarrow> map_of m k = Some v \<Longrightarrow> key v = k"
  by (auto dest: map_of_SomeD simp: keyed_by_def list_all_iff)

lemma keyed_by_mem_iff: "keyed_by key m \<Longrightarrow> (k, v) \<in> set m \<longleftrightarrow> map_of m k = Some v"
  by (auto simp: keyed_by_def)

lemma keyed_by_empty [simp]: "keyed_by key []"
  by (simp add: keyed_by_def)

lemma set_map_put:
  "distinct (map fst m) \<Longrightarrow>
   set (map_put k v m) = insert (k, v) {kv \<in> set m. fst kv \<noteq> k}"
proof -
  assume d: "distinct (map fst m)"
  then have d': "distinct (map fst (map_put k v m))"
    by (simp add: map_put_def distinct_update)
  show ?thesis
  proof (rule set_eqI)
    fix kv :: "string \<times> 'a"
    obtain a b where kv: "kv = (a, b)" by (cases kv)
    show "kv \<in> set (map_put k v m) \<longleftrightarrow> kv \<in> insert (k, v) {kv \<in> set m. fst kv \<noteq> k}"
      using map_of_iff_mem [OF d', of a b] map_of_iff_mem [OF d, of a b] kv by (auto split: if_splits)
  qed
qed

lemma set_map_del: "set (map_del k m) = {kv \<in> set m. fst kv \<noteq> k}"
  by (auto simp: map_del_def AList.delete_eq)

lemma keyed_by_put: "keyed_by key m \<Longrightarrow> key v = k \<Longrightarrow> keyed_by key (map_put k v m)"
proof -
  assume a: "keyed_by key m" "key v = k"
  then have "distinct (map fst (map_put k v m))"
    by (simp add: keyed_by_def map_put_def distinct_update)
  moreover from a have "\<forall>kv\<in>set (map_put k v m). key (snd kv) = fst kv"
    by (auto simp: set_map_put keyed_by_def list_all_iff)
  ultimately show ?thesis
    by (auto simp: keyed_by_def list_all_iff)
qed

lemma keyed_by_del: "keyed_by key m \<Longrightarrow> keyed_by key (map_del k m)"
  by (auto simp: keyed_by_def list_all_iff set_map_del)
     (simp add: map_del_def distinct_delete)

lemma keyed_by_filter: "keyed_by key m \<Longrightarrow> keyed_by key (filter P m)"
  by (auto simp: keyed_by_def list_all_iff distinct_map_filter)

lemma map_find_SomeD: "map_find P m = Some (k, v) \<Longrightarrow> (k, v) \<in> set m \<and> P v"
  by (induction m) (auto simp: map_find_def split: if_splits)

lemma map_find_None_iff: "map_find P m = None \<longleftrightarrow> (\<forall>kv\<in>set m. \<not> P (snd kv))"
  by (auto simp: map_find_def find_None_iff)

lemma map_find_None_map_of:
  "keyed_by key m \<Longrightarrow> map_find P m = None \<longleftrightarrow> (\<forall>k v. map_of m k = Some v \<longrightarrow> \<not> P v)"
  by (auto simp: map_find_None_iff keyed_by_mem_iff [symmetric])

lemma map_find_Some_map_of:
  "keyed_by key m \<Longrightarrow> map_find P m = Some (k, v) \<Longrightarrow> map_of m k = Some v \<and> P v \<and> key v = k"
  by (auto dest!: map_find_SomeD dest: keyed_byD(2) simp: keyed_by_mem_iff [symmetric])

lemma unique_onD:
  "unique_on P f m \<Longrightarrow> (k, v) \<in> set m \<Longrightarrow> (k', v') \<in> set m \<Longrightarrow> P v \<Longrightarrow> P v' \<Longrightarrow> f v = f v' \<Longrightarrow> k = k'"
  by (fastforce simp: unique_on_def list_all_iff)

lemma unique_onI:
  "(\<And>k v k' v'. (k, v) \<in> set m \<Longrightarrow> (k', v') \<in> set m \<Longrightarrow> P v \<Longrightarrow> P v' \<Longrightarrow> f v = f v' \<Longrightarrow> k = k') \<Longrightarrow>
   unique_on P f m"
  by (fastforce simp: unique_on_def list_all_iff)

lemma unique_on_empty [simp]: "unique_on P f []"
  by (simp add: unique_on_def)

lemma unique_on_filter: "unique_on P f m \<Longrightarrow> unique_on P f (filter Q m)"
  by (auto simp: unique_on_def list_all_iff)

lemma unique_on_del: "unique_on P f m \<Longrightarrow> unique_on P f (map_del k m)"
  by (auto simp: unique_on_def list_all_iff set_map_del)

text \<open>Inserting a row no other row conflicts with, or rewriting a row without touching its
  indexed columns, keeps a unique index.\<close>

lemma unique_on_put:
  assumes "distinct (map fst m)" "unique_on P f m"
    and "\<And>k' v'. (k', v') \<in> set m \<Longrightarrow> P v \<Longrightarrow> P v' \<Longrightarrow> f v = f v' \<Longrightarrow> k' = k"
  shows "unique_on P f (map_put k v m)"
  using assms by (auto simp: set_map_put intro!: unique_onI dest: unique_onD)

lemma unique_on_rewrite:
  assumes "distinct (map fst m)" "unique_on P f m" "(k, w) \<in> set m" "f v = f w" "P v \<Longrightarrow> P w"
  shows "unique_on P f (map_put k v m)"
proof (rule unique_on_put [OF assms(1,2)])
  fix k' v'
  assume "(k', v') \<in> set m" "P v" "P v'" "f v = f v'"
  with assms show "k' = k" by (metis unique_onD)
qed

text \<open>A unique index makes the result of a search independent of the iteration order.\<close>

lemma map_find_unique:
  assumes "distinct (map fst m)" "unique_on P f m" "(k, v) \<in> set m" "P v" "f v = x"
  shows "map_find (\<lambda>w. P w \<and> f w = x) m = Some (k, v)"
proof (cases "map_find (\<lambda>w. P w \<and> f w = x) m")
  case None
  with assms show ?thesis by (auto simp: map_find_None_iff)
next
  case (Some kv)
  obtain k' v' where kv: "kv = (k', v')" by (cases kv)
  with Some have "(k', v') \<in> set m" "P v'" "f v' = x"
    by (auto dest: map_find_SomeD)
  with assms have "k' = k" by (metis unique_onD)
  with kv Some assms(1,3) \<open>(k', v') \<in> set m\<close> show ?thesis
    by (metis map_of_eq_Some_iff option.inject)
qed

lemma unexpired_None [simp]: "unexpired None now"
  by (simp add: unexpired_def)

lemma unexpired_Some [simp]: "unexpired (Some e) now \<longleftrightarrow> now < e"
  by (simp add: unexpired_def)

lemma unexpired_mono: "unexpired exp now \<Longrightarrow> before \<le> now \<Longrightarrow> unexpired exp before"
  by (cases exp) auto

end
