(* ===== verification/Go_Strings.thy ===== *)
theory Go_Strings
  imports Prelude
begin

text \<open>
  The part of Go's string handling the program relies on. A Go string is a sequence of bytes, here
  a \<^typ>\<open>string\<close> (a list of 8-bit characters). A \<^verbatim>\<open>range\<close> loop, \<^verbatim>\<open>strings.TrimSpace\<close> and
  \<^verbatim>\<open>strings.Map\<close> see the string as runes: \<open>runes\<close> decodes UTF-8 the way the language does
  (an invalid byte is U+FFFD of width one).

  Case mapping is written out for the ASCII letters and for the four other runes whose upper or
  lower case is an ASCII letter. It leaves every other rune alone: all callers compare the result
  with ASCII text only (identifiers, country codes, AS numbers).
\<close>

section \<open>Runes\<close>

definition RuneError :: nat where "RuneError = 0xFFFD"

definition bytes_of :: "string \<Rightarrow> nat list" where
  "bytes_of s = map of_char s"

definition is_cont :: "nat \<Rightarrow> bool" where
  "is_cont b \<longleftrightarrow> 0x80 \<le> b \<and> b \<le> 0xBF"

text \<open>One step of the decoder: the rune at the head of the bytes and its width.\<close>

fun decode_rune :: "nat list \<Rightarrow> nat \<times> nat" where
  "decode_rune [] = (RuneError, 0)"
| "decode_rune (b0 # rest) =
     (if b0 < 0x80 then (b0, 1)
      else if 0xC2 \<le> b0 \<and> b0 \<le> 0xDF then
        (case rest of
           b1 # _ \<Rightarrow> if is_cont b1 then ((b0 mod 32) * 64 + b1 mod 64, 2) else (RuneError, 1)
         | [] \<Rightarrow> (RuneError, 1))
      else if 0xE0 \<le> b0 \<and> b0 \<le> 0xEF then
        (case rest of
           b1 # b2 # _ \<Rightarrow>
             if is_cont b1 \<and> (b0 = 0xE0 \<longrightarrow> 0xA0 \<le> b1) \<and> (b0 = 0xED \<longrightarrow> b1 \<le> 0x9F) \<and> is_cont b2
             then ((b0 mod 16) * 4096 + (b1 mod 64) * 64 + b2 mod 64, 3) else (RuneError, 1)
         | _ \<Rightarrow> (RuneError, 1))
      else if 0xF0 \<le> b0 \<and> b0 \<le> 0xF4 then
        (case rest of
           b1 # b2 # b3 # _ \<Rightarrow>
             if is_cont b1 \<and> (b0 = 0xF0 \<longrightarrow> 0x90 \<le> b1) \<and> (b0 = 0xF4 \<longrightarrow> b1 \<le> 0x8F)
                \<and> is_cont b2 \<and> is_cont b3
             then ((b0 mod 8) * 262144 + (b1 mod 64) * 4096 + (b2 mod 64) * 64 + b3 mod 64, 4)
             else (RuneError, 1)
         | _ \<Rightarrow> (RuneError, 1))
      else (RuneError, 1))"

lemma decode_rune_width: "0 < snd (decode_rune (b # bs))"
  by (auto split: list.splits)

text \<open>The runes of a string, each with the bytes it was decoded from.\<close>

function runes :: "string \<Rightarrow> (nat \<times> string) list" where
  "runes [] = []"
| "runes (c # cs) =
     (let w = snd (decode_rune (bytes_of (c # cs))) in
      (fst (decode_rune (bytes_of (c # cs))), take w (c # cs)) # runes (drop w (c # cs)))"
  by pat_completeness auto
termination
proof (relation "measure length")
  fix c :: char and cs w
  assume "w = snd (decode_rune (bytes_of (c # cs)))"
  then have "0 < w" by (metis bytes_of_def decode_rune_width list.simps(9))
  then show "(drop w (c # cs), c # cs) \<in> measure length" by simp
qed simp

definition encode_rune :: "nat \<Rightarrow> string" where
  "encode_rune r =
     map char_of
       (if r < 0x80 then [r]
        else if r < 0x800 then [0xC0 + r div 64, 0x80 + r mod 64]
        else if r < 0x10000 then [0xE0 + r div 4096, 0x80 + r div 64 mod 64, 0x80 + r mod 64]
        else [0xF0 + r div 262144, 0x80 + r div 4096 mod 64, 0x80 + r div 64 mod 64,
              0x80 + r mod 64])"

text \<open>\<^verbatim>\<open>unicode.IsSpace\<close> and \<^verbatim>\<open>unicode.IsControl\<close>.\<close>

definition IsSpace :: "nat \<Rightarrow> bool" where
  "IsSpace r \<longleftrightarrow>
     (9 \<le> r \<and> r \<le> 13) \<or> r = 0x20 \<or> r = 0x85 \<or> r = 0xA0 \<or> r = 0x1680 \<or>
     (0x2000 \<le> r \<and> r \<le> 0x200A) \<or> r = 0x2028 \<or> r = 0x2029 \<or> r = 0x202F \<or> r = 0x205F \<or> r = 0x3000"

definition IsControl :: "nat \<Rightarrow> bool" where
  "IsControl r \<longleftrightarrow> r < 0x20 \<or> (0x7F \<le> r \<and> r < 0xA0)"

section \<open>The strings package\<close>

definition strings_Map :: "(nat \<Rightarrow> nat) \<Rightarrow> string \<Rightarrow> string" where
  "strings_Map f s = concat (map (\<lambda>(r, _). encode_rune (f r)) (runes s))"

definition trim_ends :: "('a \<Rightarrow> bool) \<Rightarrow> 'a list \<Rightarrow> 'a list" where
  "trim_ends P xs = rev (dropWhile P (rev (dropWhile P xs)))"

definition TrimSpace :: "string \<Rightarrow> string" where
  "TrimSpace s = concat (map snd (trim_ends (\<lambda>(r, _). IsSpace r) (runes s)))"

definition lower_rune :: "nat \<Rightarrow> nat" where
  "lower_rune r =
     (if 65 \<le> r \<and> r \<le> 90 then r + 32 else if r = 0x130 then 105 else if r = 0x212A then 107 else r)"

definition upper_rune :: "nat \<Rightarrow> nat" where
  "upper_rune r =
     (if 97 \<le> r \<and> r \<le> 122 then r - 32 else if r = 0x131 then 73 else if r = 0x17F then 83 else r)"

definition ToLower :: "string \<Rightarrow> string" where
  "ToLower s = strings_Map lower_rune s"

definition ToUpper :: "string \<Rightarrow> string" where
  "ToUpper s = strings_Map upper_rune s"

text \<open>\<^verbatim>\<open>strings.EqualFold\<close> against a text of ASCII letters without k or s, whose only folds are the
  other case of the same letter.\<close>

definition lower_byte :: "char \<Rightarrow> char" where
  "lower_byte c = (let b = (of_char c :: nat) in if 65 \<le> b \<and> b \<le> 90 then char_of (b + 32) else c)"

definition EqualFold_ascii :: "string \<Rightarrow> string \<Rightarrow> bool" where
  "EqualFold_ascii s t \<longleftrightarrow> map lower_byte s = map lower_byte t"

text \<open>\<^verbatim>\<open>strings.TrimRight(s, cutset)\<close> for a cutset of one byte.\<close>

definition TrimRight_byte :: "char \<Rightarrow> string \<Rightarrow> string" where
  "TrimRight_byte c s = rev (dropWhile (\<lambda>d. d = c) (rev s))"

text \<open>\<^verbatim>\<open>strings.Split(s, sep)\<close> for a separator of one byte; it never returns an empty list.\<close>

fun split_byte :: "char \<Rightarrow> string \<Rightarrow> string list" where
  "split_byte sep [] = [[]]"
| "split_byte sep (c # cs) =
     (if c = sep then [] # split_byte sep cs
      else (case split_byte sep cs of [] \<Rightarrow> [[c]] | w # ws \<Rightarrow> (c # w) # ws))"

fun strings_Join :: "string list \<Rightarrow> string \<Rightarrow> string" where
  "strings_Join [] sep = []"
| "strings_Join [w] sep = w"
| "strings_Join (w # v # ws) sep = w @ sep @ strings_Join (v # ws) sep"

text \<open>\<^verbatim>\<open>strings.Fields\<close>: the maximal runs of runes that are not white space.\<close>

fun fields_loop :: "string \<Rightarrow> (nat \<times> string) list \<Rightarrow> string list" where
  "fields_loop cur [] = (if cur = [] then [] else [cur])"
| "fields_loop cur ((r, w) # rs) =
     (if IsSpace r then (if cur = [] then fields_loop [] rs else cur # fields_loop [] rs)
      else fields_loop (cur @ w) rs)"

definition strings_Fields :: "string \<Rightarrow> string list" where
  "strings_Fields s = fields_loop [] (runes s)"

section \<open>The strconv package\<close>

definition is_digit :: "char \<Rightarrow> bool" where
  "is_digit c \<longleftrightarrow> (let b = (of_char c :: nat) in 48 \<le> b \<and> b \<le> 57)"

definition digits_value :: "string \<Rightarrow> int" where
  "digits_value s = foldl (\<lambda>acc c. acc * 10 + (int (of_char c) - 48)) 0 s"

text \<open>\<^verbatim>\<open>strconv.Atoi\<close> on a 64-bit platform: an optional sign, decimal digits, within int64.\<close>

definition Atoi :: "string \<Rightarrow> int option" where
  "Atoi s =
     (let (neg, ds) = (case s of
            c # cs \<Rightarrow> if c = CHR ''-'' then (True, cs) else if c = CHR ''+'' then (False, cs) else (False, s)
          | [] \<Rightarrow> (False, s));
          v = (if neg then - digits_value ds else digits_value ds)
      in if ds \<noteq> [] \<and> list_all is_digit ds \<and> - (2 ^ 63) \<le> v \<and> v < 2 ^ 63 then Some v else None)"

definition dec_digit :: "nat \<Rightarrow> char" where
  "dec_digit d = char_of (48 + d)"

text \<open>\<^verbatim>\<open>strconv.FormatInt\<close> in base 10, and the verb \<^verbatim>\<open>%d\<close>.\<close>

fun dec_digits :: "nat \<Rightarrow> string" where
  "dec_digits n = (if n < 10 then [dec_digit n] else dec_digits (n div 10) @ [dec_digit (n mod 10)])"

declare dec_digits.simps [simp del]

definition FormatInt :: "int \<Rightarrow> string" where
  "FormatInt n = (if n < 0 then ''-'' @ dec_digits (nat (- n)) else dec_digits (nat n))"

section \<open>Lemmas\<close>

lemma concat_runes: "concat (map snd (runes s)) = s"
  by (induction s rule: runes.induct) (simp_all add: Let_def)

lemma TrimSpace_Nil [simp]: "TrimSpace [] = []"
  by (simp add: TrimSpace_def trim_ends_def)

lemma length_bytes_of [simp]: "length (bytes_of s) = length s"
  by (simp add: bytes_of_def)

lemma runes_ascii:
  "list_all (\<lambda>c. (of_char c :: nat) < 128) s \<Longrightarrow> runes s = map (\<lambda>c. (of_char c, [c])) s"
  by (induction s) (simp_all add: bytes_of_def)

lemma concat_map_singleton: "concat (map (\<lambda>c. [c]) s) = s"
  by (induction s) auto

text \<open>A text without white space at either end is not changed.\<close>

lemma trim_ends_id:
  assumes "xs \<noteq> [] \<Longrightarrow> \<not> P (hd xs)" "xs \<noteq> [] \<Longrightarrow> \<not> P (last xs)"
  shows "trim_ends P xs = xs"
proof (cases xs)
  case (Cons x ys)
  then have "dropWhile P xs = xs" using assms(1) by simp
  moreover have "dropWhile P (rev xs) = rev xs"
    using assms(2) Cons by (metis append_butlast_last_id dropWhile.simps(2) list.distinct(1) rev.simps(2) rev_rev_ident rev_eq_Cons_iff)
  ultimately show ?thesis by (simp add: trim_ends_def)
qed (simp add: trim_ends_def)

lemma trim_ends_idem: "trim_ends P (trim_ends P xs) = trim_ends P xs"
proof (rule trim_ends_id)
  let ?ys = "dropWhile P xs"
  let ?zs = "dropWhile P (rev ?ys)"
  assume "trim_ends P xs \<noteq> []"
  then have ne: "?zs \<noteq> []" by (simp add: trim_ends_def)
  then show "\<not> P (last (trim_ends P xs))"
    by (simp add: trim_ends_def last_rev hd_dropWhile)
  obtain us where us: "rev ?ys = us @ ?zs" by (metis takeWhile_dropWhile_id)
  then have "?ys = rev ?zs @ rev us" by (metis rev_append rev_rev_ident)
  moreover from this ne have "?ys \<noteq> []" by (metis append_is_Nil_conv rev_is_Nil_conv)
  then have "\<not> P (hd ?ys)" by (rule hd_dropWhile)
  ultimately show "\<not> P (hd (trim_ends P xs))"
    using ne by (metis hd_append2 rev_is_Nil_conv trim_ends_def)
qed

lemma set_trim_ends: "set (trim_ends P xs) \<subseteq> set xs"
  unfolding trim_ends_def by (metis set_dropWhileD set_rev subsetI)

lemma split_byte_not_Nil [simp]: "split_byte sep s \<noteq> []"
  by (induction s) (auto split: list.splits)

lemma split_byte_append_sep:
  "sep \<notin> set w \<Longrightarrow> split_byte sep (w @ sep # rest) = w # split_byte sep rest"
  by (induction w) auto

lemma split_byte_single: "sep \<notin> set w \<Longrightarrow> split_byte sep w = [w]"
  by (induction w) auto

lemma of_char_less_256: "(of_char c :: nat) < 256"
  by (metis UNIV_I atLeastLessThan_iff image_eqI range_nat_of_char)

text \<open>The bytes of an encoded rune outside ASCII are outside ASCII; an ASCII rune is its own byte.\<close>

lemma encode_rune_ascii: "r < 0x80 \<Longrightarrow> encode_rune r = [char_of r]"
  by (simp add: encode_rune_def)

lemma TrimSpace_ascii:
  assumes "list_all (\<lambda>c. (of_char c :: nat) < 128) s" "s \<noteq> [] \<Longrightarrow> \<not> IsSpace (of_char (hd s)) \<and> \<not> IsSpace (of_char (last s))"
  shows "TrimSpace s = s"
proof -
  have r: "runes s = map (\<lambda>c. (of_char c, [c])) s" using assms(1) by (rule runes_ascii)
  have "trim_ends (\<lambda>(r, _). IsSpace r) (runes s) = runes s"
    using assms(2) by (intro trim_ends_id) (auto simp: r hd_map last_map)
  then show ?thesis by (simp add: TrimSpace_def r comp_def concat_map_singleton)
qed

lemma TrimSpace_printable:
  assumes "list_all (\<lambda>c. 32 < (of_char c :: nat) \<and> (of_char c :: nat) < 128) s"
  shows "TrimSpace s = s"
proof (rule TrimSpace_ascii)
  have ns: "\<not> IsSpace (of_char c)" if "c \<in> set s" for c
    using assms that by (auto simp: list_all_iff IsSpace_def)
  then show "s \<noteq> [] \<Longrightarrow> \<not> IsSpace (of_char (hd s)) \<and> \<not> IsSpace (of_char (last s))" by simp
qed (use assms in \<open>auto simp: list_all_iff\<close>)

lemma ToLower_lower:
  assumes "list_all (\<lambda>c. (of_char c :: nat) < 128 \<and> \<not> (65 \<le> (of_char c :: nat) \<and> (of_char c :: nat) \<le> 90)) s"
  shows "ToLower s = s"
proof -
  have r: "runes s = map (\<lambda>c. (of_char c, [c])) s"
    using assms by (intro runes_ascii) (auto simp: list_all_iff)
  have "encode_rune (lower_rune (of_char c)) = [c]" if "c \<in> set s" for c
    using assms that by (auto simp: list_all_iff lower_rune_def encode_rune_ascii)
  then have "map (\<lambda>c. encode_rune (lower_rune (of_char c))) s = map (\<lambda>c. [c]) s" by (intro map_cong refl)
  then have "concat (map (\<lambda>c. encode_rune (lower_rune (of_char c))) s) = s"
    by (simp only: concat_map_singleton)
  then show ?thesis by (simp add: ToLower_def strings_Map_def r comp_def)
qed

end
