(* ===== verification/Model.thy ===== *)
theory Model
  imports Go_Strings
begin

text \<open>
  The types of \<^verbatim>\<open>backend/internal/model\<close>: the enumerations of the contract (\<^verbatim>\<open>enums.go\<close>), the
  country codes (\<^verbatim>\<open>countries.go\<close>), the database rows (\<^verbatim>\<open>rows.go\<close>), the JSON shapes of the API
  (\<^verbatim>\<open>api.go\<close>, \<^verbatim>\<open>api_lists.go\<close>) and the conversions between them (\<^verbatim>\<open>convert.go\<close>).

  Enumerations stay strings, as in the code: a row may hold any text, and \<open>VerdictFor\<close> has to give
  an answer for all of them. A pointer field is an option, nil is \<open>None\<close>.
\<close>

section \<open>Enumerations\<close>

definition ContextSSH :: string where [enums]: "ContextSSH = ''ssh''"
definition ContextSudo :: string where [enums]: "ContextSudo = ''sudo''"

definition ModeEnforce :: string where [enums]: "ModeEnforce = ''enforce''"
definition ModeNotify :: string where [enums]: "ModeNotify = ''notify''"

definition StatusPending :: string where [enums]: "StatusPending = ''pending''"
definition StatusApproved :: string where [enums]: "StatusApproved = ''approved''"
definition StatusDenied :: string where [enums]: "StatusDenied = ''denied''"
definition StatusTimeout :: string where [enums]: "StatusTimeout = ''timeout''"
definition StatusWhitelisted :: string where [enums]: "StatusWhitelisted = ''whitelisted''"
definition StatusBlockedIP :: string where [enums]: "StatusBlockedIP = ''blocked_ip''"
definition StatusBlockedGeo :: string where [enums]: "StatusBlockedGeo = ''blocked_geo''"
definition StatusNotified :: string where [enums]: "StatusNotified = ''notified''"

definition DecidedByAdmin :: string where [enums]: "DecidedByAdmin = ''admin''"
definition DecidedByWhitelist :: string where [enums]: "DecidedByWhitelist = ''whitelist''"
definition DecidedByTimeout :: string where [enums]: "DecidedByTimeout = ''timeout''"
definition DecidedByAutoblock :: string where [enums]: "DecidedByAutoblock = ''autoblock''"
definition DecidedByGeoRule :: string where [enums]: "DecidedByGeoRule = ''georule''"

definition VerdictApprove :: string where [enums]: "VerdictApprove = ''approve''"
definition VerdictDeny :: string where [enums]: "VerdictDeny = ''deny''"
definition VerdictApproveAlways :: string where [enums]: "VerdictApproveAlways = ''approve_always''"

definition ReasonAdmin :: string where [enums]: "ReasonAdmin = ''admin''"
definition ReasonWhitelist :: string where [enums]: "ReasonWhitelist = ''whitelist''"
definition ReasonTimeout :: string where [enums]: "ReasonTimeout = ''timeout''"
definition ReasonBlockedIP :: string where [enums]: "ReasonBlockedIP = ''blocked_ip''"
definition ReasonBlockedGeo :: string where [enums]: "ReasonBlockedGeo = ''blocked_geo''"
definition ReasonNotify :: string where [enums]: "ReasonNotify = ''notify''"

definition PushAccessRequest :: string where [enums]: "PushAccessRequest = ''access_request''"
definition PushAccessNotice :: string where [enums]: "PushAccessNotice = ''access_notice''"
definition PushRequestDecided :: string where [enums]: "PushRequestDecided = ''request_decided''"

definition PlatformAndroid :: string where [enums]: "PlatformAndroid = ''android''"
definition PlatformIOS :: string where [enums]: "PlatformIOS = ''ios''"

definition OSLinux :: string where [enums]: "OSLinux = ''linux''"
definition OSWindows :: string where [enums]: "OSWindows = ''windows''"
definition OSDarwin :: string where [enums]: "OSDarwin = ''darwin''"

definition ValidContext :: "string \<Rightarrow> bool" where
  "ValidContext s \<longleftrightarrow> s = ContextSSH \<or> s = ContextSudo"

definition ValidMode :: "string \<Rightarrow> bool" where
  "ValidMode s \<longleftrightarrow> s = ModeEnforce \<or> s = ModeNotify"

definition ValidStatus :: "string \<Rightarrow> bool" where
  "ValidStatus s \<longleftrightarrow>
     s \<in> {StatusPending, StatusApproved, StatusDenied, StatusTimeout,
           StatusWhitelisted, StatusBlockedIP, StatusBlockedGeo, StatusNotified}"

definition ValidPlatform :: "string \<Rightarrow> bool" where
  "ValidPlatform s \<longleftrightarrow> s = PlatformAndroid \<or> s = PlatformIOS"

definition ValidOS :: "string \<Rightarrow> bool" where
  "ValidOS s \<longleftrightarrow> s = OSLinux \<or> s = OSWindows \<or> s = OSDarwin"

text \<open>The verdict and the reason returned to the agent for a final status; anything unexpected,
  pending included, is a denial.\<close>

definition VerdictFor :: "string \<Rightarrow> string \<times> string" where
  "VerdictFor status =
     (if status = StatusApproved then (VerdictApprove, ReasonAdmin)
      else if status = StatusDenied then (VerdictDeny, ReasonAdmin)
      else if status = StatusWhitelisted then (VerdictApprove, ReasonWhitelist)
      else if status = StatusNotified then (VerdictApprove, ReasonNotify)
      else if status = StatusBlockedIP then (VerdictDeny, ReasonBlockedIP)
      else if status = StatusBlockedGeo then (VerdictDeny, ReasonBlockedGeo)
      else (VerdictDeny, ReasonTimeout))"

section \<open>Countries\<close>

definition isoCountries :: "string list" where
  "isoCountries =
     [''AD'', ''AE'', ''AF'', ''AG'', ''AI'', ''AL'', ''AM'', ''AO'', ''AQ'', ''AR'', ''AS'',
      ''AT'', ''AU'', ''AW'', ''AX'', ''AZ'', ''BA'', ''BB'', ''BD'', ''BE'', ''BF'', ''BG'',
      ''BH'', ''BI'', ''BJ'', ''BL'', ''BM'', ''BN'', ''BO'', ''BQ'', ''BR'', ''BS'', ''BT'',
      ''BV'', ''BW'', ''BY'', ''BZ'', ''CA'', ''CC'', ''CD'', ''CF'', ''CG'', ''CH'', ''CI'',
      ''CK'', ''CL'', ''CM'', ''CN'', ''CO'', ''CR'', ''CU'', ''CV'', ''CW'', ''CX'', ''CY'',
      ''CZ'', ''DE'', ''DJ'', ''DK'', ''DM'', ''DO'', ''DZ'', ''EC'', ''EE'', ''EG'', ''EH'',
      ''ER'', ''ES'', ''ET'', ''FI'', ''FJ'', ''FK'', ''FM'', ''FO'', ''FR'', ''GA'', ''GB'',
      ''GD'', ''GE'', ''GF'', ''GG'', ''GH'', ''GI'', ''GL'', ''GM'', ''GN'', ''GP'', ''GQ'',
      ''GR'', ''GS'', ''GT'', ''GU'', ''GW'', ''GY'', ''HK'', ''HM'', ''HN'', ''HR'', ''HT'',
      ''HU'', ''ID'', ''IE'', ''IL'', ''IM'', ''IN'', ''IO'', ''IQ'', ''IR'', ''IS'', ''IT'',
      ''JE'', ''JM'', ''JO'', ''JP'', ''KE'', ''KG'', ''KH'', ''KI'', ''KM'', ''KN'', ''KP'',
      ''KR'', ''KW'', ''KY'', ''KZ'', ''LA'', ''LB'', ''LC'', ''LI'', ''LK'', ''LR'', ''LS'',
      ''LT'', ''LU'', ''LV'', ''LY'', ''MA'', ''MC'', ''MD'', ''ME'', ''MF'', ''MG'', ''MH'',
      ''MK'', ''ML'', ''MM'', ''MN'', ''MO'', ''MP'', ''MQ'', ''MR'', ''MS'', ''MT'', ''MU'',
      ''MV'', ''MW'', ''MX'', ''MY'', ''MZ'', ''NA'', ''NC'', ''NE'', ''NF'', ''NG'', ''NI'',
      ''NL'', ''NO'', ''NP'', ''NR'', ''NU'', ''NZ'', ''OM'', ''PA'', ''PE'', ''PF'', ''PG'',
      ''PH'', ''PK'', ''PL'', ''PM'', ''PN'', ''PR'', ''PS'', ''PT'', ''PW'', ''PY'', ''QA'',
      ''RE'', ''RO'', ''RS'', ''RU'', ''RW'', ''SA'', ''SB'', ''SC'', ''SD'', ''SE'', ''SG'',
      ''SH'', ''SI'', ''SJ'', ''SK'', ''SL'', ''SM'', ''SN'', ''SO'', ''SR'', ''SS'', ''ST'',
      ''SV'', ''SX'', ''SY'', ''SZ'', ''TC'', ''TD'', ''TF'', ''TG'', ''TH'', ''TJ'', ''TK'',
      ''TL'', ''TM'', ''TN'', ''TO'', ''TR'', ''TT'', ''TV'', ''TW'', ''TZ'', ''UA'', ''UG'',
      ''UM'', ''US'', ''UY'', ''UZ'', ''VA'', ''VC'', ''VE'', ''VG'', ''VI'', ''VN'', ''VU'',
      ''WF'', ''WS'', ''YE'', ''YT'', ''ZA'', ''ZM'', ''ZW'']"

definition ValidCountry :: "string \<Rightarrow> bool" where
  "ValidCountry code \<longleftrightarrow> code \<in> set isoCountries"

section \<open>Rows\<close>

record Server =
  sv_ID :: string
  sv_Name :: string
  sv_TokenHash :: string
  sv_OS :: string
  sv_CreatedAt :: time
  sv_LastSeenAt :: "time option"

record Device =
  dv_ID :: string
  dv_FCMToken :: string
  dv_Platform :: string
  dv_Label :: "string option"
  dv_CreatedAt :: time
  dv_LastSeenAt :: "time option"
  dv_DeletedAt :: "time option"

record Geo =
  geo_Country :: string
  geo_City :: string
  geo_ASN :: string

record Request =
  rq_ID :: string
  rq_ServerID :: string
  rq_ServerName :: string
  rq_Context :: string
  rq_Username :: string
  rq_SourceIP :: "string option"
  rq_Hostname :: string
  rq_TTY :: "string option"
  rq_Command :: "string option"
  rq_Geo :: "Geo option"
  rq_Status :: string
  rq_DecidedBy :: "string option"
  rq_DecidedByDevice :: "string option"
  rq_DecidedByDeviceLabel :: "string option"
  rq_CreatedAt :: time
  rq_ExpiresAt :: time
  rq_DecidedAt :: "time option"

record WhitelistEntry =
  wl_ID :: string
  wl_Username :: string
  wl_Context :: string
  wl_ServerID :: "string option"
  wl_ServerName :: "string option"
  wl_ExpiresAt :: "time option"
  wl_CreatedAt :: time
  wl_CreatedFrom :: "string option"
  wl_CreatedByDevice :: "string option"
  wl_CreatedByDeviceLabel :: "string option"

record BlockedIP =
  bi_ID :: string
  bi_IP :: string
  bi_Reason :: string
  bi_DenialCount :: int
  bi_FirstDeniedAt :: time
  bi_LastDeniedAt :: time
  bi_HitCount :: int
  bi_LastHitAt :: "time option"
  bi_CreatedAt :: time
  bi_ExpiresAt :: "time option"

definition BlockedIP_Active :: "BlockedIP \<Rightarrow> time \<Rightarrow> bool" where
  "BlockedIP_Active b now = (case bi_ExpiresAt b of None \<Rightarrow> True | Some e \<Rightarrow> now < e)"

record GeoRule =
  gr_ID :: string
  gr_Country :: string
  gr_Note :: "string option"
  gr_CreatedAt :: time

section \<open>JSON shapes\<close>

record AccessRequestBody =
  ab_Context :: string
  ab_Mode :: string
  ab_Username :: string
  ab_SourceIP :: "string option"
  ab_Hostname :: string
  ab_TTY :: "string option"
  ab_Command :: "string option"

record AccessRequestResponse =
  ar_RequestID :: string
  ar_Verdict :: string
  ar_Reason :: string
  ar_DecidedAt :: "time option"

record VerdictBody =
  vb_RequestID :: string
  vb_Verdict :: string
  vb_TTLSeconds :: "int option"
  vb_DeviceID :: "string option"

record VerdictWhitelistEntry =
  vw_ID :: string
  vw_Username :: string
  vw_Context :: string
  vw_Server :: "string option"
  vw_ExpiresAt :: "time option"

record VerdictAutoBlocked =
  va_ID :: string
  va_IP :: string
  va_DenialCount :: int

record VerdictResponse =
  vr_RequestID :: string
  vr_Status :: string
  vr_DecidedAt :: "time option"
  vr_DecidedByDevice :: "string option"
  vr_WhitelistEntry :: "VerdictWhitelistEntry option"
  vr_AutoBlocked :: "VerdictAutoBlocked option"

record VerdictConflict =
  vc_Error :: string
  vc_Status :: string
  vc_DecidedAt :: "time option"
  vc_DecidedByDevice :: "string option"

record HistoryItem =
  hi_ID :: string
  hi_Server :: string
  hi_Hostname :: string
  hi_Context :: string
  hi_Username :: string
  hi_SourceIP :: "string option"
  hi_TTY :: "string option"
  hi_Command :: "string option"
  hi_Geo :: "Geo option"
  hi_Status :: string
  hi_DecidedBy :: "string option"
  hi_DecidedByDevice :: "string option"
  hi_CreatedAt :: time
  hi_ExpiresAt :: time
  hi_DecidedAt :: "time option"

record HistoryResponse =
  hr_Items :: "HistoryItem list"
  hr_NextBefore :: "time option"

record WhitelistItem =
  wi_ID :: string
  wi_Username :: string
  wi_Context :: string
  wi_Server :: "string option"
  wi_ExpiresAt :: "time option"
  wi_CreatedAt :: time
  wi_CreatedFromRequest :: "string option"
  wi_CreatedByDevice :: "string option"

record WhitelistBody =
  wb_Username :: string
  wb_Context :: string
  wb_Server :: "string option"
  wb_TTLSeconds :: "int option"

record DeviceBody =
  db_FCMToken :: string
  db_Platform :: string
  db_Label :: "string option"

record DeviceItem =
  di_ID :: string
  di_Platform :: string
  di_Label :: "string option"
  di_CreatedAt :: time
  di_LastSeenAt :: "time option"

record BlockedIPItem =
  bt_ID :: string
  bt_IP :: string
  bt_Reason :: string
  bt_DenialCount :: int
  bt_FirstDeniedAt :: time
  bt_LastDeniedAt :: time
  bt_HitCount :: int
  bt_LastHitAt :: "time option"
  bt_CreatedAt :: time
  bt_ExpiresAt :: "time option"

record GeoRuleBody =
  gb_Country :: string
  gb_Note :: "string option"

record GeoRuleItem =
  gi_ID :: string
  gi_Country :: string
  gi_Note :: "string option"
  gi_CreatedAt :: time

section \<open>Conversions\<close>

definition ToHistoryItem :: "Request \<Rightarrow> HistoryItem" where
  "ToHistoryItem r = \<lparr>
     hi_ID = rq_ID r, hi_Server = rq_ServerName r, hi_Hostname = rq_Hostname r,
     hi_Context = rq_Context r, hi_Username = rq_Username r, hi_SourceIP = rq_SourceIP r,
     hi_TTY = rq_TTY r, hi_Command = rq_Command r, hi_Geo = rq_Geo r, hi_Status = rq_Status r,
     hi_DecidedBy = rq_DecidedBy r, hi_DecidedByDevice = rq_DecidedByDeviceLabel r,
     hi_CreatedAt = rq_CreatedAt r, hi_ExpiresAt = rq_ExpiresAt r, hi_DecidedAt = rq_DecidedAt r \<rparr>"

definition ToWhitelistItem :: "WhitelistEntry \<Rightarrow> WhitelistItem" where
  "ToWhitelistItem e = \<lparr>
     wi_ID = wl_ID e, wi_Username = wl_Username e, wi_Context = wl_Context e,
     wi_Server = wl_ServerName e, wi_ExpiresAt = wl_ExpiresAt e, wi_CreatedAt = wl_CreatedAt e,
     wi_CreatedFromRequest = wl_CreatedFrom e, wi_CreatedByDevice = wl_CreatedByDeviceLabel e \<rparr>"

definition ToVerdictWhitelistEntry :: "WhitelistEntry \<Rightarrow> VerdictWhitelistEntry" where
  "ToVerdictWhitelistEntry e = \<lparr>
     vw_ID = wl_ID e, vw_Username = wl_Username e, vw_Context = wl_Context e,
     vw_Server = wl_ServerName e, vw_ExpiresAt = wl_ExpiresAt e \<rparr>"

definition ToDeviceItem :: "Device \<Rightarrow> DeviceItem" where
  "ToDeviceItem d = \<lparr>
     di_ID = dv_ID d, di_Platform = dv_Platform d, di_Label = dv_Label d,
     di_CreatedAt = dv_CreatedAt d, di_LastSeenAt = dv_LastSeenAt d \<rparr>"

definition ToBlockedIPItem :: "BlockedIP \<Rightarrow> BlockedIPItem" where
  "ToBlockedIPItem b = \<lparr>
     bt_ID = bi_ID b, bt_IP = bi_IP b, bt_Reason = bi_Reason b, bt_DenialCount = bi_DenialCount b,
     bt_FirstDeniedAt = bi_FirstDeniedAt b, bt_LastDeniedAt = bi_LastDeniedAt b,
     bt_HitCount = bi_HitCount b, bt_LastHitAt = bi_LastHitAt b, bt_CreatedAt = bi_CreatedAt b,
     bt_ExpiresAt = bi_ExpiresAt b \<rparr>"

definition ToGeoRuleItem :: "GeoRule \<Rightarrow> GeoRuleItem" where
  "ToGeoRuleItem g = \<lparr>
     gi_ID = gr_ID g, gi_Country = gr_Country g, gi_Note = gr_Note g, gi_CreatedAt = gr_CreatedAt g \<rparr>"

definition deref :: "string option \<Rightarrow> string" where
  "deref p = (case p of None \<Rightarrow> [] | Some s \<Rightarrow> s)"

text \<open>Push payloads. \<open>FormatTime\<close> (RFC 3339 in UTC) is a parameter.\<close>

type_synonym push_data = "(string \<times> string) list"

definition AccessPush :: "(time \<Rightarrow> string) \<Rightarrow> string \<Rightarrow> Request \<Rightarrow> push_data" where
  "AccessPush FormatTime typ r =
     (let (country, city) = (case rq_Geo r of None \<Rightarrow> ([], []) | Some g \<Rightarrow> (geo_Country g, geo_City g))
      in [(''type'', typ), (''request_id'', rq_ID r), (''context'', rq_Context r),
          (''server'', rq_ServerName r), (''username'', rq_Username r),
          (''source_ip'', deref (rq_SourceIP r)), (''geo_country'', country), (''geo_city'', city),
          (''command'', deref (rq_Command r)),
          (''created_at'', FormatTime (rq_CreatedAt r)), (''expires_at'', FormatTime (rq_ExpiresAt r))])"

definition DecidedPush :: "Request \<Rightarrow> push_data" where
  "DecidedPush r =
     [(''type'', PushRequestDecided), (''request_id'', rq_ID r), (''status'', rq_Status r),
      (''decided_by_device'', deref (rq_DecidedByDeviceLabel r))]"

section \<open>Lemmas\<close>

lemma status_distinct:
  "distinct [StatusPending, StatusApproved, StatusDenied, StatusTimeout,
             StatusWhitelisted, StatusBlockedIP, StatusBlockedGeo, StatusNotified]"
  by (simp add: enums)

lemma status_neq [simp]:
  "StatusPending \<noteq> StatusApproved" "StatusPending \<noteq> StatusDenied"
  "StatusPending \<noteq> StatusTimeout" "StatusPending \<noteq> StatusWhitelisted"
  "StatusPending \<noteq> StatusBlockedIP" "StatusPending \<noteq> StatusBlockedGeo"
  "StatusPending \<noteq> StatusNotified"
  "StatusApproved \<noteq> StatusPending" "StatusApproved \<noteq> StatusDenied"
  "StatusApproved \<noteq> StatusTimeout" "StatusApproved \<noteq> StatusWhitelisted"
  "StatusApproved \<noteq> StatusBlockedIP" "StatusApproved \<noteq> StatusBlockedGeo"
  "StatusApproved \<noteq> StatusNotified"
  "StatusDenied \<noteq> StatusPending" "StatusDenied \<noteq> StatusApproved"
  "StatusDenied \<noteq> StatusTimeout" "StatusDenied \<noteq> StatusWhitelisted"
  "StatusDenied \<noteq> StatusBlockedIP" "StatusDenied \<noteq> StatusBlockedGeo"
  "StatusDenied \<noteq> StatusNotified"
  "StatusTimeout \<noteq> StatusPending" "StatusTimeout \<noteq> StatusApproved"
  "StatusTimeout \<noteq> StatusDenied" "StatusTimeout \<noteq> StatusWhitelisted"
  "StatusTimeout \<noteq> StatusBlockedIP" "StatusTimeout \<noteq> StatusBlockedGeo"
  "StatusTimeout \<noteq> StatusNotified"
  "StatusWhitelisted \<noteq> StatusPending" "StatusWhitelisted \<noteq> StatusApproved"
  "StatusWhitelisted \<noteq> StatusDenied" "StatusWhitelisted \<noteq> StatusTimeout"
  "StatusWhitelisted \<noteq> StatusBlockedIP" "StatusWhitelisted \<noteq> StatusBlockedGeo"
  "StatusWhitelisted \<noteq> StatusNotified"
  "StatusBlockedIP \<noteq> StatusPending" "StatusBlockedIP \<noteq> StatusApproved"
  "StatusBlockedIP \<noteq> StatusDenied" "StatusBlockedIP \<noteq> StatusTimeout"
  "StatusBlockedIP \<noteq> StatusWhitelisted" "StatusBlockedIP \<noteq> StatusBlockedGeo"
  "StatusBlockedIP \<noteq> StatusNotified"
  "StatusBlockedGeo \<noteq> StatusPending" "StatusBlockedGeo \<noteq> StatusApproved"
  "StatusBlockedGeo \<noteq> StatusDenied" "StatusBlockedGeo \<noteq> StatusTimeout"
  "StatusBlockedGeo \<noteq> StatusWhitelisted" "StatusBlockedGeo \<noteq> StatusBlockedIP"
  "StatusBlockedGeo \<noteq> StatusNotified"
  "StatusNotified \<noteq> StatusPending" "StatusNotified \<noteq> StatusApproved"
  "StatusNotified \<noteq> StatusDenied" "StatusNotified \<noteq> StatusTimeout"
  "StatusNotified \<noteq> StatusWhitelisted" "StatusNotified \<noteq> StatusBlockedIP"
  "StatusNotified \<noteq> StatusBlockedGeo"
  using status_distinct by auto

lemma verdict_neq [simp]:
  "VerdictApprove \<noteq> VerdictDeny" "VerdictDeny \<noteq> VerdictApprove"
  "VerdictApprove \<noteq> VerdictApproveAlways" "VerdictApproveAlways \<noteq> VerdictApprove"
  "VerdictDeny \<noteq> VerdictApproveAlways" "VerdictApproveAlways \<noteq> VerdictDeny"
  by (simp_all add: enums)

lemma mode_neq [simp]: "ModeEnforce \<noteq> ModeNotify" "ModeNotify \<noteq> ModeEnforce"
  by (simp_all add: enums)

lemma BlockedIP_Active_unexpired: "BlockedIP_Active b now = unexpired (bi_ExpiresAt b) now"
  by (simp add: BlockedIP_Active_def unexpired_def)

lemma VerdictFor_approve_iff:
  "fst (VerdictFor s) = VerdictApprove \<longleftrightarrow>
     s = StatusApproved \<or> s = StatusWhitelisted \<or> s = StatusNotified"
  by (auto simp: VerdictFor_def)

lemma VerdictFor_total: "fst (VerdictFor s) \<in> {VerdictApprove, VerdictDeny}"
  by (simp add: VerdictFor_def)

end
