(* ===== verification/Store.thy ===== *)
theory Store
  imports Model
begin

text \<open>
  The interface \<^verbatim>\<open>db.Store\<close> of \<^verbatim>\<open>backend/internal/db/store.go\<close>: every query the backend runs. A Go
  interface value is a dictionary of methods, so the interface is a record of operations over a
  state type \<open>'s\<close> that each implementation chooses. Handlers and rules take such a record as an
  argument, and what is proved of them for every record holds for every implementation, a failing
  one included.

  Queries read the state; statements return the new state. The contexts (\<^verbatim>\<open>ctx\<close>) that bound a call
  are not modelled: a cancelled call is an \<open>ErrOther\<close>. An operation that inserts a row takes the id
  the store generates for it (\<open>NewID\<close> in memory, \<^verbatim>\<open>gen_random_uuid()\<close> in PostgreSQL) as an argument.
\<close>

datatype store_error =
    ErrNotFound
  | ErrConflict
  | ErrAlreadyDecided
  | ErrOther string

record RequestFilter =
  rf_Limit :: int
  rf_Before :: "time option"
  rf_Server :: string
  rf_Username :: string
  rf_Context :: string
  rf_Status :: string

record DenialStats =
  ds_Count :: int
  ds_First :: time
  ds_Last :: time

record 's Store =
  st_Ping :: "'s \<Rightarrow> store_error option"
  st_CreateServer ::
    "string \<Rightarrow> string \<Rightarrow> string \<Rightarrow> string \<Rightarrow> time \<Rightarrow> 's \<Rightarrow> 's \<times> (store_error, Server) result"
  st_ServerByTokenHash :: "string \<Rightarrow> 's \<Rightarrow> (store_error, Server) result"
  st_ServerByName :: "string \<Rightarrow> 's \<Rightarrow> (store_error, Server) result"
  st_TouchServer :: "string \<Rightarrow> time \<Rightarrow> 's \<Rightarrow> 's \<times> store_error option"
  st_UpsertDevice ::
    "string \<Rightarrow> string \<Rightarrow> string \<Rightarrow> string option \<Rightarrow> time \<Rightarrow> 's \<Rightarrow> 's \<times> (store_error, Device \<times> bool) result"
  st_DeviceByID :: "string \<Rightarrow> 's \<Rightarrow> (store_error, Device) result"
  st_ListDevices :: "'s \<Rightarrow> (store_error, Device list) result"
  st_DeleteDevice :: "string \<Rightarrow> time \<Rightarrow> 's \<Rightarrow> 's \<times> store_error option"
  st_CreateRequest :: "string \<Rightarrow> Request \<Rightarrow> 's \<Rightarrow> 's \<times> (store_error, Request) result"
  st_RequestByID :: "string \<Rightarrow> 's \<Rightarrow> (store_error, Request) result"
  st_DecideRequest ::
    "string \<Rightarrow> string \<Rightarrow> string option \<Rightarrow> time \<Rightarrow> 's \<Rightarrow> 's \<times> (store_error, Request) result"
  st_MarkTimeout :: "string \<Rightarrow> time \<Rightarrow> 's \<Rightarrow> 's \<times> (store_error, bool) result"
  st_ListRequests :: "RequestFilter \<Rightarrow> 's \<Rightarrow> (store_error, Request list) result"
  st_CountDenials :: "string \<Rightarrow> time \<Rightarrow> 's \<Rightarrow> (store_error, DenialStats) result"
  st_FindWhitelist ::
    "string \<Rightarrow> string \<Rightarrow> string \<Rightarrow> time \<Rightarrow> 's \<Rightarrow> (store_error, WhitelistEntry) result"
  st_ListWhitelist ::
    "string option \<Rightarrow> time \<Rightarrow> 's \<Rightarrow> 's \<times> (store_error, WhitelistEntry list) result"
  st_UpsertWhitelist ::
    "string \<Rightarrow> WhitelistEntry \<Rightarrow> time \<Rightarrow> 's \<Rightarrow> 's \<times> (store_error, WhitelistEntry \<times> bool) result"
  st_WhitelistByID :: "string \<Rightarrow> 's \<Rightarrow> (store_error, WhitelistEntry) result"
  st_DeleteWhitelist :: "string \<Rightarrow> 's \<Rightarrow> 's \<times> store_error option"
  st_BlockedIPByIP :: "string \<Rightarrow> 's \<Rightarrow> (store_error, BlockedIP) result"
  st_RecordBlockedIPHit :: "string \<Rightarrow> time \<Rightarrow> 's \<Rightarrow> 's \<times> store_error option"
  st_ListBlockedIPs :: "time \<Rightarrow> 's \<Rightarrow> (store_error, BlockedIP list) result"
  st_UpsertBlockedIP :: "string \<Rightarrow> BlockedIP \<Rightarrow> 's \<Rightarrow> 's \<times> (store_error, BlockedIP) result"
  st_UnblockIP :: "string \<Rightarrow> time \<Rightarrow> 's \<Rightarrow> 's \<times> store_error option"
  st_ListGeoRules :: "'s \<Rightarrow> (store_error, GeoRule list) result"
  st_GeoRuleByCountry :: "string \<Rightarrow> 's \<Rightarrow> (store_error, GeoRule) result"
  st_CreateGeoRule ::
    "string \<Rightarrow> string \<Rightarrow> string option \<Rightarrow> time \<Rightarrow> 's \<Rightarrow> 's \<times> (store_error, GeoRule) result"
  st_DeleteGeoRule :: "string \<Rightarrow> 's \<Rightarrow> 's \<times> store_error option"

section \<open>The contract of the request rows\<close>

text \<open>
  What the comments of \<^verbatim>\<open>store.go\<close> promise of the request rows, for a client that only sees the
  interface. \<open>row\<close> is the requests table behind the state and \<open>inv\<close> the implementation's invariant.
  \<open>same_decision\<close> compares the columns a decision writes; the joined display columns (server name,
  device label) may change under a decided row and are left out.
\<close>

definition same_decision :: "Request \<Rightarrow> Request \<Rightarrow> bool" where
  "same_decision r r' \<longleftrightarrow>
     rq_ID r = rq_ID r' \<and> rq_Status r = rq_Status r' \<and> rq_DecidedBy r = rq_DecidedBy r' \<and>
     rq_DecidedByDevice r = rq_DecidedByDevice r' \<and> rq_DecidedAt r = rq_DecidedAt r'"

text \<open>What never changes in a row once it is inserted.\<close>

definition same_login :: "Request \<Rightarrow> Request \<Rightarrow> bool" where
  "same_login r r' \<longleftrightarrow>
     rq_ID r = rq_ID r' \<and> rq_ServerID r = rq_ServerID r' \<and> rq_Context r = rq_Context r' \<and>
     rq_Username r = rq_Username r' \<and> rq_SourceIP r = rq_SourceIP r' \<and>
     rq_CreatedAt r = rq_CreatedAt r' \<and> rq_ExpiresAt r = rq_ExpiresAt r'"

text \<open>The two ways a pending row is decided: by an admin before it expires, or by a timeout.\<close>

definition admin_decided :: "Request \<Rightarrow> bool" where
  "admin_decided r \<longleftrightarrow>
     rq_Status r \<in> {StatusApproved, StatusDenied} \<and> rq_DecidedBy r = Some DecidedByAdmin \<and>
     (case rq_DecidedAt r of None \<Rightarrow> False | Some t \<Rightarrow> t < rq_ExpiresAt r)"

definition timed_out :: "Request \<Rightarrow> bool" where
  "timed_out r \<longleftrightarrow>
     rq_Status r = StatusTimeout \<and> rq_DecidedBy r = Some DecidedByTimeout \<and> rq_DecidedAt r = None"

definition decision_step :: "Request \<Rightarrow> Request \<Rightarrow> bool" where
  "decision_step r r' \<longleftrightarrow>
     same_decision r r' \<or> (rq_Status r = StatusPending \<and> (admin_decided r' \<or> timed_out r'))"

text \<open>The evolution of the requests table every step of the store must respect: a row stays, keeps
  its login columns, and its decision is written once.\<close>

definition rows_evolve :: "(string \<Rightarrow> Request option) \<Rightarrow> (string \<Rightarrow> Request option) \<Rightarrow> bool" where
  "rows_evolve R R' \<longleftrightarrow>
     (\<forall>rid r. R rid = Some r \<longrightarrow> (\<exists>r'. R' rid = Some r' \<and> same_login r r' \<and> decision_step r r'))"

lemma same_decision_refl [simp]: "same_decision r r"
  by (simp add: same_decision_def)

lemma same_decision_trans: "same_decision a b \<Longrightarrow> same_decision b c \<Longrightarrow> same_decision a c"
  by (simp add: same_decision_def)

lemma same_login_refl [simp]: "same_login r r"
  by (simp add: same_login_def)

lemma same_login_trans: "same_login a b \<Longrightarrow> same_login b c \<Longrightarrow> same_login a c"
  by (simp add: same_login_def)

lemma decision_step_refl [simp]: "decision_step r r"
  by (simp add: decision_step_def)

lemma decided_not_pending [simp]:
  "admin_decided r \<Longrightarrow> rq_Status r \<noteq> StatusPending" "timed_out r \<Longrightarrow> rq_Status r \<noteq> StatusPending"
  by (auto simp: admin_decided_def timed_out_def)

lemma same_decision_decided:
  "same_login a b \<Longrightarrow> same_decision a b \<Longrightarrow> admin_decided a = admin_decided b \<and> timed_out a = timed_out b"
  by (auto simp: admin_decided_def timed_out_def same_decision_def same_login_def split: option.splits)

lemma decision_step_trans:
  "same_login a b \<Longrightarrow> same_login b c \<Longrightarrow> decision_step a b \<Longrightarrow> decision_step b c \<Longrightarrow> decision_step a c"
  using same_decision_decided [of b c] decided_not_pending [of b]
  by (auto simp: decision_step_def same_decision_def)

lemma decision_step_final: "decision_step r r' \<Longrightarrow> rq_Status r \<noteq> StatusPending \<Longrightarrow> same_decision r r'"
  by (auto simp: decision_step_def)

lemma rows_evolve_refl [simp]: "rows_evolve R R"
  by (simp add: rows_evolve_def)

lemma rows_evolveD:
  "rows_evolve R R' \<Longrightarrow> R rid = Some r \<Longrightarrow> \<exists>r'. R' rid = Some r' \<and> same_login r r' \<and> decision_step r r'"
  by (simp add: rows_evolve_def)

lemma rows_evolveI:
  "(\<And>rid r. R rid = Some r \<Longrightarrow> \<exists>r'. R' rid = Some r' \<and> same_login r r' \<and> decision_step r r') \<Longrightarrow>
   rows_evolve R R'"
  by (simp add: rows_evolve_def)

lemma rows_evolve_trans:
  assumes "rows_evolve A B" "rows_evolve B C"
  shows "rows_evolve A C"
proof (rule rows_evolveI)
  fix rid r
  assume "A rid = Some r"
  then obtain r' where r': "B rid = Some r'" "same_login r r'" "decision_step r r'"
    using rows_evolveD [OF assms(1)] by blast
  then obtain r'' where "C rid = Some r''" "same_login r' r''" "decision_step r' r''"
    using rows_evolveD [OF assms(2)] by blast
  with r' show "\<exists>r''. C rid = Some r'' \<and> same_login r r'' \<and> decision_step r r''"
    by (blast intro: decision_step_trans same_login_trans)
qed

locale request_store =
  fixes S :: "'s Store"
    and inv :: "'s \<Rightarrow> bool"
    and row :: "'s \<Rightarrow> string \<Rightarrow> Request option"
  assumes RequestByID_found:
      "inv s \<Longrightarrow> row s rid = Some r \<Longrightarrow>
       \<exists>v. st_RequestByID S rid s = Inr v \<and> same_login r v \<and> same_decision r v"
    and RequestByID_missing: "inv s \<Longrightarrow> row s rid = None \<Longrightarrow> st_RequestByID S rid s = Inl ErrNotFound"
    and CreateRequest_ok:
      "inv s \<Longrightarrow> row s nid = None \<Longrightarrow> st_CreateRequest S nid r s = (s', Inr v) \<Longrightarrow>
       inv s' \<and> rows_evolve (row s) (row s') \<and>
       (\<exists>r'. row s' nid = Some r' \<and> same_login (r\<lparr>rq_ID := nid\<rparr>) r' \<and> same_login r' v \<and> same_decision r' v \<and>
             (rq_Status r \<noteq> [] \<longrightarrow> same_decision (r\<lparr>rq_ID := nid\<rparr>) r'))"
    and DecideRequest_ok:
      "inv s \<Longrightarrow> row s rid = Some r \<Longrightarrow> rq_Status r = StatusPending \<Longrightarrow> now < rq_ExpiresAt r \<Longrightarrow>
       status \<in> {StatusApproved, StatusDenied} \<Longrightarrow>
       \<exists>s' v r'. st_DecideRequest S rid status dev now s = (s', Inr v) \<and> inv s' \<and>
         rows_evolve (row s) (row s') \<and> row s' rid = Some r' \<and> same_login r' v \<and> same_decision r' v \<and>
         rq_Status r' = status \<and> rq_DecidedBy r' = Some DecidedByAdmin \<and>
         rq_DecidedByDevice r' = dev \<and> rq_DecidedAt r' = Some now"
    and DecideRequest_late:
      "inv s \<Longrightarrow> row s rid = Some r \<Longrightarrow> rq_Status r \<noteq> StatusPending \<or> rq_ExpiresAt r \<le> now \<Longrightarrow>
       st_DecideRequest S rid status dev now s = (s, Inl ErrAlreadyDecided)"
    and DecideRequest_missing:
      "inv s \<Longrightarrow> row s rid = None \<Longrightarrow> st_DecideRequest S rid status dev now s = (s, Inl ErrNotFound)"
    and MarkTimeout_pending:
      "inv s \<Longrightarrow> row s rid = Some r \<Longrightarrow> rq_Status r = StatusPending \<Longrightarrow>
       \<exists>s' r'. st_MarkTimeout S rid now s = (s', Inr True) \<and> inv s' \<and> rows_evolve (row s) (row s') \<and>
         row s' rid = Some r' \<and> rq_Status r' = StatusTimeout \<and> rq_DecidedAt r' = None"
    and MarkTimeout_decided:
      "inv s \<Longrightarrow> row s rid = Some r \<Longrightarrow> rq_Status r \<noteq> StatusPending \<Longrightarrow>
       st_MarkTimeout S rid now s = (s, Inr False)"

section \<open>The contract of the servers\<close>

locale server_store =
  fixes S :: "'s Store"
    and inv :: "'s \<Rightarrow> bool"
    and servers :: "'s \<Rightarrow> Server set"
  assumes ServerByTokenHash_found:
      "inv s \<Longrightarrow> srv \<in> servers s \<Longrightarrow> st_ServerByTokenHash S (sv_TokenHash srv) s = Inr srv"
    and ServerByTokenHash_missing:
      "inv s \<Longrightarrow> \<forall>srv\<in>servers s. sv_TokenHash srv \<noteq> hash \<Longrightarrow>
       st_ServerByTokenHash S hash s = Inl ErrNotFound"

section \<open>The contract of the blocked addresses\<close>

text \<open>\<open>blk s ip\<close> is the row of an address, active or not; \<open>fresh s nid\<close> says that an id is unused.\<close>

locale block_store =
  fixes S :: "'s Store"
    and inv :: "'s \<Rightarrow> bool"
    and fresh :: "'s \<Rightarrow> string \<Rightarrow> bool"
    and blk :: "'s \<Rightarrow> string \<Rightarrow> BlockedIP option"
  assumes BlockedIPByIP_found: "inv s \<Longrightarrow> blk s ip = Some b \<Longrightarrow> st_BlockedIPByIP S ip s = Inr b"
    and BlockedIPByIP_missing: "inv s \<Longrightarrow> blk s ip = None \<Longrightarrow> st_BlockedIPByIP S ip s = Inl ErrNotFound"
    and RecordBlockedIPHit_ok:
      "inv s \<Longrightarrow> blk s ip = Some b \<Longrightarrow>
       \<exists>s'. st_RecordBlockedIPHit S (bi_ID b) now s = (s', None) \<and> inv s' \<and>
            blk s' ip = Some (b\<lparr>bi_HitCount := bi_HitCount b + 1, bi_LastHitAt := Some now\<rparr>)"
    and UpsertBlockedIP_ok:
      "inv s \<Longrightarrow> fresh s nid \<Longrightarrow> bi_Reason b \<noteq> [] \<Longrightarrow>
       \<exists>s' c. st_UpsertBlockedIP S nid b s = (s', Inr c) \<and> inv s' \<and> blk s' (bi_IP b) = Some c \<and>
              c = b\<lparr>bi_ID := bi_ID c, bi_HitCount := 0, bi_LastHitAt := None\<rparr>"

text \<open>The rows \<^verbatim>\<open>CountDenials\<close> counts: denials of an address decided at or after an instant.\<close>

definition denials :: "(string \<Rightarrow> Request option) \<Rightarrow> string \<Rightarrow> time \<Rightarrow> string set" where
  "denials R ip since =
     {rid. \<exists>r at. R rid = Some r \<and> rq_Status r = StatusDenied \<and> rq_SourceIP r = Some ip \<and>
                  rq_DecidedAt r = Some at \<and> since \<le> at}"

locale autoblock_store = block_store S inv fresh blk
  for S :: "'s Store" and inv fresh blk +
  fixes row :: "'s \<Rightarrow> string \<Rightarrow> Request option"
  assumes CountDenials_ok:
    "inv s \<Longrightarrow> \<exists>st. st_CountDenials S ip since s = Inr st \<and> ds_Count st = int (card (denials (row s) ip since))"

section \<open>The contract of the whitelist\<close>

text \<open>An entry applies to a login when it names its user and context, has not expired, and is for
  every server or for this one.\<close>

definition wl_covers :: "string \<Rightarrow> string \<Rightarrow> string \<Rightarrow> time \<Rightarrow> WhitelistEntry \<Rightarrow> bool" where
  "wl_covers u c sid now e \<longleftrightarrow>
     wl_Username e = u \<and> wl_Context e = c \<and> (case wl_ExpiresAt e of None \<Rightarrow> True | Some t \<Rightarrow> now < t) \<and>
     (wl_ServerID e = None \<or> wl_ServerID e = Some sid)"

lemma wl_covers_unexpired:
  "wl_covers u c sid now e \<longleftrightarrow>
     wl_Username e = u \<and> wl_Context e = c \<and> unexpired (wl_ExpiresAt e) now \<and>
     (wl_ServerID e = None \<or> wl_ServerID e = Some sid)"
  by (simp add: wl_covers_def unexpired_def)

text \<open>The entries an agent may see: those of its server and those for every server.\<close>

definition wl_in_scope :: "string option \<Rightarrow> WhitelistEntry \<Rightarrow> bool" where
  "wl_in_scope srv e \<longleftrightarrow> srv = None \<or> wl_ServerID e = None \<or> wl_ServerID e = srv"

text \<open>The stored columns, without the joined names.\<close>

definition same_entry :: "WhitelistEntry \<Rightarrow> WhitelistEntry \<Rightarrow> bool" where
  "same_entry e e' \<longleftrightarrow>
     wl_ID e = wl_ID e' \<and> wl_Username e = wl_Username e' \<and> wl_Context e = wl_Context e' \<and>
     wl_ServerID e = wl_ServerID e' \<and> wl_ExpiresAt e = wl_ExpiresAt e' \<and>
     wl_CreatedAt e = wl_CreatedAt e' \<and> wl_CreatedFrom e = wl_CreatedFrom e' \<and>
     wl_CreatedByDevice e = wl_CreatedByDevice e'"

lemma same_entry_refl [simp]: "same_entry e e"
  by (simp add: same_entry_def)

lemma same_entry_covers: "same_entry e e' \<Longrightarrow> wl_covers u c sid now e = wl_covers u c sid now e'"
  by (simp add: same_entry_def wl_covers_unexpired)

locale whitelist_store =
  fixes S :: "'s Store"
    and inv :: "'s \<Rightarrow> bool"
    and entries :: "'s \<Rightarrow> WhitelistEntry set"
  assumes FindWhitelist_found:
      "inv s \<Longrightarrow> e \<in> entries s \<Longrightarrow> wl_covers u c sid now e \<Longrightarrow>
       \<exists>w\<in>entries s. \<exists>v. st_FindWhitelist S u c sid now s = Inr v \<and> wl_covers u c sid now w \<and> same_entry w v"
    and FindWhitelist_missing:
      "inv s \<Longrightarrow> \<forall>e\<in>entries s. \<not> wl_covers u c sid now e \<Longrightarrow>
       st_FindWhitelist S u c sid now s = Inl ErrNotFound"
    and UpsertWhitelist_saved:
      "inv s \<Longrightarrow> st_UpsertWhitelist S nid e now s = (s', Inr (saved, created)) \<Longrightarrow>
       inv s' \<and> (\<exists>x\<in>entries s'. wl_Username x = wl_Username e \<and> wl_Context x = wl_Context e \<and>
         wl_ServerID x = wl_ServerID e \<and> wl_ExpiresAt x = wl_ExpiresAt e \<and> same_entry x saved)"
    and ListWhitelist_ok:
      "inv s \<Longrightarrow> \<exists>s' rows. st_ListWhitelist S srv now s = (s', Inr rows) \<and> inv s' \<and>
         entries s' = {e \<in> entries s. unexpired (wl_ExpiresAt e) now} \<and>
         (\<forall>e\<in>entries s'. wl_in_scope srv e \<longrightarrow> (\<exists>v\<in>set rows. same_entry e v)) \<and>
         (\<forall>v\<in>set rows. \<exists>e\<in>entries s'. wl_in_scope srv e \<and> same_entry e v)"
begin

lemma FindWhitelist_iff:
  "inv s \<Longrightarrow>
   (\<exists>v. st_FindWhitelist S u c sid now s = Inr v) \<longleftrightarrow> (\<exists>e\<in>entries s. wl_covers u c sid now e)"
  using FindWhitelist_found FindWhitelist_missing by (metis Inl_Inr_False)

end

section \<open>The contract of the geo rules\<close>

locale geo_store =
  fixes S :: "'s Store"
    and inv :: "'s \<Rightarrow> bool"
    and countries :: "'s \<Rightarrow> string set"
  assumes GeoRuleByCountry_found:
      "inv s \<Longrightarrow> country \<in> countries s \<Longrightarrow>
       \<exists>g. st_GeoRuleByCountry S country s = Inr g \<and> gr_Country g = country"
    and GeoRuleByCountry_missing:
      "inv s \<Longrightarrow> country \<notin> countries s \<Longrightarrow> st_GeoRuleByCountry S country s = Inl ErrNotFound"

end
