(* ===== verification/Memory.thy ===== *)
theory Memory
  imports Store "HOL-Library.List_Lexorder" "HOL-Library.Char_ord" "HOL-Library.Product_Lexorder"
begin

text \<open>
  The in-memory store of \<^verbatim>\<open>backend/internal/db/dbtest\<close> (\<^verbatim>\<open>memory.go\<close>, \<^verbatim>\<open>memory_requests.go\<close>,
  \<^verbatim>\<open>memory_lists.go\<close>): one map per table and one operation per method of the interface. A method runs
  under the store's mutex, so each operation here is one atomic step.

  The second half states the invariant (keys, unique indexes, references between tables), shows that
  every operation keeps it, and gives the functional behaviour of each operation.
\<close>

section \<open>State\<close>

record memory =
  m_servers :: "Server gomap"
  m_devices :: "Device gomap"
  m_requests :: "Request gomap"
  m_whitelist :: "WhitelistEntry gomap"
  m_blocked :: "BlockedIP gomap"
  m_geoRules :: "GeoRule gomap"
  m_PingErr :: "store_error option"

definition mem_New :: memory where
  "mem_New = \<lparr> m_servers = [], m_devices = [], m_requests = [], m_whitelist = [], m_blocked = [],
               m_geoRules = [], m_PingErr = None \<rparr>"

definition mem_Ping :: "memory \<Rightarrow> store_error option" where
  "mem_Ping m = m_PingErr m"

section \<open>Servers\<close>

definition mem_CreateServer ::
  "string \<Rightarrow> string \<Rightarrow> string \<Rightarrow> string \<Rightarrow> time \<Rightarrow> memory \<Rightarrow> memory \<times> (store_error, Server) result" where
  "mem_CreateServer nid name tokenHash os now m =
     (case map_find (\<lambda>s. sv_Name s = name \<or> sv_TokenHash s = tokenHash) (m_servers m) of
        Some _ \<Rightarrow> (m, Inl ErrConflict)
      | None \<Rightarrow>
          let s = \<lparr> sv_ID = nid, sv_Name = name, sv_TokenHash = tokenHash, sv_OS = os,
                    sv_CreatedAt = now, sv_LastSeenAt = None \<rparr>
          in (m\<lparr>m_servers := map_put nid s (m_servers m)\<rparr>, Inr s))"

definition mem_ServerByTokenHash :: "string \<Rightarrow> memory \<Rightarrow> (store_error, Server) result" where
  "mem_ServerByTokenHash hash m =
     (case map_find (\<lambda>s. sv_TokenHash s = hash) (m_servers m) of
        Some (_, s) \<Rightarrow> Inr s | None \<Rightarrow> Inl ErrNotFound)"

definition mem_ServerByName :: "string \<Rightarrow> memory \<Rightarrow> (store_error, Server) result" where
  "mem_ServerByName name m =
     (case map_find (\<lambda>s. sv_Name s = name) (m_servers m) of
        Some (_, s) \<Rightarrow> Inr s | None \<Rightarrow> Inl ErrNotFound)"

definition mem_TouchServer :: "string \<Rightarrow> time \<Rightarrow> memory \<Rightarrow> memory \<times> store_error option" where
  "mem_TouchServer sid now m =
     (case map_of (m_servers m) sid of
        None \<Rightarrow> (m, Some ErrNotFound)
      | Some s \<Rightarrow> (m\<lparr>m_servers := map_put sid (s\<lparr>sv_LastSeenAt := Some now\<rparr>) (m_servers m)\<rparr>, None))"

definition serverName :: "memory \<Rightarrow> string \<Rightarrow> string" where
  "serverName m sid = (case map_of (m_servers m) sid of Some s \<Rightarrow> sv_Name s | None \<Rightarrow> [])"

definition deviceLabel :: "memory \<Rightarrow> string option \<Rightarrow> string option" where
  "deviceLabel m did =
     (case did of None \<Rightarrow> None
      | Some d \<Rightarrow> (case map_of (m_devices m) d of Some dev \<Rightarrow> dv_Label dev | None \<Rightarrow> None))"

section \<open>Devices\<close>

definition mem_UpsertDevice ::
  "string \<Rightarrow> string \<Rightarrow> string \<Rightarrow> string option \<Rightarrow> time \<Rightarrow> memory \<Rightarrow> memory \<times> (store_error, Device \<times> bool) result" where
  "mem_UpsertDevice nid fcmToken platform label now m =
     (case map_find (\<lambda>d. dv_FCMToken d = fcmToken) (m_devices m) of
        Some (k, d) \<Rightarrow>
          let d' = d\<lparr> dv_Platform := platform, dv_Label := label, dv_LastSeenAt := Some now,
                      dv_DeletedAt := None \<rparr>
          in (m\<lparr>m_devices := map_put k d' (m_devices m)\<rparr>, Inr (d', False))
      | None \<Rightarrow>
          let d = \<lparr> dv_ID = nid, dv_FCMToken = fcmToken, dv_Platform = platform, dv_Label = label,
                    dv_CreatedAt = now, dv_LastSeenAt = Some now, dv_DeletedAt = None \<rparr>
          in (m\<lparr>m_devices := map_put nid d (m_devices m)\<rparr>, Inr (d, True)))"

definition mem_DeviceByID :: "string \<Rightarrow> memory \<Rightarrow> (store_error, Device) result" where
  "mem_DeviceByID did m =
     (case map_of (m_devices m) did of
        None \<Rightarrow> Inl ErrNotFound
      | Some d \<Rightarrow> if dv_DeletedAt d \<noteq> None then Inl ErrNotFound else Inr d)"

definition mem_ListDevices :: "memory \<Rightarrow> (store_error, Device list) result" where
  "mem_ListDevices m =
     Inr (sort_key (\<lambda>d. (dv_CreatedAt d, dv_ID d))
            (filter (\<lambda>d. dv_DeletedAt d = None) (map snd (m_devices m))))"

definition mem_DeleteDevice :: "string \<Rightarrow> time \<Rightarrow> memory \<Rightarrow> memory \<times> store_error option" where
  "mem_DeleteDevice did now m =
     (case map_of (m_devices m) did of
        None \<Rightarrow> (m, Some ErrNotFound)
      | Some d \<Rightarrow>
          if dv_DeletedAt d \<noteq> None then (m, Some ErrNotFound)
          else (m\<lparr>m_devices := map_put did (d\<lparr>dv_DeletedAt := Some now\<rparr>) (m_devices m)\<rparr>, None))"

section \<open>Geo rules\<close>

definition mem_ListGeoRules :: "memory \<Rightarrow> (store_error, GeoRule list) result" where
  "mem_ListGeoRules m = Inr (sort_key gr_Country (map snd (m_geoRules m)))"

definition mem_GeoRuleByCountry :: "string \<Rightarrow> memory \<Rightarrow> (store_error, GeoRule) result" where
  "mem_GeoRuleByCountry country m =
     (case map_find (\<lambda>g. gr_Country g = country) (m_geoRules m) of
        Some (_, g) \<Rightarrow> Inr g | None \<Rightarrow> Inl ErrNotFound)"

definition mem_CreateGeoRule ::
  "string \<Rightarrow> string \<Rightarrow> string option \<Rightarrow> time \<Rightarrow> memory \<Rightarrow> memory \<times> (store_error, GeoRule) result" where
  "mem_CreateGeoRule nid country note now m =
     (case map_find (\<lambda>g. gr_Country g = country) (m_geoRules m) of
        Some _ \<Rightarrow> (m, Inl ErrConflict)
      | None \<Rightarrow>
          let g = \<lparr> gr_ID = nid, gr_Country = country, gr_Note = note, gr_CreatedAt = now \<rparr>
          in (m\<lparr>m_geoRules := map_put nid g (m_geoRules m)\<rparr>, Inr g))"

definition mem_DeleteGeoRule :: "string \<Rightarrow> memory \<Rightarrow> memory \<times> store_error option" where
  "mem_DeleteGeoRule gid m =
     (case map_of (m_geoRules m) gid of
        None \<Rightarrow> (m, Some ErrNotFound)
      | Some _ \<Rightarrow> (m\<lparr>m_geoRules := map_del gid (m_geoRules m)\<rparr>, None))"

section \<open>Requests\<close>

definition requestView :: "memory \<Rightarrow> Request \<Rightarrow> Request" where
  "requestView m r =
     r\<lparr> rq_ServerName := serverName m (rq_ServerID r),
        rq_DecidedByDeviceLabel := deviceLabel m (rq_DecidedByDevice r) \<rparr>"

definition mem_CreateRequest ::
  "string \<Rightarrow> Request \<Rightarrow> memory \<Rightarrow> memory \<times> (store_error, Request) result" where
  "mem_CreateRequest nid r m =
     (case map_of (m_servers m) (rq_ServerID r) of
        None \<Rightarrow> (m, Inl ErrNotFound)
      | Some _ \<Rightarrow>
          let c = r\<lparr> rq_ID := nid,
                     rq_Status := (if rq_Status r = [] then StatusPending else rq_Status r) \<rparr>;
              m' = m\<lparr>m_requests := map_put nid c (m_requests m)\<rparr>
          in (m', Inr (requestView m' c)))"

definition mem_RequestByID :: "string \<Rightarrow> memory \<Rightarrow> (store_error, Request) result" where
  "mem_RequestByID rid m =
     (case map_of (m_requests m) rid of None \<Rightarrow> Inl ErrNotFound | Some r \<Rightarrow> Inr (requestView m r))"

definition mem_DecideRequest ::
  "string \<Rightarrow> string \<Rightarrow> string option \<Rightarrow> time \<Rightarrow> memory \<Rightarrow> memory \<times> (store_error, Request) result" where
  "mem_DecideRequest rid status deviceID now m =
     (case map_of (m_requests m) rid of
        None \<Rightarrow> (m, Inl ErrNotFound)
      | Some r \<Rightarrow>
          if rq_Status r \<noteq> StatusPending \<or> \<not> now < rq_ExpiresAt r then (m, Inl ErrAlreadyDecided)
          else let r' = r\<lparr> rq_Status := status, rq_DecidedBy := Some DecidedByAdmin,
                           rq_DecidedByDevice := deviceID, rq_DecidedAt := Some now \<rparr>;
                   m' = m\<lparr>m_requests := map_put rid r' (m_requests m)\<rparr>
               in (m', Inr (requestView m' r')))"

definition mem_MarkTimeout :: "string \<Rightarrow> time \<Rightarrow> memory \<Rightarrow> memory \<times> (store_error, bool) result" where
  "mem_MarkTimeout rid now m =
     (case map_of (m_requests m) rid of
        None \<Rightarrow> (m, Inl ErrNotFound)
      | Some r \<Rightarrow>
          if rq_Status r \<noteq> StatusPending then (m, Inr False)
          else (m\<lparr>m_requests := map_put rid (r\<lparr> rq_Status := StatusTimeout,
                  rq_DecidedBy := Some DecidedByTimeout, rq_DecidedAt := None \<rparr>) (m_requests m)\<rparr>,
                Inr True))"

definition request_matches :: "memory \<Rightarrow> RequestFilter \<Rightarrow> Request \<Rightarrow> bool" where
  "request_matches m f r \<longleftrightarrow>
     \<not> (case rf_Before f of None \<Rightarrow> False | Some b \<Rightarrow> \<not> rq_CreatedAt r < b) \<and>
     \<not> (rf_Server f \<noteq> [] \<and> serverName m (rq_ServerID r) \<noteq> rf_Server f) \<and>
     \<not> (rf_Username f \<noteq> [] \<and> rq_Username r \<noteq> rf_Username f) \<and>
     \<not> (rf_Context f \<noteq> [] \<and> rq_Context r \<noteq> rf_Context f) \<and>
     \<not> (rf_Status f \<noteq> [] \<and> rq_Status r \<noteq> rf_Status f)"

definition mem_ListRequests :: "RequestFilter \<Rightarrow> memory \<Rightarrow> (store_error, Request list) result" where
  "mem_ListRequests f m =
     (let out = map (requestView m) (filter (request_matches m f) (map snd (m_requests m)));
          out = rev (sort_key (\<lambda>r. (rq_CreatedAt r, rq_ID r)) out)
      in Inr (if 0 < rf_Limit f \<and> rf_Limit f < int (length out) then take (nat (rf_Limit f)) out else out))"

definition count_denial :: "string \<Rightarrow> time \<Rightarrow> DenialStats \<Rightarrow> Request \<Rightarrow> DenialStats" where
  "count_denial ip since st r =
     (case rq_DecidedAt r of
        None \<Rightarrow> st
      | Some at \<Rightarrow>
          if rq_Status r \<noteq> StatusDenied \<or> rq_SourceIP r \<noteq> Some ip then st
          else if at < since then st
          else \<lparr> ds_Count = ds_Count st + 1,
                 ds_First = (if ds_First st = ZeroTime \<or> at < ds_First st then at else ds_First st),
                 ds_Last = (if ds_Last st = ZeroTime \<or> ds_Last st < at then at else ds_Last st) \<rparr>)"

definition mem_CountDenials :: "string \<Rightarrow> time \<Rightarrow> memory \<Rightarrow> (store_error, DenialStats) result" where
  "mem_CountDenials ip since m =
     Inr (foldl (count_denial ip since) \<lparr> ds_Count = 0, ds_First = ZeroTime, ds_Last = ZeroTime \<rparr>
            (map snd (m_requests m)))"

section \<open>Whitelist\<close>

definition whitelistView :: "memory \<Rightarrow> WhitelistEntry \<Rightarrow> WhitelistEntry" where
  "whitelistView m e =
     e\<lparr> wl_ServerName := (case wl_ServerID e of Some sid \<Rightarrow> Some (serverName m sid) | None \<Rightarrow> wl_ServerName e),
        wl_CreatedByDeviceLabel := deviceLabel m (wl_CreatedByDevice e) \<rparr>"

fun find_whitelist :: "string \<Rightarrow> string \<Rightarrow> string \<Rightarrow> time \<Rightarrow> WhitelistEntry option \<Rightarrow>
    WhitelistEntry list \<Rightarrow> WhitelistEntry option" where
  "find_whitelist username ctx sid now global [] = global"
| "find_whitelist username ctx sid now global (e # es) =
     (if wl_Username e \<noteq> username \<or> wl_Context e \<noteq> ctx \<or> \<not> unexpired (wl_ExpiresAt e) now
      then find_whitelist username ctx sid now global es
      else (case wl_ServerID e of
              None \<Rightarrow> find_whitelist username ctx sid now (Some e) es
            | Some s \<Rightarrow> if s = sid then Some e else find_whitelist username ctx sid now global es))"

definition mem_FindWhitelist ::
  "string \<Rightarrow> string \<Rightarrow> string \<Rightarrow> time \<Rightarrow> memory \<Rightarrow> (store_error, WhitelistEntry) result" where
  "mem_FindWhitelist username ctx sid now m =
     (case find_whitelist username ctx sid now None (map snd (m_whitelist m)) of
        Some e \<Rightarrow> Inr (whitelistView m e) | None \<Rightarrow> Inl ErrNotFound)"

definition mem_ListWhitelist ::
  "string option \<Rightarrow> time \<Rightarrow> memory \<Rightarrow> memory \<times> (store_error, WhitelistEntry list) result" where
  "mem_ListWhitelist serverID now m =
     (let m' = m\<lparr>m_whitelist := filter (\<lambda>(_, e). unexpired (wl_ExpiresAt e) now) (m_whitelist m)\<rparr>;
          out = filter (\<lambda>e. \<not> (case (serverID, wl_ServerID e) of
                                  (Some sid, Some s) \<Rightarrow> s \<noteq> sid | _ \<Rightarrow> False)) (map snd (m_whitelist m'))
      in (m', Inr (sort_key (\<lambda>e. (- wl_CreatedAt e, wl_ID e)) (map (whitelistView m') out))))"

definition mem_UpsertWhitelist ::
  "string \<Rightarrow> WhitelistEntry \<Rightarrow> time \<Rightarrow> memory \<Rightarrow> memory \<times> (store_error, WhitelistEntry \<times> bool) result" where
  "mem_UpsertWhitelist nid e now m =
     (if (case wl_ServerID e of None \<Rightarrow> False | Some sid \<Rightarrow> map_of (m_servers m) sid = None)
      then (m, Inl ErrNotFound)
      else (case map_find (\<lambda>x. wl_Username x = wl_Username e \<and> wl_Context x = wl_Context e \<and>
                               wl_ServerID x = wl_ServerID e) (m_whitelist m) of
              Some (k, x) \<Rightarrow>
                let x' = x\<lparr>wl_ExpiresAt := wl_ExpiresAt e\<rparr>;
                    m' = m\<lparr>m_whitelist := map_put k x' (m_whitelist m)\<rparr>
                in (m', Inr (whitelistView m' x', False))
            | None \<Rightarrow>
                let c = e\<lparr> wl_ID := nid, wl_CreatedAt := now \<rparr>;
                    m' = m\<lparr>m_whitelist := map_put nid c (m_whitelist m)\<rparr>
                in (m', Inr (whitelistView m' c, True))))"

definition mem_WhitelistByID :: "string \<Rightarrow> memory \<Rightarrow> (store_error, WhitelistEntry) result" where
  "mem_WhitelistByID wid m =
     (case map_of (m_whitelist m) wid of None \<Rightarrow> Inl ErrNotFound | Some e \<Rightarrow> Inr (whitelistView m e))"

definition mem_DeleteWhitelist :: "string \<Rightarrow> memory \<Rightarrow> memory \<times> store_error option" where
  "mem_DeleteWhitelist wid m =
     (case map_of (m_whitelist m) wid of
        None \<Rightarrow> (m, Some ErrNotFound)
      | Some _ \<Rightarrow> (m\<lparr>m_whitelist := map_del wid (m_whitelist m)\<rparr>, None))"

section \<open>Blocked IPs\<close>

definition mem_BlockedIPByIP :: "string \<Rightarrow> memory \<Rightarrow> (store_error, BlockedIP) result" where
  "mem_BlockedIPByIP ip m =
     (case map_find (\<lambda>b. bi_IP b = ip) (m_blocked m) of Some (_, b) \<Rightarrow> Inr b | None \<Rightarrow> Inl ErrNotFound)"

definition mem_RecordBlockedIPHit :: "string \<Rightarrow> time \<Rightarrow> memory \<Rightarrow> memory \<times> store_error option" where
  "mem_RecordBlockedIPHit bid now m =
     (case map_of (m_blocked m) bid of
        None \<Rightarrow> (m, Some ErrNotFound)
      | Some b \<Rightarrow>
          (m\<lparr>m_blocked := map_put bid (b\<lparr> bi_HitCount := bi_HitCount b + 1, bi_LastHitAt := Some now \<rparr>)
               (m_blocked m)\<rparr>, None))"

definition mem_ListBlockedIPs :: "time \<Rightarrow> memory \<Rightarrow> (store_error, BlockedIP list) result" where
  "mem_ListBlockedIPs now m =
     Inr (sort_key (\<lambda>b. (- bi_CreatedAt b, bi_ID b))
            (filter (\<lambda>b. BlockedIP_Active b now) (map snd (m_blocked m))))"

definition mem_UpsertBlockedIP ::
  "string \<Rightarrow> BlockedIP \<Rightarrow> memory \<Rightarrow> memory \<times> (store_error, BlockedIP) result" where
  "mem_UpsertBlockedIP nid b m =
     (let c = b\<lparr> bi_HitCount := 0, bi_LastHitAt := None,
                 bi_Reason := (if bi_Reason b = [] then ''autoblock'' else bi_Reason b) \<rparr>
      in (case map_find (\<lambda>x. bi_IP x = bi_IP b) (m_blocked m) of
            Some (k, x) \<Rightarrow>
              let c = c\<lparr>bi_ID := bi_ID x\<rparr>
              in (m\<lparr>m_blocked := map_put k c (m_blocked m)\<rparr>, Inr c)
          | None \<Rightarrow>
              let c = c\<lparr>bi_ID := nid\<rparr>
              in (m\<lparr>m_blocked := map_put nid c (m_blocked m)\<rparr>, Inr c)))"

definition mem_UnblockIP :: "string \<Rightarrow> time \<Rightarrow> memory \<Rightarrow> memory \<times> store_error option" where
  "mem_UnblockIP bid now m =
     (case map_of (m_blocked m) bid of
        None \<Rightarrow> (m, Some ErrNotFound)
      | Some b \<Rightarrow>
          if \<not> BlockedIP_Active b now then (m, Some ErrNotFound)
          else (m\<lparr>m_blocked := map_put bid (b\<lparr>bi_ExpiresAt := Some now\<rparr>) (m_blocked m)\<rparr>, None))"

section \<open>The interface value\<close>

definition memory_store :: "memory Store" where
  "memory_store = \<lparr>
     st_Ping = mem_Ping,
     st_CreateServer = mem_CreateServer,
     st_ServerByTokenHash = mem_ServerByTokenHash,
     st_ServerByName = mem_ServerByName,
     st_TouchServer = mem_TouchServer,
     st_UpsertDevice = mem_UpsertDevice,
     st_DeviceByID = mem_DeviceByID,
     st_ListDevices = mem_ListDevices,
     st_DeleteDevice = mem_DeleteDevice,
     st_CreateRequest = mem_CreateRequest,
     st_RequestByID = mem_RequestByID,
     st_DecideRequest = mem_DecideRequest,
     st_MarkTimeout = mem_MarkTimeout,
     st_ListRequests = mem_ListRequests,
     st_CountDenials = mem_CountDenials,
     st_FindWhitelist = mem_FindWhitelist,
     st_ListWhitelist = mem_ListWhitelist,
     st_UpsertWhitelist = mem_UpsertWhitelist,
     st_WhitelistByID = mem_WhitelistByID,
     st_DeleteWhitelist = mem_DeleteWhitelist,
     st_BlockedIPByIP = mem_BlockedIPByIP,
     st_RecordBlockedIPHit = mem_RecordBlockedIPHit,
     st_ListBlockedIPs = mem_ListBlockedIPs,
     st_UpsertBlockedIP = mem_UpsertBlockedIP,
     st_UnblockIP = mem_UnblockIP,
     st_ListGeoRules = mem_ListGeoRules,
     st_GeoRuleByCountry = mem_GeoRuleByCountry,
     st_CreateGeoRule = mem_CreateGeoRule,
     st_DeleteGeoRule = mem_DeleteGeoRule \<rparr>"

section \<open>The invariant\<close>

text \<open>Every map is keyed by the row's id; names, token hashes, FCM tokens, countries, blocked
  addresses and the (username, context, server) triples of the whitelist are unique; rows refer to
  enrolled servers.\<close>

definition wl_key :: "WhitelistEntry \<Rightarrow> string \<times> string \<times> string option" where
  "wl_key e = (wl_Username e, wl_Context e, wl_ServerID e)"

definition mem_inv :: "memory \<Rightarrow> bool" where
  "mem_inv m \<longleftrightarrow>
     keyed_by sv_ID (m_servers m) \<and> keyed_by dv_ID (m_devices m) \<and> keyed_by rq_ID (m_requests m) \<and>
     keyed_by wl_ID (m_whitelist m) \<and> keyed_by bi_ID (m_blocked m) \<and> keyed_by gr_ID (m_geoRules m) \<and>
     unique_on (\<lambda>_. True) sv_Name (m_servers m) \<and> unique_on (\<lambda>_. True) sv_TokenHash (m_servers m) \<and>
     unique_on (\<lambda>_. True) dv_FCMToken (m_devices m) \<and> unique_on (\<lambda>_. True) wl_key (m_whitelist m) \<and>
     unique_on (\<lambda>_. True) bi_IP (m_blocked m) \<and> unique_on (\<lambda>_. True) gr_Country (m_geoRules m) \<and>
     list_all (\<lambda>(_, r). rq_ServerID r \<in> map_keys (m_servers m)) (m_requests m) \<and>
     list_all (\<lambda>(_, e). set_option (wl_ServerID e) \<subseteq> map_keys (m_servers m)) (m_whitelist m)"

section \<open>Steps\<close>

text \<open>One atomic operation of the store, by any process. Ids of new rows are fresh: they are random
  UUIDs. A request is only ever decided as approved or denied.\<close>

inductive mem_step :: "memory \<Rightarrow> memory \<Rightarrow> bool" where
  CreateServer: "nid \<notin> map_keys (m_servers m) \<Longrightarrow>
    mem_step m (fst (mem_CreateServer nid name hash os now m))"
| TouchServer: "mem_step m (fst (mem_TouchServer sid now m))"
| UpsertDevice: "nid \<notin> map_keys (m_devices m) \<Longrightarrow>
    mem_step m (fst (mem_UpsertDevice nid token platform label now m))"
| DeleteDevice: "mem_step m (fst (mem_DeleteDevice did now m))"
| CreateRequest: "nid \<notin> map_keys (m_requests m) \<Longrightarrow> mem_step m (fst (mem_CreateRequest nid r m))"
| DecideRequest: "status \<in> {StatusApproved, StatusDenied} \<Longrightarrow>
    mem_step m (fst (mem_DecideRequest rid status dev now m))"
| MarkTimeout: "mem_step m (fst (mem_MarkTimeout rid now m))"
| ListWhitelist: "mem_step m (fst (mem_ListWhitelist sid now m))"
| UpsertWhitelist: "nid \<notin> map_keys (m_whitelist m) \<Longrightarrow>
    mem_step m (fst (mem_UpsertWhitelist nid e now m))"
| DeleteWhitelist: "mem_step m (fst (mem_DeleteWhitelist wid m))"
| RecordBlockedIPHit: "mem_step m (fst (mem_RecordBlockedIPHit bid now m))"
| UpsertBlockedIP: "nid \<notin> map_keys (m_blocked m) \<Longrightarrow> mem_step m (fst (mem_UpsertBlockedIP nid b m))"
| UnblockIP: "mem_step m (fst (mem_UnblockIP bid now m))"
| CreateGeoRule: "nid \<notin> map_keys (m_geoRules m) \<Longrightarrow>
    mem_step m (fst (mem_CreateGeoRule nid country note now m))"
| DeleteGeoRule: "mem_step m (fst (mem_DeleteGeoRule gid m))"

text \<open>Any interleaving of operations.\<close>

inductive mem_steps :: "memory \<Rightarrow> memory \<Rightarrow> bool" where
  none: "mem_steps m m"
| one_more: "mem_steps m m' \<Longrightarrow> mem_step m' m'' \<Longrightarrow> mem_steps m m''"

end
