(* ===== verification/Memory_Laws.thy ===== *)
theory Memory_Laws
  imports Memory
begin

text \<open>
  The laws of the in-memory store: every operation keeps the invariant, every interleaving of
  operations lets the request rows evolve as the interface promises, and the searches return what
  the comments of \<^verbatim>\<open>store.go\<close> say whatever the iteration order of the maps.
\<close>

section \<open>The invariant is kept\<close>

lemma mem_inv_New: "mem_inv mem_New"
  by (simp add: mem_inv_def mem_New_def)

lemma mem_inv_keyed:
  assumes "mem_inv m"
  shows "keyed_by sv_ID (m_servers m)" "keyed_by dv_ID (m_devices m)" "keyed_by rq_ID (m_requests m)"
    "keyed_by wl_ID (m_whitelist m)" "keyed_by bi_ID (m_blocked m)" "keyed_by gr_ID (m_geoRules m)"
  using assms by (simp_all add: mem_inv_def)

lemma mem_inv_unique:
  assumes "mem_inv m"
  shows "unique_on (\<lambda>_. True) sv_Name (m_servers m)" "unique_on (\<lambda>_. True) sv_TokenHash (m_servers m)"
    "unique_on (\<lambda>_. True) dv_FCMToken (m_devices m)" "unique_on (\<lambda>_. True) wl_key (m_whitelist m)"
    "unique_on (\<lambda>_. True) bi_IP (m_blocked m)" "unique_on (\<lambda>_. True) gr_Country (m_geoRules m)"
  using assms by (simp_all add: mem_inv_def)

text \<open>Rewriting one table: what is left to check.\<close>

lemma mem_inv_servers:
  assumes "mem_inv m" "keyed_by sv_ID ss" "unique_on (\<lambda>_. True) sv_Name ss"
    "unique_on (\<lambda>_. True) sv_TokenHash ss" "map_keys (m_servers m) \<subseteq> map_keys ss"
  shows "mem_inv (m\<lparr>m_servers := ss\<rparr>)"
  using assms by (auto simp: mem_inv_def list_all_iff) blast+

lemma mem_inv_devices:
  "mem_inv m \<Longrightarrow> keyed_by dv_ID ds \<Longrightarrow> unique_on (\<lambda>_. True) dv_FCMToken ds \<Longrightarrow>
   mem_inv (m\<lparr>m_devices := ds\<rparr>)"
  by (simp add: mem_inv_def)

lemma mem_inv_requests:
  "mem_inv m \<Longrightarrow> keyed_by rq_ID rs \<Longrightarrow>
   (\<And>k r. (k, r) \<in> set rs \<Longrightarrow> rq_ServerID r \<in> map_keys (m_servers m)) \<Longrightarrow>
   mem_inv (m\<lparr>m_requests := rs\<rparr>)"
  by (auto simp: mem_inv_def list_all_iff)

lemma mem_inv_whitelist:
  "mem_inv m \<Longrightarrow> keyed_by wl_ID ws \<Longrightarrow> unique_on (\<lambda>_. True) wl_key ws \<Longrightarrow>
   (\<And>k e sid. (k, e) \<in> set ws \<Longrightarrow> wl_ServerID e = Some sid \<Longrightarrow> sid \<in> map_keys (m_servers m)) \<Longrightarrow>
   mem_inv (m\<lparr>m_whitelist := ws\<rparr>)"
  by (auto simp: mem_inv_def list_all_iff)

lemma mem_inv_blocked:
  "mem_inv m \<Longrightarrow> keyed_by bi_ID bs \<Longrightarrow> unique_on (\<lambda>_. True) bi_IP bs \<Longrightarrow> mem_inv (m\<lparr>m_blocked := bs\<rparr>)"
  by (simp add: mem_inv_def)

lemma mem_inv_geoRules:
  "mem_inv m \<Longrightarrow> keyed_by gr_ID gs \<Longrightarrow> unique_on (\<lambda>_. True) gr_Country gs \<Longrightarrow>
   mem_inv (m\<lparr>m_geoRules := gs\<rparr>)"
  by (simp add: mem_inv_def)

lemma mem_inv_request_server:
  "mem_inv m \<Longrightarrow> map_of (m_requests m) rid = Some r \<Longrightarrow> rq_ServerID r \<in> map_keys (m_servers m)"
  by (auto simp: mem_inv_def list_all_iff dest!: map_of_SomeD)

lemma mem_inv_whitelist_server:
  "mem_inv m \<Longrightarrow> (k, e) \<in> set (m_whitelist m) \<Longrightarrow> wl_ServerID e = Some sid \<Longrightarrow>
   sid \<in> map_keys (m_servers m)"
  by (force simp: mem_inv_def list_all_iff)

text \<open>A row rewritten in place, keeping its key and its indexed columns.\<close>

lemma keyed_unique_rewrite:
  assumes "keyed_by key m" "unique_on (\<lambda>_. True) f m" "map_of m k = Some w" "key v = key w" "f v = f w"
  shows "keyed_by key (map_put k v m)" "unique_on (\<lambda>_. True) f (map_put k v m)"
  using assms
  by (auto intro!: keyed_by_put unique_on_rewrite [of _ _ _ k w]
      dest: keyed_by_map_of keyed_byD(1) map_of_SomeD)

text \<open>A fresh row no other row conflicts with.\<close>

lemma keyed_unique_insert:
  assumes "keyed_by key m" "unique_on (\<lambda>_. True) f m" "key v = k"
    and "\<And>k' v'. (k', v') \<in> set m \<Longrightarrow> f v' \<noteq> f v"
  shows "keyed_by key (map_put k v m)" "unique_on (\<lambda>_. True) f (map_put k v m)"
  using assms by (auto intro!: keyed_by_put unique_on_put dest: keyed_byD(1)) metis

text \<open>The same two cases for each table.\<close>

lemma mem_servers_rewrite_inv:
  "mem_inv m \<Longrightarrow> map_of (m_servers m) k = Some w \<Longrightarrow> sv_ID v = sv_ID w \<Longrightarrow> sv_Name v = sv_Name w \<Longrightarrow>
   sv_TokenHash v = sv_TokenHash w \<Longrightarrow> mem_inv (m\<lparr>m_servers := map_put k v (m_servers m)\<rparr>)"
  by (rule mem_inv_servers)
     (auto intro: keyed_unique_rewrite [OF mem_inv_keyed(1) mem_inv_unique(1)]
        keyed_unique_rewrite [OF mem_inv_keyed(1) mem_inv_unique(2)])

lemma mem_devices_rewrite_inv:
  "mem_inv m \<Longrightarrow> map_of (m_devices m) k = Some w \<Longrightarrow> dv_ID v = dv_ID w \<Longrightarrow> dv_FCMToken v = dv_FCMToken w \<Longrightarrow>
   mem_inv (m\<lparr>m_devices := map_put k v (m_devices m)\<rparr>)"
  by (rule mem_inv_devices) (auto intro: keyed_unique_rewrite [OF mem_inv_keyed(2) mem_inv_unique(3)])

lemma mem_blocked_rewrite_inv:
  "mem_inv m \<Longrightarrow> map_of (m_blocked m) k = Some w \<Longrightarrow> bi_ID v = bi_ID w \<Longrightarrow> bi_IP v = bi_IP w \<Longrightarrow>
   mem_inv (m\<lparr>m_blocked := map_put k v (m_blocked m)\<rparr>)"
  by (rule mem_inv_blocked) (auto intro: keyed_unique_rewrite [OF mem_inv_keyed(5) mem_inv_unique(5)])

lemma mem_servers_insert_inv:
  assumes "mem_inv m" "sv_ID v = k" "map_find (\<lambda>s. sv_Name s = sv_Name v \<or> sv_TokenHash s = sv_TokenHash v) (m_servers m) = None"
  shows "mem_inv (m\<lparr>m_servers := map_put k v (m_servers m)\<rparr>)"
  using assms
  by (intro mem_inv_servers)
     (auto simp: map_find_None_iff intro!: keyed_unique_insert [OF mem_inv_keyed(1) mem_inv_unique(1)]
        keyed_unique_insert [OF mem_inv_keyed(1) mem_inv_unique(2)])

lemma mem_devices_insert_inv:
  assumes "mem_inv m" "dv_ID v = k" "map_find (\<lambda>d. dv_FCMToken d = dv_FCMToken v) (m_devices m) = None"
  shows "mem_inv (m\<lparr>m_devices := map_put k v (m_devices m)\<rparr>)"
  using assms
  by (intro mem_inv_devices)
     (auto simp: map_find_None_iff intro!: keyed_unique_insert [OF mem_inv_keyed(2) mem_inv_unique(3)])

lemma mem_blocked_insert_inv:
  assumes "mem_inv m" "bi_ID v = k" "map_find (\<lambda>x. bi_IP x = bi_IP v) (m_blocked m) = None"
  shows "mem_inv (m\<lparr>m_blocked := map_put k v (m_blocked m)\<rparr>)"
  using assms
  by (intro mem_inv_blocked)
     (auto simp: map_find_None_iff intro!: keyed_unique_insert [OF mem_inv_keyed(5) mem_inv_unique(5)])

lemma mem_geoRules_insert_inv:
  assumes "mem_inv m" "gr_ID v = k" "map_find (\<lambda>g. gr_Country g = gr_Country v) (m_geoRules m) = None"
  shows "mem_inv (m\<lparr>m_geoRules := map_put k v (m_geoRules m)\<rparr>)"
  using assms
  by (intro mem_inv_geoRules)
     (auto simp: map_find_None_iff intro!: keyed_unique_insert [OF mem_inv_keyed(6) mem_inv_unique(6)])

lemma mem_CreateServer_inv: "mem_inv m \<Longrightarrow> mem_inv (fst (mem_CreateServer nid name hash os now m))"
  by (simp add: mem_CreateServer_def Let_def mem_servers_insert_inv split: option.split)

lemma mem_TouchServer_inv: "mem_inv m \<Longrightarrow> mem_inv (fst (mem_TouchServer sid now m))"
  by (simp add: mem_TouchServer_def mem_servers_rewrite_inv split: option.split)

lemma mem_UpsertDevice_inv:
  "mem_inv m \<Longrightarrow> mem_inv (fst (mem_UpsertDevice nid token platform label now m))"
  by (auto simp: mem_UpsertDevice_def Let_def mem_devices_insert_inv split: option.split
      dest!: map_find_Some_map_of [OF mem_inv_keyed(2), rotated] elim!: mem_devices_rewrite_inv)

lemma mem_DeleteDevice_inv: "mem_inv m \<Longrightarrow> mem_inv (fst (mem_DeleteDevice did now m))"
  by (simp add: mem_DeleteDevice_def mem_devices_rewrite_inv split: option.split)

lemma mem_requests_put_inv:
  assumes "mem_inv m" "rq_ID r = rid" "rq_ServerID r \<in> map_keys (m_servers m)"
  shows "mem_inv (m\<lparr>m_requests := map_put rid r (m_requests m)\<rparr>)"
proof (rule mem_inv_requests)
  show "keyed_by rq_ID (map_put rid r (m_requests m))"
    using assms by (simp add: keyed_by_put mem_inv_keyed)
  fix k x
  assume "(k, x) \<in> set (map_put rid r (m_requests m))"
  then show "rq_ServerID x \<in> map_keys (m_servers m)"
    using assms by (auto simp: set_map_put keyed_byD(1) mem_inv_keyed(3) mem_inv_def list_all_iff)
qed (fact assms)

lemma mem_CreateRequest_inv: "mem_inv m \<Longrightarrow> mem_inv (fst (mem_CreateRequest nid r m))"
  by (auto simp: mem_CreateRequest_def Let_def map_keys_iff split: option.splits
      intro!: mem_requests_put_inv)

lemma mem_DecideRequest_inv: "mem_inv m \<Longrightarrow> mem_inv (fst (mem_DecideRequest rid status dev now m))"
  by (auto simp: mem_DecideRequest_def Let_def split: option.splits
      intro!: mem_requests_put_inv dest: mem_inv_request_server keyed_by_map_of [OF mem_inv_keyed(3)])

lemma mem_MarkTimeout_inv: "mem_inv m \<Longrightarrow> mem_inv (fst (mem_MarkTimeout rid now m))"
  by (auto simp: mem_MarkTimeout_def split: option.splits
      intro!: mem_requests_put_inv dest: mem_inv_request_server keyed_by_map_of [OF mem_inv_keyed(3)])

lemma mem_ListWhitelist_inv: "mem_inv m \<Longrightarrow> mem_inv (fst (mem_ListWhitelist sid now m))"
  by (auto simp: mem_ListWhitelist_def Let_def
      intro!: mem_inv_whitelist keyed_by_filter unique_on_filter mem_inv_keyed mem_inv_unique
      dest: mem_inv_whitelist_server)

lemma mem_whitelist_put_inv:
  assumes "mem_inv m" "keyed_by wl_ID (map_put k e (m_whitelist m))"
    "unique_on (\<lambda>_. True) wl_key (map_put k e (m_whitelist m))"
    "\<And>sid. wl_ServerID e = Some sid \<Longrightarrow> sid \<in> map_keys (m_servers m)"
  shows "mem_inv (m\<lparr>m_whitelist := map_put k e (m_whitelist m)\<rparr>)"
  using assms
  by (auto intro!: mem_inv_whitelist simp: set_map_put keyed_byD(1) [OF mem_inv_keyed(4)]
      dest: mem_inv_whitelist_server)

lemma mem_UpsertWhitelist_inv:
  assumes inv: "mem_inv m"
  shows "mem_inv (fst (mem_UpsertWhitelist nid e now m))"
proof (cases "case wl_ServerID e of None \<Rightarrow> False | Some sid \<Rightarrow> map_of (m_servers m) sid = None")
  case True
  with inv show ?thesis by (simp add: mem_UpsertWhitelist_def)
next
  case False
  then have sid: "sid \<in> map_keys (m_servers m)" if "wl_ServerID e = Some sid" for sid
    using that by (simp add: map_keys_iff)
  let ?find = "map_find (\<lambda>x. wl_Username x = wl_Username e \<and> wl_Context x = wl_Context e \<and>
                               wl_ServerID x = wl_ServerID e) (m_whitelist m)"
  show ?thesis
  proof (cases ?find)
    case None
    then have "wl_key v' \<noteq> wl_key e" if "(k', v') \<in> set (m_whitelist m)" for k' v'
      using that by (auto simp: map_find_None_iff wl_key_def)
    then have "mem_inv (m\<lparr>m_whitelist := map_put nid (e\<lparr>wl_ID := nid, wl_CreatedAt := now\<rparr>) (m_whitelist m)\<rparr>)"
      using inv sid
      by (intro mem_whitelist_put_inv keyed_unique_insert [OF mem_inv_keyed(4) mem_inv_unique(4)])
         (auto simp: wl_key_def)
    with None False show ?thesis by (simp add: mem_UpsertWhitelist_def Let_def)
  next
    case (Some kx)
    then obtain k x where f: "?find = Some (k, x)" by (cases kx) auto
    with map_find_Some_map_of [OF mem_inv_keyed(4) [OF inv] f]
    have x: "map_of (m_whitelist m) k = Some x" "wl_ServerID x = wl_ServerID e" by auto
    then have "mem_inv (m\<lparr>m_whitelist := map_put k (x\<lparr>wl_ExpiresAt := wl_ExpiresAt e\<rparr>) (m_whitelist m)\<rparr>)"
      using inv sid
      by (intro mem_whitelist_put_inv keyed_unique_rewrite [OF mem_inv_keyed(4) mem_inv_unique(4)])
         (auto simp: wl_key_def)
    with f False show ?thesis by (simp add: mem_UpsertWhitelist_def Let_def)
  qed
qed

lemma mem_DeleteWhitelist_inv: "mem_inv m \<Longrightarrow> mem_inv (fst (mem_DeleteWhitelist wid m))"
  by (auto simp: mem_DeleteWhitelist_def set_map_del split: option.splits
      intro!: mem_inv_whitelist keyed_by_del unique_on_del mem_inv_keyed mem_inv_unique
      dest: mem_inv_whitelist_server)

lemma mem_RecordBlockedIPHit_inv: "mem_inv m \<Longrightarrow> mem_inv (fst (mem_RecordBlockedIPHit bid now m))"
  by (simp add: mem_RecordBlockedIPHit_def mem_blocked_rewrite_inv split: option.split)

lemma mem_UpsertBlockedIP_inv: "mem_inv m \<Longrightarrow> mem_inv (fst (mem_UpsertBlockedIP nid b m))"
  by (auto simp: mem_UpsertBlockedIP_def Let_def mem_blocked_insert_inv split: option.split
      dest!: map_find_Some_map_of [OF mem_inv_keyed(5), rotated] elim!: mem_blocked_rewrite_inv)

lemma mem_UnblockIP_inv: "mem_inv m \<Longrightarrow> mem_inv (fst (mem_UnblockIP bid now m))"
  by (simp add: mem_UnblockIP_def mem_blocked_rewrite_inv split: option.split)

lemma mem_CreateGeoRule_inv: "mem_inv m \<Longrightarrow> mem_inv (fst (mem_CreateGeoRule nid country note now m))"
  by (simp add: mem_CreateGeoRule_def Let_def mem_geoRules_insert_inv split: option.split)

lemma mem_DeleteGeoRule_inv: "mem_inv m \<Longrightarrow> mem_inv (fst (mem_DeleteGeoRule gid m))"
  by (auto simp: mem_DeleteGeoRule_def split: option.splits
      intro!: mem_inv_geoRules keyed_by_del unique_on_del mem_inv_keyed mem_inv_unique)

lemmas mem_ops_inv =
  mem_CreateServer_inv mem_TouchServer_inv mem_UpsertDevice_inv mem_DeleteDevice_inv
  mem_CreateRequest_inv mem_DecideRequest_inv mem_MarkTimeout_inv mem_ListWhitelist_inv
  mem_UpsertWhitelist_inv mem_DeleteWhitelist_inv mem_RecordBlockedIPHit_inv mem_UpsertBlockedIP_inv
  mem_UnblockIP_inv mem_CreateGeoRule_inv mem_DeleteGeoRule_inv

lemma mem_step_inv: "mem_step m m' \<Longrightarrow> mem_inv m \<Longrightarrow> mem_inv m'"
  by (induction rule: mem_step.induct) (auto intro: mem_ops_inv)

lemma mem_steps_inv: "mem_steps m m' \<Longrightarrow> mem_inv m \<Longrightarrow> mem_inv m'"
  by (induction rule: mem_steps.induct) (auto intro: mem_step_inv)

section \<open>How the request rows evolve\<close>

lemma rows_evolve_put_fresh:
  "k \<notin> map_keys rs \<Longrightarrow> rows_evolve (map_of rs) (map_of (map_put k r rs))"
  by (auto intro!: rows_evolveI simp: map_keys_iff)

lemma rows_evolve_put:
  "map_of rs k = Some w \<Longrightarrow> same_login w r \<Longrightarrow> decision_step w r \<Longrightarrow>
   rows_evolve (map_of rs) (map_of (map_put k r rs))"
  by (auto intro!: rows_evolveI)

lemma mem_CreateRequest_evolve:
  "nid \<notin> map_keys (m_requests m) \<Longrightarrow>
   rows_evolve (map_of (m_requests m)) (map_of (m_requests (fst (mem_CreateRequest nid r m))))"
  by (simp add: mem_CreateRequest_def Let_def rows_evolve_put_fresh del: map_of_map_put split: option.split)

lemma mem_DecideRequest_evolve:
  "status \<in> {StatusApproved, StatusDenied} \<Longrightarrow>
   rows_evolve (map_of (m_requests m)) (map_of (m_requests (fst (mem_DecideRequest rid status dev now m))))"
  by (auto simp: mem_DecideRequest_def Let_def same_login_def decision_step_def admin_decided_def
      intro!: rows_evolve_put simp del: map_of_map_put split: option.split)

lemma mem_MarkTimeout_evolve:
  "rows_evolve (map_of (m_requests m)) (map_of (m_requests (fst (mem_MarkTimeout rid now m))))"
  by (auto simp: mem_MarkTimeout_def same_login_def decision_step_def timed_out_def
      intro!: rows_evolve_put simp del: map_of_map_put split: option.split)

lemma mem_other_requests [simp]:
  "m_requests (fst (mem_CreateServer nid name hash os now m)) = m_requests m"
  "m_requests (fst (mem_TouchServer sid now m)) = m_requests m"
  "m_requests (fst (mem_UpsertDevice nid token platform label now m)) = m_requests m"
  "m_requests (fst (mem_DeleteDevice did now m)) = m_requests m"
  "m_requests (fst (mem_ListWhitelist wsid now m)) = m_requests m"
  "m_requests (fst (mem_UpsertWhitelist nid e now m)) = m_requests m"
  "m_requests (fst (mem_DeleteWhitelist wid m)) = m_requests m"
  "m_requests (fst (mem_RecordBlockedIPHit bid now m)) = m_requests m"
  "m_requests (fst (mem_UpsertBlockedIP nid b m)) = m_requests m"
  "m_requests (fst (mem_UnblockIP bid now m)) = m_requests m"
  "m_requests (fst (mem_CreateGeoRule nid country note now m)) = m_requests m"
  "m_requests (fst (mem_DeleteGeoRule gid m)) = m_requests m"
  by (simp_all add: mem_CreateServer_def mem_TouchServer_def mem_UpsertDevice_def mem_DeleteDevice_def
      mem_ListWhitelist_def mem_UpsertWhitelist_def mem_DeleteWhitelist_def mem_RecordBlockedIPHit_def
      mem_UpsertBlockedIP_def mem_UnblockIP_def mem_CreateGeoRule_def mem_DeleteGeoRule_def Let_def
      split: option.split)

lemma mem_step_evolve:
  "mem_step m m' \<Longrightarrow> rows_evolve (map_of (m_requests m)) (map_of (m_requests m'))"
  by (induction rule: mem_step.induct)
     (simp_all add: mem_CreateRequest_evolve mem_DecideRequest_evolve mem_MarkTimeout_evolve)

lemma mem_steps_evolve:
  "mem_steps m m' \<Longrightarrow> rows_evolve (map_of (m_requests m)) (map_of (m_requests m'))"
  by (induction rule: mem_steps.induct) (auto intro: rows_evolve_trans mem_step_evolve)

lemma mem_steps_trans: "mem_steps m m' \<Longrightarrow> mem_steps m' m'' \<Longrightarrow> mem_steps m m''"
  by (rotate_tac, induction rule: mem_steps.induct) (auto intro: mem_steps.one_more)

lemma requestView_same [simp]:
  "same_login r (requestView m r)" "same_decision r (requestView m r)"
  "rq_ID (requestView m r) = rq_ID r" "rq_Status (requestView m r) = rq_Status r"
  "rq_ServerID (requestView m r) = rq_ServerID r" "rq_CreatedAt (requestView m r) = rq_CreatedAt r"
  "rq_Username (requestView m r) = rq_Username r" "rq_Context (requestView m r) = rq_Context r"
  "rq_SourceIP (requestView m r) = rq_SourceIP r" "rq_ExpiresAt (requestView m r) = rq_ExpiresAt r"
  "rq_DecidedAt (requestView m r) = rq_DecidedAt r" "rq_DecidedBy (requestView m r) = rq_DecidedBy r"
  by (simp_all add: requestView_def same_login_def same_decision_def)

lemma memory_store_sel [wiring]:
  "st_Ping memory_store = mem_Ping"
  "st_CreateServer memory_store = mem_CreateServer"
  "st_ServerByTokenHash memory_store = mem_ServerByTokenHash"
  "st_ServerByName memory_store = mem_ServerByName"
  "st_TouchServer memory_store = mem_TouchServer"
  "st_UpsertDevice memory_store = mem_UpsertDevice"
  "st_DeviceByID memory_store = mem_DeviceByID"
  "st_ListDevices memory_store = mem_ListDevices"
  "st_DeleteDevice memory_store = mem_DeleteDevice"
  "st_CreateRequest memory_store = mem_CreateRequest"
  "st_RequestByID memory_store = mem_RequestByID"
  "st_DecideRequest memory_store = mem_DecideRequest"
  "st_MarkTimeout memory_store = mem_MarkTimeout"
  "st_ListRequests memory_store = mem_ListRequests"
  "st_CountDenials memory_store = mem_CountDenials"
  "st_FindWhitelist memory_store = mem_FindWhitelist"
  "st_ListWhitelist memory_store = mem_ListWhitelist"
  "st_UpsertWhitelist memory_store = mem_UpsertWhitelist"
  "st_WhitelistByID memory_store = mem_WhitelistByID"
  "st_DeleteWhitelist memory_store = mem_DeleteWhitelist"
  "st_BlockedIPByIP memory_store = mem_BlockedIPByIP"
  "st_RecordBlockedIPHit memory_store = mem_RecordBlockedIPHit"
  "st_ListBlockedIPs memory_store = mem_ListBlockedIPs"
  "st_UpsertBlockedIP memory_store = mem_UpsertBlockedIP"
  "st_UnblockIP memory_store = mem_UnblockIP"
  "st_ListGeoRules memory_store = mem_ListGeoRules"
  "st_GeoRuleByCountry memory_store = mem_GeoRuleByCountry"
  "st_CreateGeoRule memory_store = mem_CreateGeoRule"
  "st_DeleteGeoRule memory_store = mem_DeleteGeoRule"
  by (simp_all add: memory_store_def)

interpretation mem_req: request_store memory_store mem_inv "\<lambda>m. map_of (m_requests m)"
proof (unfold_locales, goal_cases)
  case (1 s rid r)
  then show ?case by (simp add: wiring mem_RequestByID_def)
next
  case (2 s rid)
  then show ?case by (simp add: wiring mem_RequestByID_def)
next
  case (3 s nid r s' v)
  then have s': "s' = fst (mem_CreateRequest nid r s)" by (simp add: wiring)
  have "mem_inv s'" "rows_evolve (map_of (m_requests s)) (map_of (m_requests s'))"
    using 3 unfolding s' by (simp_all add: mem_CreateRequest_inv mem_CreateRequest_evolve map_keys_iff)
  with 3 show ?case
    by (auto simp: wiring mem_CreateRequest_def Let_def same_login_def same_decision_def requestView_def
        split: option.splits if_splits)
next
  case (4 s rid r now status dev)
  then show ?case
    using mem_DecideRequest_inv [of s rid status dev now]
      mem_DecideRequest_evolve [of status s rid dev now]
    by (auto simp: wiring mem_DecideRequest_def Let_def)
next
  case (5 s rid r now status dev)
  then show ?case by (auto simp: wiring mem_DecideRequest_def)
next
  case (6 s rid status dev now)
  then show ?case by (simp add: wiring mem_DecideRequest_def)
next
  case (7 s rid r now)
  then show ?case
    using mem_MarkTimeout_inv [of s rid now] mem_MarkTimeout_evolve [of s rid now]
    by (auto simp: wiring mem_MarkTimeout_def)
next
  case (8 s rid r now)
  then show ?case by (simp add: wiring mem_MarkTimeout_def)
qed

section \<open>The searches\<close>

interpretation mem_srv: server_store memory_store mem_inv "\<lambda>m. snd ` set (m_servers m)"
proof (unfold_locales, goal_cases)
  case (1 s srv)
  then obtain k where k: "(k, srv) \<in> set (m_servers s)" by auto
  have "map_find (\<lambda>w. True \<and> sv_TokenHash w = sv_TokenHash srv) (m_servers s) = Some (k, srv)"
    using map_find_unique [OF keyed_byD(1) [OF mem_inv_keyed(1) [OF 1(1)]] mem_inv_unique(2) [OF 1(1)] k]
    by simp
  then show ?case by (simp add: wiring mem_ServerByTokenHash_def)
next
  case (2 s hash)
  then have "map_find (\<lambda>w. sv_TokenHash w = hash) (m_servers s) = None"
    by (auto simp: map_find_None_iff)
  then show ?case by (simp add: wiring mem_ServerByTokenHash_def)
qed

definition mem_block :: "memory \<Rightarrow> string \<Rightarrow> BlockedIP option" where
  "mem_block m ip = map_option snd (map_find (\<lambda>b. bi_IP b = ip) (m_blocked m))"

lemma mem_block_iff:
  assumes "mem_inv m"
  shows "mem_block m ip = Some b \<longleftrightarrow> map_of (m_blocked m) (bi_ID b) = Some b \<and> bi_IP b = ip"
proof
  assume "mem_block m ip = Some b"
  then show "map_of (m_blocked m) (bi_ID b) = Some b \<and> bi_IP b = ip"
    by (auto simp: mem_block_def dest!: map_find_Some_map_of [OF mem_inv_keyed(5) [OF assms]])
next
  assume "map_of (m_blocked m) (bi_ID b) = Some b \<and> bi_IP b = ip"
  then show "mem_block m ip = Some b"
    using map_find_unique [OF keyed_byD(1) [OF mem_inv_keyed(5) [OF assms]] mem_inv_unique(5) [OF assms], of "bi_ID b" b ip]
    by (auto simp: mem_block_def dest: map_of_SomeD)
qed

lemma mem_BlockedIPByIP_block:
  "mem_BlockedIPByIP ip m = (case mem_block m ip of Some b \<Rightarrow> Inr b | None \<Rightarrow> Inl ErrNotFound)"
  by (auto simp: mem_BlockedIPByIP_def mem_block_def split: option.splits)

lemma mem_UpsertBlockedIP_block:
  assumes inv: "mem_inv m" and up: "mem_UpsertBlockedIP nid b m = (m', r)"
  shows "\<exists>c. r = Inr c \<and> mem_block m' (bi_IP b) = Some c \<and>
    c = b\<lparr>bi_ID := bi_ID c, bi_HitCount := 0, bi_LastHitAt := None,
          bi_Reason := (if bi_Reason b = [] then ''autoblock'' else bi_Reason b)\<rparr>"
proof -
  have inv': "mem_inv m'" using mem_UpsertBlockedIP_inv [OF inv, of nid b] up by simp
  show ?thesis
    using up unfolding mem_UpsertBlockedIP_def
    by (auto simp: Let_def mem_block_iff [OF inv'] split: option.splits
        dest!: map_find_Some_map_of [OF mem_inv_keyed(5) [OF inv]])
qed

interpretation mem_blk: block_store memory_store mem_inv
  "\<lambda>m nid. nid \<notin> map_keys (m_blocked m)" mem_block
proof (unfold_locales, goal_cases)
  case (1 s ip b)
  then show ?case by (simp add: wiring mem_BlockedIPByIP_block)
next
  case (2 s ip)
  then show ?case by (simp add: wiring mem_BlockedIPByIP_block)
next
  case (3 s ip b now)
  define s' where "s' = fst (mem_RecordBlockedIPHit (bi_ID b) now s)"
  have inv': "mem_inv s'" using 3(1) by (simp add: s'_def mem_RecordBlockedIPHit_inv)
  from 3 have b: "map_of (m_blocked s) (bi_ID b) = Some b" "bi_IP b = ip" by (simp_all add: mem_block_iff)
  then have "mem_block s' ip = Some (b\<lparr>bi_HitCount := bi_HitCount b + 1, bi_LastHitAt := Some now\<rparr>)"
    by (simp add: mem_block_iff [OF inv']) (simp add: s'_def mem_RecordBlockedIPHit_def)
  with inv' b show ?case by (auto simp: wiring s'_def mem_RecordBlockedIPHit_def)
next
  case (4 s nid b)
  obtain s' r where up: "mem_UpsertBlockedIP nid b s = (s', r)" by fastforce
  with mem_UpsertBlockedIP_inv [OF 4(1), of nid b] mem_UpsertBlockedIP_block [OF 4(1) up] 4(3)
  show ?case by (auto simp: wiring)
qed

section \<open>Counting denials\<close>

definition is_denial :: "string \<Rightarrow> time \<Rightarrow> Request \<Rightarrow> bool" where
  "is_denial ip since r \<longleftrightarrow>
     rq_Status r = StatusDenied \<and> rq_SourceIP r = Some ip \<and>
     (case rq_DecidedAt r of None \<Rightarrow> False | Some at \<Rightarrow> since \<le> at)"

lemma ds_Count_fold:
  "ds_Count (foldl (count_denial ip since) st rs) =
   ds_Count st + int (length (filter (is_denial ip since) rs))"
  by (induction rs arbitrary: st) (auto simp: count_denial_def is_denial_def split: option.split)

lemma denials_filter:
  assumes "keyed_by rq_ID m"
  shows "card (denials (map_of m) ip since) = length (filter (is_denial ip since) (map snd m))"
proof -
  have "denials (map_of m) ip since = fst ` set (filter (\<lambda>kv. is_denial ip since (snd kv)) m)"
    using keyed_by_mem_iff [OF assms]
    by (force simp: denials_def is_denial_def split: option.splits)
  also have "card \<dots> = length (filter (\<lambda>kv. is_denial ip since (snd kv)) m)"
    using keyed_byD(1) [OF assms]
    by (metis distinct_card distinct_map_filter length_map set_map)
  finally show ?thesis by (simp add: filter_map comp_def)
qed

interpretation mem_auto: autoblock_store memory_store mem_inv
  "\<lambda>m nid. nid \<notin> map_keys (m_blocked m)" mem_block "\<lambda>m. map_of (m_requests m)"
  by unfold_locales
     (simp add: wiring mem_CountDenials_def ds_Count_fold denials_filter mem_inv_keyed(3))

section \<open>Finding a whitelist entry\<close>

lemma find_whitelist_SomeD:
  "find_whitelist u c sid now g es = Some e \<Longrightarrow> g = Some e \<or> (e \<in> set es \<and> wl_covers u c sid now e)"
proof (induction es arbitrary: g)
  case (Cons x es)
  then show ?case
    by (auto simp: wl_covers_unexpired split: if_splits option.splits dest!: Cons.IH)
qed simp

lemma find_whitelist_NoneD:
  "find_whitelist u c sid now g es = None \<Longrightarrow> g = None \<and> (\<forall>e\<in>set es. \<not> wl_covers u c sid now e)"
proof (induction es arbitrary: g)
  case (Cons x es)
  show ?case
    using Cons.prems Cons.IH [of g] Cons.IH [of "Some x"]
    by (simp add: wl_covers_unexpired split: if_splits option.splits) blast
qed simp

text \<open>A server's own entry wins over an entry for every server.\<close>

lemma find_whitelist_specific:
  "e \<in> set es \<Longrightarrow> wl_covers u c sid now e \<Longrightarrow> wl_ServerID e = Some sid \<Longrightarrow>
   \<exists>w\<in>set es. find_whitelist u c sid now g es = Some w \<and> wl_covers u c sid now w \<and> wl_ServerID w = Some sid"
proof (induction es arbitrary: g)
  case (Cons x es)
  show ?case
  proof (cases "wl_covers u c sid now x \<and> wl_ServerID x = Some sid")
    case True
    then show ?thesis by (auto simp: wl_covers_unexpired)
  next
    case False
    with Cons.prems have "e \<in> set es" by auto
    with Cons.IH Cons.prems(2,3) have IH: "\<exists>w\<in>set es. find_whitelist u c sid now g es = Some w \<and>
        wl_covers u c sid now w \<and> wl_ServerID w = Some sid" for g
      by blast
    have "\<exists>g'. find_whitelist u c sid now g (x # es) = find_whitelist u c sid now g' es"
      using False by (auto simp: wl_covers_unexpired split: option.split)
    with IH show ?thesis by fastforce
  qed
qed simp

lemma whitelistView_same [simp]:
  "same_entry e (whitelistView m e)" "wl_ID (whitelistView m e) = wl_ID e"
  "wl_CreatedAt (whitelistView m e) = wl_CreatedAt e"
  by (simp_all add: whitelistView_def same_entry_def)

lemma mem_UpsertWhitelist_saved:
  assumes inv: "mem_inv m" and up: "mem_UpsertWhitelist nid e now m = (m', Inr (saved, created))"
  shows "\<exists>x\<in>snd ` set (m_whitelist m'). wl_Username x = wl_Username e \<and> wl_Context x = wl_Context e \<and>
    wl_ServerID x = wl_ServerID e \<and> wl_ExpiresAt x = wl_ExpiresAt e \<and> same_entry x saved"
proof (cases "map_find (\<lambda>x. wl_Username x = wl_Username e \<and> wl_Context x = wl_Context e \<and>
                            wl_ServerID x = wl_ServerID e) (m_whitelist m)")
  case None
  let ?c = "e\<lparr>wl_ID := nid, wl_CreatedAt := now\<rparr>"
  from None up have "m_whitelist m' = map_put nid ?c (m_whitelist m)" "same_entry ?c saved"
    by (auto simp: mem_UpsertWhitelist_def Let_def split: if_splits)
  then show ?thesis
    using keyed_byD(1) [OF mem_inv_keyed(4) [OF inv]] by (simp add: set_map_put)
next
  case (Some kx)
  then obtain k x where f: "kx = (k, x)" by (cases kx)
  let ?x = "x\<lparr>wl_ExpiresAt := wl_ExpiresAt e\<rparr>"
  from Some f up have "m_whitelist m' = map_put k ?x (m_whitelist m)" "same_entry ?x saved"
    by (auto simp: mem_UpsertWhitelist_def Let_def split: if_splits)
  moreover from Some f have "wl_Username x = wl_Username e \<and> wl_Context x = wl_Context e \<and> wl_ServerID x = wl_ServerID e"
    using map_find_SomeD by fastforce
  ultimately show ?thesis
    using keyed_byD(1) [OF mem_inv_keyed(4) [OF inv]] by (simp add: set_map_put)
qed

text \<open>\<^verbatim>\<open>ListWhitelist\<close> drops what has expired and returns what is left in scope.\<close>

lemma mem_ListWhitelist_rows:
  assumes "mem_ListWhitelist srv now m = (m', r)"
  shows "snd ` set (m_whitelist m') = {e \<in> snd ` set (m_whitelist m). unexpired (wl_ExpiresAt e) now}"
    "\<exists>rows. r = Inr rows \<and>
       set rows = whitelistView m' ` {e \<in> snd ` set (m_whitelist m'). wl_in_scope srv e}"
proof -
  have m': "m_whitelist m' = filter (\<lambda>(_, e). unexpired (wl_ExpiresAt e) now) (m_whitelist m)"
    using assms by (auto simp: mem_ListWhitelist_def Let_def)
  show "snd ` set (m_whitelist m') = {e \<in> snd ` set (m_whitelist m). unexpired (wl_ExpiresAt e) now}"
    by (auto simp: m' image_iff)
  have scope: "(\<not> (case (srv, wl_ServerID e) of (Some sid, Some x) \<Rightarrow> x \<noteq> sid | _ \<Rightarrow> False)) = wl_in_scope srv e" for e
    by (auto simp: wl_in_scope_def split: option.splits)
  from assms [unfolded mem_ListWhitelist_def Let_def scope]
  have "r = Inr (sort_key (\<lambda>e. (- wl_CreatedAt e, wl_ID e))
      (map (whitelistView m') (filter (wl_in_scope srv) (map snd (m_whitelist m')))))"
    by auto
  then show "\<exists>rows. r = Inr rows \<and>
       set rows = whitelistView m' ` {e \<in> snd ` set (m_whitelist m'). wl_in_scope srv e}"
    by (auto intro!: exI)
qed

interpretation mem_wl: whitelist_store memory_store mem_inv "\<lambda>m. snd ` set (m_whitelist m)"
proof (unfold_locales, goal_cases)
  case (1 s e u c sid now)
  then obtain w where w: "find_whitelist u c sid now None (map snd (m_whitelist s)) = Some w"
    using find_whitelist_NoneD [of u c sid now None "map snd (m_whitelist s)"] by fastforce
  with find_whitelist_SomeD [OF w] show ?case
    by (auto simp: wiring mem_FindWhitelist_def intro!: bexI [of _ w])
next
  case (2 s u c sid now)
  then have "find_whitelist u c sid now None (map snd (m_whitelist s)) = None"
    using find_whitelist_SomeD [of u c sid now None "map snd (m_whitelist s)"]
    by (cases "find_whitelist u c sid now None (map snd (m_whitelist s))") auto
  then show ?case by (simp add: wiring mem_FindWhitelist_def)
next
  case (3 s nid e now s' saved created)
  then show ?case
    using mem_UpsertWhitelist_inv [OF 3(1), of nid e now] mem_UpsertWhitelist_saved [OF 3(1), of nid e now s']
    by (simp add: wiring)
next
  case (4 s srv now)
  obtain s' r where l: "mem_ListWhitelist srv now s = (s', r)" by fastforce
  from mem_ListWhitelist_rows(2) [OF l] obtain rows where
    "r = Inr rows" "set rows = whitelistView s' ` {e \<in> snd ` set (m_whitelist s'). wl_in_scope srv e}"
    by blast
  moreover have "mem_inv s'" using mem_ListWhitelist_inv [OF 4, of srv now] l by simp
  ultimately show ?case
    using l mem_ListWhitelist_rows(1) [OF l] by (intro exI [of _ s'] exI [of _ rows]) (auto simp: wiring)
qed

section \<open>Geo rules\<close>

interpretation mem_geo: geo_store memory_store mem_inv "\<lambda>m. gr_Country ` snd ` set (m_geoRules m)"
proof (unfold_locales, goal_cases)
  case (1 s country)
  then show ?case
    by (auto simp: wiring mem_GeoRuleByCountry_def map_find_None_iff split: option.split dest!: map_find_SomeD)
next
  case (2 s country)
  then show ?case
    by (force simp: wiring mem_GeoRuleByCountry_def split: option.split dest!: map_find_SomeD)
qed

end
