(* ===== verification/Rules.thy ===== *)
theory Rules
  imports Memory_Laws Go_Strings
begin

text \<open>
  The rules engine of \<^verbatim>\<open>backend/internal/rules/rules.go\<close>: what happens to an access request before
  any push goes out, and the auto-block that counts admin denials.

  An engine is its store dictionary \<open>S\<close> and its configuration; the clock reading of \<^verbatim>\<open>Evaluate\<close> is the
  argument \<open>now\<close>. The error of a failed query is passed on as it is (the code wraps it in a message
  and keeps its identity).

  The second half proves, against the contracts of \<open>Store\<close>, that \<open>Evaluate\<close> implements the decision
  table of the package comment and \<open>RecordDenial\<close> the threshold; the interpretation at the end
  discharges the contracts for the in-memory store.
\<close>

section \<open>Configuration\<close>

record RulesConfig =
  rc_Threshold :: int
  rc_Window :: duration
  rc_BlockDuration :: duration

definition rules_DefaultConfig :: RulesConfig where
  "rules_DefaultConfig = \<lparr> rc_Threshold = 3, rc_Window = Hour, rc_BlockDuration = 0 \<rparr>"

definition rules_New :: "RulesConfig \<Rightarrow> RulesConfig" where
  "rules_New cfg =
     (let cfg = (if rc_Threshold cfg \<le> 0 then cfg\<lparr>rc_Threshold := rc_Threshold rules_DefaultConfig\<rparr> else cfg)
      in if rc_Window cfg \<le> 0 then cfg\<lparr>rc_Window := rc_Window rules_DefaultConfig\<rparr> else cfg)"

section \<open>Evaluation\<close>

record RulesInput =
  ri_ServerID :: string
  ri_Username :: string
  ri_Context :: string
  ri_SourceIP :: "string option"
  ri_Country :: string
  ri_Mode :: string

record Outcome =
  oc_Status :: string
  oc_DecidedBy :: "string option"
  oc_BlockedIP :: "BlockedIP option"
  oc_GeoRule :: "GeoRule option"
  oc_Whitelist :: "WhitelistEntry option"

definition outcome :: "string \<Rightarrow> string option \<Rightarrow> Outcome" where
  "outcome status by = \<lparr> oc_Status = status, oc_DecidedBy = by, oc_BlockedIP = None, oc_GeoRule = None,
                         oc_Whitelist = None \<rparr>"

definition Outcome_Pending :: "Outcome \<Rightarrow> bool" where
  "Outcome_Pending oc \<longleftrightarrow> oc_Status oc = StatusPending"

text \<open>Each rule either decides (\<open>Some\<close>) or leaves the request to the next one (\<open>None\<close>).\<close>

definition evaluate_ip ::
  "'s Store \<Rightarrow> time \<Rightarrow> RulesInput \<Rightarrow> 's \<Rightarrow> 's \<times> (store_error, Outcome option) result" where
  "evaluate_ip S now inp s =
     (case ri_SourceIP inp of
        None \<Rightarrow> (s, Inr None)
      | Some ip \<Rightarrow>
          if ip = [] then (s, Inr None)
          else (case st_BlockedIPByIP S ip s of
                  Inl err \<Rightarrow> (s, if err = ErrNotFound then Inr None else Inl err)
                | Inr b \<Rightarrow>
                    if BlockedIP_Active b now then
                      (case st_RecordBlockedIPHit S (bi_ID b) now s of
                         (s', Some err) \<Rightarrow> (s', Inl err)
                       | (s', None) \<Rightarrow>
                           (s', Inr (Some (outcome StatusBlockedIP (Some DecidedByAutoblock)
                                             \<lparr>oc_BlockedIP := Some b\<rparr>))))
                    else (s, Inr None)))"

definition evaluate_geo :: "'s Store \<Rightarrow> RulesInput \<Rightarrow> 's \<Rightarrow> (store_error, Outcome option) result" where
  "evaluate_geo S inp s =
     (let country = ToUpper (TrimSpace (ri_Country inp)) in
      if country = [] then Inr None
      else (case st_GeoRuleByCountry S country s of
              Inl err \<Rightarrow> if err = ErrNotFound then Inr None else Inl err
            | Inr g \<Rightarrow> Inr (Some (outcome StatusBlockedGeo (Some DecidedByGeoRule)\<lparr>oc_GeoRule := Some g\<rparr>))))"

definition evaluate_whitelist ::
  "'s Store \<Rightarrow> time \<Rightarrow> RulesInput \<Rightarrow> 's \<Rightarrow> (store_error, Outcome option) result" where
  "evaluate_whitelist S now inp s =
     (case st_FindWhitelist S (ri_Username inp) (ri_Context inp) (ri_ServerID inp) now s of
        Inl err \<Rightarrow> if err = ErrNotFound then Inr None else Inl err
      | Inr w \<Rightarrow> Inr (Some (outcome StatusWhitelisted (Some DecidedByWhitelist)\<lparr>oc_Whitelist := Some w\<rparr>)))"

definition Evaluate ::
  "'s Store \<Rightarrow> time \<Rightarrow> RulesInput \<Rightarrow> 's \<Rightarrow> 's \<times> (store_error, Outcome) result" where
  "Evaluate S now inp s =
     (case evaluate_ip S now inp s of
        (s', Inl err) \<Rightarrow> (s', Inl err)
      | (s', Inr (Some oc)) \<Rightarrow> (s', Inr oc)
      | (s', Inr None) \<Rightarrow>
          (s', case evaluate_geo S inp s' of
                 Inl err \<Rightarrow> Inl err
               | Inr (Some oc) \<Rightarrow> Inr oc
               | Inr None \<Rightarrow>
                   (case evaluate_whitelist S now inp s' of
                      Inl err \<Rightarrow> Inl err
                    | Inr (Some oc) \<Rightarrow> Inr oc
                    | Inr None \<Rightarrow>
                        if ri_Mode inp = ModeNotify then Inr (outcome StatusNotified None)
                        else Inr (outcome StatusPending None))))"

section \<open>Counting denials\<close>

text \<open>From when denials count: the window, cut at the end of an earlier block. \<open>None\<close> when the
  address is blocked right now.\<close>

definition denial_since :: "RulesConfig \<Rightarrow> time \<Rightarrow> BlockedIP option \<Rightarrow> time option" where
  "denial_since cfg now existing =
     (let since = now - rc_Window cfg in
      case existing of
        None \<Rightarrow> Some since
      | Some b \<Rightarrow>
          if BlockedIP_Active b now then None
          else (case bi_ExpiresAt b of
                  Some e \<Rightarrow> if since < e then Some e else Some since
                | None \<Rightarrow> Some since))"

definition autoblock_row :: "RulesConfig \<Rightarrow> time \<Rightarrow> string \<Rightarrow> DenialStats \<Rightarrow> BlockedIP" where
  "autoblock_row cfg now ip stats =
     \<lparr> bi_ID = [], bi_IP = ip, bi_Reason = ''autoblock'', bi_DenialCount = ds_Count stats,
       bi_FirstDeniedAt = ds_First stats, bi_LastDeniedAt = ds_Last stats, bi_HitCount = 0,
       bi_LastHitAt = None, bi_CreatedAt = now,
       bi_ExpiresAt = (if 0 < rc_BlockDuration cfg then Some (now + rc_BlockDuration cfg) else None) \<rparr>"

definition RecordDenial ::
  "'s Store \<Rightarrow> RulesConfig \<Rightarrow> string \<Rightarrow> string \<Rightarrow> time \<Rightarrow> 's \<Rightarrow> 's \<times> (store_error, BlockedIP option) result" where
  "RecordDenial S cfg nid ip now s =
     (case (case st_BlockedIPByIP S ip s of
              Inl err \<Rightarrow> if err = ErrNotFound then Inr None else Inl err
            | Inr b \<Rightarrow> Inr (Some b)) of
        Inl err \<Rightarrow> (s, Inl err)
      | Inr existing \<Rightarrow>
          (case denial_since cfg now existing of
             None \<Rightarrow> (s, Inr None)
           | Some since \<Rightarrow>
               (case st_CountDenials S ip since s of
                  Inl err \<Rightarrow> (s, Inl err)
                | Inr stats \<Rightarrow>
                    if ds_Count stats < rc_Threshold cfg then (s, Inr None)
                    else (case st_UpsertBlockedIP S nid (autoblock_row cfg now ip stats) s of
                            (s', Inl err) \<Rightarrow> (s', Inl err)
                          | (s', Inr created) \<Rightarrow> (s', Inr (Some created))))))"

section \<open>The decision table\<close>

text \<open>The specification of the package comment: the first rule that applies decides.\<close>

definition rules_decision :: "bool \<Rightarrow> bool \<Rightarrow> bool \<Rightarrow> string \<Rightarrow> string \<times> string option" where
  "rules_decision blocked geo listed mode =
     (if blocked then (StatusBlockedIP, Some DecidedByAutoblock)
      else if geo then (StatusBlockedGeo, Some DecidedByGeoRule)
      else if listed then (StatusWhitelisted, Some DecidedByWhitelist)
      else if mode = ModeNotify then (StatusNotified, None)
      else (StatusPending, None))"

text \<open>When the first two rules apply, in terms of the rows of the store.\<close>

definition ip_blocked :: "(string \<Rightarrow> BlockedIP option) \<Rightarrow> string option \<Rightarrow> time \<Rightarrow> bool" where
  "ip_blocked rows ip now \<longleftrightarrow>
     (case ip of
        None \<Rightarrow> False
      | Some a \<Rightarrow> a \<noteq> [] \<and> (case rows a of None \<Rightarrow> False
                                 | Some b \<Rightarrow> (case bi_ExpiresAt b of None \<Rightarrow> True | Some e \<Rightarrow> now < e)))"

lemma ip_blocked_Active:
  "ip_blocked rows ip now \<longleftrightarrow>
     (case ip of
        None \<Rightarrow> False
      | Some a \<Rightarrow> a \<noteq> [] \<and> (case rows a of None \<Rightarrow> False | Some b \<Rightarrow> BlockedIP_Active b now))"
  by (simp add: ip_blocked_def BlockedIP_Active_def split: option.split)

definition geo_blocked :: "string set \<Rightarrow> string \<Rightarrow> bool" where
  "geo_blocked listed country \<longleftrightarrow>
     ToUpper (TrimSpace country) \<noteq> [] \<and> ToUpper (TrimSpace country) \<in> listed"

lemma rules_New_positive:
  "0 < rc_Threshold (rules_New cfg)" "0 < rc_Window (rules_New cfg)"
  by (simp_all add: rules_New_def rules_DefaultConfig_def Let_def)

lemma rules_New_idem: "rules_New (rules_New cfg) = rules_New cfg"
  by (simp add: rules_New_def rules_DefaultConfig_def Let_def)

lemma outcome_sel [simp]:
  "oc_Status (outcome st by) = st" "oc_DecidedBy (outcome st by) = by"
  by (simp_all add: outcome_def)

text \<open>Whatever the store answers, an outcome carries one of the five statuses of the rules.\<close>

lemma evaluate_ip_decides:
  "evaluate_ip S now inp s = (s', Inr (Some oc)) \<Longrightarrow> oc_Status oc = StatusBlockedIP"
  by (auto simp: evaluate_ip_def split: option.splits if_splits sum.splits prod.splits)

lemma evaluate_geo_decides: "evaluate_geo S inp s = Inr (Some oc) \<Longrightarrow> oc_Status oc = StatusBlockedGeo"
  by (auto simp: evaluate_geo_def Let_def split: if_splits sum.splits)

lemma evaluate_whitelist_decides:
  "evaluate_whitelist S now inp s = Inr (Some oc) \<Longrightarrow>
   oc_Status oc = StatusWhitelisted \<and>
   (\<exists>w. st_FindWhitelist S (ri_Username inp) (ri_Context inp) (ri_ServerID inp) now s = Inr w)"
  by (auto simp: evaluate_whitelist_def split: if_splits sum.splits)

lemma Evaluate_cases:
  assumes "Evaluate S now inp s = (s', Inr oc)"
  obtains "evaluate_ip S now inp s = (s', Inr (Some oc))"
  | "evaluate_geo S inp s' = Inr (Some oc)"
  | "evaluate_whitelist S now inp s' = Inr (Some oc)"
  | "ri_Mode inp = ModeNotify" "oc = outcome StatusNotified None"
  | "ri_Mode inp \<noteq> ModeNotify" "oc = outcome StatusPending None"
  using assms unfolding Evaluate_def by (simp split: prod.splits sum.splits option.splits if_splits)

lemma Evaluate_status:
  assumes "Evaluate S now inp s = (s', Inr oc)"
  shows "oc_Status oc \<in> {StatusBlockedIP, StatusBlockedGeo, StatusWhitelisted, StatusNotified, StatusPending} \<and>
   (oc_Status oc = StatusNotified \<longrightarrow> ri_Mode inp = ModeNotify) \<and>
   (oc_Status oc = StatusWhitelisted \<longrightarrow>
      (\<exists>w. st_FindWhitelist S (ri_Username inp) (ri_Context inp) (ri_ServerID inp) now s' = Inr w))"
  using assms
  by (rule Evaluate_cases)
     (auto dest!: evaluate_ip_decides evaluate_geo_decides evaluate_whitelist_decides)

locale rules_store =
  autoblock_store S inv fresh blk row + whitelist_store S inv entries + geo_store S inv countries
  for S :: "'s Store" and inv fresh blk row entries countries +
  assumes RecordBlockedIPHit_frame:
    "row (fst (st_RecordBlockedIPHit S bid now s)) = row s"
    "entries (fst (st_RecordBlockedIPHit S bid now s)) = entries s"
begin

lemma evaluate_ip_blocked:
  assumes "inv s" "ip_blocked (blk s) (ri_SourceIP inp) now"
  shows "\<exists>s' oc. evaluate_ip S now inp s = (s', Inr (Some oc)) \<and> inv s' \<and>
           oc_Status oc = StatusBlockedIP \<and> oc_DecidedBy oc = Some DecidedByAutoblock"
proof -
  from assms(2) obtain a b where b: "ri_SourceIP inp = Some a" "a \<noteq> []" "blk s a = Some b"
    "BlockedIP_Active b now"
    by (auto simp: ip_blocked_Active split: option.splits)
  with RecordBlockedIPHit_ok [OF assms(1) b(3), of now] BlockedIPByIP_found [OF assms(1) b(3)]
  show ?thesis by (auto simp: evaluate_ip_def)
qed

lemma evaluate_ip_free:
  assumes "inv s" "\<not> ip_blocked (blk s) (ri_SourceIP inp) now"
  shows "evaluate_ip S now inp s = (s, Inr None)"
proof (cases "ri_SourceIP inp")
  case (Some a)
  show ?thesis
  proof (cases "blk s a")
    case None
    with Some assms BlockedIPByIP_missing show ?thesis by (simp add: evaluate_ip_def)
  next
    case (Some b)
    with \<open>ri_SourceIP inp = Some a\<close> assms BlockedIPByIP_found show ?thesis
      by (auto simp: evaluate_ip_def ip_blocked_Active)
  qed
qed (simp add: evaluate_ip_def)

lemma evaluate_geo_iff:
  assumes "inv s"
  shows "\<exists>oc. evaluate_geo S inp s = Inr oc \<and> (oc \<noteq> None \<longleftrightarrow> geo_blocked (countries s) (ri_Country inp)) \<and>
           (\<forall>x. oc = Some x \<longrightarrow> oc_Status x = StatusBlockedGeo \<and> oc_DecidedBy x = Some DecidedByGeoRule)"
  using GeoRuleByCountry_found [OF assms, of "ToUpper (TrimSpace (ri_Country inp))"]
    GeoRuleByCountry_missing [OF assms, of "ToUpper (TrimSpace (ri_Country inp))"]
  by (cases "ToUpper (TrimSpace (ri_Country inp)) \<in> countries s")
     (auto simp: evaluate_geo_def geo_blocked_def Let_def)

lemma evaluate_whitelist_iff:
  assumes "inv s"
  shows "\<exists>oc. evaluate_whitelist S now inp s = Inr oc \<and>
           (oc \<noteq> None \<longleftrightarrow>
              (\<exists>e\<in>entries s. wl_covers (ri_Username inp) (ri_Context inp) (ri_ServerID inp) now e)) \<and>
           (\<forall>x. oc = Some x \<longrightarrow> oc_Status x = StatusWhitelisted \<and> oc_DecidedBy x = Some DecidedByWhitelist)"
proof (cases "\<exists>e\<in>entries s. wl_covers (ri_Username inp) (ri_Context inp) (ri_ServerID inp) now e")
  case True
  then obtain v where
    "st_FindWhitelist S (ri_Username inp) (ri_Context inp) (ri_ServerID inp) now s = Inr v"
    using FindWhitelist_iff [OF assms] by blast
  with True show ?thesis by (simp add: evaluate_whitelist_def)
next
  case False
  with FindWhitelist_missing [OF assms] show ?thesis by (simp add: evaluate_whitelist_def)
qed

lemma Evaluate_spec:
  assumes "inv s"
  shows "\<exists>s' oc. Evaluate S now inp s = (s', Inr oc) \<and> inv s' \<and>
    (oc_Status oc, oc_DecidedBy oc) =
      rules_decision (ip_blocked (blk s) (ri_SourceIP inp) now) (geo_blocked (countries s) (ri_Country inp))
        (\<exists>e\<in>entries s. wl_covers (ri_Username inp) (ri_Context inp) (ri_ServerID inp) now e)
        (ri_Mode inp)"
proof (cases "ip_blocked (blk s) (ri_SourceIP inp) now")
  case True
  with evaluate_ip_blocked [OF assms True] show ?thesis
    by (auto simp: Evaluate_def rules_decision_def)
next
  case False
  with evaluate_ip_free [OF assms False] evaluate_geo_iff [OF assms, of inp]
    evaluate_whitelist_iff [OF assms, of now inp] assms
  show ?thesis by (auto simp: Evaluate_def rules_decision_def split: option.splits)
qed

lemma Evaluate_frame:
  assumes "Evaluate S now inp s = (s', r)"
  shows "row s' = row s" "entries s' = entries s"
proof -
  have "row (fst (evaluate_ip S now inp s)) = row s \<and> entries (fst (evaluate_ip S now inp s)) = entries s"
    using RecordBlockedIPHit_frame
    by (auto simp: evaluate_ip_def split: option.split sum.split prod.split) (metis fst_conv)+
  moreover have "s' = fst (evaluate_ip S now inp s)"
    using assms unfolding Evaluate_def by (auto split: prod.splits sum.splits option.splits)
  ultimately show "row s' = row s" "entries s' = entries s" by simp_all
qed

text \<open>The auto-block: nothing happens below the threshold or while the address is blocked;
  otherwise the address is blocked, and stays so for the configured duration.\<close>

lemma RecordDenial_spec:
  assumes "inv s" "fresh s nid"
  shows "\<exists>s' r. RecordDenial S cfg nid ip now s = (s', Inr r) \<and> inv s' \<and>
    (case denial_since cfg now (blk s ip) of
       None \<Rightarrow> s' = s \<and> r = None
     | Some since \<Rightarrow>
         if int (card (denials (row s) ip since)) < rc_Threshold cfg then s' = s \<and> r = None
         else (\<exists>b. r = Some b \<and> blk s' ip = Some b \<and> bi_IP b = ip \<and> bi_CreatedAt b = now \<and>
                   bi_DenialCount b = int (card (denials (row s) ip since)) \<and> bi_HitCount b = 0 \<and>
                   bi_ExpiresAt b = (if 0 < rc_BlockDuration cfg then Some (now + rc_BlockDuration cfg)
                                     else None)))"
proof -
  have core: "RecordDenial S cfg nid ip now s =
     (case denial_since cfg now (blk s ip) of
        None \<Rightarrow> (s, Inr None)
      | Some since \<Rightarrow>
          (case st_CountDenials S ip since s of
             Inl err \<Rightarrow> (s, Inl err)
           | Inr stats \<Rightarrow>
               if ds_Count stats < rc_Threshold cfg then (s, Inr None)
               else (case st_UpsertBlockedIP S nid (autoblock_row cfg now ip stats) s of
                       (s', Inl err) \<Rightarrow> (s', Inl err)
                     | (s', Inr created) \<Rightarrow> (s', Inr (Some created)))))"
    using BlockedIPByIP_found [OF assms(1), of ip] BlockedIPByIP_missing [OF assms(1), of ip]
    by (cases "blk s ip") (auto simp: RecordDenial_def)
  show ?thesis
  proof (cases "denial_since cfg now (blk s ip)")
    case None
    with assms show ?thesis by (simp add: core)
  next
    case (Some since)
    obtain st where st: "st_CountDenials S ip since s = Inr st"
      "ds_Count st = int (card (denials (row s) ip since))"
      using CountDenials_ok [OF assms(1), of ip since] by blast
    obtain s' c where c: "st_UpsertBlockedIP S nid (autoblock_row cfg now ip st) s = (s', Inr c)" "inv s'"
      "blk s' ip = Some c"
      "c = (autoblock_row cfg now ip st)\<lparr>bi_ID := bi_ID c, bi_HitCount := 0, bi_LastHitAt := None\<rparr>"
      using UpsertBlockedIP_ok [OF assms, of "autoblock_row cfg now ip st"]
      by (auto simp: autoblock_row_def)
    have "bi_IP c = ip" "bi_CreatedAt c = now" "bi_HitCount c = 0"
      "bi_DenialCount c = ds_Count st"
      "bi_ExpiresAt c = (if 0 < rc_BlockDuration cfg then Some (now + rc_BlockDuration cfg) else None)"
      using arg_cong [OF c(4), of bi_IP] arg_cong [OF c(4), of bi_CreatedAt]
        arg_cong [OF c(4), of bi_HitCount] arg_cong [OF c(4), of bi_DenialCount]
        arg_cong [OF c(4), of bi_ExpiresAt]
      by (simp_all add: autoblock_row_def)
    with Some st c(1-3) assms show ?thesis by (simp add: core)
  qed
qed

text \<open>Once an address was blocked, every later login from it is denied while the block lasts, for a
  whitelisted user too.\<close>

lemma RecordDenial_blocks:
  assumes "inv s" "fresh s nid" "ip \<noteq> []"
    and rd: "RecordDenial S cfg nid ip now s = (s', Inr (Some b))"
    and "0 < rc_BlockDuration cfg \<Longrightarrow> later < now + rc_BlockDuration cfg"
    and "ri_SourceIP inp = Some ip"
  shows "\<exists>s'' oc. Evaluate S later inp s' = (s'', Inr oc) \<and> oc_Status oc = StatusBlockedIP"
proof -
  from RecordDenial_spec [OF assms(1,2), of cfg ip now] rd
  have "inv s'" "blk s' ip = Some b" and
    "bi_ExpiresAt b = (if 0 < rc_BlockDuration cfg then Some (now + rc_BlockDuration cfg) else None)"
    by (auto split: option.splits if_splits)
  with assms have "ip_blocked (blk s') (ri_SourceIP inp) later"
    by (auto simp: ip_blocked_Active BlockedIP_Active_unexpired)
  with Evaluate_spec [OF \<open>inv s'\<close>, of later inp] show ?thesis
    by (auto simp: rules_decision_def)
qed

end

interpretation mem_rules: rules_store memory_store mem_inv
  "\<lambda>m nid. nid \<notin> map_keys (m_blocked m)" mem_block "\<lambda>m. map_of (m_requests m)"
  "\<lambda>m. snd ` set (m_whitelist m)" "\<lambda>m. gr_Country ` snd ` set (m_geoRules m)"
  by unfold_locales
     (simp_all add: wiring mem_RecordBlockedIPHit_def split: option.split)

end
