(* ===== verification/Sha256.thy ===== *)
theory Sha256
  imports Prelude "HOL-Library.Word"
begin

text \<open>
  SHA-256 (FIPS 180-4) and hexadecimal encoding, the two library functions behind \<^verbatim>\<open>HashToken\<close>.
  Words are 32 bits wide and addition wraps, as in \<^verbatim>\<open>crypto/sha256\<close>.
\<close>

unbundle bit_operations_syntax

type_synonym w32 = "32 word"

definition rotr :: "nat \<Rightarrow> w32 \<Rightarrow> w32" where
  "rotr n x = drop_bit n x OR push_bit (32 - n) x"

definition sha_Ch :: "w32 \<Rightarrow> w32 \<Rightarrow> w32 \<Rightarrow> w32" where
  "sha_Ch x y z = (x AND y) XOR (NOT x AND z)"

definition sha_Maj :: "w32 \<Rightarrow> w32 \<Rightarrow> w32 \<Rightarrow> w32" where
  "sha_Maj x y z = (x AND y) XOR (x AND z) XOR (y AND z)"

text \<open>The constants are the first 32 bits of the fractional parts of roots of primes: cube roots of the
  first 64 for the rounds, square roots of the first 8 for the initial value. \<open>floor_root k n b r\<close> is the
  largest number that agrees with \<open>r\<close> above bit \<open>b\<close> and whose \<open>k\<close>-th power is at most \<open>n\<close>.\<close>

primrec floor_root :: "nat \<Rightarrow> nat \<Rightarrow> nat \<Rightarrow> nat \<Rightarrow> nat" where
  "floor_root k n 0 r = r"
| "floor_root k n (Suc b) r = floor_root k n b (if (r + 2 ^ b) ^ k \<le> n then r + 2 ^ b else r)"

definition root_fraction :: "nat \<Rightarrow> nat \<Rightarrow> w32" where
  "root_fraction k p = of_nat (floor_root k (p * 2 ^ (32 * k)) 36 0)"

definition primes_below :: "nat \<Rightarrow> nat list" where
  "primes_below n = filter (\<lambda>p. list_all (\<lambda>d. p mod d \<noteq> 0) [2..<p]) [2..<n]"

definition sha_K :: "w32 list" where
  "sha_K = map (root_fraction 3) (primes_below 312)"

definition sha_H0 :: "w32 list" where
  "sha_H0 = map (root_fraction 2) [2, 3, 5, 7, 11, 13, 17, 19]"

text \<open>Padding to a multiple of 64 bytes: a one bit, zeros, the length in bits on 8 bytes.\<close>

definition sha_pad :: "nat list \<Rightarrow> nat list" where
  "sha_pad bs =
     bs @ [128] @ replicate ((119 - length bs mod 64) mod 64) 0 @
     map (\<lambda>i. 8 * length bs div 256 ^ (7 - i) mod 256) [0..<8]"

fun be_words :: "nat list \<Rightarrow> w32 list" where
  "be_words (a # b # c # d # bs) = of_nat (a * 16777216 + b * 65536 + c * 256 + d) # be_words bs"
| "be_words _ = []"

text \<open>The message schedule: the last 16 words, newest first, give the next one.\<close>

fun sha_schedule :: "nat \<Rightarrow> w32 list \<Rightarrow> w32 list" where
  "sha_schedule 0 rev_ws = rev rev_ws"
| "sha_schedule (Suc n) rev_ws =
     (let w15 = rev_ws ! 14; w2 = rev_ws ! 1;
          s0 = rotr 7 w15 XOR rotr 18 w15 XOR drop_bit 3 w15;
          s1 = rotr 17 w2 XOR rotr 19 w2 XOR drop_bit 10 w2
      in sha_schedule n ((rev_ws ! 15 + s0 + rev_ws ! 6 + s1) # rev_ws))"

fun sha_round :: "w32 list \<Rightarrow> w32 \<times> w32 \<Rightarrow> w32 list" where
  "sha_round [a, b, c, d, e, f, g, h] (k, w) =
     (let S1 = rotr 6 e XOR rotr 11 e XOR rotr 25 e;
          t1 = h + S1 + sha_Ch e f g + k + w;
          S0 = rotr 2 a XOR rotr 13 a XOR rotr 22 a;
          t2 = S0 + sha_Maj a b c
      in [t1 + t2, a, b, c, d + t1, e, f, g])"
| "sha_round st _ = st"

definition sha_block :: "w32 list \<Rightarrow> w32 list \<Rightarrow> w32 list" where
  "sha_block H ws = map2 (+) H (foldl sha_round H (zip sha_K (sha_schedule 48 (rev ws))))"

function sha_blocks :: "w32 list \<Rightarrow> w32 list \<Rightarrow> w32 list" where
  "sha_blocks H ws = (if ws = [] then H else sha_blocks (sha_block H (take 16 ws)) (drop 16 ws))"
  by pat_completeness auto
termination by (relation "measure (\<lambda>(_, ws). length ws)") auto

declare sha_blocks.simps [simp del]

definition sha256 :: "nat list \<Rightarrow> w32 list" where
  "sha256 bs = sha_blocks sha_H0 (be_words (sha_pad bs))"

definition hex_nibble :: "nat \<Rightarrow> char" where
  "hex_nibble d = (if d < 10 then char_of (48 + d) else char_of (87 + d))"

text \<open>A digest in lower-case hexadecimal, eight digits a word.\<close>

definition hex_words :: "w32 list \<Rightarrow> string" where
  "hex_words ws = concat (map (\<lambda>w. map (\<lambda>i. hex_nibble (unat w div 16 ^ (7 - i) mod 16)) [0..<8]) ws)"

lemma length_sha_round: "length H = 8 \<Longrightarrow> length (sha_round H kw) = 8"
  by (cases "(H, kw)" rule: sha_round.cases) (auto simp: Let_def)

lemma length_foldl_sha_round: "length H = 8 \<Longrightarrow> length (foldl sha_round H kws) = 8"
  by (induction kws arbitrary: H) (auto simp: length_sha_round)

lemma length_sha_blocks: "length H = 8 \<Longrightarrow> length (sha_blocks H ws) = 8"
  by (induction H ws rule: sha_blocks.induct)
     (subst sha_blocks.simps, auto simp: sha_block_def length_foldl_sha_round)

lemma length_sha256 [simp]: "length (sha256 bs) = 8"
  by (simp add: sha256_def length_sha_blocks sha_H0_def)

lemma length_hex_words: "length (hex_words ws) = 8 * length ws"
  by (simp add: hex_words_def length_concat comp_def sum_list_triv)

end
