(* ===== verification/Auth.thy ===== *)
theory Auth
  imports Memory_Laws Go_Strings Sha256
begin

text \<open>
  Bearer tokens, \<^verbatim>\<open>backend/internal/auth/auth.go\<close>: the admin token shared by the phones and the
  per-server tokens of the agents. Only hashes are stored and compared, so every statement here is
  about equality of hashes.
\<close>

section \<open>Tokens\<close>

definition HashToken :: "string \<Rightarrow> string" where
  "HashToken token = hex_words (sha256 (map of_char token))"

text \<open>\<^verbatim>\<open>subtle.ConstantTimeCompare\<close>: the difference of two byte strings of one length is collected
  with bitwise or over the whole length.\<close>

definition ConstantTimeCompare :: "string \<Rightarrow> string \<Rightarrow> bool" where
  "ConstantTimeCompare x y \<longleftrightarrow>
     length x = length y \<and>
     foldl (\<lambda>v (a, b). v OR (of_char a XOR of_char b)) (0 :: 8 word) (zip x y) = 0"

text \<open>\<^verbatim>\<open>BearerToken\<close> of the value of the Authorization header (empty when absent).\<close>

definition BearerToken :: "string \<Rightarrow> string option" where
  "BearerToken h =
     (if length h \<le> 7 \<or> \<not> EqualFold_ascii (take 7 h) ''bearer '' then None
      else let tok = TrimSpace (drop 7 h) in if tok = [] then None else Some tok)"

section \<open>Principals\<close>

datatype Kind = KindAdmin | KindServer

record Principal =
  pr_Kind :: Kind
  pr_Server :: "Server option"

datatype auth_error = ErrNoToken | ErrInvalidToken | ErrStore store_error

text \<open>An authenticator is a store and the hash of the admin token, empty when there is none.\<close>

definition auth_New :: "string \<Rightarrow> string" where
  "auth_New adminToken = (if adminToken \<noteq> [] then HashToken adminToken else [])"

definition Authenticate :: "'s Store \<Rightarrow> string \<Rightarrow> string \<Rightarrow> 's \<Rightarrow> (auth_error, Principal) result" where
  "Authenticate S adminHash header s =
     (case BearerToken header of
        None \<Rightarrow> Inl ErrNoToken
      | Some tok \<Rightarrow>
          let hash = HashToken tok in
          if adminHash \<noteq> [] \<and> ConstantTimeCompare hash adminHash
          then Inr \<lparr> pr_Kind = KindAdmin, pr_Server = None \<rparr>
          else (case st_ServerByTokenHash S hash s of
                  Inl err \<Rightarrow> Inl (if err = ErrNotFound then ErrInvalidToken else ErrStore err)
                | Inr srv \<Rightarrow>
                    if \<not> ConstantTimeCompare hash (sv_TokenHash srv) then Inl ErrInvalidToken
                    else Inr \<lparr> pr_Kind = KindServer, pr_Server = Some srv \<rparr>))"

section \<open>Lemmas\<close>

lemma length_HashToken [simp]: "length (HashToken t) = 64"
  by (simp add: HashToken_def length_hex_words)

lemma HashToken_nonempty [simp]: "HashToken t \<noteq> []"
  using length_HashToken [of t] by (metis list.size(3) zero_neq_numeral)

lemma or_eq_0_iff: "(a :: 8 word) OR b = 0 \<longleftrightarrow> a = 0 \<and> b = 0"
  by (simp add: or_eq_0_iff)

lemma of_char_inj8: "(of_char a :: 8 word) = of_char b \<longleftrightarrow> a = b"
proof
  assume "(of_char a :: 8 word) = of_char b"
  then have "unat (of_char a :: 8 word) = unat (of_char b :: 8 word)" by simp
  moreover have "unat (of_char c :: 8 word) = of_char c" for c
  proof -
    have "unat (of_nat (of_char c) :: 8 word) = of_char c" by (simp add: unat_of_nat del: of_nat_of_char)
    then show ?thesis by (simp add: of_nat_of_char)
  qed
  ultimately show "a = b" by (simp add: of_char_eq_iff)
qed simp

lemma ct_fold_0:
  "length x = length y \<Longrightarrow>
   foldl (\<lambda>v (a, b). v OR (of_char a XOR of_char b)) (v :: 8 word) (zip x y) = 0 \<longleftrightarrow> v = 0 \<and> x = y"
proof (induction x y arbitrary: v rule: list_induct2)
  case (Cons a x b y)
  have "(of_char a XOR of_char b :: 8 word) = 0 \<longleftrightarrow> a = b"
    by (metis of_char_inj8 xor_self_eq bit.xor_left_self xor.right_neutral)
  with Cons show ?case by (auto simp: or_eq_0_iff)
qed simp

lemma ConstantTimeCompare_eq: "ConstantTimeCompare x y \<longleftrightarrow> x = y"
  by (auto simp: ConstantTimeCompare_def ct_fold_0)

lemma BearerToken_nonempty: "BearerToken h = Some tok \<Longrightarrow> tok \<noteq> []"
  by (auto simp: BearerToken_def Let_def split: if_splits)

text \<open>A principal is admin only with a token that hashes to the admin hash, and a server only with
  one that hashes to that server's stored hash, whatever the store answers.\<close>

lemma Authenticate_sound:
  assumes "Authenticate S adminHash header s = Inr p"
  obtains tok where "BearerToken header = Some tok" "pr_Kind p = KindAdmin" "pr_Server p = None"
      "adminHash \<noteq> []" "HashToken tok = adminHash"
  | tok srv where "BearerToken header = Some tok" "pr_Kind p = KindServer" "pr_Server p = Some srv"
      "HashToken tok = sv_TokenHash srv" "st_ServerByTokenHash S (HashToken tok) s = Inr srv"
      "adminHash = [] \<or> HashToken tok \<noteq> adminHash"
  using assms
  by (auto simp: Authenticate_def ConstantTimeCompare_eq Let_def split: option.splits if_splits sum.splits)

lemma Authenticate_admin:
  "BearerToken header = Some tok \<Longrightarrow> adminHash \<noteq> [] \<Longrightarrow> HashToken tok = adminHash \<Longrightarrow>
   Authenticate S adminHash header s = Inr \<lparr> pr_Kind = KindAdmin, pr_Server = None \<rparr>"
  by (simp add: Authenticate_def ConstantTimeCompare_eq Let_def)

context server_store
begin

lemma Authenticate_server:
  "inv s \<Longrightarrow> srv \<in> servers s \<Longrightarrow> BearerToken header = Some tok \<Longrightarrow> HashToken tok = sv_TokenHash srv \<Longrightarrow>
   adminHash \<noteq> sv_TokenHash srv \<Longrightarrow>
   Authenticate S adminHash header s = Inr \<lparr> pr_Kind = KindServer, pr_Server = Some srv \<rparr>"
  using ServerByTokenHash_found [of s srv]
  by (simp add: Authenticate_def ConstantTimeCompare_eq Let_def)

lemma Authenticate_unknown:
  "inv s \<Longrightarrow> BearerToken header = Some tok \<Longrightarrow> HashToken tok \<noteq> adminHash \<Longrightarrow>
   \<forall>srv\<in>servers s. sv_TokenHash srv \<noteq> HashToken tok \<Longrightarrow>
   Authenticate S adminHash header s = Inl ErrInvalidToken"
  using ServerByTokenHash_missing [of s "HashToken tok"]
  by (simp add: Authenticate_def ConstantTimeCompare_eq Let_def)

end

end
