(* ===== verification/Netip.thy ===== *)
theory Netip
  imports Go_Strings
begin

text \<open>
  The part of Go's \<^verbatim>\<open>net/netip\<close> the program uses to bring a source address to its canonical
  spelling: \<^verbatim>\<open>ParseAddr\<close>, \<^verbatim>\<open>Unmap\<close>, \<^verbatim>\<open>WithZone\<close> and \<^verbatim>\<open>String\<close>. An IPv4 address is four octets, an
  IPv6 address eight 16-bit groups and a zone.

  The main result is the round trip: printing a well-formed address and parsing it again gives the
  address back, so canonical spellings are fixed points.
\<close>

datatype Addr = Addr4 "nat list" | Addr6 "nat list" string

section \<open>Parsing\<close>

text \<open>\<open>fs\<close> are the fields stored so far, \<open>val\<close> and \<open>dl\<close> the value and the number of digits of the
  current one. \<open>dl = 0\<close> at the start and after a dot.\<close>

fun parse4_loop :: "nat list \<Rightarrow> nat \<Rightarrow> nat \<Rightarrow> string \<Rightarrow> nat list option" where
  "parse4_loop fs val dl [] = (if length fs < 3 then None else Some (fs @ [val]))"
| "parse4_loop fs val dl (c # cs) =
     (if is_digit c then
        (if dl = 1 \<and> val = 0 then None
         else let val' = val * 10 + (of_char c - 48) in
              if 255 < val' then None else parse4_loop fs val' (Suc dl) cs)
      else if c = CHR ''.'' then
        (if dl = 0 \<or> cs = [] then None
         else if length fs = 3 then None
         else parse4_loop (fs @ [val]) 0 0 cs)
      else None)"

definition parseIPv4Fields :: "string \<Rightarrow> nat list option" where
  "parseIPv4Fields s = parse4_loop [] 0 0 s"

definition is_hex :: "char \<Rightarrow> bool" where
  "is_hex c \<longleftrightarrow> (let b = (of_char c :: nat) in
     (48 \<le> b \<and> b \<le> 57) \<or> (97 \<le> b \<and> b \<le> 102) \<or> (65 \<le> b \<and> b \<le> 70))"

definition hex_digit_value :: "char \<Rightarrow> nat" where
  "hex_digit_value c = (let b = (of_char c :: nat) in
     if b \<le> 57 then b - 48 else if b \<le> 70 then b - 55 else b - 87)"

definition hex_value :: "string \<Rightarrow> nat" where
  "hex_value ds = foldl (\<lambda>acc c. acc * 16 + hex_digit_value c) 0 ds"

text \<open>One group of at most four hexadecimal digits, which can not exceed 16 bits.\<close>

definition parse6_group :: "string \<Rightarrow> (nat \<times> string) option" where
  "parse6_group s =
     (let ds = takeWhile is_hex s in
      if ds = [] \<or> 4 < length ds then None else Some (hex_value ds, drop (length ds) s))"

text \<open>The loop over the groups: groups read, position of the ellipsis, rest of the string.\<close>

function parse6_loop :: "nat list \<Rightarrow> nat option \<Rightarrow> string \<Rightarrow> (nat list \<times> nat option \<times> string) option" where
  "parse6_loop gs ell s =
     (if 8 \<le> length gs then Some (gs, ell, s)
      else (case parse6_group s of
        None \<Rightarrow> None
      | Some (acc, rest) \<Rightarrow>
          if rest \<noteq> [] \<and> hd rest = CHR ''.'' then
            (if (ell = None \<and> length gs \<noteq> 6) \<or> 8 < length gs + 2 then None
             else (case parseIPv4Fields s of
                     Some [a, b, c, d] \<Rightarrow> Some (gs @ [a * 256 + b, c * 256 + d], ell, [])
                   | _ \<Rightarrow> None))
          else if rest = [] then Some (gs @ [acc], ell, [])
          else if hd rest \<noteq> CHR '':'' \<or> tl rest = [] then None
          else if hd (tl rest) = CHR '':'' then
            (if ell \<noteq> None then None
             else if tl (tl rest) = [] then Some (gs @ [acc], Some (Suc (length gs)), [])
             else parse6_loop (gs @ [acc]) (Some (Suc (length gs))) (tl (tl rest)))
          else parse6_loop (gs @ [acc]) ell (tl rest)))"
  by pat_completeness auto
termination by (relation "measure (\<lambda>(gs, _, _). 8 - length gs)") auto

declare parse6_loop.simps [simp del]

definition parseIPv6 :: "string \<Rightarrow> Addr option" where
  "parseIPv6 inp =
     (let s = takeWhile (\<lambda>c. c \<noteq> CHR ''%'') inp;
          z = dropWhile (\<lambda>c. c \<noteq> CHR ''%'') inp;
          zone = tl z
      in if z \<noteq> [] \<and> zone = [] then None
         else
          (let lead = (take 2 s = ''::'');
               ell = (if lead then Some 0 else None);
               s = (if lead then drop 2 s else s)
           in if lead \<and> s = [] then Some (Addr6 (replicate 8 0) zone)
              else (case parse6_loop [] ell s of
                      None \<Rightarrow> None
                    | Some (gs, ell, rest) \<Rightarrow>
                        if rest \<noteq> [] then None
                        else if length gs < 8 then
                          (case ell of
                             None \<Rightarrow> None
                           | Some e \<Rightarrow> Some (Addr6 (take e gs @ replicate (8 - length gs) 0 @ drop e gs) zone))
                        else if ell \<noteq> None then None
                        else Some (Addr6 gs zone))))"

text \<open>The first of dot, colon and percent tells the family.\<close>

fun parse_family :: "string \<Rightarrow> string \<Rightarrow> Addr option" where
  "parse_family s [] = None"
| "parse_family s (c # cs) =
     (if c = CHR ''.'' then map_option Addr4 (parseIPv4Fields s)
      else if c = CHR '':'' then parseIPv6 s
      else if c = CHR ''%'' then None
      else parse_family s cs)"

definition ParseAddr :: "string \<Rightarrow> Addr option" where
  "ParseAddr s = parse_family s s"

section \<open>Unmap, WithZone, String\<close>

definition Is4In6 :: "nat list \<Rightarrow> bool" where
  "Is4In6 gs \<longleftrightarrow> take 6 gs = [0, 0, 0, 0, 0, 0xFFFF]"

definition Addr_Unmap :: "Addr \<Rightarrow> Addr" where
  "Addr_Unmap a =
     (case a of
        Addr4 fs \<Rightarrow> Addr4 fs
      | Addr6 gs z \<Rightarrow>
          if Is4In6 gs then Addr4 [gs ! 6 div 256, gs ! 6 mod 256, gs ! 7 div 256, gs ! 7 mod 256]
          else Addr6 gs z)"

text \<open>\<^verbatim>\<open>WithZone("")\<close> removes the zone.\<close>

definition Addr_NoZone :: "Addr \<Rightarrow> Addr" where
  "Addr_NoZone a = (case a of Addr4 fs \<Rightarrow> Addr4 fs | Addr6 gs z \<Rightarrow> Addr6 gs [])"

definition byte_dec :: "nat \<Rightarrow> string" where
  "byte_dec n =
     (if n < 10 then [dec_digit n]
      else if n < 100 then [dec_digit (n div 10), dec_digit (n mod 10)]
      else [dec_digit (n div 100), dec_digit (n div 10 mod 10), dec_digit (n mod 10)])"

definition hex_digit :: "nat \<Rightarrow> char" where
  "hex_digit d = (if d < 10 then char_of (48 + d) else char_of (87 + d))"

text \<open>\<^verbatim>\<open>appendHex\<close>: lower case, no leading zeros.\<close>

definition group_hex :: "nat \<Rightarrow> string" where
  "group_hex x =
     (if 0x1000 \<le> x then [hex_digit (x div 4096)] else []) @
     (if 0x100 \<le> x then [hex_digit (x div 256 mod 16)] else []) @
     (if 0x10 \<le> x then [hex_digit (x div 16 mod 16)] else []) @
     [hex_digit (x mod 16)]"

text \<open>The longest run of at least two zero groups, the first one among equals, as (start, length).\<close>

definition zero_run :: "nat list \<Rightarrow> nat \<Rightarrow> nat" where
  "zero_run gs i = length (takeWhile (\<lambda>g. g = 0) (drop i gs))"

definition best_run :: "nat list \<Rightarrow> nat \<times> nat" where
  "best_run gs =
     foldl (\<lambda>(st, l) i. let n = zero_run gs i in if 2 \<le> n \<and> l < n then (i, n) else (st, l))
       (0, 0) [0..<8]"

definition string6 :: "nat list \<Rightarrow> string" where
  "string6 gs =
     (let (st, n) = best_run gs in
      if n = 0 then strings_Join (map group_hex gs) '':''
      else strings_Join (map group_hex (take st gs)) '':'' @ ''::'' @
           strings_Join (map group_hex (drop (st + n) gs)) '':'')"

definition string4 :: "nat list \<Rightarrow> string" where
  "string4 fs = strings_Join (map byte_dec fs) ''.''"

definition Addr_String :: "Addr \<Rightarrow> string" where
  "Addr_String a =
     (case a of
        Addr4 fs \<Rightarrow> string4 fs
      | Addr6 gs z \<Rightarrow>
          (if Is4In6 gs
           then ''::ffff:'' @ string4 [gs ! 6 div 256, gs ! 6 mod 256, gs ! 7 div 256, gs ! 7 mod 256]
           else string6 gs) @ (if z = [] then [] else ''%'' @ z))"

text \<open>The canonical spelling of a source address (\<^verbatim>\<open>addr.Unmap().WithZone("").String()\<close>).\<close>

definition canonical_ip :: "string \<Rightarrow> string option" where
  "canonical_ip s = map_option (\<lambda>a. Addr_String (Addr_NoZone (Addr_Unmap a))) (ParseAddr s)"

text \<open>Well-formed addresses.\<close>

definition wf_addr :: "Addr \<Rightarrow> bool" where
  "wf_addr a =
     (case a of
        Addr4 fs \<Rightarrow> length fs = 4 \<and> list_all (\<lambda>x. x < 256) fs
      | Addr6 gs z \<Rightarrow> length gs = 8 \<and> list_all (\<lambda>x. x < 65536) gs)"

section \<open>IPv4: print, then parse\<close>

lemma of_char_dec_digit: "d < 10 \<Longrightarrow> (of_char (dec_digit d) :: nat) = 48 + d"
  by (simp add: dec_digit_def)

lemma is_digit_dec_digit: "d < 10 \<Longrightarrow> is_digit (dec_digit d)"
  by (simp add: is_digit_def of_char_dec_digit)

lemma parse4_octet:
  assumes "n < 256"
  shows "parse4_loop fs 0 0 (byte_dec n @ rest) = parse4_loop fs n (length (byte_dec n)) rest"
proof -
  consider "n < 10" | "10 \<le> n" "n < 100" | "100 \<le> n" by linarith
  then show ?thesis
  proof cases
    case 1
    then show ?thesis by (simp add: byte_dec_def is_digit_dec_digit of_char_dec_digit)
  next
    case 2
    then have "byte_dec n = [dec_digit (n div 10), dec_digit (n mod 10)]" by (simp add: byte_dec_def)
    moreover have "n div 10 < 10" "0 < n div 10" "n mod 10 < 10" "n div 10 * 10 + n mod 10 = n"
      using 2 by (auto simp: div_greater_zero_iff)
    ultimately show ?thesis using assms by (simp add: is_digit_dec_digit of_char_dec_digit)
  next
    case 3
    then have "byte_dec n = [dec_digit (n div 100), dec_digit (n div 10 mod 10), dec_digit (n mod 10)]"
      by (simp add: byte_dec_def)
    moreover have "n div 100 < 10" "0 < n div 100" "n div 10 mod 10 < 10" "n mod 10 < 10"
      "\<not> 255 < n div 10" "\<not> 255 < n div 100" "\<not> 255 < n"
      using 3 assms by (auto simp: div_greater_zero_iff)
    moreover have "n div 100 * 10 + n div 10 mod 10 = n div 10" "n div 10 * 10 + n mod 10 = n"
      using div_mult_mod_eq [of "n div 10" 10] by (simp_all add: div_mult2_eq [symmetric])
    ultimately show ?thesis by (simp only: append.simps parse4_loop.simps is_digit_dec_digit
        of_char_dec_digit Let_def if_True if_False) (simp, intro impI, linarith)
  qed
qed

lemma byte_dec_nonempty [simp]: "byte_dec n \<noteq> []" "length (byte_dec n) \<noteq> 0"
  by (simp_all add: byte_dec_def)

lemma parse4_string4:
  assumes "a < 256" "b < 256" "c < 256" "d < 256"
  shows "parseIPv4Fields (string4 [a, b, c, d]) = Some [a, b, c, d]"
proof -
  have "\<not> is_digit (CHR ''.'')" by (simp add: is_digit_def)
  then show ?thesis
    using assms parse4_octet [OF assms(4), of "[a, b, c]" "[]"]
    by (simp add: parseIPv4Fields_def string4_def parse4_octet)
qed

lemma parse4_wf:
  "parse4_loop fs val dl s = Some fs' \<Longrightarrow> length fs \<le> 3 \<Longrightarrow> list_all (\<lambda>x. x < 256) fs \<Longrightarrow> val < 256 \<Longrightarrow>
   length fs' = 4 \<and> list_all (\<lambda>x. x < 256) fs'"
  by (induction fs val dl s rule: parse4_loop.induct) (auto simp: Let_def split: if_splits)

section \<open>IPv6: print, then parse\<close>

lemma of_char_hex_digit: "d < 16 \<Longrightarrow> (of_char (hex_digit d) :: nat) = (if d < 10 then 48 + d else 87 + d)"
  by (simp add: hex_digit_def)

lemma is_hex_hex_digit: "d < 16 \<Longrightarrow> is_hex (hex_digit d)"
  by (simp add: is_hex_def of_char_hex_digit)

lemma hex_digit_value_hex_digit: "d < 16 \<Longrightarrow> hex_digit_value (hex_digit d) = d"
  by (simp add: hex_digit_value_def of_char_hex_digit)

lemma group_hex_props:
  assumes "x < 65536"
  shows "list_all is_hex (group_hex x)" "group_hex x \<noteq> []" "length (group_hex x) \<le> 4"
  using assms by (auto simp: group_hex_def is_hex_hex_digit)

lemma hex_value_group_hex:
  assumes "x < 65536"
  shows "hex_value (group_hex x) = x"
proof -
  have e: "x div 4096 * 16 + x div 256 mod 16 = x div 256" "x div 256 * 16 + x div 16 mod 16 = x div 16"
    "x div 16 * 16 + x mod 16 = x"
    using div_mult_mod_eq [of "x div 256" 16] div_mult_mod_eq [of "x div 16" 16]
    by (simp_all add: div_mult2_eq [symmetric])
  have l: "x div 4096 < 16" using assms by simp
  have z: "x < 4096 \<Longrightarrow> x div 256 mod 16 = x div 256" "x < 256 \<Longrightarrow> x div 16 mod 16 = x div 16" by auto
  consider "x < 16" | "16 \<le> x" "x < 256" | "256 \<le> x" "x < 4096" | "4096 \<le> x" by linarith
  then show ?thesis
    by cases (simp_all add: group_hex_def hex_value_def hex_digit_value_hex_digit l e z)
qed

lemma not_hex [simp]: "\<not> is_hex CHR '':''" "\<not> is_hex CHR ''.''" "\<not> is_hex CHR ''%''"
  by (simp_all add: is_hex_def)

lemma parse6_group_hex:
  assumes "x < 65536" "rest = [] \<or> \<not> is_hex (hd rest)"
  shows "parse6_group (group_hex x @ rest) = Some (x, rest)"
proof -
  have "takeWhile is_hex (group_hex x @ rest) = group_hex x @ takeWhile is_hex rest"
    using group_hex_props(1) [OF assms(1)] by (auto simp: list_all_iff intro!: takeWhile_append2)
  moreover have "takeWhile is_hex rest = []"
    using assms(2) by (cases rest) auto
  ultimately show ?thesis
    using group_hex_props [OF assms(1)] assms(1)
    by (simp add: parse6_group_def hex_value_group_hex)
qed

abbreviation join6 :: "nat list \<Rightarrow> string" where
  "join6 hs \<equiv> strings_Join (map group_hex hs) '':''"

lemma strings_Join_Cons: "strings_Join (w # ws) sep = w @ (if ws = [] then [] else sep @ strings_Join ws sep)"
  by (cases ws) auto

lemma join6_hd:
  assumes "h < 65536"
  obtains c cs where "join6 (h # hs) = c # cs" "is_hex c" "c \<noteq> CHR '':''"
proof -
  obtain c cs where "group_hex h = c # cs" "is_hex c"
    using group_hex_props [OF assms] by (cases "group_hex h") auto
  moreover from this have "c \<noteq> CHR '':''" by auto
  ultimately show thesis
    using that [of c "cs @ (if hs = [] then [] else '':'' @ join6 hs)"]
    by (auto simp: strings_Join_Cons)
qed

lemma parse6_join:
  "hs \<noteq> [] \<Longrightarrow> list_all (\<lambda>x. x < 65536) hs \<Longrightarrow> length gs + length hs \<le> 8 \<Longrightarrow>
   parse6_loop gs ell (join6 hs) = Some (gs @ hs, ell, [])"
proof (induction hs arbitrary: gs)
  case (Cons h hs)
  show ?case
  proof (cases hs)
    case Nil
    with Cons.prems show ?thesis
      using parse6_group_hex [of h "[]"] by (simp add: parse6_loop.simps [of gs])
  next
    case (Cons k ks)
    with Cons.prems have h: "h < 65536" and k: "k < 65536" by auto
    obtain c cs where c: "join6 (k # ks) = c # cs" "is_hex c" "c \<noteq> CHR '':''"
      using join6_hd [OF k] by blast
    have "parse6_group (join6 (h # hs)) = Some (h, CHR '':'' # join6 hs)"
      using parse6_group_hex [OF h, of "CHR '':'' # join6 hs"] Cons by simp
    then have "parse6_loop gs ell (join6 (h # hs)) = parse6_loop (gs @ [h]) ell (join6 hs)"
      using Cons.prems(3) Cons c by (subst parse6_loop.simps) simp
    also have "\<dots> = Some ((gs @ [h]) @ hs, ell, [])"
      using Cons.prems Cons by (intro Cons.IH) auto
    finally show ?thesis by simp
  qed
qed simp

lemma parse6_ellipsis:
  "hs \<noteq> [] \<Longrightarrow> list_all (\<lambda>x. x < 65536) (hs @ ks) \<Longrightarrow> length gs + length hs + length ks < 8 \<Longrightarrow>
   parse6_loop gs None (join6 hs @ ''::'' @ join6 ks) =
     Some (gs @ hs @ ks, Some (length gs + length hs), [])"
proof (induction hs arbitrary: gs)
  case (Cons h hs)
  then have h: "h < 65536" by simp
  show ?case
  proof (cases hs)
    case Nil
    have "parse6_group (join6 [h] @ ''::'' @ join6 ks) = Some (h, ''::'' @ join6 ks)"
      using parse6_group_hex [OF h, of "''::'' @ join6 ks"] by simp
    moreover have "join6 ks = [] \<longleftrightarrow> ks = []"
      using group_hex_props(2) Cons.prems(2) by (cases ks) (auto simp: strings_Join_Cons)
    ultimately show ?thesis
      using Cons.prems Nil parse6_join [of ks "gs @ [h]" "Some (Suc (length gs))"]
      by (subst parse6_loop.simps) auto
  next
    case (Cons k js)
    with Cons.prems have k: "k < 65536" by auto
    obtain c cs where c: "join6 (k # js) = c # cs" "is_hex c" "c \<noteq> CHR '':''"
      using join6_hd [OF k] by blast
    have "parse6_group (join6 (h # hs) @ ''::'' @ join6 ks) =
        Some (h, CHR '':'' # join6 hs @ ''::'' @ join6 ks)"
      using parse6_group_hex [OF h, of "CHR '':'' # join6 hs @ ''::'' @ join6 ks"] Cons by simp
    then have "parse6_loop gs None (join6 (h # hs) @ ''::'' @ join6 ks) =
        parse6_loop (gs @ [h]) None (join6 hs @ ''::'' @ join6 ks)"
      using Cons.prems(3) Cons c by (subst parse6_loop.simps) simp
    also have "\<dots> = Some ((gs @ [h]) @ hs @ ks, Some (length (gs @ [h]) + length hs), [])"
      using Cons.prems Cons by (intro Cons.IH) auto
    finally show ?thesis by simp
  qed
qed simp

section \<open>The zero run\<close>

definition good_run :: "nat list \<Rightarrow> nat \<times> nat \<Rightarrow> bool" where
  "good_run gs sn \<longleftrightarrow> snd sn = 0 \<or>
     (2 \<le> snd sn \<and> fst sn + snd sn \<le> length gs \<and> take (snd sn) (drop (fst sn) gs) = replicate (snd sn) 0)"

lemma takeWhile_zeros: "take (length (takeWhile (\<lambda>g. g = 0) xs)) xs = replicate (length (takeWhile (\<lambda>g. g = 0) xs)) (0::nat)"
  by (induction xs) auto

lemma zero_run_good: "2 \<le> zero_run gs i \<Longrightarrow> good_run gs (i, zero_run gs i)"
proof -
  assume "2 \<le> zero_run gs i"
  moreover have "zero_run gs i \<le> length gs - i"
    using length_takeWhile_le [of "\<lambda>g. g = 0" "drop i gs"] by (simp add: zero_run_def)
  ultimately have "2 \<le> zero_run gs i" "i + zero_run gs i \<le> length gs" by linarith+
  moreover have "take (zero_run gs i) (drop i gs) = replicate (zero_run gs i) 0"
    by (simp add: zero_run_def takeWhile_zeros)
  ultimately show ?thesis by (simp add: good_run_def)
qed

lemma fold_run_good:
  "good_run gs sn \<Longrightarrow>
   good_run gs (foldl (\<lambda>(st, l) i. let n = zero_run gs i in if 2 \<le> n \<and> l < n then (i, n) else (st, l)) sn is)"
  by (induction "is" arbitrary: sn) (auto simp: Let_def zero_run_good split: prod.split)

lemma best_run_good: "good_run gs (best_run gs)"
  unfolding best_run_def by (rule fold_run_good) (simp add: good_run_def)

text \<open>The groups before the run, the run, the groups after it.\<close>

lemma best_run_split:
  assumes "best_run gs = (st, n)" "0 < n"
  shows "2 \<le> n" "st + n \<le> length gs" "gs = take st gs @ replicate n 0 @ drop (st + n) gs"
proof -
  from best_run_good [of gs] assms
  have *: "2 \<le> n" "st + n \<le> length gs" "take n (drop st gs) = replicate n 0"
    by (auto simp: good_run_def)
  then show "2 \<le> n" "st + n \<le> length gs" by auto
  show "gs = take st gs @ replicate n 0 @ drop (st + n) gs"
    using *(3) by (metis append_take_drop_id drop_drop add.commute)
qed

section \<open>Characters of a printed address\<close>

lemma join6_chars:
  assumes "list_all (\<lambda>x. x < 65536) hs"
  shows "list_all (\<lambda>c. is_hex c \<or> c = CHR '':'') (join6 hs)"
  using assms
proof (induction hs)
  case (Cons h hs)
  then have "list_all is_hex (group_hex h)" by (simp add: group_hex_props)
  then have "list_all (\<lambda>c. is_hex c \<or> c = CHR '':'') (group_hex h)" by (auto simp: list_all_iff)
  with Cons show ?case by (simp add: strings_Join_Cons)
qed simp

lemma string6_chars:
  assumes "list_all (\<lambda>x. x < 65536) gs"
  shows "list_all (\<lambda>c. is_hex c \<or> c = CHR '':'') (string6 gs)"
proof -
  have "list_all (\<lambda>x. x < 65536) (take k gs)" "list_all (\<lambda>x. x < 65536) (drop k gs)" for k
    using assms by (auto simp: list_all_iff dest: in_set_takeD in_set_dropD)
  with assms show ?thesis by (simp add: string6_def Let_def join6_chars split: prod.split)
qed

lemma parse_family_v6:
  "list_all (\<lambda>c. is_hex c \<or> c = CHR '':'') t \<Longrightarrow> CHR '':'' \<in> set t \<Longrightarrow> parse_family s t = parseIPv6 s"
  by (induction t) auto

lemma parse_family_v4:
  "list_all is_digit t \<Longrightarrow> parse_family s (t @ CHR ''.'' # u) = map_option Addr4 (parseIPv4Fields s)"
  by (induction t) (auto simp: is_digit_def)

lemma string6_colon:
  assumes "length gs = 8" "list_all (\<lambda>x. x < 65536) gs"
  shows "CHR '':'' \<in> set (string6 gs)"
proof (cases "snd (best_run gs) = 0")
  case True
  obtain a b cs where "gs = a # b # cs"
    using assms(1) by (cases gs; cases "tl gs") auto
  with True show ?thesis
    by (cases "best_run gs") (simp add: string6_def strings_Join_Cons)
next
  case False
  then show ?thesis by (cases "best_run gs") (simp add: string6_def)
qed

section \<open>The round trip\<close>

lemma parseIPv6_nozone:
  assumes "list_all (\<lambda>c. is_hex c \<or> c = CHR '':'') s"
  shows "takeWhile (\<lambda>c. c \<noteq> CHR ''%'') s = s" "dropWhile (\<lambda>c. c \<noteq> CHR ''%'') s = []"
proof -
  have "\<forall>c\<in>set s. c \<noteq> CHR ''%''"
    using assms not_hex(3) by (auto simp: list_all_iff)
  then show "takeWhile (\<lambda>c. c \<noteq> CHR ''%'') s = s" "dropWhile (\<lambda>c. c \<noteq> CHR ''%'') s = []"
    by (simp_all add: takeWhile_eq_all_conv dropWhile_eq_Nil_conv)
qed

lemma parseIPv6_string6:
  assumes len: "length gs = 8" and rng: "list_all (\<lambda>x. x < 65536) gs"
  shows "parseIPv6 (string6 gs) = Some (Addr6 gs [])"
proof -
  note nz = parseIPv6_nozone [OF string6_chars [OF rng]]
  obtain st n where run: "best_run gs = (st, n)" by (cases "best_run gs")
  show ?thesis
  proof (cases "n = 0")
    case True
    then have str: "string6 gs = join6 gs" using run by (simp add: string6_def)
    obtain h hs where gs: "gs = h # hs" using len by (cases gs) auto
    then have "h < 65536" using rng by simp
    then obtain c cs where "join6 gs = c # cs" "c \<noteq> CHR '':''" using gs join6_hd by metis
    moreover have "parse6_loop [] None (join6 gs) = Some (gs, None, [])"
      using parse6_join [of gs "[]" None] len rng gs by simp
    ultimately show ?thesis
      using nz len unfolding parseIPv6_def str by (simp add: Let_def)
  next
    case False
    let ?hs = "take st gs" and ?ks = "drop (st + n) gs"
    have sp: "2 \<le> n" "st + n \<le> 8" "gs = ?hs @ replicate n 0 @ ?ks"
      using best_run_split [OF run] False len by auto
    have str: "string6 gs = join6 ?hs @ ''::'' @ join6 ?ks" using run False by (simp add: string6_def)
    have rng': "list_all (\<lambda>x. x < 65536) ?hs" "list_all (\<lambda>x. x < 65536) ?ks"
      using rng by (auto simp: list_all_iff dest: in_set_takeD in_set_dropD)
    show ?thesis
    proof (cases "st = 0")
      case True
      then have gs0: "gs = replicate n 0 @ drop n gs" using sp(3) by simp
      show ?thesis
      proof (cases "n = 8")
        case True
        then have "?ks = []" "gs = replicate 8 0" using len gs0 by auto
        then show ?thesis
          using nz \<open>st = 0\<close> unfolding parseIPv6_def str by (simp add: Let_def)
      next
        case False
        then have ks: "?ks \<noteq> []" using sp(2) len \<open>st = 0\<close> by simp
        then obtain k ks where k: "?ks = k # ks" by (cases ?ks) auto
        then have "k < 65536" using rng' by simp
        then obtain c cs where "join6 ?ks = c # cs" using k join6_hd by metis
        moreover have "parse6_loop [] (Some 0) (join6 ?ks) = Some (?ks, Some 0, [])"
          using parse6_join [of ?ks "[]" "Some 0"] ks rng' len by simp
        ultimately show ?thesis
          using nz len sp(1,2) gs0 \<open>st = 0\<close> unfolding parseIPv6_def str by (auto simp: Let_def)
      qed
    next
      case False
      then obtain h hs where h: "?hs = h # hs" using len by (cases gs; cases st) auto
      then have "h < 65536" using rng' by simp
      then obtain c cs where c: "join6 ?hs = c # cs" "c \<noteq> CHR '':''" using h join6_hd by metis
      have "parse6_loop [] None (join6 ?hs @ ''::'' @ join6 ?ks) = Some (?hs @ ?ks, Some (length ?hs), [])"
        using parse6_ellipsis [of ?hs ?ks "[]"] rng' len sp(1,2) False
        by (cases "gs = []") (auto simp: min_def)
      then show ?thesis
        using nz c len sp unfolding parseIPv6_def str by (simp add: Let_def)
    qed
  qed
qed

lemma byte_dec_digits: "n < 256 \<Longrightarrow> list_all is_digit (byte_dec n)"
  by (simp add: byte_dec_def is_digit_dec_digit)

lemma ParseAddr_String:
  assumes "wf_addr a" "a = Addr_NoZone (Addr_Unmap a)"
  shows "ParseAddr (Addr_String a) = Some a"
proof (cases a)
  case (Addr4 fs)
  with assms(1) obtain w x y z where fs: "fs = [w, x, y, z]" "w < 256" "x < 256" "y < 256" "z < 256"
    by (auto simp: wf_addr_def numeral_eq_Suc length_Suc_conv)
  have "ParseAddr (string4 fs) = map_option Addr4 (parseIPv4Fields (string4 fs))"
    using parse_family_v4 [OF byte_dec_digits [OF fs(2)]] by (simp add: ParseAddr_def string4_def fs)
  with fs show ?thesis by (simp add: Addr4 Addr_String_def parse4_string4)
next
  case (Addr6 gs z)
  with assms have gs: "length gs = 8" "list_all (\<lambda>x. x < 65536) gs" "z = []" "\<not> Is4In6 gs"
    by (auto simp: wf_addr_def Addr_Unmap_def Addr_NoZone_def split: if_splits)
  have "ParseAddr (string6 gs) = parseIPv6 (string6 gs)"
    unfolding ParseAddr_def using gs by (intro parse_family_v6 string6_chars string6_colon)
  with gs show ?thesis by (simp add: Addr6 Addr_String_def parseIPv6_string6)
qed

section \<open>Parsed addresses are well formed\<close>

lemma hex_value_bound:
  "list_all is_hex ds \<Longrightarrow> hex_value ds < 16 ^ length ds"
proof (induction ds rule: rev_induct)
  case (snoc c ds)
  then have "hex_value ds + 1 \<le> 16 ^ length ds" by simp
  moreover have "hex_digit_value c < 16"
    using snoc.prems by (auto simp: is_hex_def hex_digit_value_def Let_def)
  ultimately show ?case by (simp add: hex_value_def)
qed (simp add: hex_value_def)

lemma parse6_group_bound:
  assumes "parse6_group s = Some (x, rest)"
  shows "x < 65536"
proof -
  let ?ds = "takeWhile is_hex s"
  have "list_all is_hex ?ds" by (auto simp: list_all_iff dest: set_takeWhileD)
  then have "hex_value ?ds < 16 ^ length ?ds" by (rule hex_value_bound)
  moreover from assms have "x = hex_value ?ds" "length ?ds \<le> 4"
    by (auto simp: parse6_group_def Let_def split: if_splits)
  moreover from this have "(16::nat) ^ length ?ds \<le> 16 ^ 4" by (intro power_increasing) auto
  ultimately show ?thesis by simp
qed

lemma parse6_wf:
  "parse6_loop gs ell s = Some (gs', ell', rest) \<Longrightarrow> length gs \<le> 8 \<Longrightarrow> list_all (\<lambda>x. x < 65536) gs \<Longrightarrow>
   length gs' \<le> 8 \<and> list_all (\<lambda>x. x < 65536) gs'"
proof (induction gs ell s rule: parse6_loop.induct)
  case (1 gs ell s)
  show ?case
  proof (cases "8 \<le> length gs")
    case True
    with 1 show ?thesis by (simp add: parse6_loop.simps)
  next
    case False
    with "1.prems"(1) obtain acc r where g: "parse6_group s = Some (acc, r)"
      by (auto simp: parse6_loop.simps [of gs] split: option.splits)
    note acc = parse6_group_bound [OF g]
    have v4: "length fs = 4 \<and> list_all (\<lambda>x. x < 256) fs" if "parseIPv4Fields s = Some fs" for fs
      using parse4_wf [of "[]" 0 0 s fs] that by (simp add: parseIPv4Fields_def)
    show ?thesis
    proof (cases "r \<noteq> [] \<and> hd r = CHR ''.''")
      case True
      with "1.prems"(1) False g obtain a b c d where "parseIPv4Fields s = Some [a, b, c, d]"
        "gs' = gs @ [a * 256 + b, c * 256 + d]" "\<not> 8 < length gs + 2"
        by (auto simp: parse6_loop.simps [of gs] split: if_splits option.splits list.splits)
      with v4 "1.prems"(3) show ?thesis by fastforce
    next
      case nodot: False
      then show ?thesis
        using "1.prems" acc "1.IH" [OF False g refl nodot] False g
        by (auto simp: parse6_loop.simps [of gs] split: if_splits)
    qed
  qed
qed

lemma parseIPv6_wf: "parseIPv6 s = Some a \<Longrightarrow> wf_addr a"
  using parse6_wf [of "[]"]
  by (fastforce simp: parseIPv6_def Let_def wf_addr_def list_all_iff
      split: if_splits option.splits dest: in_set_takeD in_set_dropD)

lemma parse_family_wf: "parse_family s t = Some a \<Longrightarrow> wf_addr a"
proof (induction t)
  case (Cons c t)
  have "wf_addr (Addr4 fs)" if "parseIPv4Fields s = Some fs" for fs
    using parse4_wf [of "[]" 0 0 s fs] that by (simp add: parseIPv4Fields_def wf_addr_def)
  with Cons show ?case by (auto split: if_splits intro: parseIPv6_wf)
qed simp

lemma wf_addr_Unmap: "wf_addr a \<Longrightarrow> wf_addr (Addr_NoZone (Addr_Unmap a))"
proof (cases a)
  case (Addr6 gs z)
  assume "wf_addr a"
  with Addr6 have "list_all (\<lambda>x. x < 65536) gs" "gs ! 6 < 65536" "gs ! 7 < 65536" "length gs = 8"
    by (auto simp: wf_addr_def list_all_length)
  then show ?thesis by (auto simp: Addr6 wf_addr_def Addr_NoZone_def Addr_Unmap_def)
qed (simp add: wf_addr_def Addr_NoZone_def Addr_Unmap_def)

lemma Unmap_idem: "Addr_NoZone (Addr_Unmap (Addr_NoZone (Addr_Unmap a))) = Addr_NoZone (Addr_Unmap a)"
  by (auto simp: Addr_NoZone_def Addr_Unmap_def split: Addr.splits)

lemma canonical_ip_parse:
  assumes "canonical_ip s = Some t"
  obtains a where "ParseAddr t = Some a" "t = Addr_String a" "a = Addr_NoZone (Addr_Unmap a)" "wf_addr a"
proof -
  from assms obtain a where a: "ParseAddr s = Some a" "t = Addr_String (Addr_NoZone (Addr_Unmap a))"
    by (auto simp: canonical_ip_def)
  then have "wf_addr (Addr_NoZone (Addr_Unmap a))"
    by (auto simp: ParseAddr_def intro: wf_addr_Unmap parse_family_wf)
  with a that show thesis by (metis ParseAddr_String Unmap_idem)
qed

lemma canonical_ip_idem: "canonical_ip s = Some t \<Longrightarrow> canonical_ip t = Some t"
  by (erule canonical_ip_parse) (simp add: canonical_ip_def)

text \<open>Two spellings of one address get the same canonical text, and two addresses never share one.\<close>

lemma canonical_ip_eq_iff:
  assumes "ParseAddr s = Some a" "ParseAddr t = Some b"
  shows "canonical_ip s = canonical_ip t \<longleftrightarrow> Addr_NoZone (Addr_Unmap a) = Addr_NoZone (Addr_Unmap b)"
proof -
  have "wf_addr (Addr_NoZone (Addr_Unmap a))" "wf_addr (Addr_NoZone (Addr_Unmap b))"
    using assms by (auto simp: ParseAddr_def intro: wf_addr_Unmap parse_family_wf)
  then show ?thesis
    using assms by (metis ParseAddr_String Unmap_idem canonical_ip_def option.inject option.simps(9))
qed

end
