(* ===== verification/Respond.thy ===== *)
theory Respond
  imports Rules Auth Netip
begin

text \<open>
  The HTTP layer of the backend (\<^verbatim>\<open>handler/respond.go\<close>, the types of \<^verbatim>\<open>handler/handler.go\<close>): requests,
  replies, body decoding, and identifiers in paths and bodies. The response writer is in \<open>Outer\<close>.

  A reply is the status and the value that is encoded as the body. What \<^verbatim>\<open>encoding/json\<close> makes of a body
  that was received is a parameter of the model, one decoder for each body type.
\<close>

section \<open>Replies\<close>

datatype payload =
    NoBody
  | ErrorBody string
  | AccessOut AccessRequestResponse
  | VerdictOut VerdictResponse
  | ConflictOut VerdictConflict
  | HistoryOut HistoryResponse
  | WhitelistListOut "WhitelistItem list"
  | WhitelistOut WhitelistItem
  | DeviceListOut "DeviceItem list"
  | DeviceOut DeviceItem
  | BlockedListOut "BlockedIPItem list"
  | GeoListOut "GeoRuleItem list"
  | GeoOut GeoRuleItem
  | HealthOut string string

text \<open>\<open>HungUp\<close>: the caller went away and nothing was written. \<open>Waiting\<close>: the handler is still waiting
  when the events considered end.\<close>

datatype reply = Reply nat payload | HungUp | Waiting

abbreviation writeError :: "nat \<Rightarrow> string \<Rightarrow> reply" where
  "writeError status msg \<equiv> Reply status (ErrorBody msg)"

abbreviation internal_error :: reply where
  "internal_error \<equiv> writeError 500 ''internal error''"

section \<open>Bodies\<close>

definition maxBodyBytes :: nat where
  "maxBodyBytes = 1048576"

text \<open>The body is \<open>None\<close> when reading it fails. \<^verbatim>\<open>io.LimitReader\<close> stops one byte after the limit, which
  is enough to see that the body is too large.\<close>

definition decodeJSON :: "(string \<Rightarrow> 'b option) \<Rightarrow> string option \<Rightarrow> (reply, 'b) result" where
  "decodeJSON unmarshal raw =
     (case map_option (take (maxBodyBytes + 1)) raw of
        None \<Rightarrow> Inl (writeError 400 ''cannot read body'')
      | Some bs \<Rightarrow>
          if maxBodyBytes < length bs then Inl (writeError 400 ''body too large'')
          else (case unmarshal bs of
                  None \<Rightarrow> Inl (writeError 400 ''invalid JSON body'')
                | Some v \<Rightarrow> Inr v))"

section \<open>Identifiers\<close>

text \<open>The expression \<^verbatim>\<open>^[0-9a-fA-F]{8}-[0-9a-fA-F]{4}-...{12}$\<close>: five groups of hexadecimal digits of
  fixed lengths.\<close>

definition isUUID :: "string \<Rightarrow> bool" where
  "isUUID s \<longleftrightarrow>
     (let gs = split_byte CHR ''-'' s
      in map length gs = [8, 4, 4, 4, 12] \<and> list_all (list_all is_hex) gs)"

definition pathID :: "string \<Rightarrow> (reply, string) result" where
  "pathID raw = (let i = ToLower raw in if isUUID i then Inr i else Inl (writeError 404 ''not found''))"

text \<open>\<^verbatim>\<open>dbtest.NewID\<close>: sixteen random bytes with the version and variant bits of a UUID, printed in
  groups of 4, 2, 2, 2 and 6 bytes.\<close>

definition hex_byte :: "8 word \<Rightarrow> string" where
  "hex_byte b = [hex_nibble (unat b div 16), hex_nibble (unat b mod 16)]"

definition hex_bytes :: "8 word list \<Rightarrow> string" where
  "hex_bytes bs = concat (map hex_byte bs)"

definition NewID :: "8 word list \<Rightarrow> string" where
  "NewID b =
     (let b = b[6 := (b ! 6 AND 0x0f) OR 0x40];
          b = b[8 := (b ! 8 AND 0x3f) OR 0x80]
      in hex_bytes (take 4 b) @ ''-'' @ hex_bytes (take 2 (drop 4 b)) @ ''-'' @
         hex_bytes (take 2 (drop 6 b)) @ ''-'' @ hex_bytes (take 2 (drop 8 b)) @ ''-'' @
         hex_bytes (take 6 (drop 10 b)))"

section \<open>Lemmas\<close>

lemma decodeJSON_ok_iff:
  "decodeJSON u raw = Inr v \<longleftrightarrow> (\<exists>bs. raw = Some bs \<and> length bs \<le> maxBodyBytes \<and> u bs = Some v)"
  by (auto simp: decodeJSON_def min_def split: option.splits if_splits)

lemma decodeJSON_error: "decodeJSON u raw = Inl r \<Longrightarrow> \<exists>msg. r = writeError 400 msg"
  by (auto simp: decodeJSON_def split: option.splits if_splits)

lemma hex_nibble_hex: "d < 16 \<Longrightarrow> is_hex (hex_nibble d)"
  by (simp add: is_hex_def hex_nibble_def)

lemma unat8_less: "unat (b :: 8 word) < 256"
  by (rule order_less_le_trans [OF unsigned_less]) simp

lemma unat8_div: "unat (b :: 8 word) div 16 < 16"
  using unat8_less [of b] by (simp add: less_mult_imp_div_less)

lemma hex_bytes_props:
  "list_all is_hex (hex_bytes bs)" "length (hex_bytes bs) = 2 * length bs"
  by (induction bs) (simp_all add: hex_bytes_def hex_byte_def hex_nibble_hex unat8_div)

lemma hex_bytes_no_dash: "CHR ''-'' \<notin> set (hex_bytes bs)"
  using hex_bytes_props(1) [of bs] by (auto simp: list_all_iff is_hex_def)

lemma NewID_isUUID:
  assumes "length b = 16"
  shows "isUUID (NewID b)"
proof -
  let ?c = "(b[6 := (b ! 6 AND 0x0f) OR 0x40])[8 := (b[6 := (b ! 6 AND 0x0f) OR 0x40] ! 8 AND 0x3f) OR 0x80]"
  have "split_byte CHR ''-'' (NewID b) =
      [hex_bytes (take 4 ?c), hex_bytes (take 2 (drop 4 ?c)), hex_bytes (take 2 (drop 6 ?c)),
       hex_bytes (take 2 (drop 8 ?c)), hex_bytes (take 6 (drop 10 ?c))]"
    unfolding NewID_def Let_def
    by (simp add: split_byte_append_sep split_byte_single hex_bytes_no_dash)
  with assms show ?thesis by (simp add: isUUID_def hex_bytes_props)
qed

lemma hex_nibble_lower:
  "d < 16 \<Longrightarrow> (of_char (hex_nibble d) :: nat) < 128 \<and>
     \<not> (65 \<le> (of_char (hex_nibble d) :: nat) \<and> (of_char (hex_nibble d) :: nat) \<le> 90)"
  by (simp add: hex_nibble_def)

lemma NewID_lower: "ToLower (NewID b) = NewID b"
proof (rule ToLower_lower)
  let ?low = "\<lambda>c. (of_char c :: nat) < 128 \<and> \<not> (65 \<le> (of_char c :: nat) \<and> (of_char c :: nat) \<le> 90)"
  have "list_all ?low (hex_bytes bs)" for bs
    using hex_nibble_lower unat8_div by (induction bs) (auto simp: hex_bytes_def hex_byte_def)
  then show "list_all ?low (NewID b)" by (simp add: NewID_def Let_def)
qed

end
