(* ===== verification/Handlers.thy ===== *)
theory Handlers
  imports Respond
begin

text \<open>
  The handler value of \<^verbatim>\<open>handler/handler.go\<close>, its authentication middleware, the push fan-out of
  \<^verbatim>\<open>handler/push.go\<close>, and the list routes: \<^verbatim>\<open>health.go\<close>, \<^verbatim>\<open>history.go\<close>, \<^verbatim>\<open>whitelist.go\<close>, \<^verbatim>\<open>devices.go\<close>,
  \<^verbatim>\<open>blocked_ips.go\<close>, \<^verbatim>\<open>geo_rules.go\<close>.

  A handler takes the dependencies \<open>h\<close>, a context \<open>cx\<close> with every clock reading and fresh id the call
  uses, the request, the principal stored by the middleware, and the state of the store. It returns
  the new state, the pushes handed to FCM, and the reply. Log lines are not modelled.
\<close>

section \<open>Dependencies\<close>

record HandlerConfig =
  hc_VerdictWait :: duration
  hc_PollInterval :: duration
  hc_RequestTTL :: duration
  hc_PushTimeout :: duration

definition handler_DefaultConfig :: HandlerConfig where
  "handler_DefaultConfig =
     \<lparr> hc_VerdictWait = 25 * Second, hc_PollInterval = Second, hc_RequestTTL = 30 * Second,
       hc_PushTimeout = 5 * Second \<rparr>"

text \<open>The decoders of the body types.\<close>

record Codec =
  js_access :: "string \<Rightarrow> AccessRequestBody option"
  js_verdict :: "string \<Rightarrow> VerdictBody option"
  js_whitelist :: "string \<Rightarrow> WhitelistBody option"
  js_device :: "string \<Rightarrow> DeviceBody option"
  js_geo :: "string \<Rightarrow> GeoRuleBody option"

type_synonym push = "string \<times> push_data"

text \<open>\<open>h_push\<close> says for each token and message whether FCM accepts it; \<open>h_geo\<close> is the geo lookup.\<close>

record 's Handler =
  h_store :: "'s Store"
  h_push :: "(string \<Rightarrow> push_data \<Rightarrow> bool) option"
  h_geo :: "(string \<Rightarrow> Geo option) option"
  h_adminHash :: string
  h_rules :: RulesConfig
  h_cfg :: HandlerConfig
  h_json :: Codec
  h_FormatTime :: "time \<Rightarrow> string"
  h_ParseTime :: "string \<Rightarrow> time option"

text \<open>\<^verbatim>\<open>handler.New\<close>: the defaults of the timing.\<close>

definition default_if :: "duration \<Rightarrow> duration \<Rightarrow> duration" where
  "default_if d def = (if d \<le> 0 then def else d)"

definition handler_New :: "'s Handler \<Rightarrow> 's Handler" where
  "handler_New h =
     (let c = h_cfg h; def = handler_DefaultConfig in
      h\<lparr> h_cfg := \<lparr> hc_VerdictWait = default_if (hc_VerdictWait c) (hc_VerdictWait def),
                     hc_PollInterval = default_if (hc_PollInterval c) (hc_PollInterval def),
                     hc_RequestTTL = default_if (hc_RequestTTL c) (hc_RequestTTL def),
                     hc_PushTimeout = default_if (hc_PushTimeout c) (hc_PushTimeout def) \<rparr> \<rparr>)"

text \<open>What happens while the access-request handler sleeps: the caller may hang up, or the sleep ends.
  In \<open>Woke lag env over\<close>, \<open>lag\<close> is the time spent before the loop reads the clock, \<open>over\<close> how much later than asked the sleep
  ends, and \<open>env\<close> what other processes did to the store meanwhile.\<close>

datatype 's sleep_event = Cancelled | Woke nat "'s \<Rightarrow> 's" nat

record 's Ctx =
  cx_touch :: time
  cx_now :: time
  cx_rules :: time
  cx_nid :: string
  cx_bid :: string
  cx_sched :: "'s sleep_event list"
  cx_late :: nat

record HttpRequest =
  hq_Method :: string
  hq_Path :: string
  hq_Authorization :: string
  hq_Query :: "string \<Rightarrow> string"
  hq_Body :: "string option"

type_synonym 's served = "'s \<times> push list \<times> reply"
type_synonym 's route = "'s Handler \<Rightarrow> 's Ctx \<Rightarrow> HttpRequest \<Rightarrow> Principal option \<Rightarrow> 's \<Rightarrow> 's served"

section \<open>The authentication middleware\<close>

definition authenticate ::
  "'s Handler \<Rightarrow> 's Ctx \<Rightarrow> HttpRequest \<Rightarrow> 's \<Rightarrow> 's \<times> (reply, Principal) result" where
  "authenticate h cx r s =
     (case Authenticate (h_store h) (h_adminHash h) (hq_Authorization r) s of
        Inl (ErrStore _) \<Rightarrow> (s, Inl internal_error)
      | Inl _ \<Rightarrow> (s, Inl (writeError 401 ''missing or invalid token''))
      | Inr p \<Rightarrow>
          (case (pr_Kind p, pr_Server p) of
             (KindServer, Some srv) \<Rightarrow> (fst (st_TouchServer (h_store h) (sv_ID srv) (cx_touch cx) s), Inr p)
           | _ \<Rightarrow> (s, Inr p)))"

definition requireAdmin :: "'s route \<Rightarrow> 's route" where
  "requireAdmin next h cx r _ s =
     (case authenticate h cx r s of
        (s', Inl e) \<Rightarrow> (s', [], e)
      | (s', Inr p) \<Rightarrow>
          if pr_Kind p \<noteq> KindAdmin then (s', [], writeError 403 ''admin token required'')
          else next h cx r (Some p) s')"

definition requireServer :: "'s route \<Rightarrow> 's route" where
  "requireServer next h cx r _ s =
     (case authenticate h cx r s of
        (s', Inl e) \<Rightarrow> (s', [], e)
      | (s', Inr p) \<Rightarrow>
          if pr_Kind p \<noteq> KindServer then (s', [], writeError 403 ''server token required'')
          else next h cx r (Some p) s')"

definition requireAny :: "'s route \<Rightarrow> 's route" where
  "requireAny next h cx r _ s =
     (case authenticate h cx r s of
        (s', Inl e) \<Rightarrow> (s', [], e)
      | (s', Inr p) \<Rightarrow> next h cx r (Some p) s')"

section \<open>Pushes\<close>

text \<open>The messages handed to FCM, one for each registered phone, and how many were accepted. A failed
  delivery is only logged.\<close>

definition pushAll :: "'s Handler \<Rightarrow> push_data \<Rightarrow> 's \<Rightarrow> push list \<times> nat" where
  "pushAll h data s =
     (case h_push h of
        None \<Rightarrow> ([], 0)
      | Some send \<Rightarrow>
          (case st_ListDevices (h_store h) s of
             Inl _ \<Rightarrow> ([], 0)
           | Inr devices \<Rightarrow>
               (map (\<lambda>d. (dv_FCMToken d, data)) devices,
                length (filter (\<lambda>d. send (dv_FCMToken d) data) devices))))"

section \<open>Health\<close>

definition health :: "'s route" where
  "health h cx r p s =
     (s, [], case st_Ping (h_store h) s of
               Some _ \<Rightarrow> Reply 503 (HealthOut ''degraded'' ''error'')
             | None \<Rightarrow> Reply 200 (HealthOut ''ok'' ''ok''))"

section \<open>History\<close>

definition historyDefaultLimit :: int where "historyDefaultLimit = 50"

definition historyMaxLimit :: int where "historyMaxLimit = 200"

definition history_limit :: "string \<Rightarrow> int option" where
  "history_limit q =
     (if q = [] then Some historyDefaultLimit
      else (case Atoi q of
              None \<Rightarrow> None
            | Some n \<Rightarrow> if n < 1 then None else Some (min n historyMaxLimit)))"

definition history_page :: "int \<Rightarrow> Request list \<Rightarrow> HistoryResponse" where
  "history_page limit rows =
     (if limit < int (length rows)
      then let rows = take (nat limit) rows
           in \<lparr> hr_Items = map ToHistoryItem rows, hr_NextBefore = Some (rq_CreatedAt (last rows)) \<rparr>
      else \<lparr> hr_Items = map ToHistoryItem rows, hr_NextBefore = None \<rparr>)"

definition history :: "'s route" where
  "history h cx r p s =
     (s, [],
      case history_limit (hq_Query r ''limit'') of
        None \<Rightarrow> writeError 400 ''limit must be a positive integer''
      | Some limit \<Rightarrow>
          let q = hq_Query r ''before'';
              before = (if q = [] then None else h_ParseTime h q);
              ctx = hq_Query r ''context'';
              status = hq_Query r ''status''
          in if q \<noteq> [] \<and> before = None then writeError 400 ''before must be an RFC 3339 timestamp''
             else if ctx \<noteq> [] \<and> \<not> ValidContext ctx then writeError 400 ''context must be ssh or sudo''
             else if status \<noteq> [] \<and> \<not> ValidStatus status then writeError 400 ''unknown status''
             else (case st_ListRequests (h_store h)
                          \<lparr> rf_Limit = limit + 1, rf_Before = before, rf_Server = hq_Query r ''server'',
                            rf_Username = hq_Query r ''username'', rf_Context = ctx, rf_Status = status \<rparr> s of
                     Inl _ \<Rightarrow> internal_error
                   | Inr rows \<Rightarrow> Reply 200 (HistoryOut (history_page limit rows))))"

section \<open>Whitelist\<close>

definition whitelistMaxTTL :: int where
  "whitelistMaxTTL = 100 * 365 * 24 * 60 * 60"

definition listWhitelist :: "'s route" where
  "listWhitelist h cx r p s =
     (case p of
        None \<Rightarrow> (s, [], writeError 401 ''missing or invalid token'')
      | Some p \<Rightarrow>
          let serverID = (case (pr_Kind p, pr_Server p) of
                            (KindServer, Some srv) \<Rightarrow> Some (sv_ID srv) | _ \<Rightarrow> None)
          in (case st_ListWhitelist (h_store h) serverID (cx_now cx) s of
                (s', Inl _) \<Rightarrow> (s', [], internal_error)
              | (s', Inr rows) \<Rightarrow> (s', [], Reply 200 (WhitelistListOut (map ToWhitelistItem rows)))))"

definition new_entry :: WhitelistEntry where
  "new_entry = \<lparr> wl_ID = [], wl_Username = [], wl_Context = [], wl_ServerID = None, wl_ServerName = None,
                 wl_ExpiresAt = None, wl_CreatedAt = ZeroTime, wl_CreatedFrom = None,
                 wl_CreatedByDevice = None, wl_CreatedByDeviceLabel = None \<rparr>"

definition createWhitelist :: "'s route" where
  "createWhitelist h cx r p s =
     (case decodeJSON (js_whitelist (h_json h)) (hq_Body r) of
        Inl e \<Rightarrow> (s, [], e)
      | Inr body \<Rightarrow>
          let username = TrimSpace (wb_Username body);
              ctx = TrimSpace (wb_Context body);
              ctx = (if ctx = [] then ContextSSH else ctx);
              now = cx_now cx
          in if username = [] then (s, [], writeError 400 ''username is required'')
             else if \<not> ValidContext ctx then (s, [], writeError 400 ''context must be ssh or sudo'')
             else if (case wb_TTLSeconds body of None \<Rightarrow> False | Some t \<Rightarrow> t \<le> 0 \<or> whitelistMaxTTL < t)
             then (s, [], writeError 400 ''ttl_seconds must be between 1 and 3153600000'')
             else
               (case (let name = TrimSpace (deref (wb_Server body))
                      in if name = [] then Inr None
                         else (case st_ServerByName (h_store h) name s of
                                 Inl err \<Rightarrow> Inl (if err = ErrNotFound then writeError 404 ''unknown server''
                                                 else internal_error)
                               | Inr srv \<Rightarrow> Inr (Some (sv_ID srv)))) of
                  Inl e \<Rightarrow> (s, [], e)
                | Inr serverID \<Rightarrow>
                    let entry = new_entry\<lparr> wl_Username := username, wl_Context := ctx, wl_ServerID := serverID,
                                  wl_ExpiresAt := map_option (\<lambda>t. now + seconds_duration t) (wb_TTLSeconds body) \<rparr>
                    in (case st_UpsertWhitelist (h_store h) (cx_nid cx) entry now s of
                          (s', Inl _) \<Rightarrow> (s', [], internal_error)
                        | (s', Inr (saved, created)) \<Rightarrow>
                            (s', [], Reply (if created then 201 else 200) (WhitelistOut (ToWhitelistItem saved))))))"

text \<open>The four \<^verbatim>\<open>DELETE\<close> routes have one shape: the id of the path, one statement, 204 or 404.\<close>

definition delete_reply :: "string \<Rightarrow> 's \<times> store_error option \<Rightarrow> 's served" where
  "delete_reply missing res =
     (case res of
        (s', None) \<Rightarrow> (s', [], Reply 204 NoBody)
      | (s', Some err) \<Rightarrow> (s', [], if err = ErrNotFound then writeError 404 missing else internal_error))"

definition path_last :: "string \<Rightarrow> string" where
  "path_last path = last (split_byte CHR ''/'' path)"

definition deleteWhitelist :: "'s route" where
  "deleteWhitelist h cx r p s =
     (case pathID (path_last (hq_Path r)) of
        Inl e \<Rightarrow> (s, [], e)
      | Inr i \<Rightarrow> delete_reply ''not found'' (st_DeleteWhitelist (h_store h) i s))"

section \<open>Devices\<close>

definition optionalText :: "string option \<Rightarrow> string option" where
  "optionalText p =
     (case p of None \<Rightarrow> None | Some t \<Rightarrow> let t = TrimSpace t in if t = [] then None else Some t)"

definition createDevice :: "'s route" where
  "createDevice h cx r p s =
     (case decodeJSON (js_device (h_json h)) (hq_Body r) of
        Inl e \<Rightarrow> (s, [], e)
      | Inr body \<Rightarrow>
          let token = TrimSpace (db_FCMToken body)
          in if token = [] then (s, [], writeError 400 ''fcm_token is required'')
             else if \<not> ValidPlatform (db_Platform body)
             then (s, [], writeError 400 ''platform must be android or ios'')
             else (case st_UpsertDevice (h_store h) (cx_nid cx) token (db_Platform body)
                          (optionalText (db_Label body)) (cx_now cx) s of
                     (s', Inl _) \<Rightarrow> (s', [], internal_error)
                   | (s', Inr (dev, created)) \<Rightarrow>
                       (s', [], Reply (if created then 201 else 200) (DeviceOut (ToDeviceItem dev)))))"

definition listDevices :: "'s route" where
  "listDevices h cx r p s =
     (s, [], case st_ListDevices (h_store h) s of
               Inl _ \<Rightarrow> internal_error
             | Inr ds \<Rightarrow> Reply 200 (DeviceListOut (map ToDeviceItem ds)))"

definition deleteDevice :: "'s route" where
  "deleteDevice h cx r p s =
     (case pathID (path_last (hq_Path r)) of
        Inl e \<Rightarrow> (s, [], e)
      | Inr i \<Rightarrow> delete_reply ''device not found'' (st_DeleteDevice (h_store h) i (cx_now cx) s))"

section \<open>Blocked addresses\<close>

definition listBlockedIPs :: "'s route" where
  "listBlockedIPs h cx r p s =
     (s, [], case st_ListBlockedIPs (h_store h) (cx_now cx) s of
               Inl _ \<Rightarrow> internal_error
             | Inr bs \<Rightarrow> Reply 200 (BlockedListOut (map ToBlockedIPItem bs)))"

definition deleteBlockedIP :: "'s route" where
  "deleteBlockedIP h cx r p s =
     (case pathID (path_last (hq_Path r)) of
        Inl e \<Rightarrow> (s, [], e)
      | Inr i \<Rightarrow> delete_reply ''blocked ip not found'' (st_UnblockIP (h_store h) i (cx_now cx) s))"

section \<open>Geo rules\<close>

definition listGeoRules :: "'s route" where
  "listGeoRules h cx r p s =
     (s, [], case st_ListGeoRules (h_store h) s of
               Inl _ \<Rightarrow> internal_error
             | Inr gs \<Rightarrow> Reply 200 (GeoListOut (map ToGeoRuleItem gs)))"

definition createGeoRule :: "'s route" where
  "createGeoRule h cx r p s =
     (case decodeJSON (js_geo (h_json h)) (hq_Body r) of
        Inl e \<Rightarrow> (s, [], e)
      | Inr body \<Rightarrow>
          let country = ToUpper (TrimSpace (gb_Country body))
          in if \<not> ValidCountry country then (s, [], writeError 400 ''unknown country code'')
             else (case st_CreateGeoRule (h_store h) (cx_nid cx) country (optionalText (gb_Note body))
                          (cx_now cx) s of
                     (s', Inl err) \<Rightarrow>
                       (s', [], if err = ErrConflict then writeError 409 ''country already has a rule''
                                else internal_error)
                   | (s', Inr g) \<Rightarrow> (s', [], Reply 201 (GeoOut (ToGeoRuleItem g)))))"

definition deleteGeoRule :: "'s route" where
  "deleteGeoRule h cx r p s =
     (case pathID (path_last (hq_Path r)) of
        Inl e \<Rightarrow> (s, [], e)
      | Inr i \<Rightarrow> delete_reply ''geo rule not found'' (st_DeleteGeoRule (h_store h) i s))"

section \<open>Lemmas\<close>

lemma handler_New_positive:
  "0 < hc_VerdictWait (h_cfg (handler_New h))" "0 < hc_PollInterval (h_cfg (handler_New h))"
  "0 < hc_RequestTTL (h_cfg (handler_New h))" "0 < hc_PushTimeout (h_cfg (handler_New h))"
  by (simp_all add: handler_New_def handler_DefaultConfig_def default_if_def Let_def)

lemma authenticate_cases:
  assumes "authenticate h cx r s = (s', res)"
  obtains e where "res = Inl e" "s' = s" "e = internal_error \<or> e = writeError 401 ''missing or invalid token''"
  | p where "res = Inr p" "Authenticate (h_store h) (h_adminHash h) (hq_Authorization r) s = Inr p"
      "pr_Kind p = KindAdmin" "pr_Server p = None" "s' = s"
  | p srv where "res = Inr p" "Authenticate (h_store h) (h_adminHash h) (hq_Authorization r) s = Inr p"
      "pr_Kind p = KindServer" "pr_Server p = Some srv"
      "s' = fst (st_TouchServer (h_store h) (sv_ID srv) (cx_touch cx) s)"
proof (cases "Authenticate (h_store h) (h_adminHash h) (hq_Authorization r) s")
  case (Inl e)
  with assms that(1) show thesis by (cases e) (auto simp: authenticate_def)
next
  case (Inr p)
  show thesis
  proof (rule Authenticate_sound [OF Inr])
    assume "pr_Kind p = KindAdmin" "pr_Server p = None"
    then show thesis using assms Inr by (intro that(2)) (simp_all add: authenticate_def)
  next
    fix srv
    assume "pr_Kind p = KindServer" "pr_Server p = Some srv"
    then show thesis using assms Inr by (intro that(3)) (auto simp: authenticate_def)
  qed
qed

end
