(* ===== verification/Access.thy ===== *)
theory Access
  imports Handlers
begin

text \<open>
  \<^verbatim>\<open>POST /access-request\<close> (\<^verbatim>\<open>handler/access_request.go\<close>): the login is validated, run through the rules,
  stored, pushed to the phones, and its row is read again until a verdict lands or the wait is over.

  The wait loop runs along a schedule of sleep events (theory \<open>Handlers\<close>), during each of which other
  processes may change the store. The theorems cover every schedule: a long enough one always ends the
  wait, and under the contract \<open>request_store\<close>, with other processes that respect it, the answer
  is the decision recorded in the row.
\<close>

section \<open>Validation\<close>

definition accessNilIfEmpty :: "string option \<Rightarrow> string option" where
  "accessNilIfEmpty p = (case p of None \<Rightarrow> None | Some t \<Rightarrow> if t = [] then None else Some t)"

definition normalize_source_ip :: "string option \<Rightarrow> string option option" where
  "normalize_source_ip src =
     (case src of
        None \<Rightarrow> Some None
      | Some t \<Rightarrow>
          let raw = TrimSpace t in
          if raw = [] then Some None
          else (case canonical_ip raw of None \<Rightarrow> None | Some canon \<Rightarrow> Some (Some canon)))"

definition normalizeAccessRequest ::
  "AccessRequestBody \<Rightarrow> string \<Rightarrow> (string, AccessRequestBody) result" where
  "normalizeAccessRequest b srvName =
     (let b = (if ab_Context b = [] then b\<lparr>ab_Context := ContextSSH\<rparr> else b) in
      if \<not> ValidContext (ab_Context b) then Inl ''context must be ssh or sudo''
      else
      (let b = (if ab_Mode b = [] then b\<lparr>ab_Mode := ModeEnforce\<rparr> else b) in
       if \<not> ValidMode (ab_Mode b) then Inl ''mode must be enforce or notify''
       else
       (let b = b\<lparr>ab_Username := TrimSpace (ab_Username b)\<rparr> in
        if ab_Username b = [] then Inl ''username is required''
        else
        (let b = b\<lparr>ab_Hostname := TrimSpace (ab_Hostname b)\<rparr>;
             b = (if ab_Hostname b = [] then b\<lparr>ab_Hostname := srvName\<rparr> else b)
         in case normalize_source_ip (ab_SourceIP b) of
              None \<Rightarrow> Inl ''source_ip must be an IP address''
            | Some ip \<Rightarrow>
                Inr (b\<lparr> ab_SourceIP := ip, ab_TTY := accessNilIfEmpty (ab_TTY b),
                        ab_Command := accessNilIfEmpty (ab_Command b) \<rparr>)))))"

section \<open>The answer\<close>

definition answerAccessRequest :: "Request \<Rightarrow> reply" where
  "answerAccessRequest row =
     (let (verdict, reason) = VerdictFor (rq_Status row)
      in Reply 200 (AccessOut \<lparr> ar_RequestID = rq_ID row, ar_Verdict = verdict, ar_Reason = reason,
                                ar_DecidedAt = rq_DecidedAt row \<rparr>))"

section \<open>The wait\<close>

text \<open>After the deadline: mark the row timed out unless a verdict landed in the meantime.\<close>

definition finishWait :: "'s Store \<Rightarrow> Request \<Rightarrow> time \<Rightarrow> 's \<Rightarrow> 's \<times> reply" where
  "finishWait S created now s =
     (case st_MarkTimeout S (rq_ID created) now s of
        (s', Inl _) \<Rightarrow> (s', internal_error)
      | (s', Inr marked) \<Rightarrow>
          if \<not> marked then
            (case st_RequestByID S (rq_ID created) s' of
               Inl _ \<Rightarrow> (s', internal_error)
             | Inr cur \<Rightarrow> (s', answerAccessRequest cur))
          else (s', answerAccessRequest (created\<lparr> rq_Status := StatusTimeout, rq_DecidedAt := None \<rparr>)))"

text \<open>The clock after one sleep: the loop reads it \<open>lag\<close> after \<open>t\<close>, asks to sleep for the poll interval
  or what remains until the deadline, and wakes \<open>over\<close> later than asked. A negative sleep returns at
  once.\<close>

definition wake_time :: "duration \<Rightarrow> time \<Rightarrow> time \<Rightarrow> nat \<Rightarrow> nat \<Rightarrow> time" where
  "wake_time poll deadline t lag over =
     (let now = t + int lag;
          remaining = deadline - now;
          d = (if remaining < poll then remaining else poll)
      in now + max 0 d + int over)"

fun waitAccessVerdict ::
  "'s Store \<Rightarrow> duration \<Rightarrow> nat \<Rightarrow> Request \<Rightarrow> time \<Rightarrow> time \<Rightarrow> 's sleep_event list \<Rightarrow> 's \<Rightarrow> 's \<times> reply" where
  "waitAccessVerdict S poll late created deadline t [] s = (s, Waiting)"
| "waitAccessVerdict S poll late created deadline t (Cancelled # evs) s = (s, HungUp)"
| "waitAccessVerdict S poll late created deadline t (Woke lag env over # evs) s =
     (let woken = wake_time poll deadline t lag over;
          s1 = env s
      in if \<not> woken < deadline then finishWait S created (woken + int late) s1
         else (case st_RequestByID S (rq_ID created) s1 of
                 Inl _ \<Rightarrow> (s1, internal_error)
               | Inr cur \<Rightarrow>
                   if rq_Status cur \<noteq> StatusPending then (s1, answerAccessRequest cur)
                   else waitAccessVerdict S poll late created deadline woken evs s1))"

section \<open>The handler\<close>

definition access_row :: "'s Handler \<Rightarrow> time \<Rightarrow> Server \<Rightarrow> AccessRequestBody \<Rightarrow> Geo option \<Rightarrow> Outcome \<Rightarrow> Request" where
  "access_row h now srv body geo oc =
     \<lparr> rq_ID = [], rq_ServerID = sv_ID srv, rq_ServerName = [], rq_Context = ab_Context body,
       rq_Username = ab_Username body, rq_SourceIP = ab_SourceIP body, rq_Hostname = ab_Hostname body,
       rq_TTY = ab_TTY body, rq_Command = ab_Command body, rq_Geo = geo, rq_Status = oc_Status oc,
       rq_DecidedBy = oc_DecidedBy oc, rq_DecidedByDevice = None, rq_DecidedByDeviceLabel = None,
       rq_CreatedAt = now, rq_ExpiresAt = now + hc_RequestTTL (h_cfg h),
       rq_DecidedAt = (if Outcome_Pending oc then None else Some now) \<rparr>"

definition access_input :: "Server \<Rightarrow> AccessRequestBody \<Rightarrow> Geo option \<Rightarrow> RulesInput" where
  "access_input srv body geo =
     \<lparr> ri_ServerID = sv_ID srv, ri_Username = ab_Username body, ri_Context = ab_Context body,
       ri_SourceIP = ab_SourceIP body,
       ri_Country = (case geo of None \<Rightarrow> [] | Some g \<Rightarrow> geo_Country g), ri_Mode = ab_Mode body \<rparr>"

definition access_geo :: "'s Handler \<Rightarrow> AccessRequestBody \<Rightarrow> Geo option" where
  "access_geo h body =
     (case (ab_SourceIP body, h_geo h) of (Some ip, Some lookup) \<Rightarrow> lookup ip | _ \<Rightarrow> None)"

text \<open>From the stored row on: answer at once, or push and wait.\<close>

definition access_created :: "'s Handler \<Rightarrow> 's Ctx \<Rightarrow> Outcome \<Rightarrow> Request \<Rightarrow> 's \<Rightarrow> 's served" where
  "access_created h cx oc created s =
     (if \<not> Outcome_Pending oc then
        (s, if rq_Status created = StatusNotified
            then fst (pushAll h (AccessPush (h_FormatTime h) PushAccessNotice created) s) else [],
         answerAccessRequest created)
      else
        let sent = fst (pushAll h (AccessPush (h_FormatTime h) PushAccessRequest created) s);
            (s', rep) = waitAccessVerdict (h_store h) (hc_PollInterval (h_cfg h)) (cx_late cx) created
                          (cx_now cx + hc_VerdictWait (h_cfg h)) (cx_now cx) (cx_sched cx) s
        in (s', sent, rep))"

definition access_decide :: "'s Handler \<Rightarrow> 's Ctx \<Rightarrow> Server \<Rightarrow> AccessRequestBody \<Rightarrow> 's \<Rightarrow> 's served" where
  "access_decide h cx srv body s =
     (let geo = access_geo h body in
      case Evaluate (h_store h) (cx_rules cx) (access_input srv body geo) s of
        (s1, Inl _) \<Rightarrow> (s1, [], internal_error)
      | (s1, Inr oc) \<Rightarrow>
          (case st_CreateRequest (h_store h) (cx_nid cx) (access_row h (cx_now cx) srv body geo oc) s1 of
             (s2, Inl _) \<Rightarrow> (s2, [], internal_error)
           | (s2, Inr created) \<Rightarrow> access_created h cx oc created s2))"

definition accessRequest :: "'s route" where
  "accessRequest h cx r p s =
     (case p of
        None \<Rightarrow> (s, [], internal_error)
      | Some p \<Rightarrow>
          (case pr_Server p of
             None \<Rightarrow> (s, [], internal_error)
           | Some srv \<Rightarrow>
               (case decodeJSON (js_access (h_json h)) (hq_Body r) of
                  Inl e \<Rightarrow> (s, [], e)
                | Inr raw \<Rightarrow>
                    (case normalizeAccessRequest raw (sv_Name srv) of
                       Inl msg \<Rightarrow> (s, [], writeError 400 msg)
                     | Inr body \<Rightarrow> access_decide h cx srv body s))))"

section \<open>Validation: lemmas\<close>

lemma canonical_ip_nonempty: "canonical_ip s \<noteq> Some []"
proof
  assume "canonical_ip s = Some []"
  then have "canonical_ip [] = Some []" by (rule canonical_ip_idem)
  then show False by (simp add: canonical_ip_def ParseAddr_def)
qed

lemma normalize_source_ip_canonical:
  assumes "normalize_source_ip src = Some (Some ip)"
  shows "ip \<noteq> [] \<and> canonical_ip ip = Some ip"
proof -
  from assms obtain t where t: "canonical_ip t = Some ip"
    by (simp add: normalize_source_ip_def Let_def split: option.splits if_splits)
  with canonical_ip_nonempty [of t] have "ip \<noteq> []" by (cases ip) simp_all
  with canonical_ip_idem [OF t] show ?thesis by simp
qed

lemma normalize_fields:
  assumes "normalizeAccessRequest b name = Inr b'"
  shows "ab_Context b' = (if ab_Context b = [] then ContextSSH else ab_Context b) \<and> ValidContext (ab_Context b')"
    "ab_Mode b' = (if ab_Mode b = [] then ModeEnforce else ab_Mode b) \<and> ValidMode (ab_Mode b')"
    "ab_Username b' = TrimSpace (ab_Username b) \<and> ab_Username b' \<noteq> []"
    "normalize_source_ip (ab_SourceIP b) = Some (ab_SourceIP b')"
    "ab_TTY b' = accessNilIfEmpty (ab_TTY b)" "ab_Command b' = accessNilIfEmpty (ab_Command b)"
  using assms
  by (simp_all add: normalizeAccessRequest_def Let_def split: if_split_asm option.split_asm) (auto simp: enums)

lemma normalize_canonical:
  "normalizeAccessRequest b name = Inr b' \<Longrightarrow> ab_SourceIP b' = Some ip \<Longrightarrow> ip \<noteq> [] \<and> canonical_ip ip = Some ip"
  using normalize_fields(4) normalize_source_ip_canonical by metis

section \<open>The wait ends\<close>

text \<open>A sleep that leaves the loop running moved the clock forward by a whole poll interval.\<close>

lemma wait_progress:
  "wake_time poll deadline t lag over < deadline \<Longrightarrow> t + poll \<le> wake_time poll deadline t lag over"
  by (auto simp: wake_time_def Let_def split: if_splits)

lemma wait_ends:
  "0 < poll \<Longrightarrow> deadline < t + int (length evs) * poll \<Longrightarrow>
   snd (waitAccessVerdict S poll late created deadline t evs s) \<noteq> Waiting \<or> evs = []"
proof (induction evs arbitrary: t s)
  case (Cons ev evs)
  show ?case
  proof (cases ev)
    case (Woke lag env over)
    define woken where "woken = wake_time poll deadline t lag over"
    have fin: "snd (finishWait S created w s') \<noteq> Waiting" for w s'
      by (auto simp: finishWait_def answerAccessRequest_def Let_def split: prod.splits sum.splits)
    have step: "snd (waitAccessVerdict S poll late created deadline t (ev # evs) s) \<noteq> Waiting"
      if "woken < deadline \<Longrightarrow> snd (waitAccessVerdict S poll late created deadline woken evs (env s)) \<noteq> Waiting"
      using that fin
      by (auto simp: Woke Let_def woken_def answerAccessRequest_def split: sum.split prod.split)
    have "snd (waitAccessVerdict S poll late created deadline woken evs (env s)) \<noteq> Waiting"
      if w: "woken < deadline"
    proof -
      have "t + poll \<le> woken" using wait_progress w by (simp add: woken_def)
      then have *: "deadline < woken + int (length evs) * poll"
        using Cons.prems(2) by (simp add: algebra_simps)
      then have "evs \<noteq> []" using w by auto
      with Cons.IH [OF Cons.prems(1) *] show ?thesis by simp
    qed
    with step show ?thesis by blast
  qed simp
qed simp

section \<open>The answer is the recorded decision\<close>

definition answers_row :: "Request \<Rightarrow> reply \<Rightarrow> bool" where
  "answers_row r rep \<longleftrightarrow>
     rep = Reply 200 (AccessOut \<lparr> ar_RequestID = rq_ID r, ar_Verdict = fst (VerdictFor (rq_Status r)),
                                  ar_Reason = snd (VerdictFor (rq_Status r)), ar_DecidedAt = rq_DecidedAt r \<rparr>)"

lemma answerAccessRequest_row: "same_decision r v \<Longrightarrow> answers_row r (answerAccessRequest v)"
  by (auto simp: answers_row_def answerAccessRequest_def same_decision_def Let_def split: prod.split)

text \<open>Other processes respect the contract of the request rows.\<close>

fun event_ok :: "('s \<Rightarrow> bool) \<Rightarrow> ('s \<Rightarrow> string \<Rightarrow> Request option) \<Rightarrow> 's sleep_event \<Rightarrow> bool" where
  "event_ok I row Cancelled \<longleftrightarrow> True"
| "event_ok I row (Woke lag env over) \<longleftrightarrow>
     (\<forall>s. I s \<longrightarrow> I (env s) \<and> rows_evolve (row s) (row (env s)))"

context request_store
begin

lemma finishWait_sound:
  assumes "inv s" "row s (rq_ID created) = Some r" "rq_ID r = rq_ID created"
    and fin: "finishWait S created now s = (s', rep)"
  shows "inv s' \<and> rows_evolve (row s) (row s') \<and>
    (\<exists>r'. row s' (rq_ID created) = Some r' \<and> rq_Status r' \<noteq> StatusPending \<and> answers_row r' rep)"
proof (cases "rq_Status r = StatusPending")
  case True
  from MarkTimeout_pending [OF assms(1,2) True, of now]
  obtain s1 r' where 1: "st_MarkTimeout S (rq_ID created) now s = (s1, Inr True)" "inv s1"
    "rows_evolve (row s) (row s1)" "row s1 (rq_ID created) = Some r'" "rq_Status r' = StatusTimeout"
    "rq_DecidedAt r' = None"
    by blast
  have "rq_ID r' = rq_ID created"
    using rows_evolveD [OF 1(3) assms(2)] 1(4) assms(3) by (auto simp: same_login_def)
  then have "answers_row r' (answerAccessRequest (created\<lparr>rq_Status := StatusTimeout, rq_DecidedAt := None\<rparr>))"
    by (simp add: answers_row_def answerAccessRequest_def 1 split: prod.split)
  with 1 fin show ?thesis by (auto simp: finishWait_def)
next
  case False
  from RequestByID_found [OF assms(1,2)] obtain v where
    "st_RequestByID S (rq_ID created) s = Inr v" "same_decision r v" by blast
  with MarkTimeout_decided [OF assms(1,2) False, of now] False assms(1,2) fin show ?thesis
    by (auto simp: finishWait_def answerAccessRequest_row)
qed

lemma waitAccessVerdict_sound:
  assumes "inv s" "row s (rq_ID created) = Some r" "rq_ID r = rq_ID created"
    and "list_all (event_ok inv row) evs"
    and "waitAccessVerdict S poll late created deadline t evs s = (s', rep)"
  shows "inv s' \<and> rows_evolve (row s) (row s') \<and>
    (rep = Waiting \<or> rep = HungUp \<or>
     (\<exists>r'. row s' (rq_ID created) = Some r' \<and> rq_Status r' \<noteq> StatusPending \<and> answers_row r' rep))"
  using assms
proof (induction evs arbitrary: t s r)
  case (Cons ev evs)
  show ?case
  proof (cases ev)
    case Cancelled
    with Cons.prems show ?thesis by auto
  next
    case (Woke lag env over)
    define s1 where "s1 = env s"
    have s1: "inv s1" "rows_evolve (row s) (row s1)"
      using Cons.prems(1,4) Woke by (auto simp: s1_def)
    then obtain r1 where r1: "row s1 (rq_ID created) = Some r1" "rq_ID r1 = rq_ID created"
      using rows_evolveD [OF s1(2) Cons.prems(2)] Cons.prems(3) by (auto simp: same_login_def)
    obtain v where v: "st_RequestByID S (rq_ID created) s1 = Inr v" "same_decision r1 v"
      using RequestByID_found [OF s1(1) r1(1)] by blast
    define woken where "woken = wake_time poll deadline t lag over"
    have run: "(if \<not> woken < deadline then finishWait S created (woken + int late) s1
        else if rq_Status v \<noteq> StatusPending then (s1, answerAccessRequest v)
        else waitAccessVerdict S poll late created deadline woken evs s1) = (s', rep)"
      using Cons.prems(5) v(1) by (auto simp: Woke Let_def s1_def [symmetric] woken_def [symmetric] split: if_splits)
    consider "\<not> woken < deadline" | "woken < deadline" "rq_Status v \<noteq> StatusPending"
      | "woken < deadline" "rq_Status v = StatusPending" by blast
    then have "inv s' \<and> rows_evolve (row s1) (row s') \<and>
      (rep = Waiting \<or> rep = HungUp \<or>
       (\<exists>r'. row s' (rq_ID created) = Some r' \<and> rq_Status r' \<noteq> StatusPending \<and> answers_row r' rep))"
    proof cases
      case 1
      with run have "finishWait S created (woken + int late) s1 = (s', rep)" by simp
      from finishWait_sound [OF s1(1) r1 this] show ?thesis by blast
    next
      case 2
      with run s1 r1 v(2) show ?thesis
        by (auto simp: answerAccessRequest_row same_decision_def)
    next
      case 3
      with run have "waitAccessVerdict S poll late created deadline woken evs s1 = (s', rep)" by simp
      with Cons.IH [OF s1(1) r1] Cons.prems(4) show ?thesis by simp
    qed
    with rows_evolve_trans [OF s1(2)] show ?thesis by blast
  qed
qed auto

end

section \<open>The whole handler\<close>

text \<open>What an approval rests on: an admin's decision on this very request, a whitelist entry that covers
  the login, or notify mode.\<close>

definition approval_ground :: "WhitelistEntry set \<Rightarrow> time \<Rightarrow> AccessRequestBody \<Rightarrow> Server \<Rightarrow> Request \<Rightarrow> bool" where
  "approval_ground es now body srv r \<longleftrightarrow>
     (rq_Status r = StatusApproved \<and> admin_decided r) \<or>
     (rq_Status r = StatusWhitelisted \<and>
        (\<exists>e\<in>es. wl_covers (ab_Username body) (ab_Context body) (sv_ID srv) now e)) \<or>
     (rq_Status r = StatusNotified \<and> ab_Mode body = ModeNotify)"

text \<open>A row and an answer that fit together and belong to this login.\<close>

definition access_answer :: "WhitelistEntry set \<Rightarrow> time \<Rightarrow> AccessRequestBody \<Rightarrow> Server \<Rightarrow> Request \<Rightarrow>
    AccessRequestResponse \<Rightarrow> bool" where
  "access_answer es now body srv r a \<longleftrightarrow>
     rq_Status r \<noteq> StatusPending \<and> answers_row r (Reply 200 (AccessOut a)) \<and>
     rq_Username r = ab_Username body \<and> rq_Context r = ab_Context body \<and> rq_ServerID r = sv_ID srv \<and>
     (ar_Verdict a = VerdictApprove \<longrightarrow> approval_ground es now body srv r)"

lemma approval_by_admin:
  "answers_row r (Reply 200 (AccessOut a)) \<Longrightarrow> admin_decided r \<or> timed_out r \<Longrightarrow>
   ar_Verdict a = VerdictApprove \<Longrightarrow> approval_ground es now body srv r"
  using VerdictFor_approve_iff [of "rq_Status r"]
  by (auto simp: answers_row_def approval_ground_def timed_out_def admin_decided_def)

lemma approval_by_rule:
  "answers_row r (Reply 200 (AccessOut a)) \<Longrightarrow> rq_Status r = fst (rules_decision b g l (ab_Mode body)) \<Longrightarrow>
   l \<longleftrightarrow> (\<exists>e\<in>es. wl_covers (ab_Username body) (ab_Context body) (sv_ID srv) now e) \<Longrightarrow>
   ar_Verdict a = VerdictApprove \<Longrightarrow> approval_ground es now body srv r"
  using VerdictFor_approve_iff [of "rq_Status r"]
  by (auto simp: answers_row_def approval_ground_def rules_decision_def split: if_splits)

text \<open>The contracts the handler relies on together.\<close>

locale backend_store =
  rules_store S inv fresh blk row entries countries + request_store S inv row
  for S :: "'s Store" and inv fresh blk row entries countries
begin

lemma access_wait_sound:
  assumes "inv s" and r: "row s (rq_ID created) = Some r" "rq_ID r = rq_ID created" "rq_Status r = StatusPending"
    and evs: "list_all (event_ok inv row) evs"
    and wait: "waitAccessVerdict S poll late created deadline t evs s = (s', Reply 200 (AccessOut a))"
    and login: "rq_Username r = ab_Username body" "rq_Context r = ab_Context body" "rq_ServerID r = sv_ID srv"
  shows "\<exists>r'. row s' (rq_ID created) = Some r' \<and> access_answer es now body srv r' a"
proof -
  from waitAccessVerdict_sound [OF assms(1) r(1,2) evs wait] obtain r' where r':
    "rows_evolve (row s) (row s')" "row s' (rq_ID created) = Some r'" "rq_Status r' \<noteq> StatusPending"
    "answers_row r' (Reply 200 (AccessOut a))"
    by auto
  from rows_evolveD [OF r'(1) r(1)] r'(2) have st: "same_login r r'" "decision_step r r'" by auto
  with r(3) r'(3) have "admin_decided r' \<or> timed_out r'"
    by (auto simp: decision_step_def same_decision_def)
  with r' st(1) login show ?thesis
    by (auto simp: access_answer_def same_login_def intro: approval_by_admin)
qed

text \<open>The row the handler inserts.\<close>

lemma access_create:
  assumes "inv s" "row s nid = None" "oc_Status oc \<noteq> []"
    and cr: "st_CreateRequest S nid (access_row h now srv body geo oc) s = (s', Inr created)"
  shows "\<exists>r. inv s' \<and> row s' nid = Some r \<and> rq_ID r = nid \<and> rq_ID created = nid \<and>
    rq_Status r = oc_Status oc \<and> rq_Username r = ab_Username body \<and> rq_Context r = ab_Context body \<and>
    rq_ServerID r = sv_ID srv \<and> same_decision r created"
  using CreateRequest_ok [OF assms(1,2) cr] assms(3)
  by (auto simp: same_login_def same_decision_def access_row_def)

lemma access_decide_sound:
  assumes inv: "inv s" and new: "row s (cx_nid cx) = None" and h: "h_store h = S"
    and evs: "list_all (event_ok inv row) (cx_sched cx)"
    and run: "access_decide h cx srv body s = (s', sent, Reply 200 (AccessOut a))"
  shows "\<exists>r. row s' (cx_nid cx) = Some r \<and> access_answer (entries s) (cx_rules cx) body srv r a"
proof -
  define geo where "geo = access_geo h body"
  let ?inp = "access_input srv body geo"
  let ?dec = "rules_decision (ip_blocked (blk s) (ri_SourceIP ?inp) (cx_rules cx))
    (geo_blocked (countries s) (ri_Country ?inp))
    (\<exists>e\<in>entries s. wl_covers (ab_Username body) (ab_Context body) (sv_ID srv) (cx_rules cx) e) (ab_Mode body)"
  from Evaluate_spec [OF inv, of "cx_rules cx" ?inp] obtain s1 oc where
    ev: "Evaluate S (cx_rules cx) ?inp s = (s1, Inr oc)" "inv s1" "oc_Status oc = fst ?dec"
    by (auto simp: access_input_def dest: arg_cong [of _ _ fst])
  have new1: "row s1 (cx_nid cx) = None" using new Evaluate_frame [OF ev(1)] by simp
  have st: "oc_Status oc \<noteq> []" using ev(3) by (auto simp: rules_decision_def enums split: if_splits)
  obtain s2 created where cr: "st_CreateRequest S (cx_nid cx) (access_row h (cx_now cx) srv body geo oc) s1 = (s2, Inr created)"
    and run2: "access_created h cx oc created s2 = (s', sent, Reply 200 (AccessOut a))"
    using run ev(1) unfolding access_decide_def geo_def [symmetric] h
    by (auto simp: Let_def split: prod.splits sum.splits)
  from access_create [OF ev(2) new1 st cr] obtain r where r: "inv s2" "row s2 (cx_nid cx) = Some r"
    "rq_ID r = cx_nid cx" "rq_ID created = cx_nid cx" "rq_Status r = oc_Status oc"
    "rq_Username r = ab_Username body" "rq_Context r = ab_Context body" "rq_ServerID r = sv_ID srv"
    "same_decision r created"
    by auto
  show ?thesis
  proof (cases "Outcome_Pending oc")
    case False
    then have "s' = s2" "answers_row r (Reply 200 (AccessOut a))"
      using run2 answerAccessRequest_row [OF r(9)] by (auto simp: access_created_def)
    moreover from this ev(3) r(5)
    have "ar_Verdict a = VerdictApprove \<Longrightarrow> approval_ground (entries s) (cx_rules cx) body srv r"
      by (intro approval_by_rule [OF _ _ refl]) simp_all
    ultimately show ?thesis using r False by (auto simp: access_answer_def Outcome_Pending_def)
  next
    case True
    then have "waitAccessVerdict S (hc_PollInterval (h_cfg h)) (cx_late cx) created
        (cx_now cx + hc_VerdictWait (h_cfg h)) (cx_now cx) (cx_sched cx) s2 = (s', Reply 200 (AccessOut a))"
      using run2 h by (auto simp: access_created_def Let_def split: prod.splits)
    with True r evs access_wait_sound [OF r(1), of created r] show ?thesis
      by (auto simp: Outcome_Pending_def)
  qed
qed

end

interpretation mem_backend: backend_store memory_store mem_inv
  "\<lambda>m nid. nid \<notin> map_keys (m_blocked m)" mem_block "\<lambda>m. map_of (m_requests m)"
  "\<lambda>m. snd ` set (m_whitelist m)" "\<lambda>m. gr_Country ` snd ` set (m_geoRules m)"
  by unfold_locales

end
