(* ===== verification/Verdict.thy ===== *)
theory Verdict
  imports Access
begin

text \<open>
  \<^verbatim>\<open>POST /verdict\<close> (\<^verbatim>\<open>handler/verdict.go\<close>): an admin decides a pending request. The first verdict
  wins; every later one gets 409 with what happened. \<open>approve_always\<close> adds a whitelist entry,
  \<open>deny\<close> counts toward the auto-block.
\<close>

section \<open>The body\<close>

definition maxTTLSeconds :: int where
  "maxTTLSeconds = (2 ^ 63 - 1) div Second"

definition verdict_status :: "string \<Rightarrow> string option" where
  "verdict_status v =
     (if v = VerdictApprove \<or> v = VerdictApproveAlways then Some StatusApproved
      else if v = VerdictDeny then Some StatusDenied
      else None)"

definition verdict_ttl :: "VerdictBody \<Rightarrow> (string, duration) result" where
  "verdict_ttl body =
     (if vb_Verdict body = VerdictApproveAlways then
        (case vb_TTLSeconds body of
           None \<Rightarrow> Inr 0
         | Some n \<Rightarrow>
             if n \<le> 0 then Inl ''ttl_seconds must be greater than 0''
             else if maxTTLSeconds < n then Inl ''ttl_seconds is too large''
             else Inr (seconds_duration n))
      else Inr 0)"

definition verdict_device :: "'s Store \<Rightarrow> VerdictBody \<Rightarrow> 's \<Rightarrow> (reply, string option) result" where
  "verdict_device S body s =
     (case vb_DeviceID body of
        None \<Rightarrow> Inr None
      | Some d \<Rightarrow>
          let did = ToLower d in
          if \<not> isUUID did then Inl (writeError 400 ''device_id must be a UUID'')
          else (case st_DeviceByID S did s of
                  Inl err \<Rightarrow> if err = ErrNotFound then Inr None else Inl internal_error
                | Inr dev \<Rightarrow> Inr (Some (dv_ID dev))))"

section \<open>A request that is already decided\<close>

definition verdictConflict :: "'s Store \<Rightarrow> string \<Rightarrow> time \<Rightarrow> 's \<Rightarrow> 's \<times> reply" where
  "verdictConflict S rid now s =
     (case st_RequestByID S rid s of
        Inl err \<Rightarrow> (s, if err = ErrNotFound then writeError 404 ''request not found'' else internal_error)
      | Inr row \<Rightarrow>
          let conflict = (\<lambda>row. Reply 409 (ConflictOut
                \<lparr> vc_Error = ''request already decided'', vc_Status = rq_Status row,
                  vc_DecidedAt = rq_DecidedAt row, vc_DecidedByDevice = rq_DecidedByDeviceLabel row \<rparr>))
          in if rq_Status row = StatusPending then
               (case st_MarkTimeout S rid now s of
                  (s', Inl _) \<Rightarrow> (s', internal_error)
                | (s', Inr _) \<Rightarrow>
                    (s', conflict (row\<lparr> rq_Status := StatusTimeout, rq_DecidedAt := None,
                                        rq_DecidedByDeviceLabel := None \<rparr>)))
             else (s, conflict row))"

section \<open>After the decision\<close>

definition verdict_entry :: "Request \<Rightarrow> string option \<Rightarrow> duration \<Rightarrow> time \<Rightarrow> WhitelistEntry" where
  "verdict_entry row deviceID ttl now =
     new_entry\<lparr> wl_Username := rq_Username row, wl_Context := rq_Context row,
                wl_ServerID := Some (rq_ServerID row), wl_CreatedFrom := Some (rq_ID row),
                wl_CreatedByDevice := deviceID,
                wl_ExpiresAt := (if 0 < ttl then Some (now + ttl) else None) \<rparr>"

definition verdict_whitelist ::
  "'s Handler \<Rightarrow> 's Ctx \<Rightarrow> VerdictBody \<Rightarrow> Request \<Rightarrow> string option \<Rightarrow> duration \<Rightarrow> 's \<Rightarrow>
     's \<times> (store_error, VerdictWhitelistEntry option) result" where
  "verdict_whitelist h cx body row deviceID ttl s =
     (if vb_Verdict body = VerdictApproveAlways then
        (case st_UpsertWhitelist (h_store h) (cx_nid cx) (verdict_entry row deviceID ttl (cx_now cx)) (cx_now cx) s of
           (s', Inl err) \<Rightarrow> (s', Inl err)
         | (s', Inr (saved, _)) \<Rightarrow> (s', Inr (Some (ToVerdictWhitelistEntry saved))))
      else (s, Inr None))"

definition verdict_autoblock ::
  "'s Handler \<Rightarrow> 's Ctx \<Rightarrow> Request \<Rightarrow> 's \<Rightarrow> 's \<times> (store_error, VerdictAutoBlocked option) result" where
  "verdict_autoblock h cx row s =
     (case rq_SourceIP row of
        Some ip \<Rightarrow>
          if rq_Status row = StatusDenied \<and> ip \<noteq> [] then
            (case RecordDenial (h_store h) (h_rules h) (cx_bid cx) ip (cx_now cx) s of
               (s', Inl err) \<Rightarrow> (s', Inl err)
             | (s', Inr None) \<Rightarrow> (s', Inr None)
             | (s', Inr (Some b)) \<Rightarrow>
                 (s', Inr (Some \<lparr> va_ID = bi_ID b, va_IP = bi_IP b, va_DenialCount = bi_DenialCount b \<rparr>)))
          else (s, Inr None)
      | None \<Rightarrow> (s, Inr None))"

definition verdict_after ::
  "'s Handler \<Rightarrow> 's Ctx \<Rightarrow> VerdictBody \<Rightarrow> Request \<Rightarrow> string option \<Rightarrow> duration \<Rightarrow> 's \<Rightarrow> 's served" where
  "verdict_after h cx body row deviceID ttl s =
     (let sent = fst (pushAll h (DecidedPush row) s) in
      case verdict_whitelist h cx body row deviceID ttl s of
        (s1, Inl _) \<Rightarrow> (s1, sent, internal_error)
      | (s1, Inr we) \<Rightarrow>
          (case verdict_autoblock h cx row s1 of
             (s2, Inl _) \<Rightarrow> (s2, sent, internal_error)
           | (s2, Inr ab) \<Rightarrow>
               (s2, sent, Reply 200 (VerdictOut
                 \<lparr> vr_RequestID = rq_ID row, vr_Status = rq_Status row, vr_DecidedAt = rq_DecidedAt row,
                   vr_DecidedByDevice = rq_DecidedByDeviceLabel row, vr_WhitelistEntry = we,
                   vr_AutoBlocked = ab \<rparr>))))"

section \<open>The handler\<close>

definition verdict_decide ::
  "'s Handler \<Rightarrow> 's Ctx \<Rightarrow> VerdictBody \<Rightarrow> string \<Rightarrow> string \<Rightarrow> string option \<Rightarrow> duration \<Rightarrow> 's \<Rightarrow> 's served" where
  "verdict_decide h cx body rid status deviceID ttl s =
     (case st_DecideRequest (h_store h) rid status deviceID (cx_now cx) s of
        (s', Inl err) \<Rightarrow>
          if err = ErrNotFound then (s', [], writeError 404 ''request not found'')
          else if err = ErrAlreadyDecided then
            (let (s'', rep) = verdictConflict (h_store h) rid (cx_now cx) s' in (s'', [], rep))
          else (s', [], internal_error)
      | (s', Inr row) \<Rightarrow> verdict_after h cx body row deviceID ttl s')"

definition verdict :: "'s route" where
  "verdict h cx r p s =
     (case decodeJSON (js_verdict (h_json h)) (hq_Body r) of
        Inl e \<Rightarrow> (s, [], e)
      | Inr body \<Rightarrow>
          let rid = ToLower (vb_RequestID body) in
          if \<not> isUUID rid then (s, [], writeError 400 ''request_id must be a UUID'')
          else (case verdict_status (vb_Verdict body) of
                  None \<Rightarrow> (s, [], writeError 400 ''verdict must be approve, deny or approve_always'')
                | Some status \<Rightarrow>
                    (case verdict_ttl body of
                       Inl msg \<Rightarrow> (s, [], writeError 400 msg)
                     | Inr ttl \<Rightarrow>
                         (case verdict_device (h_store h) body s of
                            Inl e \<Rightarrow> (s, [], e)
                          | Inr deviceID \<Rightarrow> verdict_decide h cx body rid status deviceID ttl s))))"

section \<open>Lemmas\<close>

lemma verdict_status_values: "verdict_status v = Some st \<Longrightarrow> st \<in> {StatusApproved, StatusDenied}"
  by (auto simp: verdict_status_def split: if_splits)

lemma maxTTLSeconds_value: "maxTTLSeconds = 9223372036"
  by (simp add: maxTTLSeconds_def)

text \<open>The two bounds on a time to live keep the multiplication by \<^verbatim>\<open>time.Second\<close> from wrapping around.\<close>

lemma verdict_ttl_exact:
  "verdict_ttl body = Inr ttl \<Longrightarrow>
   ttl = 0 \<or> (\<exists>n. vb_TTLSeconds body = Some n \<and> 0 < n \<and> ttl = n * Second)"
  by (auto simp: verdict_ttl_def maxTTLSeconds_value seconds_duration_exact split: if_splits option.splits)

lemma verdict_ttl_iff:
  "vb_Verdict body = VerdictApproveAlways \<Longrightarrow> vb_TTLSeconds body = Some n \<Longrightarrow>
   (\<exists>ttl. verdict_ttl body = Inr ttl) \<longleftrightarrow> 0 < n \<and> n * Second < 2 ^ 63"
  by (auto simp: verdict_ttl_def maxTTLSeconds_value)

lemma verdict_after_request:
  "verdict_after h cx body row deviceID ttl s = (s', sent, Reply 200 (VerdictOut v)) \<Longrightarrow>
   vr_RequestID v = rq_ID row \<and> vr_Status v = rq_Status row \<and> vr_DecidedAt v = rq_DecidedAt row"
  by (auto simp: verdict_after_def Let_def split: prod.splits sum.splits)

context request_store
begin

text \<open>A request that can no longer be decided is answered with its recorded outcome, and is never left
  pending.\<close>

lemma verdictConflict_sound:
  assumes "inv s" "row s rid = Some r" "rq_Status r \<noteq> StatusPending \<or> rq_ExpiresAt r \<le> now"
  shows "\<exists>s' c r'. verdictConflict S rid now s = (s', Reply 409 (ConflictOut c)) \<and> inv s' \<and>
    rows_evolve (row s) (row s') \<and> row s' rid = Some r' \<and> rq_Status r' \<noteq> StatusPending \<and>
    vc_Status c = rq_Status r' \<and> vc_DecidedAt c = rq_DecidedAt r'"
proof -
  obtain v where v: "st_RequestByID S rid s = Inr v" "same_decision r v"
    using RequestByID_found [OF assms(1,2)] by blast
  show ?thesis
  proof (cases "rq_Status r = StatusPending")
    case True
    obtain s' r' where "st_MarkTimeout S rid now s = (s', Inr True)" "inv s'"
      "rows_evolve (row s) (row s')" "row s' rid = Some r'" "rq_Status r' = StatusTimeout"
      "rq_DecidedAt r' = None"
      using MarkTimeout_pending [OF assms(1,2) True, of now] by blast
    with v True show ?thesis by (auto simp: verdictConflict_def same_decision_def)
  next
    case False
    with v assms show ?thesis by (auto simp: verdictConflict_def same_decision_def)
  qed
qed

text \<open>The decision itself, on each branch.\<close>

lemma verdict_decide_first:
  assumes "inv s" "h_store h = S" "row s rid = Some r" "rq_Status r = StatusPending"
    "cx_now cx < rq_ExpiresAt r" "status \<in> {StatusApproved, StatusDenied}"
  shows "\<exists>s1 v r'. verdict_decide h cx body rid status dev ttl s = verdict_after h cx body v dev ttl s1 \<and>
    inv s1 \<and> rows_evolve (row s) (row s1) \<and> row s1 rid = Some r' \<and> same_login r' v \<and> same_decision r' v \<and>
    rq_Status r' = status \<and> rq_DecidedBy r' = Some DecidedByAdmin \<and> rq_DecidedAt r' = Some (cx_now cx)"
proof -
  obtain s1 v r' where d: "st_DecideRequest S rid status dev (cx_now cx) s = (s1, Inr v)" "inv s1"
    "rows_evolve (row s) (row s1)" "row s1 rid = Some r'" "same_login r' v" "same_decision r' v"
    "rq_Status r' = status" "rq_DecidedBy r' = Some DecidedByAdmin" "rq_DecidedAt r' = Some (cx_now cx)"
    using DecideRequest_ok [OF assms(1,3,4,5,6), of dev] by blast
  moreover have "verdict_decide h cx body rid status dev ttl s = verdict_after h cx body v dev ttl s1"
    using d(1) assms(2) by (simp add: verdict_decide_def)
  ultimately show ?thesis by blast
qed

lemma verdict_decide_late:
  assumes "inv s" "h_store h = S" "row s rid = Some r"
    and late: "rq_Status r \<noteq> StatusPending \<or> rq_ExpiresAt r \<le> cx_now cx"
  shows "\<exists>s' c r'. verdict_decide h cx body rid status dev ttl s = (s', [], Reply 409 (ConflictOut c)) \<and>
    rows_evolve (row s) (row s') \<and> row s' rid = Some r' \<and> rq_Status r' \<noteq> StatusPending \<and>
    vc_Status c = rq_Status r' \<and> vc_DecidedAt c = rq_DecidedAt r'"
  using verdictConflict_sound [OF assms(1,3) late] DecideRequest_late [OF assms(1,3) late, of status dev] assms(2)
  by (auto simp: verdict_decide_def)

lemma verdict_decide_missing:
  "inv s \<Longrightarrow> h_store h = S \<Longrightarrow> row s rid = None \<Longrightarrow>
   verdict_decide h cx body rid status dev ttl s = (s, [], writeError 404 ''request not found'')"
  using DecideRequest_missing [of s rid status dev "cx_now cx"]
  by (simp add: verdict_decide_def)

end

context whitelist_store
begin

text \<open>After \<open>approve_always\<close> the same user is whitelisted, in the same context and on the same server,
  until the entry expires.\<close>

lemma verdict_whitelist_covers:
  assumes "inv s" "h_store h = S" "vb_Verdict body = VerdictApproveAlways"
    and up: "verdict_whitelist h cx body r dev ttl s = (s', Inr we)"
    and "0 < ttl \<Longrightarrow> later < cx_now cx + ttl"
  shows "inv s' \<and> (\<exists>w. st_FindWhitelist S (rq_Username r) (rq_Context r) (rq_ServerID r) later s' = Inr w)"
proof -
  let ?e = "verdict_entry r dev ttl (cx_now cx)"
  obtain saved c where "st_UpsertWhitelist S (cx_nid cx) ?e (cx_now cx) s = (s', Inr (saved, c))"
    using up assms(2,3) by (auto simp: verdict_whitelist_def split: prod.splits sum.splits)
  from UpsertWhitelist_saved [OF assms(1) this] obtain x where x: "inv s'" "x \<in> entries s'"
    "wl_Username x = wl_Username ?e" "wl_Context x = wl_Context ?e" "wl_ServerID x = wl_ServerID ?e"
    "wl_ExpiresAt x = wl_ExpiresAt ?e"
    by blast
  then have "wl_covers (rq_Username r) (rq_Context r) (rq_ServerID r) later x"
    using assms(5) by (simp add: wl_covers_unexpired verdict_entry_def)
  with x(1,2) show ?thesis using FindWhitelist_iff by blast
qed

end

end
