(* ===== verification/Router.thy ===== *)
theory Router
  imports Verdict
begin

text \<open>
  The routes of \<^verbatim>\<open>handler.New\<close> and what the Go 1.22 \<^verbatim>\<open>ServeMux\<close> makes of them: a path that is not clean
  is redirected (not for \<^verbatim>\<open>CONNECT\<close>), the path \<^verbatim>\<open>*\<close> is refused, a pattern \<^verbatim>\<open>GET\<close> also serves \<^verbatim>\<open>HEAD\<close>, a wildcard segment matches one non-empty segment, a
  known path with another method is 405 and everything else 404. The outer handler gives those two a
  JSON body (\<^verbatim>\<open>jsonErrorWriter\<close>, theory \<open>Respond\<close>).
\<close>

section \<open>Patterns\<close>

datatype segment = Lit string | Wild

definition matches_segment :: "segment \<Rightarrow> string \<Rightarrow> bool" where
  "matches_segment p t = (case p of Lit w \<Rightarrow> t = w | Wild \<Rightarrow> t \<noteq> [])"

definition path_segments :: "string \<Rightarrow> string list" where
  "path_segments path = tl (split_byte CHR ''/'' path)"

text \<open>A path \<^verbatim>\<open>path.Clean\<close> leaves alone: rooted, without dot segments, and without empty segments except
  for a trailing slash.\<close>

definition is_clean :: "string \<Rightarrow> bool" where
  "is_clean path \<longleftrightarrow>
     take 1 path = ''/'' \<and>
     (let segs = path_segments path
      in \<not> list_ex (\<lambda>t. t = ''.'' \<or> t = ''..'') segs \<and> \<not> list_ex (\<lambda>t. t = []) (butlast segs))"

definition matches_method :: "string \<Rightarrow> string \<Rightarrow> bool" where
  "matches_method pat m \<longleftrightarrow> m = pat \<or> (pat = ''GET'' \<and> m = ''HEAD'')"

section \<open>The table\<close>

definition routes :: "(string \<times> segment list \<times> 's route) list" where
  "routes =
     [(''GET'', [Lit ''healthz''], health),
      (''POST'', [Lit ''access-request''], requireServer accessRequest),
      (''POST'', [Lit ''verdict''], requireAdmin verdict),
      (''GET'', [Lit ''history''], requireAdmin history),
      (''GET'', [Lit ''whitelist''], requireAny listWhitelist),
      (''POST'', [Lit ''whitelist''], requireAdmin createWhitelist),
      (''DELETE'', [Lit ''whitelist'', Wild], requireAdmin deleteWhitelist),
      (''POST'', [Lit ''devices''], requireAdmin createDevice),
      (''GET'', [Lit ''devices''], requireAdmin listDevices),
      (''DELETE'', [Lit ''devices'', Wild], requireAdmin deleteDevice),
      (''GET'', [Lit ''blocked-ips''], requireAdmin listBlockedIPs),
      (''DELETE'', [Lit ''blocked-ips'', Wild], requireAdmin deleteBlockedIP),
      (''GET'', [Lit ''geo-rules''], requireAdmin listGeoRules),
      (''POST'', [Lit ''geo-rules''], requireAdmin createGeoRule),
      (''DELETE'', [Lit ''geo-rules'', Wild], requireAdmin deleteGeoRule)]"

text \<open>The routes whose pattern matches a path.\<close>

definition on_path :: "string \<Rightarrow> (string \<times> segment list \<times> 's route) list" where
  "on_path path = filter (\<lambda>(_, pat, _). list_all2 matches_segment pat (path_segments path)) routes"

definition serve :: "'s Handler \<Rightarrow> 's Ctx \<Rightarrow> HttpRequest \<Rightarrow> 's \<Rightarrow> 's served" where
  "serve h cx r s =
     (if hq_Path r = ''*'' then (s, [], Reply 400 NoBody)
      else if hq_Method r \<noteq> ''CONNECT'' \<and> \<not> is_clean (hq_Path r) then (s, [], Reply 301 NoBody)
      else let matching = (on_path (hq_Path r) :: (string \<times> segment list \<times> 's route) list)
           in (case List.find (\<lambda>(m, _, _). matches_method m (hq_Method r)) matching of
                 Some (_, _, f) \<Rightarrow> f h cx r None s
               | None \<Rightarrow>
                   if matching = [] then (s, [], writeError 404 ''not found'')
                   else (s, [], writeError 405 ''method not allowed'')))"

section \<open>Lemmas\<close>

lemma serve_cases:
  fixes s :: 's
  obtains "serve h cx r s = (s, [], Reply 400 NoBody)"
  | "serve h cx r s = (s, [], Reply 301 NoBody)"
  | "serve h cx r s = (s, [], writeError 404 ''not found'')"
  | "serve h cx r s = (s, [], writeError 405 ''method not allowed'')"
  | m pat f where "(m, pat, f) \<in> set routes" "serve h cx r s = f h cx r None s"
      "list_all2 matches_segment pat (path_segments (hq_Path r))" "matches_method m (hq_Method r)"
proof -
  let ?on = "on_path (hq_Path r) :: (string \<times> segment list \<times> 's route) list"
  consider "hq_Path r = ''*''" | "hq_Path r \<noteq> ''*''" "hq_Method r \<noteq> ''CONNECT'' \<and> \<not> is_clean (hq_Path r)"
    | "hq_Path r \<noteq> ''*''" "\<not> (hq_Method r \<noteq> ''CONNECT'' \<and> \<not> is_clean (hq_Path r))" by blast
  then show thesis
  proof cases
    case 1
    with that(1) show thesis by (simp add: serve_def)
  next
    case 2
    with that(2) show thesis by (simp add: serve_def)
  next
    case routed: 3
    show thesis
    proof (cases "List.find (\<lambda>(m, _, _). matches_method m (hq_Method r)) ?on")
      case None
      with routed that(3,4) show thesis by (cases "?on = []") (simp_all add: serve_def)
    next
      case (Some x)
      obtain m pat f where x: "x = (m, pat, f)" by (cases x)
      from Some x have "(m, pat, f) \<in> set ?on" "matches_method m (hq_Method r)"
        by (auto simp: find_Some_iff in_set_conv_nth)
      moreover have "serve h cx r s = f h cx r None s" using routed Some x by (auto simp: serve_def Let_def)
      ultimately show thesis using that(5) [of m pat f] by (simp add: on_path_def)
    qed
  qed
qed

text \<open>Two routes never match one request.\<close>

lemma routes_disjoint:
  "distinct (map (\<lambda>(m, pat, _). (m, pat)) (routes :: (string \<times> segment list \<times> 's route) list))"
  by (simp add: routes_def)

definition is_admin_route :: "'s route \<Rightarrow> bool" where
  "is_admin_route f \<longleftrightarrow> (\<exists>g. f = requireAdmin g)"

text \<open>An admin route does nothing for a server but note that it was seen.\<close>

lemma requireAdmin_server:
  assumes "Authenticate (h_store h) (h_adminHash h) (hq_Authorization r) s = Inr p" "pr_Kind p = KindServer"
  shows "\<exists>srv. pr_Server p = Some srv \<and>
    requireAdmin g h cx r q s =
      (fst (st_TouchServer (h_store h) (sv_ID srv) (cx_touch cx) s), [], writeError 403 ''admin token required'')"
  by (rule Authenticate_sound [OF assms(1)])
     (use assms in \<open>auto simp: requireAdmin_def authenticate_def\<close>)

lemma requireServer_admin:
  assumes "Authenticate (h_store h) (h_adminHash h) (hq_Authorization r) s = Inr p" "pr_Kind p = KindAdmin"
  shows "requireServer g h cx r q s = (s, [], writeError 403 ''server token required'')"
  by (rule Authenticate_sound [OF assms(1)])
     (use assms in \<open>auto simp: requireServer_def authenticate_def\<close>)

end
