(* ===== verification/Agent_Lists.thy ===== *)
theory Agent_Lists
  imports Go_Strings "HOL-Library.Word"
begin

text \<open>
  The two local allow lists of the agent (\<^verbatim>\<open>agent/internal/whitelist\<close>): the hand-edited break-glass file
  (\<^verbatim>\<open>breakglass.go\<close>, \<^verbatim>\<open>perm_unix.go\<close>) and the cache of the backend whitelist (\<^verbatim>\<open>cache.go\<close>).
\<close>

unbundle bit_operations_syntax

section \<open>Files\<close>

text \<open>What opening and examining a file can give. The owner is known when the system reports one.\<close>

record FileInfo =
  fi_Perm :: "32 word"
  fi_Uid :: "nat option"

datatype open_file = FileMissing | OpenFailed | StatFailed | Opened FileInfo string

datatype list_error = ErrInsecure | ErrIO

section \<open>Break-glass\<close>

definition checkPrivate :: "nat \<Rightarrow> FileInfo \<Rightarrow> list_error option" where
  "checkPrivate euid info =
     (if fi_Perm info AND 0x12 \<noteq> 0 then Some ErrInsecure
      else (case fi_Uid info of
              Some uid \<Rightarrow> if uid \<noteq> 0 \<and> uid \<noteq> euid then Some ErrInsecure else None
            | None \<Rightarrow> None))"

text \<open>\<^verbatim>\<open>bufio.Scanner\<close> on lines: the text between line feeds, a last line only when it is not empty, a
  carriage return at the end removed. A line of 64 KiB or more stops the scan with an error.\<close>

definition scan_lines :: "string \<Rightarrow> string list" where
  "scan_lines data =
     (let ls = split_byte CHR 0x0A data in if last ls = [] then butlast ls else ls)"

definition dropCR :: "string \<Rightarrow> string" where
  "dropCR l = (if l \<noteq> [] \<and> last l = CHR 0x0D then butlast l else l)"

definition scannable :: "string \<Rightarrow> bool" where
  "scannable l \<longleftrightarrow> length l < 65536"

definition breakglass_line :: "string \<Rightarrow> string" where
  "breakglass_line l = TrimSpace (takeWhile (\<lambda>c. c \<noteq> CHR ''#'') (dropCR l))"

definition ReadBreakGlass :: "nat \<Rightarrow> open_file \<Rightarrow> string list \<times> list_error option" where
  "ReadBreakGlass euid f =
     (case f of
        FileMissing \<Rightarrow> ([], None)
      | OpenFailed \<Rightarrow> ([], Some ErrIO)
      | StatFailed \<Rightarrow> ([], Some ErrIO)
      | Opened info data \<Rightarrow>
          (case checkPrivate euid info of
             Some err \<Rightarrow> ([], Some err)
           | None \<Rightarrow>
               let ls = scan_lines data
               in (filter (\<lambda>u. u \<noteq> []) (map breakglass_line (takeWhile scannable ls)),
                   if list_all scannable ls then None else Some ErrIO)))"

definition BreakGlass_Contains :: "string list \<Rightarrow> string \<Rightarrow> bool" where
  "BreakGlass_Contains names user \<longleftrightarrow> user \<in> set names"

section \<open>The cache\<close>

record Entry =
  ce_Username :: string
  ce_Context :: string
  ce_ExpiresAt :: "time option"

record Cache =
  ca_SyncedAt :: time
  ca_Entries :: "Entry list"

definition empty_cache :: Cache where
  "empty_cache = \<lparr> ca_SyncedAt = - 62135596800 * Second, ca_Entries = [] \<rparr>"

datatype read_file = NoFile | ReadFailed | Contents string

definition LoadCache :: "(string \<Rightarrow> Cache option) \<Rightarrow> read_file \<Rightarrow> Cache \<times> list_error option" where
  "LoadCache unmarshal f =
     (case f of
        NoFile \<Rightarrow> (empty_cache, None)
      | ReadFailed \<Rightarrow> (empty_cache, Some ErrIO)
      | Contents bs \<Rightarrow>
          (case unmarshal bs of None \<Rightarrow> (empty_cache, Some ErrIO) | Some c \<Rightarrow> (c, None)))"

fun allows_entry :: "string \<Rightarrow> string \<Rightarrow> time \<Rightarrow> Entry list \<Rightarrow> bool" where
  "allows_entry username ctx now [] = False"
| "allows_entry username ctx now (e # es) =
     (if ce_Username e \<noteq> username \<or> ce_Context e \<noteq> ctx then allows_entry username ctx now es
      else if (case ce_ExpiresAt e of None \<Rightarrow> False | Some t \<Rightarrow> \<not> now < t) then allows_entry username ctx now es
      else True)"

definition Cache_Allows :: "Cache \<Rightarrow> string \<Rightarrow> string \<Rightarrow> time \<Rightarrow> bool" where
  "Cache_Allows c username ctx now = allows_entry username ctx now (ca_Entries c)"

text \<open>\<^verbatim>\<open>SaveCache\<close> over a file system, a map from paths to contents. Each step may fail: creating the
  directory, writing the temporary file (which may leave a part of it), renaming it.\<close>

type_synonym filesys = "string \<Rightarrow> string option"

datatype write_result = Wrote | WriteFailed "string option"

definition SaveCache ::
  "bool \<Rightarrow> write_result \<Rightarrow> bool \<Rightarrow> string \<Rightarrow> string \<Rightarrow> filesys \<Rightarrow> filesys \<times> bool" where
  "SaveCache mkdir_ok write rename_ok path data fs =
     (let tmp = path @ ''.tmp'' in
      if \<not> mkdir_ok then (fs, False)
      else (case write of
              WriteFailed part \<Rightarrow> (if part = None then fs else fs(tmp := part), False)
            | Wrote \<Rightarrow>
                if rename_ok then (fs(path := Some (data @ [CHR 0x0A]), tmp := None), True)
                else (fs(tmp := None), False)))"

section \<open>Lemmas\<close>

lemma allows_entry_iff:
  "allows_entry u c now es \<longleftrightarrow>
   (\<exists>e\<in>set es. ce_Username e = u \<and> ce_Context e = c \<and> unexpired (ce_ExpiresAt e) now)"
  by (induction es) (auto simp: unexpired_def split: option.split)

lemma Cache_Allows_iff:
  "Cache_Allows ca u c now \<longleftrightarrow>
   (\<exists>e\<in>set (ca_Entries ca). ce_Username e = u \<and> ce_Context e = c \<and> unexpired (ce_ExpiresAt e) now)"
  by (simp add: Cache_Allows_def allows_entry_iff)

lemma empty_cache_denies [simp]: "\<not> Cache_Allows empty_cache u c now"
  by (simp add: Cache_Allows_iff empty_cache_def)

text \<open>A file that does not exist, can not be read or could be edited by someone else names nobody.\<close>

lemma ReadBreakGlass_secure:
  "fst (ReadBreakGlass euid f) \<noteq> [] \<Longrightarrow>
   \<exists>info data. f = Opened info data \<and> fi_Perm info AND 0x12 = 0 \<and>
     (\<forall>uid. fi_Uid info = Some uid \<longrightarrow> uid = 0 \<or> uid = euid)"
  by (auto simp: ReadBreakGlass_def checkPrivate_def split: open_file.splits option.splits if_splits)

lemma ReadBreakGlass_nonempty: "u \<in> set (fst (ReadBreakGlass euid f)) \<Longrightarrow> u \<noteq> []"
  by (auto simp: ReadBreakGlass_def Let_def split: open_file.splits option.splits)

lemma ReadBreakGlass_iff:
  assumes "checkPrivate euid info = None"
  shows "u \<in> set (fst (ReadBreakGlass euid (Opened info data))) \<longleftrightarrow>
    u \<noteq> [] \<and> (\<exists>l\<in>set (takeWhile scannable (scan_lines data)). breakglass_line l = u)"
  using assms by (auto simp: ReadBreakGlass_def Let_def)

lemma tmp_neq [simp]: "path @ ''.tmp'' \<noteq> path" "path \<noteq> path @ ''.tmp''"
  by simp_all

lemma SaveCache_atomic:
  assumes "SaveCache mk w rn path data fs = (fs', ok)"
  shows "fs' path = (if ok then Some (data @ [CHR 0x0A]) else fs path)"
    "\<And>p. p \<noteq> path \<Longrightarrow> p \<noteq> path @ ''.tmp'' \<Longrightarrow> fs' p = fs p"
  using assms by (auto simp: SaveCache_def Let_def split: if_splits write_result.splits)

end
