(* ===== verification/Audit_Line.thy ===== *)
theory Audit_Line
  imports Go_Strings
begin

text \<open>
  The audit line of \<^verbatim>\<open>agent/internal/auditlog/line.go\<close>: seven \<^verbatim>\<open>key=value\<close> pairs in a fixed order, which
  fail2ban and operators parse. Every value is written as one token, whatever bytes the user name or
  the host name of an attacker contains.
\<close>

definition audit_Allow :: string where "audit_Allow = ''allow''"

definition audit_Deny :: string where "audit_Deny = ''deny''"

record Line =
  ln_Decision :: string
  ln_Context :: string
  ln_User :: string
  ln_RHost :: string
  ln_Host :: string
  ln_Reason :: string
  ln_Request :: string

definition field_rune :: "nat \<Rightarrow> nat" where
  "field_rune r = (if IsSpace r \<or> IsControl r then 95 else r)"

definition field :: "string \<Rightarrow> string" where
  "field s = (if s = [] then ''-'' else strings_Map field_rune s)"

definition Line_String :: "Line \<Rightarrow> string" where
  "Line_String l =
     ''decision='' @ field (ln_Decision l) @ '' context='' @ field (ln_Context l) @
     '' user='' @ field (ln_User l) @ '' rhost='' @ field (ln_RHost l) @
     '' host='' @ field (ln_Host l) @ '' reason='' @ field (ln_Reason l) @
     '' request='' @ field (ln_Request l)"

section \<open>Lemmas\<close>

lemma decode_rune_bound: "fst (decode_rune bs) < 2097152"
proof (cases bs rule: decode_rune.cases)
  case 1
  then show ?thesis by (simp add: RuneError_def)
next
  case (2 b0 rest)
  have m: "b0 mod 32 < 32" "b0 mod 16 < 16" "b0 mod 8 < 8" and c: "x mod 64 < 64" for x :: nat by simp_all
  have e: "RuneError < 2097152" by (simp add: RuneError_def)
  have two: "b0 mod 32 * 64 + x mod 64 < 2097152" for x using m(1) c [of x] by linarith
  have three: "b0 mod 16 * 4096 + x mod 64 * 64 + y mod 64 < 2097152" for x y
    using m(2) c [of x] c [of y] by linarith
  have four: "b0 mod 8 * 262144 + x mod 64 * 4096 + y mod 64 * 64 + z mod 64 < 2097152" for x y z
    using m(3) c [of x] c [of y] c [of z] by linarith
  show ?thesis using 2 e two three four by (auto split: list.splits)
qed

lemma runes_bound: "list_all (\<lambda>(r, _). r < 2097152) (runes s)"
  by (induction s rule: runes.induct) (simp_all add: Let_def decode_rune_bound)

text \<open>A byte below 128 in the encoding of a rune is the rune itself.\<close>

lemma encode_rune_byte:
  assumes "r < 2097152" "c \<in> set (encode_rune r)" "(of_char c :: nat) < 128"
  shows "r = of_char c"
proof (cases "r < 128")
  case True
  with assms show ?thesis by (simp add: encode_rune_def)
next
  case False
  have small: "r div 262144 < 8" "x mod 64 < 64" for x :: nat using assms(1) by (simp_all add: less_mult_imp_div_less)
  have l2: "r < 2048 \<Longrightarrow> r div 64 < 32" and l3: "r < 65536 \<Longrightarrow> r div 4096 < 16"
    by (simp_all add: less_mult_imp_div_less)
  have "\<forall>d\<in>set (encode_rune r). (128 :: nat) \<le> of_char d"
    using False small l2 l3 by (auto simp: encode_rune_def)
  with assms(2,3) show ?thesis by fastforce
qed

text \<open>No byte of a written value is a blank or a control character.\<close>

lemma field_no_blank:
  assumes "c \<in> set (field s)"
  shows "32 < (of_char c :: nat)"
proof (cases "s = []")
  case True
  with assms show ?thesis by (simp add: field_def)
next
  case False
  with assms obtain r w where r: "(r, w) \<in> set (runes s)" "c \<in> set (encode_rune (field_rune r))"
    by (auto simp: field_def strings_Map_def)
  have b: "field_rune r < 2097152"
    using r(1) runes_bound [of s] by (auto simp: field_rune_def list_all_iff)
  have nb: "32 < field_rune r"
    by (auto simp: field_rune_def IsSpace_def IsControl_def)
  show ?thesis
    using encode_rune_byte [OF b r(2)] nb by (cases "(of_char c :: nat) < 128") auto
qed

lemma field_no_space: "CHR '' '' \<notin> set (field s)"
  using field_no_blank [of "CHR '' ''" s] by auto

lemma field_nonempty: "field s \<noteq> []"
proof (cases s)
  case (Cons c cs)
  have "encode_rune r \<noteq> []" for r by (simp add: encode_rune_def)
  with Cons show ?thesis by (simp add: field_def strings_Map_def Let_def)
qed (simp add: field_def)

lemma split_token:
  "CHR '' '' \<notin> set k \<Longrightarrow> split_byte CHR '' '' (k @ field v @ CHR '' '' # t) = (k @ field v) # split_byte CHR '' '' t"
  using split_byte_append_sep [of "CHR '' ''" "k @ field v" t] field_no_space [of v] by simp

lemma split_last_token: "CHR '' '' \<notin> set k \<Longrightarrow> split_byte CHR '' '' (k @ field v) = [k @ field v]"
  using field_no_space [of v] by (intro split_byte_single) simp

lemma Line_String_split:
  "split_byte CHR '' '' (Line_String l) =
     [''decision='' @ field (ln_Decision l), ''context='' @ field (ln_Context l),
      ''user='' @ field (ln_User l), ''rhost='' @ field (ln_RHost l), ''host='' @ field (ln_Host l),
      ''reason='' @ field (ln_Reason l), ''request='' @ field (ln_Request l)]"
  using split_token [of "''decision=''"] split_token [of "''context=''"] split_token [of "''user=''"]
    split_token [of "''rhost=''"] split_token [of "''host=''"] split_token [of "''reason=''"]
    split_last_token [of "''request=''"]
  by (simp add: Line_String_def)

lemma Line_String_printable: "c \<in> set (Line_String l) \<Longrightarrow> 32 \<le> (of_char c :: nat)"
  by (auto simp: Line_String_def dest!: field_no_blank)

text \<open>A value of printable ASCII characters is written as it is.\<close>

lemma field_plain:
  assumes "s \<noteq> []" "list_all (\<lambda>c. 32 < (of_char c :: nat) \<and> (of_char c :: nat) < 127) s"
  shows "field s = s"
proof -
  have r: "runes s = map (\<lambda>c. (of_char c, [c])) s"
    using assms(2) by (intro runes_ascii) (auto simp: list_all_iff)
  have "encode_rune (field_rune (of_char c)) = [c]" if "c \<in> set s" for c
    using assms(2) that by (auto simp: list_all_iff field_rune_def IsSpace_def IsControl_def encode_rune_ascii)
  then have "map (\<lambda>c. encode_rune (field_rune (of_char c))) s = map (\<lambda>c. [c]) s" by (intro map_cong refl)
  then have "concat (map (\<lambda>c. encode_rune (field_rune (of_char c))) s) = s"
    by (simp only: concat_map_singleton)
  with assms(1) show ?thesis by (simp add: field_def strings_Map_def r comp_def)
qed

end
