(* ===== verification/Client.thy ===== *)
theory Client
  imports Agent_Lists Audit_Line
begin

text \<open>
  The agent's backend client (\<^verbatim>\<open>agent/internal/client/client.go\<close>) and its configuration
  (\<^verbatim>\<open>agent/internal/config/config.go\<close>). The network is a parameter: one exchange either fails, breaks
  while the body is read, or gives a status and a body. So are JSON decoding and \<^verbatim>\<open>url.Parse\<close>.
\<close>

section \<open>Requests and answers\<close>

record ClientRequest =
  cq_Context :: string
  cq_Mode :: string
  cq_Username :: string
  cq_SourceIP :: "string option"
  cq_Hostname :: string
  cq_TTY :: string
  cq_Command :: "string option"

record ClientResponse =
  cp_RequestID :: string
  cp_Verdict :: string
  cp_Reason :: string
  cp_DecidedAt :: "string option"

record ClientEntry =
  cw_ID :: string
  cw_Username :: string
  cw_Context :: string
  cw_Server :: "string option"
  cw_ExpiresAt :: "time option"

datatype client_error = RejectedError nat string | UnreachableError

definition IsRejected :: "client_error \<Rightarrow> bool" where
  "IsRejected e = (case e of RejectedError _ _ \<Rightarrow> True | UnreachableError \<Rightarrow> False)"

definition IsUnreachable :: "client_error \<Rightarrow> bool" where
  "IsUnreachable e = (case e of RejectedError _ _ \<Rightarrow> False | UnreachableError \<Rightarrow> True)"

text \<open>\<open>NoAnswer\<close>: the request could not be built or sent, or timed out. \<open>Broken\<close>: the body could not be
  read.\<close>

datatype exchange = NoAnswer | Broken | Got nat string

definition client_maxBody :: nat where "client_maxBody = 1048576"

definition errorMessage :: "(string \<Rightarrow> string option) \<Rightarrow> string \<Rightarrow> string" where
  "errorMessage unmarshal data =
     (case unmarshal data of
        Some m \<Rightarrow> if m \<noteq> [] then m else ''no error message''
      | None \<Rightarrow> ''no error message'')"

definition client_do ::
  "(string \<Rightarrow> string option) \<Rightarrow> (string \<Rightarrow> 'a option) \<Rightarrow> exchange \<Rightarrow> (client_error, 'a) result" where
  "client_do unmarshal_error unmarshal x =
     (case x of
        NoAnswer \<Rightarrow> Inl UnreachableError
      | Broken \<Rightarrow> Inl UnreachableError
      | Got status body \<Rightarrow>
          let data = take client_maxBody body in
          if 200 \<le> status \<and> status < 300 then
            (case unmarshal data of None \<Rightarrow> Inl UnreachableError | Some v \<Rightarrow> Inr v)
          else if 400 \<le> status \<and> status < 500 then Inl (RejectedError status (errorMessage unmarshal_error data))
          else Inl UnreachableError)"

definition client_AccessRequest ::
  "(string \<Rightarrow> string option) \<Rightarrow> (string \<Rightarrow> ClientResponse option) \<Rightarrow> exchange \<Rightarrow>
     (client_error, ClientResponse) result" where
  "client_AccessRequest unmarshal_error unmarshal x =
     (case client_do unmarshal_error unmarshal x of
        Inl e \<Rightarrow> Inl e
      | Inr resp \<Rightarrow>
          if cp_Verdict resp \<noteq> ''approve'' \<and> cp_Verdict resp \<noteq> ''deny'' then Inl UnreachableError
          else Inr resp)"

definition client_Whitelist ::
  "(string \<Rightarrow> string option) \<Rightarrow> (string \<Rightarrow> ClientEntry list option) \<Rightarrow> exchange \<Rightarrow>
     (client_error, ClientEntry list) result" where
  "client_Whitelist unmarshal_error unmarshal x = client_do unmarshal_error unmarshal x"

text \<open>A client, and the URL of a call.\<close>

record BackendClient =
  bc_baseURL :: string
  bc_token :: string
  bc_UserAgent :: string

definition NewWithHTTP :: "string \<Rightarrow> string \<Rightarrow> BackendClient" where
  "NewWithHTTP baseURL token =
     \<lparr> bc_baseURL = TrimRight_byte CHR ''/'' baseURL, bc_token = token, bc_UserAgent = ''ssh-sentinel'' \<rparr>"

definition client_URL :: "BackendClient \<Rightarrow> string \<Rightarrow> string" where
  "client_URL c path = bc_baseURL c @ path"

text \<open>The header every call carries.\<close>

definition client_Authorization :: "string \<Rightarrow> string" where
  "client_Authorization token = ''Bearer '' @ token"

section \<open>Configuration\<close>

definition cfg_ModeEnforce :: string where "cfg_ModeEnforce = ''enforce''"

definition cfg_ModeNotify :: string where "cfg_ModeNotify = ''notify''"

record AgentConfig =
  gc_BackendURL :: string
  gc_ServerToken :: string
  gc_Mode :: string
  gc_TimeoutSeconds :: int
  gc_Hostname :: string
  gc_AllowHTTP :: bool
  gc_WatchPollSeconds :: int

definition Config_Timeout :: "AgentConfig \<Rightarrow> duration" where
  "Config_Timeout c = seconds_duration (gc_TimeoutSeconds c)"

definition Config_WatchPoll :: "AgentConfig \<Rightarrow> duration" where
  "Config_WatchPoll c = seconds_duration (gc_WatchPollSeconds c)"

definition config_defaults :: "AgentConfig \<Rightarrow> AgentConfig" where
  "config_defaults c =
     c\<lparr> gc_BackendURL := TrimRight_byte CHR ''/'' (TrimSpace (gc_BackendURL c)),
        gc_ServerToken := TrimSpace (gc_ServerToken c),
        gc_Mode := (if gc_Mode c = [] then cfg_ModeEnforce else gc_Mode c),
        gc_TimeoutSeconds := (if gc_TimeoutSeconds c = 0 then 30 else gc_TimeoutSeconds c),
        gc_WatchPollSeconds := (if gc_WatchPollSeconds c = 0 then 2 else gc_WatchPollSeconds c) \<rparr>"

text \<open>The errors of \<^verbatim>\<open>finish\<close>, one for each message.\<close>

datatype config_error =
    BackendURLRequired
  | BackendURLInvalid
  | BackendURLScheme
  | BackendURLPlainHTTP
  | ServerTokenRequired
  | ModeInvalid
  | TimeoutOutOfRange
  | WatchPollTooSmall

text \<open>\<open>parse\<close> gives the scheme and the host of a URL.\<close>

definition config_finish ::
  "(string \<Rightarrow> (string \<times> string) option) \<Rightarrow> AgentConfig \<Rightarrow> (config_error, AgentConfig) result" where
  "config_finish parse c0 =
     (let c = config_defaults c0 in
      if gc_BackendURL c = [] then Inl BackendURLRequired
      else (case parse (gc_BackendURL c) of
              None \<Rightarrow> Inl BackendURLInvalid
            | Some (scheme, host) \<Rightarrow>
                if host = [] then Inl BackendURLInvalid
                else if scheme \<noteq> ''https'' \<and> scheme \<noteq> ''http'' then Inl BackendURLScheme
                else if scheme = ''http'' \<and> \<not> gc_AllowHTTP c then Inl BackendURLPlainHTTP
                else if gc_ServerToken c = [] then Inl ServerTokenRequired
                else if gc_Mode c \<noteq> cfg_ModeEnforce \<and> gc_Mode c \<noteq> cfg_ModeNotify then Inl ModeInvalid
                else if gc_TimeoutSeconds c < 1 \<or> 120 < gc_TimeoutSeconds c
                then Inl TimeoutOutOfRange
                else if gc_WatchPollSeconds c < 1 then Inl WatchPollTooSmall
                else Inr c))"

section \<open>Lemmas\<close>

lemma client_do_cases:
  "client_do ue u x = Inr v \<longleftrightarrow>
     (\<exists>st b. x = Got st b \<and> 200 \<le> st \<and> st < 300 \<and> u (take client_maxBody b) = Some v)"
  by (auto simp: client_do_def Let_def split: exchange.splits option.splits if_splits)

lemma client_do_rejected:
  "(\<exists>st m. client_do ue u x = Inl (RejectedError st m)) \<longleftrightarrow> (\<exists>st b. x = Got st b \<and> 400 \<le> st \<and> st < 500)"
  by (auto simp: client_do_def Let_def split: exchange.splits option.splits if_splits)

lemma client_AccessRequest_verdict:
  "client_AccessRequest ue u x = Inr resp \<Longrightarrow> cp_Verdict resp = ''approve'' \<or> cp_Verdict resp = ''deny''"
  by (auto simp: client_AccessRequest_def split: sum.splits if_splits)

lemma client_AccessRequest_rejected:
  "(\<exists>st m. client_AccessRequest ue u x = Inl (RejectedError st m)) \<longleftrightarrow>
   (\<exists>st b. x = Got st b \<and> 400 \<le> st \<and> st < 500)"
proof -
  have "(\<exists>st m. client_AccessRequest ue u x = Inl (RejectedError st m)) \<longleftrightarrow>
      (\<exists>st m. client_do ue u x = Inl (RejectedError st m))"
    by (auto simp: client_AccessRequest_def split: sum.splits)
  then show ?thesis by (simp add: client_do_rejected)
qed

lemma config_finish_cases:
  assumes "config_finish parse c0 = Inr c"
  obtains scheme host where "c = config_defaults c0" "gc_BackendURL c \<noteq> []"
    "parse (gc_BackendURL c) = Some (scheme, host)" "host \<noteq> []"
    "scheme = ''https'' \<or> (scheme = ''http'' \<and> gc_AllowHTTP c)" "gc_ServerToken c \<noteq> []"
    "gc_Mode c = cfg_ModeEnforce \<or> gc_Mode c = cfg_ModeNotify"
    "1 \<le> gc_TimeoutSeconds c" "gc_TimeoutSeconds c \<le> 120" "1 \<le> gc_WatchPollSeconds c"
proof (cases "parse (gc_BackendURL (config_defaults c0))")
  case None
  with assms show thesis by (simp add: config_finish_def Let_def split: if_split_asm)
next
  case (Some sh)
  obtain scheme host where sh: "sh = (scheme, host)" by (cases sh)
  with assms Some have c: "c = config_defaults c0"
    by (simp add: config_finish_def Let_def split: if_split_asm)
  from assms Some sh show thesis
    by (intro that [of scheme host])
       (simp_all add: config_finish_def Let_def c [symmetric] not_less split: if_split_asm, blast)
qed

text \<open>A configuration that loads has a budget between one second and two minutes.\<close>

lemma config_finish_timeout:
  assumes "config_finish parse c0 = Inr c"
  shows "Second \<le> Config_Timeout c" "Config_Timeout c \<le> 120 * Second"
proof -
  from config_finish_cases [OF assms] have "1 \<le> gc_TimeoutSeconds c" "gc_TimeoutSeconds c \<le> 120" by blast+
  then show "Second \<le> Config_Timeout c" "Config_Timeout c \<le> 120 * Second"
    by (simp_all add: Config_Timeout_def seconds_duration_exact)
qed

text \<open>With a configuration that loads, a call goes to the configured URL followed by its path, with one slash between.\<close>

lemma client_URL_config:
  assumes "config_finish parse c0 = Inr c"
  shows "client_URL (NewWithHTTP (gc_BackendURL c) token) path = gc_BackendURL c @ path" "last (gc_BackendURL c) \<noteq> CHR ''/''"
proof -
  define u where "u = TrimSpace (gc_BackendURL c0)"
  from config_finish_cases [OF assms] have "c = config_defaults c0" "gc_BackendURL c \<noteq> []" by blast+
  then have u: "gc_BackendURL c = TrimRight_byte CHR ''/'' u" "gc_BackendURL c \<noteq> []"
    by (simp_all add: config_defaults_def u_def)
  then have "dropWhile (\<lambda>d. d = CHR ''/'') (rev u) \<noteq> []" by (simp add: TrimRight_byte_def)
  from hd_dropWhile [OF this] u show "last (gc_BackendURL c) \<noteq> CHR ''/''" by (simp add: TrimRight_byte_def last_rev)
  show "client_URL (NewWithHTTP (gc_BackendURL c) token) path = gc_BackendURL c @ path"
    by (simp add: client_URL_def NewWithHTTP_def u(1) TrimRight_byte_def)
qed

end
