(* ===== verification/Check.thy ===== *)
theory Check
  imports Client
begin

text \<open>
  The PAM hook (\<^verbatim>\<open>agent/internal/check/check.go\<close>): the decision table that turns the local lists and the
  backend's answer into an exit code and one audit line; the sudo command line it reports
  (\<^verbatim>\<open>sudocmd_linux.go\<close>); and the two other uses of the client, the cache refresh
  (\<^verbatim>\<open>cmd/ssh-sentinel/sync.go\<close>) and the watcher's report (\<^verbatim>\<open>internal/watch/watch.go\<close>).

  The state of the outside world (files, clock, backend) is part of the dependencies record. A call to
  the backend may panic; \<^verbatim>\<open>Run\<close> recovers and denies.
\<close>

section \<open>Dependencies\<close>

definition ExitAllow :: nat where "ExitAllow = 0"

definition ExitDeny :: nat where "ExitDeny = 1"

definition notifyTimeout :: duration where "notifyTimeout = 10 * Second"

datatype call_result = Answered ClientResponse | CallError client_error | Panicked

record Deps =
  dp_Context :: string
  dp_Mode :: string
  dp_User :: string
  dp_RHost :: string
  dp_TTY :: string
  dp_Command :: "string option"
  dp_Hostname :: string
  dp_euid :: nat
  dp_BreakGlass :: open_file
  dp_Cache :: read_file
  dp_unmarshal :: "string \<Rightarrow> Cache option"
  dp_Client :: "(ClientRequest \<Rightarrow> duration \<Rightarrow> call_result) option"
  dp_Timeout :: duration
  dp_Now :: time

text \<open>The client as \<^verbatim>\<open>Run\<close> sees it, over a network that answers each request within its budget or not.\<close>

definition client_call ::
  "(string \<Rightarrow> string option) \<Rightarrow> (string \<Rightarrow> ClientResponse option) \<Rightarrow> (ClientRequest \<Rightarrow> duration \<Rightarrow> exchange) \<Rightarrow>
     ClientRequest \<Rightarrow> duration \<Rightarrow> call_result" where
  "client_call ue u net q timeout =
     (case client_AccessRequest ue u (net q timeout) of Inl e \<Rightarrow> CallError e | Inr resp \<Rightarrow> Answered resp)"

section \<open>The decision\<close>

definition finish :: "Deps \<Rightarrow> string \<Rightarrow> string \<Rightarrow> string \<Rightarrow> nat \<times> Line list" where
  "finish d decision reason request =
     (if decision = audit_Allow then ExitAllow else ExitDeny,
      [\<lparr> ln_Decision = decision, ln_Context = dp_Context d, ln_User = dp_User d, ln_RHost = dp_RHost d,
         ln_Host = dp_Hostname d, ln_Reason = reason, ln_Request = request \<rparr>])"

definition check_request :: "Deps \<Rightarrow> string \<Rightarrow> ClientRequest" where
  "check_request d mode =
     \<lparr> cq_Context = dp_Context d, cq_Mode = mode, cq_Username = dp_User d,
       cq_SourceIP = (if dp_RHost d \<noteq> [] then Some (dp_RHost d) else None),
       cq_Hostname = dp_Hostname d, cq_TTY = dp_TTY d, cq_Command = dp_Command d \<rparr>"

definition budget :: "Deps \<Rightarrow> duration" where
  "budget d = (if dp_Timeout d \<le> 0 then 30 * Second else dp_Timeout d)"

definition run_notify :: "Deps \<Rightarrow> nat \<times> Line list" where
  "run_notify d =
     (case dp_Client d of
        None \<Rightarrow> finish d audit_Allow ''unreachable'' []
      | Some call \<Rightarrow>
          (case call (check_request d cfg_ModeNotify) (min (budget d) notifyTimeout) of
             Answered resp \<Rightarrow> finish d audit_Allow ''notify'' (cp_RequestID resp)
           | CallError e \<Rightarrow> finish d audit_Allow (if IsRejected e then ''rejected'' else ''unreachable'') []
           | Panicked \<Rightarrow> finish d audit_Deny ''error'' []))"

definition run_cache :: "Deps \<Rightarrow> nat \<times> Line list" where
  "run_cache d =
     (let cache = fst (LoadCache (dp_unmarshal d) (dp_Cache d)) in
      if Cache_Allows cache (dp_User d) (dp_Context d) (dp_Now d)
      then finish d audit_Allow ''cache'' []
      else finish d audit_Deny ''unreachable'' [])"

definition run_enforce :: "Deps \<Rightarrow> nat \<times> Line list" where
  "run_enforce d =
     (case dp_Client d of
        None \<Rightarrow> run_cache d
      | Some call \<Rightarrow>
          (case call (check_request d cfg_ModeEnforce) (budget d) of
             Answered resp \<Rightarrow>
               if cp_Verdict resp = ''approve'' then finish d audit_Allow (cp_Reason resp) (cp_RequestID resp)
               else finish d audit_Deny (cp_Reason resp) (cp_RequestID resp)
           | CallError e \<Rightarrow> if IsRejected e then finish d audit_Deny ''rejected'' [] else run_cache d
           | Panicked \<Rightarrow> finish d audit_Deny ''error'' []))"

definition Run :: "Deps \<Rightarrow> nat \<times> Line list" where
  "Run d =
     (if dp_User d = [] then finish d audit_Deny ''error'' []
      else if BreakGlass_Contains (fst (ReadBreakGlass (dp_euid d) (dp_BreakGlass d))) (dp_User d)
      then finish d audit_Allow ''breakglass'' []
      else if dp_Mode d = cfg_ModeNotify then run_notify d
      else run_enforce d)"

section \<open>The command line\<close>

definition maxCommandLen :: nat where "maxCommandLen = 4096"

text \<open>\<open>None\<close>: the file of the parent process could not be read.\<close>

definition SudoCommand :: "string option \<Rightarrow> string option" where
  "SudoCommand data =
     (case data of
        None \<Rightarrow> None
      | Some bs \<Rightarrow>
          let cmd = TrimSpace (strings_Join (split_byte CHR 0x00 (TrimRight_byte CHR 0x00 bs)) '' '')
          in if cmd = [] then None else Some (take maxCommandLen cmd))"

text \<open>\<^verbatim>\<open>runCheck\<close> after the flags are parsed: the environment PAM sets and the configuration, if it loads,
  fill the dependencies.\<close>

definition runCheck ::
  "string \<Rightarrow> Deps \<Rightarrow> (AgentConfig \<Rightarrow> ClientRequest \<Rightarrow> duration \<Rightarrow> call_result) \<Rightarrow> AgentConfig option \<Rightarrow>
     string \<Rightarrow> string option \<Rightarrow> nat \<times> Line list" where
  "runCheck ctx pam connect cfg os_hostname cmdline =
     (if ctx \<noteq> ''ssh'' \<and> ctx \<noteq> ''sudo'' then (2, [])
      else
        let d = pam\<lparr> dp_Context := ctx, dp_Mode := cfg_ModeEnforce, dp_Client := None, dp_Timeout := 30 * Second,
                     dp_Hostname := [], dp_Command := None \<rparr>;
            d = (case cfg of
                   None \<Rightarrow> d
                 | Some c \<Rightarrow> d\<lparr> dp_Client := Some (connect c), dp_Mode := gc_Mode c,
                                 dp_Timeout := Config_Timeout c, dp_Hostname := gc_Hostname c \<rparr>);
            d = (if dp_Hostname d = [] then d\<lparr> dp_Hostname := os_hostname \<rparr> else d);
            d = (if ctx = ''sudo'' then d\<lparr> dp_Command := SudoCommand cmdline \<rparr> else d)
        in Run d)"

section \<open>Cache refresh\<close>

definition sync_cache :: "time \<Rightarrow> ClientEntry list \<Rightarrow> Cache" where
  "sync_cache now items =
     \<lparr> ca_SyncedAt = now,
       ca_Entries = map (\<lambda>it. \<lparr> ce_Username = cw_Username it, ce_Context = cw_Context it,
                                ce_ExpiresAt = cw_ExpiresAt it \<rparr>) items \<rparr>"

text \<open>\<^verbatim>\<open>runSync\<close>: on any error the cache file is left as it is. The command takes no arguments. \<open>fetch\<close> is
  the client's call with the loaded configuration, \<open>save\<close> is \<open>SaveCache\<close> with its failure points.\<close>

definition runSync ::
  "string list \<Rightarrow> AgentConfig option \<Rightarrow> (AgentConfig \<Rightarrow> (client_error, ClientEntry list) result) \<Rightarrow> time \<Rightarrow> (Cache \<Rightarrow> string) \<Rightarrow>
     (string \<Rightarrow> filesys \<Rightarrow> filesys \<times> bool) \<Rightarrow> filesys \<Rightarrow> filesys \<times> nat" where
  "runSync args cfg fetch now marshal save fs =
     (if args \<noteq> [] then (fs, 2)
      else case cfg of
        None \<Rightarrow> (fs, 1)
      | Some c \<Rightarrow>
          (case fetch c of
             Inl _ \<Rightarrow> (fs, 1)
           | Inr its \<Rightarrow>
               (let (fs', ok) = save (marshal (sync_cache now its)) fs in (fs', if ok then 0 else 1))))"

section \<open>The watcher\<close>

record Event =
  ev_RecordID :: nat
  ev_Time :: time
  ev_Username :: string
  ev_SourceIP :: string
  ev_Method :: string

definition watch_request :: "string \<Rightarrow> Event \<Rightarrow> ClientRequest" where
  "watch_request hostname ev =
     \<lparr> cq_Context = ''ssh'', cq_Mode = cfg_ModeNotify, cq_Username = ev_Username ev,
       cq_SourceIP = Some (ev_SourceIP ev), cq_Hostname = hostname, cq_TTY = ''ssh'', cq_Command = None \<rparr>"

definition watch_report ::
  "(ClientRequest \<Rightarrow> (client_error, ClientResponse) result) \<Rightarrow> string \<Rightarrow> Event \<Rightarrow> Line" where
  "watch_report call hostname ev =
     (let (reason, request) =
            (case call (watch_request hostname ev) of
               Inr resp \<Rightarrow> (''notify'', cp_RequestID resp)
             | Inl e \<Rightarrow> (if IsRejected e then ''rejected'' else ''unreachable'', []))
      in \<lparr> ln_Decision = audit_Allow, ln_Context = ''ssh'', ln_User = ev_Username ev,
           ln_RHost = ev_SourceIP ev, ln_Host = hostname, ln_Reason = reason, ln_Request = request \<rparr>)"

definition watch_RunOnce ::
  "(ClientRequest \<Rightarrow> (client_error, ClientResponse) result) \<Rightarrow> string \<Rightarrow> ('e, Event list) result \<Rightarrow>
     ('e, nat) result \<times> Line list" where
  "watch_RunOnce call hostname next =
     (case next of
        Inl err \<Rightarrow> (Inl err, [])
      | Inr events \<Rightarrow> (Inr (length events), map (watch_report call hostname) events))"

section \<open>Lemmas\<close>

lemma allow_neq_deny [simp]: "audit_Allow \<noteq> audit_Deny" "audit_Deny \<noteq> audit_Allow"
  by (simp_all add: audit_Allow_def audit_Deny_def)

lemma exit_neq [simp]: "ExitAllow \<noteq> ExitDeny" "ExitDeny \<noteq> ExitAllow"
  by (simp_all add: ExitAllow_def ExitDeny_def)

lemma mode_cfg_neq [simp]: "cfg_ModeEnforce \<noteq> cfg_ModeNotify" "cfg_ModeNotify \<noteq> cfg_ModeEnforce"
  by (simp_all add: cfg_ModeEnforce_def cfg_ModeNotify_def)

lemma finish_code [simp]:
  "fst (finish d audit_Allow reason req) = ExitAllow" "fst (finish d audit_Deny reason req) = ExitDeny"
  by (simp_all add: finish_def)

lemma finish_one: "\<exists>l. snd (finish d dec reason req) = [l] \<and> ln_Decision l = dec \<and> ln_User l = dp_User d"
  by (simp add: finish_def)

lemma run_cache_code:
  "fst (run_cache d) = ExitAllow \<longleftrightarrow>
   Cache_Allows (fst (LoadCache (dp_unmarshal d) (dp_Cache d))) (dp_User d) (dp_Context d) (dp_Now d)"
  by (simp add: run_cache_def Let_def)

text \<open>Exactly one audit line, which names the decision that the exit code carries.\<close>

definition one_line :: "Deps \<Rightarrow> nat \<times> Line list \<Rightarrow> bool" where
  "one_line d res \<longleftrightarrow>
     (\<exists>l. snd res = [l] \<and> ln_User l = dp_User d \<and>
          (fst res = ExitAllow \<longleftrightarrow> ln_Decision l = audit_Allow) \<and>
          (fst res = ExitDeny \<longleftrightarrow> ln_Decision l = audit_Deny))"

lemma finish_one_line: "dec = audit_Allow \<or> dec = audit_Deny \<Longrightarrow> one_line d (finish d dec reason req)"
  by (auto simp: one_line_def finish_def)

lemma finish_exit: "fst (finish d dec reason req) = ExitAllow \<or> fst (finish d dec reason req) = ExitDeny"
  by (simp add: finish_def)

lemma Run_exit: "fst (Run d) = ExitAllow \<or> fst (Run d) = ExitDeny"
  by (simp add: Run_def run_notify_def run_enforce_def run_cache_def Let_def finish_exit
      split: option.split call_result.split)

lemma Run_one_line: "one_line d (Run d)"
  by (simp add: Run_def run_notify_def run_enforce_def run_cache_def Let_def finish_one_line
      split: option.split call_result.split)

section \<open>The contract of the requester\<close>

text \<open>What \<^verbatim>\<open>Run\<close> relies on: an answer is one of the two verdicts.\<close>

locale requester =
  fixes call :: "ClientRequest \<Rightarrow> duration \<Rightarrow> call_result"
  assumes answered_verdict:
    "call q t = Answered resp \<Longrightarrow> cp_Verdict resp = ''approve'' \<or> cp_Verdict resp = ''deny''"
begin

lemma run_enforce_answered:
  assumes "dp_Client d = Some call" "call (check_request d cfg_ModeEnforce) (budget d) = Answered resp"
  shows "fst (run_enforce d) = ExitAllow \<longleftrightarrow> cp_Verdict resp = ''approve''"
    "fst (run_enforce d) = ExitDeny \<longleftrightarrow> cp_Verdict resp = ''deny''"
  using assms answered_verdict [OF assms(2)] by (auto simp: run_enforce_def)

text \<open>Without an answer only the cache can let the user in, and not after a rejection.\<close>

lemma run_enforce_no_answer:
  assumes "dp_Client d = Some call" "call (check_request d cfg_ModeEnforce) (budget d) = CallError e"
  shows "fst (run_enforce d) = ExitAllow \<longleftrightarrow>
    \<not> IsRejected e \<and>
    Cache_Allows (fst (LoadCache (dp_unmarshal d) (dp_Cache d))) (dp_User d) (dp_Context d) (dp_Now d)"
  using assms by (auto simp: run_enforce_def run_cache_code)

end

interpretation http_client: requester "client_call ue u net"
  by unfold_locales
     (auto simp: client_call_def split: sum.splits dest: client_AccessRequest_verdict)

end
