(* ===== verification/System.thy ===== *)
theory System
  imports Router Check
begin

text \<open>
  The two programs together: the agent's client calls are served by the backend's routes. JSON encoding
  and decoding on both sides are parameters; what a statement needs of them is a hypothesis of that
  statement.
\<close>

section \<open>The wire\<close>

record Wire =
  wr_request :: "ClientRequest \<Rightarrow> string"
  wr_reply :: "payload \<Rightarrow> string"

text \<open>The backend's view of the fields the agent sends.\<close>

definition to_body :: "ClientRequest \<Rightarrow> AccessRequestBody" where
  "to_body q = \<lparr> ab_Context = cq_Context q, ab_Mode = cq_Mode q, ab_Username = cq_Username q,
                 ab_SourceIP = cq_SourceIP q, ab_Hostname = cq_Hostname q, ab_TTY = Some (cq_TTY q),
                 ab_Command = cq_Command q \<rparr>"

definition to_client_entry :: "WhitelistItem \<Rightarrow> ClientEntry" where
  "to_client_entry it = \<lparr> cw_ID = wi_ID it, cw_Username = wi_Username it, cw_Context = wi_Context it,
                          cw_Server = wi_Server it, cw_ExpiresAt = wi_ExpiresAt it \<rparr>"

definition wire_post :: "string \<Rightarrow> string \<Rightarrow> HttpRequest" where
  "wire_post token body =
     \<lparr> hq_Method = ''POST'', hq_Path = ''/access-request'', hq_Authorization = client_Authorization token,
       hq_Query = (\<lambda>_. []), hq_Body = Some body \<rparr>"

definition wire_get_whitelist :: "string \<Rightarrow> HttpRequest" where
  "wire_get_whitelist token =
     \<lparr> hq_Method = ''GET'', hq_Path = ''/whitelist'', hq_Authorization = client_Authorization token,
       hq_Query = (\<lambda>_. []), hq_Body = Some [] \<rparr>"

text \<open>What the client sees of a reply; a reply that is lost or too late is no answer.\<close>

definition wire_reply :: "Wire \<Rightarrow> bool \<Rightarrow> reply \<Rightarrow> exchange" where
  "wire_reply W lost rep =
     (if lost then NoAnswer
      else (case rep of Reply status p \<Rightarrow> Got status (wr_reply W p) | HungUp \<Rightarrow> NoAnswer | Waiting \<Rightarrow> NoAnswer))"

definition backend_exchange ::
  "'s Handler \<Rightarrow> 's Ctx \<Rightarrow> 's \<Rightarrow> string \<Rightarrow> Wire \<Rightarrow> bool \<Rightarrow> ClientRequest \<Rightarrow> duration \<Rightarrow> exchange" where
  "backend_exchange h cx s token W lost q timeout =
     wire_reply W lost (snd (snd (serve h cx (wire_post token (wr_request W q)) s)))"

section \<open>Routing of the agent's calls\<close>

lemma serve_post: "serve h cx (wire_post token body) s = requireServer accessRequest h cx (wire_post token body) None s"
  by (simp add: serve_def wire_post_def is_clean_def path_segments_def on_path_def routes_def Let_def
      matches_segment_def matches_method_def)

lemma serve_get_whitelist:
  "serve h cx (wire_get_whitelist token) s = requireAny listWhitelist h cx (wire_get_whitelist token) None s"
  by (simp add: serve_def wire_get_whitelist_def is_clean_def path_segments_def on_path_def routes_def Let_def
      matches_segment_def matches_method_def)

lemma bearer_prefix: "EqualFold_ascii ''Bearer '' ''bearer ''"
  by code_simp

lemma BearerToken_client:
  "BearerToken (client_Authorization token) = (if TrimSpace token = [] then None else Some (TrimSpace token))"
  using bearer_prefix
  by (cases "token = []") (auto simp: BearerToken_def client_Authorization_def Let_def)

section \<open>A served login on the in-memory store\<close>

text \<open>Other processes do any sequence of store operations while the handler sleeps.\<close>

definition mem_event :: "memory sleep_event \<Rightarrow> bool" where
  "mem_event ev = (case ev of Cancelled \<Rightarrow> True | Woke _ env _ \<Rightarrow> \<forall>m. mem_steps m (env m))"

lemma mem_event_ok:
  "list_all mem_event evs \<Longrightarrow> list_all (event_ok mem_inv (\<lambda>m. map_of (m_requests m))) evs"
proof (induction evs)
  case (Cons ev evs)
  then show ?case
    by (cases ev) (auto simp: mem_event_def intro: mem_steps_inv mem_steps_evolve)
qed simp

lemma mem_TouchServer_frame [simp]:
  "m_whitelist (fst (mem_TouchServer sid now m)) = m_whitelist m"
  "m_devices (fst (mem_TouchServer sid now m)) = m_devices m"
  "m_blocked (fst (mem_TouchServer sid now m)) = m_blocked m"
  "m_geoRules (fst (mem_TouchServer sid now m)) = m_geoRules m"
  by (simp_all add: mem_TouchServer_def split: option.split)

lemma mem_ServerByTokenHash_found:
  "mem_ServerByTokenHash hash m = Inr srv \<Longrightarrow> srv \<in> snd ` set (m_servers m)"
  by (auto simp: mem_ServerByTokenHash_def split: option.splits dest!: map_find_SomeD intro: rev_image_eqI)

lemma accessRequest_cases:
  assumes "accessRequest h cx r p s = (s', sent, Reply 200 (AccessOut a))"
  obtains pr srv raw body where "p = Some pr" "pr_Server pr = Some srv"
    "decodeJSON (js_access (h_json h)) (hq_Body r) = Inr raw"
    "normalizeAccessRequest raw (sv_Name srv) = Inr body"
    "access_decide h cx srv body s = (s', sent, Reply 200 (AccessOut a))"
  using assms
  by (auto simp: accessRequest_def dest!: decodeJSON_error split: option.splits sum.splits)

lemma served_login:
  assumes inv: "mem_inv m" and new: "cx_nid cx \<notin> map_keys (m_requests m)" and h: "h_store h = memory_store"
    and evs: "list_all mem_event (cx_sched cx)"
    and run: "requireServer accessRequest h cx r q m = (m', sent, Reply 200 (AccessOut a))"
  shows "\<exists>tok srv raw body row. BearerToken (hq_Authorization r) = Some tok \<and>
    srv \<in> snd ` set (m_servers m) \<and> HashToken tok = sv_TokenHash srv \<and>
    decodeJSON (js_access (h_json h)) (hq_Body r) = Inr raw \<and>
    normalizeAccessRequest raw (sv_Name srv) = Inr body \<and>
    map_of (m_requests m') (cx_nid cx) = Some row \<and>
    access_answer (snd ` set (m_whitelist m)) (cx_rules cx) body srv row a"
proof -
  obtain m1 p where au: "authenticate h cx r m = (m1, Inr p)" "pr_Kind p = KindServer"
    and acc: "accessRequest h cx r (Some p) m1 = (m', sent, Reply 200 (AccessOut a))"
  proof -
    obtain m1 res where 1: "authenticate h cx r m = (m1, res)" by fastforce
    show thesis
    proof (rule authenticate_cases [OF 1])
      fix e assume "res = Inl e" "e = internal_error \<or> e = writeError 401 ''missing or invalid token''"
      with 1 run show thesis by (auto simp: requireServer_def)
    next
      fix p assume "res = Inr p"
      with 1 run that show thesis by (auto simp: requireServer_def split: if_splits)
    next
      fix p srv assume "res = Inr p" "pr_Kind p = KindServer"
      with 1 run that show thesis by (auto simp: requireServer_def)
    qed
  qed
  from au obtain srv where p: "pr_Server p = Some srv" "m1 = fst (mem_TouchServer (sv_ID srv) (cx_touch cx) m)"
    "Authenticate memory_store (h_adminHash h) (hq_Authorization r) m = Inr p"
    using h by (auto elim!: authenticate_cases simp: wiring)
  from Authenticate_sound [OF p(3)] au(2) p(1) obtain tok where tok: "BearerToken (hq_Authorization r) = Some tok"
    "HashToken tok = sv_TokenHash srv" "mem_ServerByTokenHash (HashToken tok) m = Inr srv"
    by (metis Kind.distinct(1) memory_store_sel(3) option.inject)
  have m1: "mem_inv m1" "map_of (m_requests m1) (cx_nid cx) = None" "m_whitelist m1 = m_whitelist m"
    using inv new by (simp_all add: p(2) mem_TouchServer_inv map_keys_iff)
  from acc obtain raw body where nb: "decodeJSON (js_access (h_json h)) (hq_Body r) = Inr raw"
    "normalizeAccessRequest raw (sv_Name srv) = Inr body"
    "access_decide h cx srv body m1 = (m', sent, Reply 200 (AccessOut a))"
    using p(1) by (elim accessRequest_cases) auto
  from mem_backend.access_decide_sound [OF m1(1,2) h mem_event_ok [OF evs] nb(3)] m1(3) tok nb(1,2)
    mem_ServerByTokenHash_found [OF tok(3)]
  show ?thesis by auto
qed

section \<open>What the client accepts\<close>

text \<open>The only success an access request is answered with is 200 and a verdict.\<close>

definition ok_2xx :: "reply \<Rightarrow> bool" where
  "ok_2xx rep = (case rep of Reply st p \<Rightarrow> st < 200 \<or> 300 \<le> st \<or> (st = 200 \<and> (\<exists>a. p = AccessOut a)) | _ \<Rightarrow> True)"

lemma ok_2xx_simps [simp]:
  "ok_2xx (answerAccessRequest c)" "ok_2xx HungUp" "ok_2xx Waiting" "300 \<le> st \<Longrightarrow> ok_2xx (Reply st p)"
  by (simp_all add: ok_2xx_def answerAccessRequest_def split: prod.split)

lemma finishWait_2xx: "ok_2xx (snd (finishWait S c w s))"
  by (simp add: finishWait_def split: prod.split sum.split)

lemma wait_2xx: "ok_2xx (snd (waitAccessVerdict S poll late c d t evs s))"
proof (induction evs arbitrary: t s)
  case (Cons ev evs)
  then show ?case by (cases ev) (simp_all add: Let_def finishWait_2xx split: sum.split)
qed simp

lemma access_decide_2xx: "ok_2xx (snd (snd (access_decide h cx srv body s)))"
proof -
  have "ok_2xx (snd (snd (access_created h cx oc c s1)))" for oc c s1
    by (simp add: access_created_def Let_def case_prod_beta wait_2xx)
  then show ?thesis by (simp add: access_decide_def Let_def split: prod.split sum.split)
qed

lemma accessRequest_2xx: "ok_2xx (snd (snd (requireServer accessRequest h cx r q s)))"
proof -
  have "ok_2xx (snd (snd (accessRequest h cx r p s1)))" for p s1
    using access_decide_2xx
    by (auto simp: accessRequest_def split: option.split sum.split dest!: decodeJSON_error)
  moreover have "authenticate h cx r s = (s1, Inl e) \<Longrightarrow> ok_2xx e" for s1 e
    by (erule authenticate_cases) auto
  ultimately show ?thesis by (auto simp: requireServer_def split: prod.split sum.split)
qed

text \<open>An answer the client accepts is a served access request.\<close>

lemma accepted_answer:
  assumes "client_AccessRequest ue u (backend_exchange h cx s token W lost q timeout) = Inr resp"
  shows "\<exists>s' sent a. serve h cx (wire_post token (wr_request W q)) s = (s', sent, Reply 200 (AccessOut a)) \<and>
    u (take client_maxBody (wr_reply W (AccessOut a))) = Some resp"
proof -
  obtain s' sent rep where sv: "serve h cx (wire_post token (wr_request W q)) s = (s', sent, rep)"
    using prod_cases3 by blast
  from assms obtain st b where x: "backend_exchange h cx s token W lost q timeout = Got st b"
    "200 \<le> st" "st < 300" "u (take client_maxBody b) = Some resp"
    by (auto simp: client_AccessRequest_def client_do_cases split: sum.splits if_splits)
  then obtain p where rep: "rep = Reply st p" "b = wr_reply W p"
    using sv by (auto simp: backend_exchange_def wire_reply_def split: if_splits reply.splits)
  have "ok_2xx (Reply st p)"
    using accessRequest_2xx [of h cx "wire_post token (wr_request W q)" None s] sv rep(1) by (simp add: serve_post)
  with x(2-4) sv rep show ?thesis by (auto simp: ok_2xx_def)
qed

end
