(* ===== verification/Example.thy ===== *)
theory Example
  imports System
begin

text \<open>
  A small installation used to show that the hypotheses of the properties can hold: one enrolled server,
  one phone, one whitelist entry, one pending request, one country rule. The decoders accept any body and
  give a fixed value.
\<close>

definition ex_rid :: string where "ex_rid = ''0a0b0c0d-0000-4000-8000-000000000001''"

definition ex_server :: Server where
  "ex_server = \<lparr> sv_ID = ''s1'', sv_Name = ''web1'', sv_TokenHash = HashToken ''tok'', sv_OS = ''linux'',
                 sv_CreatedAt = 0, sv_LastSeenAt = None \<rparr>"

definition ex_device :: Device where
  "ex_device = \<lparr> dv_ID = ''d1'', dv_FCMToken = ''fcm1'', dv_Platform = ''android'', dv_Label = Some ''phone'',
                 dv_CreatedAt = 0, dv_LastSeenAt = None, dv_DeletedAt = None \<rparr>"

definition ex_pending :: Request where
  "ex_pending = \<lparr> rq_ID = ex_rid, rq_ServerID = ''s1'', rq_ServerName = [], rq_Context = ''ssh'',
     rq_Username = ''bob'', rq_SourceIP = Some ''192.0.2.7'', rq_Hostname = ''web1'', rq_TTY = None,
     rq_Command = None, rq_Geo = None, rq_Status = StatusPending, rq_DecidedBy = None,
     rq_DecidedByDevice = None, rq_DecidedByDeviceLabel = None, rq_CreatedAt = 0,
     rq_ExpiresAt = 30 * Second, rq_DecidedAt = None \<rparr>"

definition ex_entry :: WhitelistEntry where
  "ex_entry = new_entry\<lparr> wl_ID := ''w1'', wl_Username := ''alice'', wl_Context := ''ssh'',
                          wl_ServerID := Some ''s1'' \<rparr>"

definition ex_rule :: GeoRule where
  "ex_rule = \<lparr> gr_ID = ''g1'', gr_Country = ''KP'', gr_Note = None, gr_CreatedAt = 0 \<rparr>"

definition ex_mem :: memory where
  "ex_mem = \<lparr> m_servers = [(''s1'', ex_server)], m_devices = [(''d1'', ex_device)],
              m_requests = [(ex_rid, ex_pending)], m_whitelist = [(''w1'', ex_entry)], m_blocked = [],
              m_geoRules = [(''g1'', ex_rule)], m_PingErr = None \<rparr>"

definition ex_body :: "string \<Rightarrow> AccessRequestBody" where
  "ex_body user = \<lparr> ab_Context = ''ssh'', ab_Mode = ''enforce'', ab_Username = user, ab_SourceIP = None,
                    ab_Hostname = ''web1'', ab_TTY = None, ab_Command = None \<rparr>"

definition ex_verdict :: "string \<Rightarrow> VerdictBody" where
  "ex_verdict v = \<lparr> vb_RequestID = ex_rid, vb_Verdict = v, vb_TTLSeconds = None, vb_DeviceID = None \<rparr>"

definition ex_codec :: "AccessRequestBody \<Rightarrow> VerdictBody \<Rightarrow> Codec" where
  "ex_codec a v = \<lparr> js_access = (\<lambda>_. Some a), js_verdict = (\<lambda>_. Some v), js_whitelist = (\<lambda>_. None),
                    js_device = (\<lambda>_. None), js_geo = (\<lambda>_. None) \<rparr>"

definition ex_handler :: "AccessRequestBody \<Rightarrow> VerdictBody \<Rightarrow> memory Handler" where
  "ex_handler a v = \<lparr> h_store = memory_store, h_push = Some (\<lambda>_ _. True), h_geo = None, h_adminHash = [],
     h_rules = rules_DefaultConfig, h_cfg = handler_DefaultConfig, h_json = ex_codec a v,
     h_FormatTime = (\<lambda>_. []), h_ParseTime = (\<lambda>_. None) \<rparr>"

text \<open>While the handler of a new login sleeps, an admin approves the request under \<open>nid\<close>.\<close>

definition ex_approve :: "string \<Rightarrow> memory \<Rightarrow> memory" where
  "ex_approve nid m = fst (mem_DecideRequest nid StatusApproved None (2 * Second) m)"

definition ex_ctx :: "string \<Rightarrow> memory sleep_event list \<Rightarrow> memory Ctx" where
  "ex_ctx nid evs = \<lparr> cx_touch = Second, cx_now = Second, cx_rules = Second, cx_nid = nid, cx_bid = ''b1'',
                      cx_sched = evs, cx_late = 0 \<rparr>"

lemmas ex_defs = ex_server_def ex_device_def ex_pending_def ex_entry_def ex_rule_def ex_mem_def ex_body_def
  ex_verdict_def ex_codec_def ex_handler_def ex_ctx_def ex_rid_def new_entry_def

lemma ex_mem_inv: "mem_inv ex_mem"
  by (simp add: mem_inv_def ex_defs keyed_by_def unique_on_def map_keys_def wl_key_def)

lemma ex_rid_uuid: "isUUID ex_rid" "ToLower ex_rid = ex_rid"
  by (simp add: isUUID_def ex_rid_def is_hex_def, rule ToLower_lower, simp add: ex_rid_def)

lemma ex_approve_steps: "mem_steps m (ex_approve nid m)"
  unfolding ex_approve_def
  by (rule mem_steps.one_more [OF mem_steps.none]) (rule mem_step.DecideRequest, simp)

text \<open>The token of the example server authenticates it.\<close>

lemma trim_tok: "TrimSpace ''tok'' = ''tok''"
  by (rule TrimSpace_printable) simp

lemma ex_authenticate:
  "hq_Authorization r = client_Authorization ''tok'' \<Longrightarrow> cx_touch cx = Second \<Longrightarrow>
   authenticate (ex_handler a v) cx r ex_mem =
     (ex_mem\<lparr>m_servers := [(''s1'', ex_server\<lparr>sv_LastSeenAt := Some Second\<rparr>)]\<rparr>,
      Inr \<lparr> pr_Kind = KindServer, pr_Server = Some ex_server \<rparr>)"
  by (simp add: authenticate_def Authenticate_def BearerToken_client trim_tok ConstantTimeCompare_eq wiring
      ex_handler_def mem_ServerByTokenHash_def map_find_def ex_mem_def ex_server_def mem_TouchServer_def map_put_def)

end
