(* ===== verification/Login_Props.thy ===== *)
theory Login_Props
  imports Example
begin

text \<open>
  The properties of a login on the backend: what an answer to an agent means, that the wait ends, what
  the rules decide, and that a failing store never lets anyone in. Each is followed by a witness on the
  example installation where it has hypotheses.
\<close>

text \<open>C2: A 200 answer to an agent's access request is the decision recorded in the request's row, for the
  server whose token hash was presented, and an approval has a ground: an admin approved this very
  request before it expired, or an unexpired whitelist entry covers user, context and server, or the
  request was in notify mode. This holds whatever sequence of store operations other processes perform
  while the handler sleeps.\<close>

theorem access_request_sound:
  assumes "mem_inv m" "cx_nid cx \<notin> map_keys (m_requests m)" "h_store h = memory_store"
    and "list_all mem_event (cx_sched cx)"
    and "serve h cx (wire_post token bytes) m = (m', sent, Reply 200 (AccessOut a))"
  shows "\<exists>srv raw body row. srv \<in> snd ` set (m_servers m) \<and> HashToken (TrimSpace token) = sv_TokenHash srv \<and>
    js_access (h_json h) bytes = Some raw \<and> normalizeAccessRequest raw (sv_Name srv) = Inr body \<and>
    map_of (m_requests m') (cx_nid cx) = Some row \<and>
    access_answer (snd ` set (m_whitelist m)) (cx_rules cx) body srv row a"
proof -
  have "requireServer accessRequest h cx (wire_post token bytes) None m = (m', sent, Reply 200 (AccessOut a))"
    using assms(5) by (simp add: serve_post)
  from served_login [OF assms(1-4) this] obtain tok srv raw body row where
    "BearerToken (hq_Authorization (wire_post token bytes)) = Some tok"
    "srv \<in> snd ` set (m_servers m)" "HashToken tok = sv_TokenHash srv"
    "decodeJSON (js_access (h_json h)) (hq_Body (wire_post token bytes)) = Inr raw"
    "normalizeAccessRequest raw (sv_Name srv) = Inr body" "map_of (m_requests m') (cx_nid cx) = Some row"
    "access_answer (snd ` set (m_whitelist m)) (cx_rules cx) body srv row a"
    by blast
  moreover from this have "tok = TrimSpace token" "js_access (h_json h) bytes = Some raw"
    by (auto simp: wire_post_def BearerToken_client decodeJSON_ok_iff split: if_splits)
  ultimately show ?thesis by blast
qed

lemma ex_handler_sel:
  "h_store (ex_handler b v) = memory_store" "h_geo (ex_handler b v) = None"
  "h_push (ex_handler b v) = Some (\<lambda>_ _. True)" "h_cfg (ex_handler b v) = handler_DefaultConfig"
  "h_rules (ex_handler b v) = rules_DefaultConfig" "h_adminHash (ex_handler b v) = []"
  by (simp_all add: ex_handler_def)

lemma ex_trim: "TrimSpace ''alice'' = ''alice''" "TrimSpace ''web1'' = ''web1''" "TrimSpace ''bob'' = ''bob''"
  by (rule TrimSpace_printable, simp)+

lemma ex_normalize:
  "user \<noteq> [] \<Longrightarrow> TrimSpace user = user \<Longrightarrow> normalizeAccessRequest (ex_body user) ''web1'' = Inr (ex_body user)"
  by (simp add: normalizeAccessRequest_def ex_body_def ValidContext_def ValidMode_def enums ex_trim
      normalize_source_ip_def accessNilIfEmpty_def)

lemma ex_decode: "decodeJSON (js_access (h_json (ex_handler b v))) (Some [CHR ''x'']) = Inr b"
  by (simp add: decodeJSON_def ex_handler_def ex_codec_def maxBodyBytes_def)

text \<open>The state after the example server was seen, and the login it then asks for.\<close>

definition ex_seen :: memory where
  "ex_seen = ex_mem\<lparr>m_servers := [(''s1'', ex_server\<lparr>sv_LastSeenAt := Some Second\<rparr>)]\<rparr>"

lemma ex_serve_raw:
  assumes "normalizeAccessRequest b ''web1'' = Inr body"
  shows "serve (ex_handler b v) (ex_ctx nid evs) (wire_post ''tok'' ''x'') ex_mem =
    access_decide (ex_handler b v) (ex_ctx nid evs) ex_server body ex_seen"
proof -
  have au: "authenticate (ex_handler b v) (ex_ctx nid evs) (wire_post ''tok'' ''x'') ex_mem =
     (ex_seen, Inr \<lparr> pr_Kind = KindServer, pr_Server = Some ex_server \<rparr>)"
    unfolding ex_seen_def by (rule ex_authenticate) (simp_all add: wire_post_def ex_ctx_def)
  have "hq_Body (wire_post ''tok'' ''x'') = Some ''x''" "sv_Name ex_server = ''web1''"
    by (simp_all add: wire_post_def ex_server_def)
  with au assms show ?thesis
    by (simp add: serve_post requireServer_def accessRequest_def ex_decode)
qed

lemmas ex_serve = ex_serve_raw [OF ex_normalize]

lemma ex_evaluate:
  "Evaluate memory_store now (access_input ex_server (ex_body user) None) ex_seen =
     (ex_seen, Inr (if user = ''alice''
        then outcome StatusWhitelisted (Some DecidedByWhitelist)\<lparr>oc_Whitelist := Some (whitelistView ex_seen ex_entry)\<rparr>
        else outcome StatusPending None))"
  by (simp add: Evaluate_def evaluate_ip_def evaluate_geo_def evaluate_whitelist_def access_input_def
      ex_seen_def ex_defs wiring mem_FindWhitelist_def ToUpper_def strings_Map_def enums)

lemma ex_create:
  "rq_ServerID r = ''s1'' \<Longrightarrow> rq_Status r \<noteq> [] \<Longrightarrow>
   mem_CreateRequest nid r ex_seen =
     (let c = r\<lparr>rq_ID := nid\<rparr>; m = ex_seen\<lparr>m_requests := map_put nid c (m_requests ex_seen)\<rparr>
      in (m, Inr (requestView m c)))"
  by (simp add: mem_CreateRequest_def ex_seen_def)

lemma status_nonempty [simp]:
  "StatusPending \<noteq> []" "StatusApproved \<noteq> []" "StatusDenied \<noteq> []" "StatusWhitelisted \<noteq> []" "StatusNotified \<noteq> []"
  by (simp_all add: enums)

lemma ex_server_id: "sv_ID ex_server = ''s1''"
  by (simp add: ex_server_def)

lemma ex_decide_alice:
  "\<exists>m' sent a. access_decide (ex_handler b v) (ex_ctx ''n1'' []) ex_server (ex_body ''alice'') ex_seen
     = (m', sent, Reply 200 (AccessOut a)) \<and> ar_Verdict a = VerdictApprove"
proof -
  have g: "access_geo (ex_handler b v) (ex_body ''alice'') = None"
    by (simp add: access_geo_def ex_body_def)
  show ?thesis
    by (simp add: access_decide_def g ex_handler_sel ex_evaluate wiring ex_create access_row_def ex_server_id
        access_created_def Outcome_Pending_def answerAccessRequest_def VerdictFor_def Let_def)
qed

lemma ex_login_alice:
  "\<exists>m' sent a. serve (ex_handler (ex_body ''alice'') v) (ex_ctx ''n1'' []) (wire_post ''tok'' ''x'') ex_mem
     = (m', sent, Reply 200 (AccessOut a)) \<and> ar_Verdict a = VerdictApprove"
  unfolding ex_serve [OF _ ex_trim(1), simplified] by (rule ex_decide_alice)

theorem access_request_sound_witness:
  "\<exists>m' sent a. serve (ex_handler (ex_body ''alice'') (ex_verdict ''deny'')) (ex_ctx ''n1'' [])
      (wire_post ''tok'' ''x'') ex_mem = (m', sent, Reply 200 (AccessOut a)) \<and> ar_Verdict a = VerdictApprove \<and>
    (\<exists>srv raw body row. srv \<in> snd ` set (m_servers ex_mem) \<and>
       HashToken (TrimSpace ''tok'') = sv_TokenHash srv \<and>
       js_access (h_json (ex_handler (ex_body ''alice'') (ex_verdict ''deny''))) ''x'' = Some raw \<and>
       normalizeAccessRequest raw (sv_Name srv) = Inr body \<and>
       map_of (m_requests m') (cx_nid (ex_ctx ''n1'' [])) = Some row \<and>
       access_answer (snd ` set (m_whitelist ex_mem)) (cx_rules (ex_ctx ''n1'' [])) body srv row a)"
proof -
  obtain m' sent a where run: "serve (ex_handler (ex_body ''alice'') (ex_verdict ''deny'')) (ex_ctx ''n1'' [])
      (wire_post ''tok'' ''x'') ex_mem = (m', sent, Reply 200 (AccessOut a))" "ar_Verdict a = VerdictApprove"
    using ex_login_alice by blast
  have "cx_nid (ex_ctx ''n1'' []) \<notin> map_keys (m_requests ex_mem)" "list_all mem_event (cx_sched (ex_ctx ''n1'' []))"
    by (simp_all add: ex_ctx_def map_keys_def ex_mem_def ex_rid_def)
  from access_request_sound [OF ex_mem_inv this(1) ex_handler_sel(1) this(2) run(1)] run show ?thesis
    by blast
qed

text \<open>C3: Under any interleaving of store operations a request row keeps its login, a decided row keeps its
  decision for ever, and a pending row is only ever decided by an admin before it expires or by a
  timeout: the first verdict wins.\<close>

theorem first_verdict_wins:
  assumes "mem_steps m m'" "map_of (m_requests m) rid = Some r"
  shows "\<exists>r'. map_of (m_requests m') rid = Some r' \<and> same_login r r' \<and>
    (rq_Status r \<noteq> StatusPending \<longrightarrow> same_decision r r') \<and>
    (rq_Status r = StatusPending \<longrightarrow> rq_Status r' \<noteq> StatusPending \<longrightarrow> admin_decided r' \<or> timed_out r')"
  using rows_evolveD [OF mem_steps_evolve [OF assms(1)] assms(2)]
  by (auto simp: decision_step_def same_decision_def)

theorem first_verdict_wins_witness:
  "\<exists>r'. map_of (m_requests (ex_approve ex_rid ex_mem)) ex_rid = Some r' \<and> same_login ex_pending r' \<and>
    (rq_Status ex_pending \<noteq> StatusPending \<longrightarrow> same_decision ex_pending r') \<and>
    (rq_Status ex_pending = StatusPending \<longrightarrow> rq_Status r' \<noteq> StatusPending \<longrightarrow> admin_decided r' \<or> timed_out r')"
  by (rule first_verdict_wins [OF ex_approve_steps]) (simp add: ex_mem_def)

text \<open>C15: The wait for a verdict always ends: whatever the store answers and whatever other processes do,
  once enough sleeps fit into the wait window the handler has replied or the caller hung up. With
  the default timing 26 sleeps are enough.\<close>

theorem access_request_returns:
  assumes "h = handler_New h0"
    and "hc_VerdictWait (h_cfg h) < int (length (cx_sched cx)) * hc_PollInterval (h_cfg h)"
  shows "snd (snd (accessRequest h cx r p s)) \<noteq> Waiting"
proof -
  have pos: "0 < hc_PollInterval (h_cfg h)" "0 < hc_VerdictWait (h_cfg h)"
    using assms(1) by (simp_all add: handler_New_positive)
  with assms(2) have "cx_sched cx \<noteq> []" by auto
  then have wait: "snd (waitAccessVerdict (h_store h) (hc_PollInterval (h_cfg h)) (cx_late cx) c
      (cx_now cx + hc_VerdictWait (h_cfg h)) (cx_now cx) (cx_sched cx) s') \<noteq> Waiting" for c s'
    using wait_ends [OF pos(1), of "cx_now cx + hc_VerdictWait (h_cfg h)" "cx_now cx" "cx_sched cx"] assms(2)
    by auto
  have created: "snd (snd (access_created h cx oc c s')) \<noteq> Waiting" for oc c s'
    using wait [of c s']
    by (auto simp: access_created_def answerAccessRequest_def Let_def split: prod.splits)
  have decide: "snd (snd (access_decide h cx srv body s')) \<noteq> Waiting" for srv body s'
    using created by (auto simp: access_decide_def Let_def split: prod.split sum.split)
  show ?thesis
    using decide by (auto simp: accessRequest_def split: option.split sum.split dest!: decodeJSON_error)
qed

theorem access_request_returns_witness:
  "snd (snd (accessRequest (handler_New (ex_handler (ex_body ''bob'') (ex_verdict ''deny'')))
     (ex_ctx ''n1'' (replicate 26 (Woke 0 (\<lambda>m. m) 0))) (wire_post ''tok'' ''x'')
     (Some \<lparr> pr_Kind = KindServer, pr_Server = Some ex_server \<rparr>) ex_mem)) \<noteq> Waiting"
  by (rule access_request_returns [OF refl])
     (simp add: handler_New_def default_if_def ex_handler_sel handler_DefaultConfig_def ex_ctx_def)

text \<open>A row the store returned, from an insert or a read.\<close>

definition store_says :: "'s Store \<Rightarrow> Request \<Rightarrow> bool" where
  "store_says S v \<longleftrightarrow>
     (\<exists>s nid r s'. st_CreateRequest S nid r s = (s', Inr v)) \<or> (\<exists>s rid. st_RequestByID S rid s = Inr v)"

definition approval_from :: "'s Store \<Rightarrow> AccessRequestResponse \<Rightarrow> bool" where
  "approval_from S a \<longleftrightarrow>
     (\<exists>v. store_says S v \<and> rq_Status v \<in> {StatusApproved, StatusWhitelisted, StatusNotified} \<and>
          ar_RequestID a = rq_ID v)"

lemma approval_fromI:
  "store_says S v \<Longrightarrow> answerAccessRequest v = Reply 200 (AccessOut a) \<Longrightarrow> ar_Verdict a = VerdictApprove \<Longrightarrow>
   approval_from S a"
  using VerdictFor_approve_iff [of "rq_Status v"]
  by (auto simp: approval_from_def answerAccessRequest_def split: prod.splits)

lemma store_saysI:
  "st_CreateRequest S nid r s = (s', Inr v) \<Longrightarrow> store_says S v" "st_RequestByID S rid s = Inr v \<Longrightarrow> store_says S v"
  by (auto simp: store_says_def)

lemma answer_timeout:
  "answerAccessRequest (v\<lparr>rq_Status := StatusTimeout, rq_DecidedAt := None\<rparr>) = Reply 200 (AccessOut a) \<Longrightarrow>
   ar_Verdict a \<noteq> VerdictApprove"
  by (auto simp: answerAccessRequest_def VerdictFor_def)

lemma finishWait_approval:
  "finishWait S created now s = (s', Reply 200 (AccessOut a)) \<Longrightarrow> ar_Verdict a = VerdictApprove \<Longrightarrow>
   approval_from S a"
  by (auto simp: finishWait_def split: prod.splits sum.splits if_splits
      dest: answer_timeout intro: approval_fromI store_saysI)

lemma wait_approval:
  "waitAccessVerdict S poll late created deadline t evs s = (s', Reply 200 (AccessOut a)) \<Longrightarrow>
   ar_Verdict a = VerdictApprove \<Longrightarrow> approval_from S a"
proof (induction evs arbitrary: t s)
  case (Cons ev evs)
  show ?case
  proof (cases ev)
    case (Woke lag env over)
    with Cons.prems(1) consider
        w where "finishWait S created w (env s) = (s', Reply 200 (AccessOut a))"
      | v where "st_RequestByID S (rq_ID created) (env s) = Inr v" "answerAccessRequest v = Reply 200 (AccessOut a)"
      | w where "waitAccessVerdict S poll late created deadline w evs (env s) = (s', Reply 200 (AccessOut a))"
      by (auto simp: Let_def split: if_splits sum.splits)
    then show ?thesis
      by cases (use Cons in \<open>auto intro: finishWait_approval approval_fromI store_saysI\<close>)
  qed (use Cons.prems in simp)
qed simp

text \<open>Whatever the store does, failing included, the handler never approves on its own: an approval
  repeats the status of a row the store returned for this request, from the insert or from a later
  read.\<close>

theorem approval_comes_from_store:
  assumes "accessRequest h cx r p s = (s', sent, Reply 200 (AccessOut a))" "ar_Verdict a = VerdictApprove"
  shows "\<exists>v. store_says (h_store h) v \<and>
    rq_Status v \<in> {StatusApproved, StatusWhitelisted, StatusNotified} \<and> ar_RequestID a = rq_ID v"
proof -
  obtain srv body where "access_decide h cx srv body s = (s', sent, Reply 200 (AccessOut a))"
    using assms(1) by (rule accessRequest_cases)
  then obtain oc nid row v s1 s2 where cr: "st_CreateRequest (h_store h) nid row s1 = (s2, Inr v)"
    and run: "access_created h cx oc v s2 = (s', sent, Reply 200 (AccessOut a))"
    by (auto simp: access_decide_def Let_def split: prod.splits sum.splits)
  have "approval_from (h_store h) a"
  proof (cases "Outcome_Pending oc")
    case False
    then have "answerAccessRequest v = Reply 200 (AccessOut a)" using run by (simp add: access_created_def)
    then show ?thesis by (rule approval_fromI [OF store_saysI(1) [OF cr] _ assms(2)])
  next
    case True
    then obtain d t where "waitAccessVerdict (h_store h) (hc_PollInterval (h_cfg h)) (cx_late cx) v d t
        (cx_sched cx) s2 = (s', Reply 200 (AccessOut a))"
      using run by (auto simp: access_created_def Let_def split: prod.splits)
    then show ?thesis by (rule wait_approval [OF _ assms(2)])
  qed
  then show ?thesis by (simp add: approval_from_def)
qed

theorem approval_comes_from_store_witness:
  "\<exists>s' sent a. accessRequest (ex_handler (ex_body ''alice'') (ex_verdict ''deny'')) (ex_ctx ''n1'' [])
      (wire_post ''tok'' ''x'') (Some \<lparr> pr_Kind = KindServer, pr_Server = Some ex_server \<rparr>) ex_seen
      = (s', sent, Reply 200 (AccessOut a)) \<and>
    (\<exists>v. store_says (h_store (ex_handler (ex_body ''alice'') (ex_verdict ''deny''))) v \<and>
       rq_Status v \<in> {StatusApproved, StatusWhitelisted, StatusNotified} \<and> ar_RequestID a = rq_ID v)"
proof -
  obtain m' sent a where a: "access_decide (ex_handler (ex_body ''alice'') (ex_verdict ''deny'')) (ex_ctx ''n1'' [])
      ex_server (ex_body ''alice'') ex_seen = (m', sent, Reply 200 (AccessOut a))" "ar_Verdict a = VerdictApprove"
    using ex_login_alice unfolding ex_serve [OF _ ex_trim(1), simplified] by blast
  have "hq_Body (wire_post ''tok'' ''x'') = Some ''x''" "sv_Name ex_server = ''web1''"
    by (simp_all add: wire_post_def ex_server_def)
  with a(1) have "accessRequest (ex_handler (ex_body ''alice'') (ex_verdict ''deny'')) (ex_ctx ''n1'' [])
      (wire_post ''tok'' ''x'') (Some \<lparr> pr_Kind = KindServer, pr_Server = Some ex_server \<rparr>) ex_seen
      = (m', sent, Reply 200 (AccessOut a))"
    by (simp add: accessRequest_def ex_decode ex_normalize ex_trim)
  with approval_comes_from_store [OF this a(2)] show ?thesis by blast
qed

end
