(* ===== verification/Route_Props.thy ===== *)
theory Route_Props
  imports Example
begin

text \<open>
  The properties of the HTTP surface: who may call what, which phones are pushed to, identifiers
  and addresses.
\<close>

section \<open>Tokens\<close>

text \<open>The token of the example server, without an admin token.\<close>

lemma ex_Authenticate:
  "Authenticate memory_store [] (client_Authorization ''tok'') ex_mem =
     Inr \<lparr> pr_Kind = KindServer, pr_Server = Some ex_server \<rparr>"
  by (simp add: Authenticate_def BearerToken_client trim_tok ConstantTimeCompare_eq wiring
      mem_ServerByTokenHash_def map_find_def ex_mem_def ex_server_def)

text \<open>C23: Authentication is sound for every store: an admin principal needs a configured admin token and a
  bearer token with the same hash, a server principal needs a bearer token whose hash is the stored
  hash of the server it names. With an empty admin token nobody is admin.\<close>

theorem authenticate_sound:
  assumes "Authenticate S (auth_New adminToken) header s = Inr p"
  shows "\<exists>tok. BearerToken header = Some tok \<and> tok \<noteq> [] \<and>
    (case pr_Kind p of
       KindAdmin \<Rightarrow> adminToken \<noteq> [] \<and> HashToken tok = HashToken adminToken \<and> pr_Server p = None
     | KindServer \<Rightarrow> \<exists>srv. pr_Server p = Some srv \<and> HashToken tok = sv_TokenHash srv \<and>
         st_ServerByTokenHash S (HashToken tok) s = Inr srv)"
  by (rule Authenticate_sound [OF assms])
     (auto simp: auth_New_def BearerToken_nonempty split: if_splits)

theorem authenticate_sound_witness:
  "\<exists>tok. BearerToken (client_Authorization ''tok'') = Some tok \<and> tok \<noteq> [] \<and>
    (case pr_Kind \<lparr> pr_Kind = KindServer, pr_Server = Some ex_server \<rparr> of
       KindAdmin \<Rightarrow> ([] :: string) \<noteq> [] \<and> HashToken tok = HashToken [] \<and>
         pr_Server \<lparr> pr_Kind = KindServer, pr_Server = Some ex_server \<rparr> = None
     | KindServer \<Rightarrow> \<exists>srv. pr_Server \<lparr> pr_Kind = KindServer, pr_Server = Some ex_server \<rparr> = Some srv \<and>
         HashToken tok = sv_TokenHash srv \<and> st_ServerByTokenHash memory_store (HashToken tok) ex_mem = Inr srv)"
  by (rule authenticate_sound [where adminToken = "[]" and S = memory_store])
     (simp add: auth_New_def ex_Authenticate)

text \<open>On the in-memory store authentication is complete: the admin token and the token of every enrolled
  server are accepted, and a token whose hash matches none of them is refused.\<close>

theorem authenticate_complete:
  assumes "mem_inv m" "BearerToken header = Some tok"
  shows "Authenticate memory_store adminHash header m =
    (if adminHash \<noteq> [] \<and> HashToken tok = adminHash then Inr \<lparr> pr_Kind = KindAdmin, pr_Server = None \<rparr>
     else (case map_find (\<lambda>srv. sv_TokenHash srv = HashToken tok) (m_servers m) of
             Some (_, srv) \<Rightarrow> Inr \<lparr> pr_Kind = KindServer, pr_Server = Some srv \<rparr>
           | None \<Rightarrow> Inl ErrInvalidToken)) \<and>
    (\<forall>srv\<in>snd ` set (m_servers m). HashToken tok = sv_TokenHash srv \<longrightarrow> adminHash \<noteq> sv_TokenHash srv \<longrightarrow>
       Authenticate memory_store adminHash header m = Inr \<lparr> pr_Kind = KindServer, pr_Server = Some srv \<rparr>)"
  using assms mem_srv.Authenticate_server [OF assms(1) _ assms(2)]
  by (auto simp: Authenticate_def ConstantTimeCompare_eq wiring mem_ServerByTokenHash_def Let_def
      split: option.split dest: map_find_SomeD)

theorem authenticate_complete_witness:
  "Authenticate memory_store [] (client_Authorization ''tok'') ex_mem =
     Inr \<lparr> pr_Kind = KindServer, pr_Server = Some ex_server \<rparr>"
proof -
  have tok: "BearerToken (client_Authorization ''tok'') = Some ''tok''" by (simp add: BearerToken_client trim_tok)
  have "ex_server \<in> snd ` set (m_servers ex_mem)" "HashToken ''tok'' = sv_TokenHash ex_server" "[] \<noteq> sv_TokenHash ex_server"
    by (simp_all add: ex_mem_def ex_server_def HashToken_nonempty [symmetric])
  with authenticate_complete [of ex_mem _ _ "[]", OF ex_mem_inv tok] show ?thesis by blast
qed

lemma guarded_rejects:
  assumes "Authenticate (h_store h) (h_adminHash h) (hq_Authorization r) s = Inl e"
    and "f = requireAdmin g \<or> f = requireServer g \<or> f = requireAny g"
  shows "f h cx r p s = (s, [], case e of ErrStore _ \<Rightarrow> internal_error | _ \<Rightarrow> writeError 401 ''missing or invalid token'')"
  using assms by (cases e) (auto simp: requireAdmin_def requireServer_def requireAny_def authenticate_def)

lemma routes_health_or_guarded:
  assumes "(m, pat, f) \<in> set routes"
  obtains "m = ''GET''" "pat = [Lit ''healthz'']" "f = health"
    | g where "f = requireAdmin g \<or> f = requireServer g \<or> f = requireAny g"
  using assms by (auto simp: routes_def)

text \<open>C24: A caller that is not authenticated changes nothing, pushes nothing and learns nothing but the
  health of the service. A GET or HEAD of the health path is answered 200 or 503 with the state of the database. To every other
  request the reply is one of: 401, or 500 if the store failed while the token was looked up; 404 or 405 if no route matches; 301 to
  the cleaned path, or 400 for the path \<open>*\<close>, both without a value. Nothing else is possible, whatever the method and the path.\<close>

theorem routes_require_token:
  assumes "Authenticate (h_store h) (h_adminHash h) (hq_Authorization r) s = Inl e"
  shows "\<exists>rep. serve h cx r s = (s, [], rep) \<and>
    (rep \<in> {Reply 301 NoBody, Reply 400 NoBody, writeError 404 ''not found'', writeError 405 ''method not allowed'',
       case e of ErrStore _ \<Rightarrow> internal_error | _ \<Rightarrow> writeError 401 ''missing or invalid token''} \<or>
     (hq_Method r \<in> {''GET'', ''HEAD''} \<and> path_segments (hq_Path r) = [''healthz''] \<and>
      rep = (if st_Ping (h_store h) s = None then Reply 200 (HealthOut ''ok'' ''ok'') else Reply 503 (HealthOut ''degraded'' ''error''))))"
proof (rule serve_cases [of h cx r s])
  fix m pat f
  assume f: "(m, pat, f) \<in> set routes" "serve h cx r s = f h cx r None s"
    "list_all2 matches_segment pat (path_segments (hq_Path r))" "matches_method m (hq_Method r)"
  from f(1) show ?thesis
  proof (cases rule: routes_health_or_guarded)
    case 1
    with f(3,4) have "hq_Method r \<in> {''GET'', ''HEAD''}" "path_segments (hq_Path r) = [''healthz'']"
      by (auto simp: matches_method_def list_all2_Cons1 matches_segment_def)
    with f(2) 1(3) show ?thesis by (auto simp: health_def split: option.split)
  next
    case (2 g)
    from guarded_rejects [OF assms 2, of cx None] f(2) show ?thesis by simp
  qed
qed simp_all

theorem routes_require_token_witness:
  "\<exists>rep. serve (ex_handler (ex_body ''bob'') (ex_verdict ''deny'')) (ex_ctx ''n'' [])
      ((wire_post ''tok'' ''x'')\<lparr>hq_Authorization := []\<rparr>) ex_mem = (ex_mem, [], rep) \<and>
    (\<exists>status msg. rep = Reply status NoBody \<and> status \<in> {301, 400} \<or> rep = writeError status msg \<and> status \<in> {401, 404, 405})"
proof -
  let ?r = "(wire_post ''tok'' ''x'')\<lparr>hq_Authorization := []\<rparr>"
  have "Authenticate (h_store (ex_handler (ex_body ''bob'') (ex_verdict ''deny'')))
      (h_adminHash (ex_handler (ex_body ''bob'') (ex_verdict ''deny''))) (hq_Authorization ?r) ex_mem = Inl ErrNoToken"
    by (simp add: Authenticate_def BearerToken_def)
  from routes_require_token [OF this, of "ex_ctx ''n'' []"] show ?thesis by (auto simp: wire_post_def)
qed

text \<open>The requests the token of an agent is for, as method and path segments.\<close>

definition agent_requests :: "(string \<times> string list) set" where
  "agent_requests =
     {(''POST'', [''access-request'']), (''GET'', [''whitelist'']), (''HEAD'', [''whitelist'']),
      (''GET'', [''healthz'']), (''HEAD'', [''healthz''])}"

lemma list_all2_segments:
  "list_all2 matches_segment [] ts \<longleftrightarrow> ts = []"
  "list_all2 matches_segment (Lit w # ps) ts \<longleftrightarrow> (\<exists>us. ts = w # us \<and> list_all2 matches_segment ps us)"
  by (auto simp: list_all2_Cons1 matches_segment_def)

lemma other_routes_are_admin:
  assumes "(m, pat, f) \<in> set routes" "list_all2 matches_segment pat segs" "matches_method m meth"
    and "(meth, segs) \<notin> agent_requests"
  shows "is_admin_route (f :: 'a route)"
proof -
  have adm: "is_admin_route (requireAdmin g)" for g :: "'a route" by (auto simp: is_admin_route_def)
  have pats: "\<And>ts. list_all2 matches_segment [Lit ''healthz''] ts \<longleftrightarrow> ts = [''healthz'']"
    "\<And>ts. list_all2 matches_segment [Lit ''access-request''] ts \<longleftrightarrow> ts = [''access-request'']"
    "\<And>ts. list_all2 matches_segment [Lit ''whitelist''] ts \<longleftrightarrow> ts = [''whitelist'']"
    by (simp_all add: list_all2_segments)
  have "list_all (\<lambda>(m, pat, f :: 'a route). is_admin_route f \<or>
      (m, pat) \<in> {(''GET'', [Lit ''healthz'']), (''POST'', [Lit ''access-request'']), (''GET'', [Lit ''whitelist''])})
    routes"
    by (simp add: routes_def adm)
  with assms(1) consider "is_admin_route f" | "m = ''GET''" "pat = [Lit ''healthz'']"
    | "m = ''POST''" "pat = [Lit ''access-request'']" | "m = ''GET''" "pat = [Lit ''whitelist'']"
    by (auto simp: list_all_iff)
  then show ?thesis
    by cases (use assms(2-4) pats in \<open>auto simp: agent_requests_def matches_method_def\<close>)
qed

text \<open>C25: The token of an agent opens its own access request, the whitelist and the health check only. On
  every other request it is answered with an error or a redirect, and has no effect but the server's
  last-seen time.\<close>

theorem server_token_confined:
  assumes "Authenticate (h_store h) (h_adminHash h) (hq_Authorization r) s = Inr p" "pr_Kind p = KindServer"
    and "(hq_Method r, path_segments (hq_Path r)) \<notin> agent_requests"
  shows "\<exists>srv status payload. pr_Server p = Some srv \<and> status \<in> {301, 400, 403, 404, 405} \<and>
    (serve h cx r s = (s, [], Reply status payload) \<or>
     serve h cx r s =
       (fst (st_TouchServer (h_store h) (sv_ID srv) (cx_touch cx) s), [], Reply status payload))"
proof -
  obtain srv where srv: "pr_Server p = Some srv"
    by (rule Authenticate_sound [OF assms(1)]) (use assms(2) in auto)
  show ?thesis
  proof (rule serve_cases [of h cx r s])
    fix m pat f
    assume f: "(m, pat, f) \<in> set routes" "serve h cx r s = f h cx r None s"
      "list_all2 matches_segment pat (path_segments (hq_Path r))" "matches_method m (hq_Method r)"
    from other_routes_are_admin [OF f(1,3,4) assms(3)] obtain g where "f = requireAdmin g"
      by (auto simp: is_admin_route_def)
    with f(2) requireAdmin_server [OF assms(1,2), of g cx None] show ?thesis by auto
  qed (use srv in auto)
qed

theorem server_token_confined_witness:
  "\<exists>srv status payload. pr_Server \<lparr> pr_Kind = KindServer, pr_Server = Some ex_server \<rparr> = Some srv \<and>
    status \<in> {301, 400, 403, 404, 405} \<and>
    (serve (ex_handler (ex_body ''bob'') (ex_verdict ''approve'')) (ex_ctx ''n'' [])
       ((wire_post ''tok'' ''x'')\<lparr>hq_Path := ''/verdict''\<rparr>) ex_mem = (ex_mem, [], Reply status payload) \<or>
     serve (ex_handler (ex_body ''bob'') (ex_verdict ''approve'')) (ex_ctx ''n'' [])
       ((wire_post ''tok'' ''x'')\<lparr>hq_Path := ''/verdict''\<rparr>) ex_mem =
       (fst (st_TouchServer (h_store (ex_handler (ex_body ''bob'') (ex_verdict ''approve''))) (sv_ID srv)
          (cx_touch (ex_ctx ''n'' [])) ex_mem), [], Reply status payload))"
proof (rule server_token_confined)
  show "Authenticate (h_store (ex_handler (ex_body ''bob'') (ex_verdict ''approve'')))
      (h_adminHash (ex_handler (ex_body ''bob'') (ex_verdict ''approve'')))
      (hq_Authorization ((wire_post ''tok'' ''x'')\<lparr>hq_Path := ''/verdict''\<rparr>)) ex_mem =
    Inr \<lparr> pr_Kind = KindServer, pr_Server = Some ex_server \<rparr>"
    by (simp add: wire_post_def ex_handler_def ex_Authenticate)
qed (simp_all add: agent_requests_def path_segments_def wire_post_def)

section \<open>Phones\<close>

definition live_tokens :: "memory \<Rightarrow> string set" where
  "live_tokens m = dv_FCMToken ` {d \<in> snd ` set (m_devices m). dv_DeletedAt d = None}"

lemma live_tokens_iff:
  assumes "mem_inv m"
  shows "t \<in> live_tokens m \<longleftrightarrow>
    (\<exists>did d. map_of (m_devices m) did = Some d \<and> dv_FCMToken d = t \<and> dv_DeletedAt d = None)"
proof -
  from assms have k: "keyed_by dv_ID (m_devices m)" by (rule mem_inv_keyed)
  have "d \<in> snd ` set (m_devices m) \<longleftrightarrow> (\<exists>did. map_of (m_devices m) did = Some d)" for d
    using keyed_by_mem_iff [OF k] by (auto simp: image_iff) force+
  then show ?thesis by (auto simp: live_tokens_def)
qed

lemma one_device_per_token:
  assumes "mem_inv m" "map_of (m_devices m) i = Some d" "map_of (m_devices m) j = Some e"
    "dv_FCMToken d = dv_FCMToken e"
  shows "i = j" "d = e"
proof -
  have "i = j"
    by (rule unique_onD [OF mem_inv_unique(3) [OF assms(1)] map_of_SomeD [OF assms(2)] map_of_SomeD [OF assms(3)]])
       (simp_all add: assms(4))
  with assms show "i = j" "d = e" by simp_all
qed

lemma live_tokens_put:
  assumes "mem_inv m" "map_of (m_devices m) did = Some d" "dv_ID v = dv_ID d" "dv_FCMToken v = dv_FCMToken d"
  shows "live_tokens (m\<lparr>m_devices := map_put did v (m_devices m)\<rparr>) =
    (if dv_DeletedAt v = None then insert (dv_FCMToken d) (live_tokens m) else live_tokens m - {dv_FCMToken d})"
proof (rule set_eqI)
  fix t
  let ?m = "m\<lparr>m_devices := map_put did v (m_devices m)\<rparr>"
  have other: "map_of (m_devices m) k = Some e \<Longrightarrow> dv_FCMToken e = dv_FCMToken d \<Longrightarrow> k = did" for k e
    using one_device_per_token(1) [OF assms(1) _ assms(2)] .
  have "t \<in> live_tokens ?m \<longleftrightarrow> (\<exists>k e. (if k = did then e = v else map_of (m_devices m) k = Some e) \<and>
      dv_FCMToken e = t \<and> dv_DeletedAt e = None)"
    unfolding live_tokens_iff [OF mem_devices_rewrite_inv [OF assms]]
    by (intro arg_cong [where f = Ex] ext) auto
  also have "\<dots> \<longleftrightarrow> (t = dv_FCMToken d \<and> dv_DeletedAt v = None) \<or> (t \<noteq> dv_FCMToken d \<and> t \<in> live_tokens m)"
    unfolding live_tokens_iff [OF assms(1)] using assms(2,4) other by (metis option.inject)
  finally show "t \<in> live_tokens ?m \<longleftrightarrow> t \<in> (if dv_DeletedAt v = None then insert (dv_FCMToken d) (live_tokens m)
      else live_tokens m - {dv_FCMToken d})" by auto
qed

lemma tokens_distinct:
  assumes "keyed_by dv_ID ds" "unique_on (\<lambda>_. True) dv_FCMToken ds"
  shows "distinct (map dv_FCMToken (map snd ds))"
proof -
  have d: "distinct (map fst ds)" using assms(1) by (simp add: keyed_by_def)
  have "inj_on (dv_FCMToken \<circ> snd) (set ds)"
  proof (rule inj_onI)
    fix x y
    assume xy: "x \<in> set ds" "y \<in> set ds" "(dv_FCMToken \<circ> snd) x = (dv_FCMToken \<circ> snd) y"
    then have "fst x = fst y"
      by (intro unique_onD [OF assms(2), of "fst x" "snd x" "fst y" "snd y"]) simp_all
    with xy(1,2) d show "x = y" by (metis eq_key_imp_eq_value prod.collapse)
  qed
  with d show ?thesis by (simp add: distinct_map)
qed

text \<open>A push goes exactly once to every registered phone and to nobody else, and the number of accepted
  deliveries is that of the phones FCM accepts the message for.\<close>

theorem pushes_reach_registered_phones:
  assumes "mem_inv m" "h_store h = memory_store" "h_push h = Some send"
  shows "\<exists>toks. pushAll h data m = (map (\<lambda>t. (t, data)) toks, card {t \<in> live_tokens m. send t data}) \<and>
    distinct toks \<and> set toks = live_tokens m"
proof -
  define ds where "ds = sort_key (\<lambda>d. (dv_CreatedAt d, dv_ID d))
    (filter (\<lambda>d. dv_DeletedAt d = None) (map snd (m_devices m)))"
  from tokens_distinct [OF mem_inv_keyed(2) mem_inv_unique(3)] assms(1)
  have "distinct (map dv_FCMToken (filter (\<lambda>d. dv_DeletedAt d = None) (map snd (m_devices m))))"
    by (simp add: distinct_map_filter)
  then have dist: "distinct (map dv_FCMToken ds)"
    by (simp add: ds_def distinct_map)
  have set: "set (map dv_FCMToken ds) = live_tokens m" by (auto simp: ds_def live_tokens_def)
  have "{t \<in> live_tokens m. send t data} = set (filter (\<lambda>t. send t data) (map dv_FCMToken ds))"
    using set by auto
  moreover have "card (set (filter (\<lambda>t. send t data) (map dv_FCMToken ds))) =
      length (filter (\<lambda>t. send t data) (map dv_FCMToken ds))"
    by (rule distinct_card) (rule distinct_filter [OF dist])
  ultimately have "card {t \<in> live_tokens m. send t data} = length (filter (\<lambda>d. send (dv_FCMToken d) data) ds)"
    by (simp add: filter_map o_def)
  with assms(2,3) dist set show ?thesis
    by (intro exI [of _ "map dv_FCMToken ds"])
       (simp add: pushAll_def wiring mem_ListDevices_def ds_def [symmetric] o_def)
qed

theorem pushes_reach_registered_phones_witness:
  "\<exists>toks. pushAll (ex_handler (ex_body ''bob'') (ex_verdict ''deny'')) (DecidedPush ex_pending) ex_mem =
      (map (\<lambda>t. (t, DecidedPush ex_pending)) toks, card {t \<in> live_tokens ex_mem. True}) \<and>
    distinct toks \<and> set toks = live_tokens ex_mem"
  by (rule pushes_reach_registered_phones [OF ex_mem_inv]) (simp_all add: ex_handler_def wiring)

text \<open>A deleted phone gets no more pushes; registering its token again brings back the same device,
  under its old id, and the pushes with it.\<close>

theorem device_lifecycle:
  assumes "mem_inv m" "h_store h = memory_store"
    and "pathID (path_last (hq_Path r)) = Inr did" "map_of (m_devices m) did = Some d" "dv_DeletedAt d = None"
    and "decodeJSON (js_device (h_json h)) (hq_Body q) = Inr b" "TrimSpace (db_FCMToken b) = dv_FCMToken d"
    and "dv_FCMToken d \<noteq> []" "ValidPlatform (db_Platform b)"
  shows "\<exists>m1 m2 d2. deleteDevice h cx r p m = (m1, [], Reply 204 NoBody) \<and>
    live_tokens m1 = live_tokens m - {dv_FCMToken d} \<and>
    createDevice h cx' q p' m1 = (m2, [], Reply 200 (DeviceOut (ToDeviceItem d2))) \<and>
    map_of (m_devices m2) did = Some d2 \<and> dv_Label d2 = optionalText (db_Label b) \<and>
    live_tokens m2 = live_tokens m"
proof -
  define d1 where "d1 = d\<lparr>dv_DeletedAt := Some (cx_now cx)\<rparr>"
  define m1 where "m1 = m\<lparr>m_devices := map_put did d1 (m_devices m)\<rparr>"
  define d2 where "d2 = d1\<lparr> dv_Platform := db_Platform b, dv_Label := optionalText (db_Label b),
    dv_LastSeenAt := Some (cx_now cx'), dv_DeletedAt := None \<rparr>"
  define m2 where "m2 = m1\<lparr>m_devices := map_put did d2 (m_devices m1)\<rparr>"
  have inv1: "mem_inv m1"
    using mem_DeleteDevice_inv [OF assms(1), of did "cx_now cx"] assms(4,5)
    by (simp add: mem_DeleteDevice_def m1_def d1_def)
  have del: "deleteDevice h cx r p m = (m1, [], Reply 204 NoBody)"
    using assms by (simp add: deleteDevice_def wiring mem_DeleteDevice_def delete_reply_def m1_def d1_def)
  have "(did, d1) \<in> set (m_devices m1)" by (rule map_of_SomeD) (simp add: m1_def)
  moreover have "distinct (map fst (m_devices m1))" using mem_inv_keyed(2) [OF inv1] by (simp add: keyed_by_def)
  moreover have "dv_FCMToken d1 = dv_FCMToken d" by (simp add: d1_def)
  ultimately have "map_find (\<lambda>x. dv_FCMToken x = dv_FCMToken d) (m_devices m1) = Some (did, d1)"
    using map_find_unique [OF _ mem_inv_unique(3) [OF inv1], of did d1 "dv_FCMToken d"] by simp
  then have up: "mem_UpsertDevice (cx_nid cx') (dv_FCMToken d) (db_Platform b) (optionalText (db_Label b))
      (cx_now cx') m1 = (m2, Inr (d2, False))"
    by (simp add: mem_UpsertDevice_def m2_def d2_def Let_def)
  have cre: "createDevice h cx' q p' m1 = (m2, [], Reply 200 (DeviceOut (ToDeviceItem d2)))"
    using assms up by (simp add: createDevice_def wiring Let_def)
  have "live_tokens m1 = live_tokens m - {dv_FCMToken d}"
    using live_tokens_put [OF assms(1,4), of d1] by (simp add: m1_def d1_def)
  moreover have "live_tokens m2 = insert (dv_FCMToken d) (live_tokens m1)"
    using live_tokens_put [OF inv1, of did d1 d2] by (simp add: m2_def m1_def d2_def d1_def)
  moreover have "dv_FCMToken d \<in> live_tokens m"
    using assms(4,5) by (auto simp: live_tokens_iff [OF assms(1)])
  ultimately have "live_tokens m1 = live_tokens m - {dv_FCMToken d}" "live_tokens m2 = live_tokens m" by auto
  moreover have "map_of (m_devices m2) did = Some d2" "dv_Label d2 = optionalText (db_Label b)"
    by (simp_all add: m2_def d2_def)
  ultimately show ?thesis using del cre by blast
qed

definition ex_did :: string where "ex_did = ''0a0b0c0d-0000-4000-8000-00000000000d''"

definition ex_phone_mem :: memory where
  "ex_phone_mem = ex_mem\<lparr>m_devices := [(ex_did, ex_device\<lparr>dv_ID := ex_did\<rparr>)]\<rparr>"

definition ex_phone_handler :: "memory Handler" where
  "ex_phone_handler = (ex_handler (ex_body ''bob'') (ex_verdict ''deny''))\<lparr>h_json :=
     (ex_codec (ex_body ''bob'') (ex_verdict ''deny''))\<lparr>js_device :=
       (\<lambda>_. Some \<lparr> db_FCMToken = ''fcm1'', db_Platform = ''ios'', db_Label = None \<rparr>)\<rparr>\<rparr>"

lemma ex_phone:
  "h_store ex_phone_handler = memory_store"
  "map_of (m_devices ex_phone_mem) ex_did = Some (ex_device\<lparr>dv_ID := ex_did\<rparr>)"
  "dv_FCMToken ex_device = ''fcm1''" "dv_DeletedAt ex_device = None" "ValidPlatform ''ios''"
  by (simp_all add: ex_phone_mem_def ex_phone_handler_def ex_handler_def ex_device_def ValidPlatform_def enums)

lemma ex_did_path: "pathID (path_last (''/devices/'' @ ex_did)) = Inr ex_did"
proof -
  have "ToLower ex_did = ex_did" by (rule ToLower_lower) (simp add: ex_did_def)
  moreover have "isUUID ex_did" by (simp add: isUUID_def ex_did_def is_hex_def)
  moreover have "path_last (''/devices/'' @ ex_did) = ex_did" by (simp add: path_last_def ex_did_def)
  ultimately show ?thesis by (simp add: pathID_def)
qed

theorem device_lifecycle_witness:
  "\<exists>m1 m2 d2.
     deleteDevice ex_phone_handler (ex_ctx [] [])
       ((wire_post ''tok'' ''x'')\<lparr>hq_Path := ''/devices/'' @ ex_did\<rparr>) None ex_phone_mem = (m1, [], Reply 204 NoBody) \<and>
     live_tokens m1 = live_tokens ex_phone_mem - {dv_FCMToken (ex_device\<lparr>dv_ID := ex_did\<rparr>)} \<and>
     createDevice ex_phone_handler (ex_ctx [] []) (wire_post ''tok'' ''x'') None m1 =
       (m2, [], Reply 200 (DeviceOut (ToDeviceItem d2))) \<and>
     map_of (m_devices m2) ex_did = Some d2 \<and> dv_Label d2 = optionalText None \<and>
     live_tokens m2 = live_tokens ex_phone_mem"
proof -
  have "TrimSpace ''fcm1'' = ''fcm1''" by (rule TrimSpace_printable) simp
  moreover have "mem_inv ex_phone_mem"
    using ex_mem_inv
    by (simp add: mem_inv_def ex_phone_mem_def keyed_by_def unique_on_def map_keys_def)
  moreover have "decodeJSON (js_device (h_json ex_phone_handler)) (hq_Body (wire_post ''tok'' ''x'')) =
      Inr \<lparr> db_FCMToken = ''fcm1'', db_Platform = ''ios'', db_Label = None \<rparr>"
    by (simp add: decodeJSON_ok_iff wire_post_def ex_phone_handler_def maxBodyBytes_def)
  ultimately show ?thesis
    using ex_did_path
      device_lifecycle [of ex_phone_mem ex_phone_handler "(wire_post ''tok'' ''x'')\<lparr>hq_Path := ''/devices/'' @ ex_did\<rparr>"
        ex_did "ex_device\<lparr>dv_ID := ex_did\<rparr>" "wire_post ''tok'' ''x''"
        "\<lparr> db_FCMToken = ''fcm1'', db_Platform = ''ios'', db_Label = None \<rparr>" "ex_ctx [] []" None "ex_ctx [] []" None]
    by (simp add: ex_phone)
qed

section \<open>Addresses and identifiers\<close>

text \<open>The address of a login is stored in one spelling. Two texts that parse get the same stored text
  exactly when they name the same address, with IPv4-mapped IPv6 addresses read as IPv4 and zones
  dropped, and the stored text parses back to that address, so a block hits every spelling.\<close>

theorem address_spellings:
  assumes "ParseAddr s = Some a" "ParseAddr t = Some b"
  shows "(canonical_ip s = canonical_ip t \<longleftrightarrow> Addr_NoZone (Addr_Unmap a) = Addr_NoZone (Addr_Unmap b)) \<and>
    (\<exists>u. canonical_ip s = Some u \<and> canonical_ip u = Some u \<and>
         ParseAddr u = Some (Addr_NoZone (Addr_Unmap a)))"
proof -
  obtain u where u: "canonical_ip s = Some u" using assms(1) by (simp add: canonical_ip_def)
  from canonical_ip_parse [OF u] obtain c where c: "ParseAddr u = Some c" "c = Addr_NoZone (Addr_Unmap c)"
    by blast
  from canonical_ip_eq_iff [OF assms(1) c(1)] u canonical_ip_idem [OF u] c
  have "ParseAddr u = Some (Addr_NoZone (Addr_Unmap a))" by simp
  with u canonical_ip_idem [OF u] canonical_ip_eq_iff [OF assms] show ?thesis by simp
qed

theorem address_spellings_witness:
  "\<exists>a b. (canonical_ip ''::ffff:192.0.2.7'' = canonical_ip ''192.0.2.7'' \<longleftrightarrow>
      Addr_NoZone (Addr_Unmap a) = Addr_NoZone (Addr_Unmap b)) \<and>
    (\<exists>u. canonical_ip ''::ffff:192.0.2.7'' = Some u \<and> canonical_ip u = Some u \<and>
         ParseAddr u = Some (Addr_NoZone (Addr_Unmap a)))"
proof -
  have "ParseAddr ''::ffff:192.0.2.7'' \<noteq> None" "ParseAddr ''192.0.2.7'' \<noteq> None"
    by (simp_all add: ParseAddr_def parseIPv6_def parse6_loop.simps parse6_group_def parseIPv4Fields_def
        is_hex_def is_digit_def hex_value_def)
  then obtain a b where "ParseAddr ''::ffff:192.0.2.7'' = Some a" "ParseAddr ''192.0.2.7'' = Some b" by blast
  from address_spellings [OF this] show ?thesis by blast
qed

text \<open>Every id the store makes is accepted back in a path, unchanged.\<close>

theorem new_ids_are_paths:
  assumes "length b = 16"
  shows "pathID (NewID b) = Inr (NewID b) \<and> isUUID (NewID b)"
  using NewID_isUUID [OF assms] by (simp add: pathID_def NewID_lower)

theorem new_ids_are_paths_witness:
  "pathID (NewID (replicate 16 0xff)) = Inr (NewID (replicate 16 0xff)) \<and> isUUID (NewID (replicate 16 0xff))"
  by (rule new_ids_are_paths) simp

end
