(* ===== verification/Verdict_Props.thy ===== *)
theory Verdict_Props
  imports Route_Props
begin

text \<open>
  The properties of the rules and of the verdict route on the in-memory store: the decision table, the
  auto-block, the first verdict and the late ones, always-allow, and the bounds on a time to live.
\<close>

section \<open>What follows a decision\<close>

lemma upsert_requests:
  "mem_UpsertBlockedIP nid b m = (m', r) \<Longrightarrow> m_requests m' = m_requests m"
  "mem_UpsertWhitelist nid e now m = (m', r') \<Longrightarrow> m_requests m' = m_requests m"
  using mem_other_requests(6) [of nid e now m] mem_other_requests(9) [of nid b m] by auto

lemma RecordDenial_requests:
  "RecordDenial memory_store cfg nid ip now m = (m', r) \<Longrightarrow> m_requests m' = m_requests m"
  by (auto simp: RecordDenial_def wiring dest: upsert_requests
      split: sum.splits option.splits prod.splits if_splits)

lemma verdict_whitelist_requests:
  "h_store h = memory_store \<Longrightarrow> verdict_whitelist h cx body row dev ttl m = (m', r) \<Longrightarrow> m_requests m' = m_requests m"
  by (auto simp: verdict_whitelist_def wiring dest: upsert_requests split: sum.splits prod.splits if_splits)

lemma verdict_autoblock_requests:
  "h_store h = memory_store \<Longrightarrow> verdict_autoblock h cx row m = (m', r) \<Longrightarrow> m_requests m' = m_requests m"
  by (auto simp: verdict_autoblock_def dest: RecordDenial_requests
      split: sum.splits option.splits prod.splits if_splits)

lemma verdict_whitelist_succeeds:
  assumes "mem_inv m" "h_store h = memory_store" "rq_ServerID row \<in> map_keys (m_servers m)"
  shows "\<exists>m' we. verdict_whitelist h cx body row dev ttl m = (m', Inr we) \<and> mem_inv m' \<and> m_blocked m' = m_blocked m"
proof (cases "vb_Verdict body = VerdictApproveAlways")
  case True
  let ?e = "verdict_entry row dev ttl (cx_now cx)"
  obtain m' res where up: "mem_UpsertWhitelist (cx_nid cx) ?e (cx_now cx) m = (m', res)" by fastforce
  moreover from this have "mem_inv m'" using mem_UpsertWhitelist_inv [OF assms(1), of "cx_nid cx" ?e "cx_now cx"] by simp
  moreover have "\<exists>sv c. res = Inr (sv, c) \<and> m_blocked m' = m_blocked m"
    using up assms(3)
    by (auto simp: mem_UpsertWhitelist_def verdict_entry_def map_keys_iff Let_def split: option.splits if_splits)
  ultimately show ?thesis using True assms(2) by (auto simp: verdict_whitelist_def wiring)
next
  case False
  with assms(1) show ?thesis by (simp add: verdict_whitelist_def)
qed

lemma verdict_autoblock_succeeds:
  assumes "mem_inv m" "h_store h = memory_store" "cx_bid cx \<notin> map_keys (m_blocked m)"
  shows "\<exists>m' ab. verdict_autoblock h cx row m = (m', Inr ab)"
proof -
  have "\<exists>m' r. RecordDenial memory_store (h_rules h) (cx_bid cx) ip (cx_now cx) m = (m', Inr r)" for ip
    using mem_rules.RecordDenial_spec [OF assms(1,3), of "h_rules h" ip "cx_now cx"] by blast
  then obtain f g where "RecordDenial memory_store (h_rules h) (cx_bid cx) ip (cx_now cx) m = (f ip, Inr (g ip))" for ip
    by metis
  then show ?thesis
    using assms(2) by (simp add: verdict_autoblock_def split: option.split)
qed

lemma verdict_after_memory:
  assumes inv: "mem_inv m" and h: "h_store h = memory_store" and srv: "rq_ServerID row \<in> map_keys (m_servers m)"
    and bid: "cx_bid cx \<notin> map_keys (m_blocked m)"
  shows "\<exists>m' v. verdict_after h cx body row dev ttl m =
      (m', fst (pushAll h (DecidedPush row) m), Reply 200 (VerdictOut v)) \<and>
    m_requests m' = m_requests m \<and> vr_RequestID v = rq_ID row \<and> vr_Status v = rq_Status row \<and>
    vr_DecidedAt v = rq_DecidedAt row"
proof -
  obtain m1 we where 1: "verdict_whitelist h cx body row dev ttl m = (m1, Inr we)" "mem_inv m1" "m_blocked m1 = m_blocked m"
    using verdict_whitelist_succeeds [OF inv h srv] by blast
  obtain m2 ab where 2: "verdict_autoblock h cx row m1 = (m2, Inr ab)"
    using verdict_autoblock_succeeds [OF 1(2) h] bid 1(3) by fastforce
  have "m_requests m2 = m_requests m"
    using verdict_whitelist_requests [OF h 1(1)] verdict_autoblock_requests [OF h 2] by simp
  with 1 2 show ?thesis by (simp add: verdict_after_def Let_def)
qed

section \<open>The rules\<close>

lemma Evaluate_memory:
  assumes "mem_inv m" "Evaluate memory_store now inp m = (m', Inr oc)"
  shows "if ip_blocked (mem_block m) (ri_SourceIP inp) now
    then \<exists>ip b. ri_SourceIP inp = Some ip \<and> mem_block m ip = Some b \<and>
      m' = m\<lparr>m_blocked := map_put (bi_ID b) (b\<lparr>bi_HitCount := bi_HitCount b + 1, bi_LastHitAt := Some now\<rparr>) (m_blocked m)\<rparr>
    else m' = m"
proof (cases "ip_blocked (mem_block m) (ri_SourceIP inp) now")
  case True
  then obtain ip b where b: "ri_SourceIP inp = Some ip" "ip \<noteq> []" "mem_block m ip = Some b" "BlockedIP_Active b now"
    by (auto simp: ip_blocked_Active split: option.splits)
  then have "map_of (m_blocked m) (bi_ID b) = Some b" using mem_block_iff [OF assms(1)] by blast
  with b assms(2) True show ?thesis
    by (auto simp: Evaluate_def evaluate_ip_def wiring mem_BlockedIPByIP_block mem_RecordBlockedIPHit_def)
next
  case False
  then have "evaluate_ip memory_store now inp m = (m, Inr None)" by (rule mem_rules.evaluate_ip_free [OF assms(1)])
  with assms(2) False show ?thesis by (simp add: Evaluate_def)
qed

text \<open>C17: The rules engine implements the decision table of its package comment: a blocked address, then a
  country rule, then the whitelist, then notify mode, otherwise the request is pending. A whitelisted
  user coming from a blocked address or country is denied. A login from a blocked address is counted as a hit on
  that block, at the time of the login, and changes nothing else; every other login changes nothing.\<close>

theorem rules_decision_table:
  assumes "mem_inv m"
  shows "\<exists>m' oc. Evaluate memory_store now inp m = (m', Inr oc) \<and> mem_inv m' \<and>
    (oc_Status oc, oc_DecidedBy oc) =
      rules_decision (ip_blocked (mem_block m) (ri_SourceIP inp) now)
        (geo_blocked (gr_Country ` snd ` set (m_geoRules m)) (ri_Country inp))
        (\<exists>e\<in>snd ` set (m_whitelist m). wl_covers (ri_Username inp) (ri_Context inp) (ri_ServerID inp) now e)
        (ri_Mode inp) \<and>
    (if ip_blocked (mem_block m) (ri_SourceIP inp) now
     then \<exists>ip b. ri_SourceIP inp = Some ip \<and> mem_block m ip = Some b \<and>
       m' = m\<lparr>m_blocked := map_put (bi_ID b) (b\<lparr>bi_HitCount := bi_HitCount b + 1, bi_LastHitAt := Some now\<rparr>) (m_blocked m)\<rparr>
     else m' = m)"
proof -
  from mem_rules.Evaluate_spec [OF assms, of now inp] obtain m' oc where
    run: "Evaluate memory_store now inp m = (m', Inr oc)" "mem_inv m'"
    and table: "(oc_Status oc, oc_DecidedBy oc) =
      rules_decision (ip_blocked (mem_block m) (ri_SourceIP inp) now)
        (geo_blocked (gr_Country ` snd ` set (m_geoRules m)) (ri_Country inp))
        (\<exists>e\<in>snd ` set (m_whitelist m). wl_covers (ri_Username inp) (ri_Context inp) (ri_ServerID inp) now e)
        (ri_Mode inp)"
    by blast
  show ?thesis using run table Evaluate_memory [OF assms run(1)] by blast
qed

definition ex_block :: BlockedIP where
  "ex_block = \<lparr> bi_ID = ''b0'', bi_IP = ''192.0.2.7'', bi_Reason = ''autoblock'', bi_DenialCount = 3,
                bi_FirstDeniedAt = 0, bi_LastDeniedAt = 0, bi_HitCount = 0, bi_LastHitAt = None,
                bi_CreatedAt = 0, bi_ExpiresAt = None \<rparr>"

definition ex_blocked :: memory where
  "ex_blocked = ex_mem\<lparr>m_blocked := [(''b0'', ex_block)]\<rparr>"

lemma ex_blocked_inv: "mem_inv ex_blocked"
  by (simp add: mem_inv_def ex_blocked_def ex_block_def ex_defs keyed_by_def unique_on_def map_keys_def wl_key_def)

definition ex_blocked_login :: RulesInput where
  "ex_blocked_login = (access_input ex_server (ex_body ''alice'') None)\<lparr>ri_SourceIP := Some ''192.0.2.7''\<rparr>"

lemma ex_blocked_ip: "ip_blocked (mem_block ex_blocked) (ri_SourceIP ex_blocked_login) 5" "mem_block ex_blocked ''192.0.2.7'' = Some ex_block"
  by (simp_all add: ip_blocked_Active mem_block_def map_find_def ex_blocked_def ex_block_def ex_blocked_login_def BlockedIP_Active_def)

theorem rules_decision_table_witness:
  "\<exists>m' oc. Evaluate memory_store 5 ex_blocked_login ex_blocked = (m', Inr oc) \<and> oc_Status oc = StatusBlockedIP \<and>
    m_blocked m' = [(''b0'', ex_block\<lparr>bi_HitCount := 1, bi_LastHitAt := Some 5\<rparr>)]"
proof -
  have "ri_SourceIP ex_blocked_login = Some ''192.0.2.7''" by (simp add: ex_blocked_login_def)
  with rules_decision_table [OF ex_blocked_inv, of 5 ex_blocked_login] ex_blocked_ip
  obtain m' oc where "Evaluate memory_store 5 ex_blocked_login ex_blocked = (m', Inr oc)" "oc_Status oc = StatusBlockedIP"
    "m' = ex_blocked\<lparr>m_blocked := map_put (bi_ID ex_block) (ex_block\<lparr>bi_HitCount := bi_HitCount ex_block + 1, bi_LastHitAt := Some 5\<rparr>)
      (m_blocked ex_blocked)\<rparr>"
    by (auto simp: rules_decision_def)
  then show ?thesis by (simp add: ex_blocked_def ex_block_def map_put_def)
qed

text \<open>C22: A denial blocks its address exactly when the address is not blocked at that time and the denials that
  count reach the threshold. Those are the denials of the address that were decided inside the window, and not before
  the end of an earlier block. The block then carries that count, starts without hits, and expires after the
  configured duration, or never. Otherwise nothing changes.\<close>

theorem autoblock_threshold:
  assumes "mem_inv m" "nid \<notin> map_keys (m_blocked m)"
  shows "\<exists>m' r. RecordDenial memory_store cfg nid ip now m = (m', Inr r) \<and> mem_inv m' \<and>
    (let start = (case mem_block m ip of
                    Some b \<Rightarrow> (case bi_ExpiresAt b of Some e \<Rightarrow> max e (now - rc_Window cfg) | None \<Rightarrow> now - rc_Window cfg)
                  | None \<Rightarrow> now - rc_Window cfg);
         count = int (card {rid. \<exists>q at. map_of (m_requests m) rid = Some q \<and> rq_Status q = StatusDenied \<and>
                                rq_SourceIP q = Some ip \<and> rq_DecidedAt q = Some at \<and> start \<le> at})
     in if (\<exists>b. mem_block m ip = Some b \<and> (case bi_ExpiresAt b of None \<Rightarrow> True | Some e \<Rightarrow> now < e)) \<or> count < rc_Threshold cfg
        then m' = m \<and> r = None
        else \<exists>b. r = Some b \<and> mem_block m' ip = Some b \<and> bi_IP b = ip \<and> bi_CreatedAt b = now \<and>
               bi_DenialCount b = count \<and> bi_HitCount b = 0 \<and>
               bi_ExpiresAt b = (if 0 < rc_BlockDuration cfg then Some (now + rc_BlockDuration cfg) else None))"
proof -
  from mem_rules.RecordDenial_spec [OF assms, of cfg ip now] obtain m' r where
    run: "RecordDenial memory_store cfg nid ip now m = (m', Inr r)" "mem_inv m'"
    and spec: "case denial_since cfg now (mem_block m ip) of
       None \<Rightarrow> m' = m \<and> r = None
     | Some since \<Rightarrow>
         if int (card (denials (map_of (m_requests m)) ip since)) < rc_Threshold cfg then m' = m \<and> r = None
         else (\<exists>b. r = Some b \<and> mem_block m' ip = Some b \<and> bi_IP b = ip \<and> bi_CreatedAt b = now \<and>
                   bi_DenialCount b = int (card (denials (map_of (m_requests m)) ip since)) \<and> bi_HitCount b = 0 \<and>
                   bi_ExpiresAt b = (if 0 < rc_BlockDuration cfg then Some (now + rc_BlockDuration cfg) else None))"
    by blast
  define start where "start = (case mem_block m ip of
      Some b \<Rightarrow> (case bi_ExpiresAt b of Some e \<Rightarrow> max e (now - rc_Window cfg) | None \<Rightarrow> now - rc_Window cfg)
    | None \<Rightarrow> now - rc_Window cfg)"
  have since: "denial_since cfg now (mem_block m ip) =
      (if \<exists>b. mem_block m ip = Some b \<and> (case bi_ExpiresAt b of None \<Rightarrow> True | Some e \<Rightarrow> now < e) then None else Some start)"
    by (auto simp: denial_since_def start_def BlockedIP_Active_def Let_def split: option.split)
  show ?thesis
    using run spec unfolding start_def [symmetric] since Let_def denials_def [symmetric] by (auto split: if_splits)
qed

definition ex_denied :: memory where
  "ex_denied = ex_mem\<lparr>m_requests := [(ex_rid, ex_pending\<lparr>rq_Status := StatusDenied, rq_DecidedAt := Some Second\<rparr>)]\<rparr>"

lemma ex_denied_inv: "mem_inv ex_denied"
  by (simp add: mem_inv_def ex_denied_def ex_defs keyed_by_def unique_on_def map_keys_def wl_key_def)

theorem autoblock_threshold_witness:
  "\<exists>m' b. RecordDenial memory_store (rules_DefaultConfig\<lparr>rc_Threshold := 1\<rparr>) ''b1'' ''192.0.2.7'' (2 * Second) ex_denied =
      (m', Inr (Some b)) \<and> mem_block m' ''192.0.2.7'' = Some b \<and> bi_DenialCount b = 1"
proof -
  let ?cfg = "rules_DefaultConfig\<lparr>rc_Threshold := 1\<rparr>"
  have none: "mem_block ex_denied ''192.0.2.7'' = None"
    by (simp add: mem_block_def map_find_def ex_denied_def ex_mem_def)
  have "{rid. \<exists>q at. map_of (m_requests ex_denied) rid = Some q \<and> rq_Status q = StatusDenied \<and>
      rq_SourceIP q = Some ''192.0.2.7'' \<and> rq_DecidedAt q = Some at \<and> 2 * Second - rc_Window ?cfg \<le> at} = {ex_rid}"
    by (auto simp: ex_denied_def ex_mem_def ex_pending_def rules_DefaultConfig_def split: if_splits)
  then have "int (card {rid. \<exists>q at. map_of (m_requests ex_denied) rid = Some q \<and> rq_Status q = StatusDenied \<and>
      rq_SourceIP q = Some ''192.0.2.7'' \<and> rq_DecidedAt q = Some at \<and> 2 * Second - rc_Window ?cfg \<le> at}) = 1" by simp
  moreover have "''b1'' \<notin> map_keys (m_blocked ex_denied)" by (simp add: ex_denied_def ex_mem_def map_keys_def)
  ultimately show ?thesis
    using autoblock_threshold [OF ex_denied_inv, of "''b1''" ?cfg "''192.0.2.7''" "2 * Second"] none
    by (simp add: Let_def) blast
qed

text \<open>Once a denial blocked an address, every later login from it is denied as blocked while the block
  lasts, whoever the user is and whatever the whitelist says.\<close>

theorem autoblock_denies_later:
  assumes "mem_inv m" "nid \<notin> map_keys (m_blocked m)" "ip \<noteq> []"
    and "RecordDenial memory_store cfg nid ip now m = (m', Inr (Some b))"
    and "0 < rc_BlockDuration cfg \<Longrightarrow> later < now + rc_BlockDuration cfg"
    and "ri_SourceIP inp = Some ip"
  shows "\<exists>m'' oc. Evaluate memory_store later inp m' = (m'', Inr oc) \<and> oc_Status oc = StatusBlockedIP \<and>
    fst (VerdictFor (oc_Status oc)) = VerdictDeny"
  using mem_rules.RecordDenial_blocks [OF assms] by (auto simp: VerdictFor_def)

lemma ex_denied_blocks:
  "\<exists>m' b. RecordDenial memory_store (rules_DefaultConfig\<lparr>rc_Threshold := 1\<rparr>) ''b1'' ''192.0.2.7'' Second ex_denied
     = (m', Inr (Some b))"
  by (simp add: RecordDenial_def wiring mem_BlockedIPByIP_def map_find_def ex_denied_def ex_mem_def ex_pending_def
      denial_since_def mem_CountDenials_def count_denial_def rules_DefaultConfig_def mem_UpsertBlockedIP_def
      autoblock_row_def Let_def)

theorem autoblock_denies_later_witness:
  "\<exists>m' b m'' oc. RecordDenial memory_store (rules_DefaultConfig\<lparr>rc_Threshold := 1\<rparr>) ''b1'' ''192.0.2.7'' Second
      ex_denied = (m', Inr (Some b)) \<and>
    Evaluate memory_store Hour
      ((access_input ex_server (ex_body ''alice'') None)\<lparr>ri_SourceIP := Some ''192.0.2.7''\<rparr>) m' = (m'', Inr oc) \<and>
    oc_Status oc = StatusBlockedIP \<and> fst (VerdictFor (oc_Status oc)) = VerdictDeny"
proof -
  obtain m' b where rd: "RecordDenial memory_store (rules_DefaultConfig\<lparr>rc_Threshold := 1\<rparr>) ''b1'' ''192.0.2.7'' Second
      ex_denied = (m', Inr (Some b))"
    using ex_denied_blocks by blast
  from autoblock_denies_later [OF ex_denied_inv _ _ rd, of Hour
      "(access_input ex_server (ex_body ''alice'') None)\<lparr>ri_SourceIP := Some ''192.0.2.7''\<rparr>"] rd
  show ?thesis by (auto simp: ex_denied_def ex_mem_def map_keys_def rules_DefaultConfig_def)
qed

text \<open>Lifting a block starts the count again: the denials before the instant of the unblock do not
  count, so an address with fewer than the threshold since then is not blocked a second time.\<close>

theorem unblock_resets_count:
  assumes "mem_inv m" "map_of (m_blocked m) bid = Some b" "mem_UnblockIP bid t m = (m', None)"
    and "nid \<notin> map_keys (m_blocked m)" "t \<le> now"
    and "int (card (denials (map_of (m_requests m)) (bi_IP b) (max t (now - rc_Window cfg)))) < rc_Threshold cfg"
  shows "RecordDenial memory_store cfg nid (bi_IP b) now m' = (m', Inr None)"
proof -
  have m': "m' = m\<lparr>m_blocked := map_put bid (b\<lparr>bi_ExpiresAt := Some t\<rparr>) (m_blocked m)\<rparr>"
    using assms(2,3) by (auto simp: mem_UnblockIP_def split: if_splits)
  have inv': "mem_inv m'" using mem_UnblockIP_inv [OF assms(1), of bid t] assms(3) by simp
  have "bi_ID b = bid" using keyed_by_map_of [OF mem_inv_keyed(5) [OF assms(1)] assms(2)] .
  then have "mem_block m' (bi_IP b) = Some (b\<lparr>bi_ExpiresAt := Some t\<rparr>)"
    by (simp add: mem_block_iff [OF inv']) (simp add: m')
  then have since: "denial_since cfg now (mem_block m' (bi_IP b)) = Some (max t (now - rc_Window cfg))"
    using assms(5) by (auto simp: denial_since_def BlockedIP_Active_def Let_def)
  have "nid \<notin> map_keys (m_blocked m')" "m_requests m' = m_requests m"
    using assms(2,4) by (auto simp: m' map_keys_iff)
  with mem_rules.RecordDenial_spec [OF inv', of nid cfg "bi_IP b" now] since assms(6) show ?thesis by auto
qed

lemma ex_no_denials: "denials (map_of (m_requests ex_blocked)) ip since = {}"
  by (auto simp: denials_def ex_blocked_def ex_mem_def ex_pending_def split: if_splits)

theorem unblock_resets_count_witness:
  "\<exists>m'. mem_UnblockIP ''b0'' Second ex_blocked = (m', None) \<and>
    RecordDenial memory_store rules_DefaultConfig ''b1'' (bi_IP ex_block) (2 * Second) m' = (m', Inr None)"
proof -
  obtain m' where u: "mem_UnblockIP ''b0'' Second ex_blocked = (m', None)"
    by (simp add: mem_UnblockIP_def ex_blocked_def ex_block_def BlockedIP_Active_def)
  have "map_of (m_blocked ex_blocked) ''b0'' = Some ex_block" "''b1'' \<notin> map_keys (m_blocked ex_blocked)"
    by (simp_all add: ex_blocked_def map_keys_def)
  from unblock_resets_count [OF ex_blocked_inv this(1) u this(2), of "2 * Second" rules_DefaultConfig] u
  show ?thesis by (simp add: ex_no_denials rules_DefaultConfig_def)
qed

section \<open>The verdict route\<close>

text \<open>A well-formed body: the status it asks for, the device it names if that is registered, and its time to live.\<close>

definition verdict_wanted :: "VerdictBody \<Rightarrow> string" where
  "verdict_wanted body = (if vb_Verdict body = VerdictDeny then StatusDenied else StatusApproved)"

definition verdict_phone :: "memory \<Rightarrow> VerdictBody \<Rightarrow> string option" where
  "verdict_phone m body =
     (case vb_DeviceID body of
        None \<Rightarrow> None
      | Some d \<Rightarrow> if \<exists>x. map_of (m_devices m) (ToLower d) = Some x \<and> dv_DeletedAt x = None then Some (ToLower d) else None)"

definition verdict_valid :: "VerdictBody \<Rightarrow> bool" where
  "verdict_valid body \<longleftrightarrow>
     isUUID (ToLower (vb_RequestID body)) \<and> vb_Verdict body \<in> {VerdictApprove, VerdictApproveAlways, VerdictDeny} \<and>
     (case vb_TTLSeconds body of None \<Rightarrow> True | Some n \<Rightarrow> 0 < n \<and> n * Second < 2 ^ 63) \<and>
     (case vb_DeviceID body of None \<Rightarrow> True | Some d \<Rightarrow> isUUID (ToLower d))"

lemma verdict_device_memory:
  assumes "mem_inv m" "verdict_valid body"
  shows "verdict_device memory_store body m = Inr (verdict_phone m body)"
proof (cases "vb_DeviceID body")
  case (Some d)
  have "map_of (m_devices m) (ToLower d) = Some x \<Longrightarrow> dv_ID x = ToLower d" for x
    by (rule keyed_by_map_of [OF mem_inv_keyed(2) [OF assms(1)]])
  then show ?thesis using Some assms(2)
    by (auto simp: verdict_device_def verdict_phone_def verdict_valid_def wiring mem_DeviceByID_def Let_def split: option.split)
qed (simp add: verdict_device_def verdict_phone_def)

lemma verdict_starts:
  assumes "mem_inv m" "h_store h = memory_store" "verdict_valid body"
    and "decodeJSON (js_verdict (h_json h)) (hq_Body r) = Inr body"
  obtains ttl where "verdict h cx r p m =
      verdict_decide h cx body (ToLower (vb_RequestID body)) (verdict_wanted body) (verdict_phone m body) ttl m"
    "vb_Verdict body = VerdictApproveAlways \<Longrightarrow> ttl = (case vb_TTLSeconds body of None \<Rightarrow> 0 | Some n \<Rightarrow> n * Second)"
proof -
  have st: "verdict_status (vb_Verdict body) = Some (verdict_wanted body)"
    using assms(3) by (auto simp: verdict_valid_def verdict_status_def verdict_wanted_def enums)
  obtain ttl where ttl: "verdict_ttl body = Inr ttl"
    "vb_Verdict body = VerdictApproveAlways \<Longrightarrow> ttl = (case vb_TTLSeconds body of None \<Rightarrow> 0 | Some n \<Rightarrow> n * Second)"
  proof (cases "vb_TTLSeconds body")
    case None
    then show thesis by (intro that [of 0]) (simp_all add: verdict_ttl_def)
  next
    case (Some n)
    then have n: "0 < n" "n \<le> maxTTLSeconds" using assms(3) by (auto simp: verdict_valid_def maxTTLSeconds_value)
    then have "seconds_duration n = n * Second" using Some assms(3)
      by (simp add: verdict_valid_def seconds_duration_exact maxTTLSeconds_value)
    with Some n show thesis
      by (intro that [of "if vb_Verdict body = VerdictApproveAlways then n * Second else 0"]) (simp_all add: verdict_ttl_def)
  qed
  have uuid: "isUUID (ToLower (vb_RequestID body))" using assms(3) by (simp add: verdict_valid_def)
  have "verdict h cx r p m =
      verdict_decide h cx body (ToLower (vb_RequestID body)) (verdict_wanted body) (verdict_phone m body) ttl m"
    by (simp add: verdict_def assms(2,4) uuid st ttl(1) verdict_device_memory [OF assms(1,3)])
  with ttl(2) that show thesis by blast
qed

text \<open>The row after a verdict.\<close>

definition verdict_row :: "Request \<Rightarrow> string \<Rightarrow> string option \<Rightarrow> time \<Rightarrow> Request" where
  "verdict_row q status dev now =
     q\<lparr> rq_Status := status, rq_DecidedBy := Some DecidedByAdmin, rq_DecidedByDevice := dev, rq_DecidedAt := Some now \<rparr>"

lemma verdict_decided:
  assumes inv: "mem_inv m" and h: "h_store h = memory_store"
    and row: "map_of (m_requests m) rid = Some q" "rq_Status q = StatusPending" "cx_now cx < rq_ExpiresAt q"
    and m1: "m1 = m\<lparr>m_requests := map_put rid (verdict_row q status dev (cx_now cx)) (m_requests m)\<rparr>"
    and v: "v = requestView m1 (verdict_row q status dev (cx_now cx))"
  shows "verdict_decide h cx body rid status dev ttl m = verdict_after h cx body v dev ttl m1"
    "mem_inv m1" "rq_ServerID v \<in> map_keys (m_servers m1)" "rq_ID v = rid"
proof -
  have d: "mem_DecideRequest rid status dev (cx_now cx) m = (m1, Inr v)"
    using row by (simp add: mem_DecideRequest_def m1 v verdict_row_def Let_def)
  then show "verdict_decide h cx body rid status dev ttl m = verdict_after h cx body v dev ttl m1"
    by (simp add: verdict_decide_def h wiring)
  show "mem_inv m1" using mem_DecideRequest_inv [OF inv, of rid status dev "cx_now cx"] d by simp
  show "rq_ServerID v \<in> map_keys (m_servers m1)" using mem_inv_request_server [OF inv row(1)] by (simp add: m1 v verdict_row_def)
  show "rq_ID v = rid" using keyed_by_map_of [OF mem_inv_keyed(3) [OF inv] row(1)] by (simp add: v verdict_row_def)
qed

text \<open>C18: The first verdict on a pending, unexpired request decides it. The row gets the status the admin asked for, the
  instant of the verdict and the phone the verdict names, if that phone is registered, and keeps everything else. A
  message that names the request and its status goes to every registered phone, once, and to nobody else, and the
  answer is 200 with the request, its new status and that instant.\<close>

theorem verdict_first_decides:
  assumes inv: "mem_inv m" and h: "h_store h = memory_store" "h_push h = Some send"
    and body: "decodeJSON (js_verdict (h_json h)) (hq_Body r) = Inr body" "verdict_valid body"
    and rid: "rid = ToLower (vb_RequestID body)"
    and row: "map_of (m_requests m) rid = Some q" "rq_Status q = StatusPending" "cx_now cx < rq_ExpiresAt q"
    and bid: "cx_bid cx \<notin> map_keys (m_blocked m)"
  shows "\<exists>m' toks data v. verdict h cx r p m = (m', map (\<lambda>t. (t, data)) toks, Reply 200 (VerdictOut v)) \<and>
    vr_RequestID v = rid \<and> vr_Status v = verdict_wanted body \<and> vr_DecidedAt v = Some (cx_now cx) \<and>
    map_of (m_requests m') rid = Some (q\<lparr> rq_Status := verdict_wanted body, rq_DecidedBy := Some DecidedByAdmin,
      rq_DecidedByDevice := verdict_phone m body, rq_DecidedAt := Some (cx_now cx) \<rparr>) \<and>
    distinct toks \<and> set toks = live_tokens m \<and>
    {(''type'', PushRequestDecided), (''request_id'', rid), (''status'', verdict_wanted body)} \<subseteq> set data"
proof -
  obtain ttl where start: "verdict h cx r p m =
      verdict_decide h cx body rid (verdict_wanted body) (verdict_phone m body) ttl m"
    using verdict_starts [OF inv h(1) body(2,1)] unfolding rid by blast
  define m1 where "m1 = m\<lparr>m_requests := map_put rid (verdict_row q (verdict_wanted body) (verdict_phone m body) (cx_now cx)) (m_requests m)\<rparr>"
  define v where "v = requestView m1 (verdict_row q (verdict_wanted body) (verdict_phone m body) (cx_now cx))"
  note d = verdict_decided(1) [OF inv h(1) row m1_def v_def, of body ttl] verdict_decided(2-4) [OF inv h(1) row m1_def v_def]
  have "cx_bid cx \<notin> map_keys (m_blocked m1)" using bid by (simp add: m1_def)
  from verdict_after_memory [OF d(2) h(1) d(3) this, of body "verdict_phone m body" ttl] obtain m' a where
    after: "verdict_after h cx body v (verdict_phone m body) ttl m1 = (m', fst (pushAll h (DecidedPush v) m1), Reply 200 (VerdictOut a))"
    "m_requests m' = m_requests m1" "vr_RequestID a = rq_ID v" "vr_Status a = rq_Status v" "vr_DecidedAt a = rq_DecidedAt v"
    by blast
  from pushes_reach_registered_phones [OF d(2) h, of "DecidedPush v"] obtain toks where
    push: "fst (pushAll h (DecidedPush v) m1) = map (\<lambda>t. (t, DecidedPush v)) toks" "distinct toks" "set toks = live_tokens m1"
    by auto
  have sel: "rq_Status v = verdict_wanted body" "rq_DecidedAt v = Some (cx_now cx)" by (simp_all add: v_def verdict_row_def)
  have "live_tokens m1 = live_tokens m" by (simp add: live_tokens_def m1_def)
  moreover have "{(''type'', PushRequestDecided), (''request_id'', rid), (''status'', verdict_wanted body)} \<subseteq> set (DecidedPush v)"
    using d(4) sel by (simp add: DecidedPush_def)
  moreover have "map_of (m_requests m') rid = Some (verdict_row q (verdict_wanted body) (verdict_phone m body) (cx_now cx))"
    by (simp add: after(2) m1_def)
  ultimately show ?thesis
    using start d(1,4) after push sel unfolding verdict_row_def by metis
qed

lemma ex_decode_verdict: "decodeJSON (js_verdict (h_json (ex_handler b v))) (Some [CHR ''x'']) = Inr v"
  by (simp add: decodeJSON_def ex_handler_def ex_codec_def maxBodyBytes_def)

lemma ex_verdict_sel [simp]:
  "vb_RequestID (ex_verdict v) = ex_rid" "vb_Verdict (ex_verdict v) = v" "vb_TTLSeconds (ex_verdict v) = None"
  "vb_DeviceID (ex_verdict v) = None"
  by (simp_all add: ex_verdict_def)

lemma ex_verdict_valid: "v \<in> {VerdictApprove, VerdictApproveAlways, VerdictDeny} \<Longrightarrow> verdict_valid (ex_verdict v)"
  by (simp add: verdict_valid_def ex_rid_uuid)

lemma ex_pending_row: "map_of (m_requests ex_mem) ex_rid = Some ex_pending"
  by (simp add: ex_mem_def)

theorem verdict_first_decides_witness:
  "\<exists>m' toks data v. verdict (ex_handler (ex_body ''bob'') ((ex_verdict VerdictDeny)\<lparr>vb_DeviceID := Some ex_rid\<rparr>)) (ex_ctx ''w9'' [])
      (wire_post ''adm'' ''x'') None ex_mem = (m', map (\<lambda>t. (t, data)) toks, Reply 200 (VerdictOut v)) \<and>
    vr_Status v = StatusDenied \<and> (\<exists>q. map_of (m_requests m') ex_rid = Some q \<and> rq_DecidedByDevice q = None \<and> rq_Status q = StatusDenied) \<and>
    set toks = live_tokens ex_mem"
proof -
  let ?b = "(ex_verdict VerdictDeny)\<lparr>vb_DeviceID := Some ex_rid\<rparr>"
  have b: "verdict_valid ?b" "verdict_wanted ?b = StatusDenied" "verdict_phone ex_mem ?b = None"
    by (simp_all add: verdict_valid_def ex_rid_uuid verdict_wanted_def verdict_phone_def ex_mem_def ex_rid_def [THEN arg_cong, of "(=) ''d1''"])
       (simp add: ex_rid_def)
  have "h_store (ex_handler (ex_body ''bob'') ?b) = memory_store" "h_push (ex_handler (ex_body ''bob'') ?b) = Some (\<lambda>_ _. True)"
    by (simp_all add: ex_handler_def)
  moreover have "decodeJSON (js_verdict (h_json (ex_handler (ex_body ''bob'') ?b))) (hq_Body (wire_post ''adm'' ''x'')) = Inr ?b"
    by (simp add: wire_post_def ex_decode_verdict)
  moreover have "rq_Status ex_pending = StatusPending" "cx_now (ex_ctx ''w9'' []) < rq_ExpiresAt ex_pending"
    "cx_bid (ex_ctx ''w9'' []) \<notin> map_keys (m_blocked ex_mem)" "ex_rid = ToLower (vb_RequestID ?b)"
    by (simp_all add: ex_pending_def ex_ctx_def ex_mem_def map_keys_def ex_rid_uuid)
  ultimately show ?thesis
    using verdict_first_decides [OF ex_mem_inv _ _ _ b(1) _ ex_pending_row, of "ex_handler (ex_body ''bob'') ?b" "\<lambda>_ _. True"
        "wire_post ''adm'' ''x''" "ex_ctx ''w9'' []" None] b(2,3) by fastforce
qed

text \<open>C19: A verdict on a request that is already decided or expired changes no decision: it is answered 409
  with the recorded outcome, nobody is notified, and the row does not stay pending.\<close>

theorem verdict_late_conflict:
  assumes inv: "mem_inv m" and h: "h_store h = memory_store"
    and body: "decodeJSON (js_verdict (h_json h)) (hq_Body r) = Inr body"
    and rid: "rid = ToLower (vb_RequestID body)" "isUUID rid"
    and st: "verdict_status (vb_Verdict body) = Some status"
    and ok: "verdict_ttl body = Inr ttl" "verdict_device memory_store body m = Inr dev"
    and row: "map_of (m_requests m) rid = Some q" "rq_Status q \<noteq> StatusPending \<or> rq_ExpiresAt q \<le> cx_now cx"
  shows "\<exists>m' c q'. verdict h cx r p m = (m', [], Reply 409 (ConflictOut c)) \<and>
    map_of (m_requests m') rid = Some q' \<and> rq_Status q' \<noteq> StatusPending \<and>
    (rq_Status q \<noteq> StatusPending \<longrightarrow> same_decision q q') \<and>
    vc_Status c = rq_Status q' \<and> vc_DecidedAt c = rq_DecidedAt q'"
proof -
  have start: "verdict h cx r p m = verdict_decide h cx body rid status dev ttl m"
    using body rid st ok h by (simp add: verdict_def)
  obtain m' c q' where c: "verdict_decide h cx body rid status dev ttl m = (m', [], Reply 409 (ConflictOut c))"
    "rows_evolve (map_of (m_requests m)) (map_of (m_requests m'))" "map_of (m_requests m') rid = Some q'"
    "rq_Status q' \<noteq> StatusPending" "vc_Status c = rq_Status q'" "vc_DecidedAt c = rq_DecidedAt q'"
    using mem_req.verdict_decide_late [OF inv h row] by blast
  have "rq_Status q \<noteq> StatusPending \<longrightarrow> same_decision q q'"
    using rows_evolveD [OF c(2) row(1)] c(3) by (auto simp: decision_step_def)
  with c start show ?thesis by auto
qed

theorem verdict_late_conflict_witness:
  "\<exists>m' c q'. verdict (ex_handler (ex_body ''bob'') (ex_verdict VerdictApprove)) (ex_ctx ''w9'' [])
      (wire_post ''adm'' ''x'') None ex_denied = (m', [], Reply 409 (ConflictOut c)) \<and>
    map_of (m_requests m') ex_rid = Some q' \<and> rq_Status q' \<noteq> StatusPending \<and>
    (rq_Status (ex_pending\<lparr>rq_Status := StatusDenied, rq_DecidedAt := Some Second\<rparr>) \<noteq> StatusPending \<longrightarrow>
       same_decision (ex_pending\<lparr>rq_Status := StatusDenied, rq_DecidedAt := Some Second\<rparr>) q') \<and>
    vc_Status c = rq_Status q' \<and> vc_DecidedAt c = rq_DecidedAt q'"
  by (rule verdict_late_conflict [OF ex_denied_inv, where body = "ex_verdict VerdictApprove" and ttl = 0 and dev = None and status = StatusApproved])
     (simp_all add: ex_handler_def [of "ex_body ''bob''", THEN arg_cong, of h_store] ex_decode_verdict
        wire_post_def ex_rid_uuid verdict_status_def verdict_ttl_def verdict_device_def ex_denied_def)

lemma map_put_subset: "(a, x) \<in> set (map_put k v m) \<Longrightarrow> x = v \<or> x \<in> snd ` set m"
proof (induction m)
  case (Cons y ys)
  then show ?case by (cases y) (force simp: map_put_def split: if_splits)
qed (simp add: map_put_def)

lemma UpsertWhitelist_rows:
  assumes "mem_UpsertWhitelist nid e now m = (m', r)"
  shows "m_blocked m' = m_blocked m" "m_geoRules m' = m_geoRules m"
    "x \<in> snd ` set (m_whitelist m') \<Longrightarrow> x \<in> snd ` set (m_whitelist m) \<or> wl_key x = wl_key e"
proof -
  show "m_blocked m' = m_blocked m" "m_geoRules m' = m_geoRules m"
    using assms by (auto simp: mem_UpsertWhitelist_def Let_def split: if_splits option.splits)
  show "x \<in> snd ` set (m_whitelist m) \<or> wl_key x = wl_key e" if x: "x \<in> snd ` set (m_whitelist m')"
    using assms that unfolding mem_UpsertWhitelist_def Let_def
    by (auto simp: wl_key_def dest!: map_put_subset map_find_SomeD split: if_splits option.splits)
qed


definition ex_again :: RulesInput where
  "ex_again = \<lparr> ri_ServerID = rq_ServerID ex_pending, ri_Username = rq_Username ex_pending, ri_Context = rq_Context ex_pending,
                ri_SourceIP = None, ri_Country = [], ri_Mode = ModeEnforce \<rparr>"


text \<open>A time to live is accepted exactly when it is positive and its length in nanoseconds fits the
  64-bit duration, so the multiplication never wraps and the entry expires that many seconds later.\<close>

theorem ttl_never_wraps:
  assumes "vb_Verdict body = VerdictApproveAlways" "vb_TTLSeconds body = Some n"
  shows "if 0 < n \<and> n * Second < 2 ^ 63
    then \<exists>ttl. verdict_ttl body = Inr ttl \<and> 0 < ttl \<and>
      wl_ExpiresAt (verdict_entry row dev ttl now) = Some (now + n * Second)
    else \<exists>msg. verdict_ttl body = Inl msg"
  using verdict_ttl_iff [OF assms] assms
  by (auto simp: verdict_ttl_def maxTTLSeconds_value seconds_duration_exact verdict_entry_def split: if_splits)

theorem ttl_never_wraps_witness:
  "if 0 < (3600 :: int) \<and> 3600 * Second < 2 ^ 63
   then \<exists>ttl. verdict_ttl ((ex_verdict VerdictApproveAlways)\<lparr>vb_TTLSeconds := Some 3600\<rparr>) = Inr ttl \<and> 0 < ttl \<and>
     wl_ExpiresAt (verdict_entry ex_pending None ttl 5) = Some (5 + 3600 * Second)
   else \<exists>msg. verdict_ttl ((ex_verdict VerdictApproveAlways)\<lparr>vb_TTLSeconds := Some 3600\<rparr>) = Inl msg"
  by (rule ttl_never_wraps) simp_all

end
