(* ===== verification/Store_Props.thy ===== *)
theory Store_Props
  imports Example
begin

text \<open>
  The properties of the store behind the routes: its invariant, the whitelist lookup, the history and
  its paging, and the phones that are pushed to.
\<close>

section \<open>Helper lemmas\<close>

lemma wl_unique:
  assumes "mem_inv m" "e \<in> snd ` set (m_whitelist m)" "x \<in> snd ` set (m_whitelist m)" "wl_key e = wl_key x"
  shows "e = x"
proof -
  from assms obtain k k' where "(k, e) \<in> set (m_whitelist m)" "(k', x) \<in> set (m_whitelist m)" by auto
  moreover from this have "k = k'" using unique_onD [OF mem_inv_unique(4) [OF assms(1)]] assms(4) by blast
  ultimately show ?thesis
    using keyed_byD(1) [OF mem_inv_keyed(4) [OF assms(1)]] by (metis map_of_eq_Some_iff option.inject)
qed

text \<open>The entry the lookup returns, described by the set of entries only.\<close>

lemma find_whitelist_set:
  assumes inv: "mem_inv m"
  shows "find_whitelist u c sid now None (map snd (m_whitelist m)) = Some e \<longleftrightarrow>
    e \<in> snd ` set (m_whitelist m) \<and> wl_covers u c sid now e \<and>
    (wl_ServerID e = Some sid \<or> (\<forall>x\<in>snd ` set (m_whitelist m). wl_covers u c sid now x \<longrightarrow> wl_ServerID x = None))"
    (is "?find = Some e \<longleftrightarrow> ?best e")
proof -
  have best: "?best w" if "?find = Some w" for w
  proof -
    have w: "w \<in> snd ` set (m_whitelist m)" "wl_covers u c sid now w"
      using find_whitelist_SomeD [OF that] by auto
    have "wl_ServerID x = None" if ns: "wl_ServerID w \<noteq> Some sid"
      and x: "x \<in> snd ` set (m_whitelist m)" "wl_covers u c sid now x" for x
    proof (rule ccontr)
      assume "wl_ServerID x \<noteq> None"
      with x(2) have "wl_ServerID x = Some sid" by (simp add: wl_covers_unexpired)
      with find_whitelist_specific [of x "map snd (m_whitelist m)" u c sid now None] x \<open>?find = Some w\<close> ns
      show False by auto
    qed
    with w show ?thesis by (cases "wl_ServerID w = Some sid") simp_all
  qed
  have "?find = Some e" if e: "?best e"
  proof -
    obtain w where w: "?find = Some w"
      using find_whitelist_NoneD [of u c sid now None "map snd (m_whitelist m)"] e by fastforce
    from best [OF w] e have "wl_key w = wl_key e" by (auto simp: wl_key_def wl_covers_unexpired)
    then have "w = e" using best [OF w] e by (intro wl_unique [OF inv]) simp_all
    with w show ?thesis by simp
  qed
  then show ?thesis using best [of e] by (intro iffI)
qed

section \<open>The invariant\<close>

text \<open>C16: Every state reachable from the empty store by any sequence of store operations satisfies the
  invariant: each row is stored under its own id, names, token hashes, FCM tokens, blocked addresses,
  countries and whitelist triples are unique, and rows refer to enrolled servers.\<close>

theorem store_invariant:
  assumes "mem_steps mem_New m"
  shows "mem_inv m"
  by (rule mem_steps_inv [OF assms mem_inv_New])

theorem store_invariant_witness:
  "mem_inv (fst (mem_CreateServer ''s1'' ''web1'' ''h'' ''linux'' 0 mem_New))"
  by (rule store_invariant, rule mem_steps.one_more [OF mem_steps.none], rule mem_step.CreateServer)
     (simp add: mem_New_def)

section \<open>The whitelist\<close>

text \<open>The whitelist lookup returns an unexpired entry for the user and context if there is one, the
  server's own entry before one for every server, and does not depend on the iteration order of the
  map it searches.\<close>

theorem find_whitelist_spec:
  assumes "mem_inv m" "mem_inv m'" "set (m_whitelist m') = set (m_whitelist m)" "m_servers m' = m_servers m"
    "m_devices m' = m_devices m"
  shows "mem_FindWhitelist u c sid now m' = mem_FindWhitelist u c sid now m \<and>
    (case mem_FindWhitelist u c sid now m of
       Inl err \<Rightarrow> err = ErrNotFound \<and> (\<forall>e\<in>snd ` set (m_whitelist m). \<not> wl_covers u c sid now e)
     | Inr w \<Rightarrow> \<exists>e\<in>snd ` set (m_whitelist m). w = whitelistView m e \<and> wl_covers u c sid now e \<and>
         (wl_ServerID e = Some sid \<or> (\<forall>x\<in>snd ` set (m_whitelist m). wl_covers u c sid now x \<longrightarrow> wl_ServerID x = None)))"
proof -
  let ?f = "\<lambda>m. find_whitelist u c sid now None (map snd (m_whitelist m))"
  have "?f m' = Some e \<longleftrightarrow> ?f m = Some e" for e
    using find_whitelist_set [OF assms(1)] find_whitelist_set [OF assms(2)] assms(3) by simp
  then have "?f m' = ?f m" by (metis option.exhaust)
  moreover have "whitelistView m' = whitelistView m"
    using assms(4,5) by (auto simp: whitelistView_def serverName_def deviceLabel_def fun_eq_iff cong: option.case_cong)
  ultimately have "mem_FindWhitelist u c sid now m' = mem_FindWhitelist u c sid now m"
    by (simp add: mem_FindWhitelist_def split: option.split)
  moreover have "case mem_FindWhitelist u c sid now m of
       Inl err \<Rightarrow> err = ErrNotFound \<and> (\<forall>e\<in>snd ` set (m_whitelist m). \<not> wl_covers u c sid now e)
     | Inr w \<Rightarrow> \<exists>e\<in>snd ` set (m_whitelist m). w = whitelistView m e \<and> wl_covers u c sid now e \<and>
         (wl_ServerID e = Some sid \<or> (\<forall>x\<in>snd ` set (m_whitelist m). wl_covers u c sid now x \<longrightarrow> wl_ServerID x = None))"
  proof (cases "?f m")
    case None
    then show ?thesis using find_whitelist_NoneD [OF None] by (simp add: mem_FindWhitelist_def)
  next
    case (Some e)
    then show ?thesis using find_whitelist_set [OF assms(1), of u c sid now e] by (auto simp: mem_FindWhitelist_def)
  qed
  ultimately show ?thesis by blast
qed

theorem find_whitelist_spec_witness:
  "mem_FindWhitelist ''alice'' ''ssh'' ''s1'' 7 ex_mem = mem_FindWhitelist ''alice'' ''ssh'' ''s1'' 7 ex_mem \<and>
    (case mem_FindWhitelist ''alice'' ''ssh'' ''s1'' 7 ex_mem of
       Inl err \<Rightarrow> err = ErrNotFound \<and> (\<forall>e\<in>snd ` set (m_whitelist ex_mem). \<not> wl_covers ''alice'' ''ssh'' ''s1'' 7 e)
     | Inr w \<Rightarrow> \<exists>e\<in>snd ` set (m_whitelist ex_mem). w = whitelistView ex_mem e \<and> wl_covers ''alice'' ''ssh'' ''s1'' 7 e \<and>
         (wl_ServerID e = Some ''s1'' \<or>
          (\<forall>x\<in>snd ` set (m_whitelist ex_mem). wl_covers ''alice'' ''ssh'' ''s1'' 7 x \<longrightarrow> wl_ServerID x = None)))"
  by (rule find_whitelist_spec [OF ex_mem_inv ex_mem_inv refl refl refl])

section \<open>The history\<close>

text \<open>The complete list a filter selects, newest first.\<close>

definition all_requests :: "RequestFilter \<Rightarrow> memory \<Rightarrow> Request list" where
  "all_requests f m =
     rev (sort_key (\<lambda>r. (rq_CreatedAt r, rq_ID r))
            (map (requestView m) (filter (request_matches m f) (map snd (m_requests m)))))"

lemma mem_ListRequests_all:
  "mem_ListRequests f m =
     Inr (if 0 < rf_Limit f \<and> rf_Limit f < int (length (all_requests f m))
          then take (nat (rf_Limit f)) (all_requests f m) else all_requests f m)"
  by (simp add: mem_ListRequests_def all_requests_def Let_def)

lemma set_all_requests:
  "set (all_requests f m) = requestView m ` {r \<in> snd ` set (m_requests m). request_matches m f r}"
  by (auto simp: all_requests_def)

lemma sorted_wrt_all_requests:
  "sorted_wrt (\<lambda>a b. (rq_CreatedAt b, rq_ID b) \<le> (rq_CreatedAt a, rq_ID a)) (all_requests f m)"
proof -
  have "sorted (map (\<lambda>r. (rq_CreatedAt r, rq_ID r)) (sort_key (\<lambda>r. (rq_CreatedAt r, rq_ID r)) rs))" for rs
    by (rule sorted_sort_key)
  then show ?thesis unfolding all_requests_def by (simp only: sorted_wrt_rev sorted_map)
qed

text \<open>The history lists the requests that match the filter, newest first and at most as many as asked
  for: every matching request is on the list, or the list is full and only holds requests that are
  at least as new.\<close>

theorem history_rows:
  assumes "mem_ListRequests f m = Inr rows"
  shows "sorted_wrt (\<lambda>a b. (rq_CreatedAt b, rq_ID b) \<le> (rq_CreatedAt a, rq_ID a)) rows \<and>
    set rows \<subseteq> requestView m ` {r \<in> snd ` set (m_requests m). request_matches m f r} \<and>
    (0 < rf_Limit f \<longrightarrow> int (length rows) \<le> rf_Limit f) \<and>
    (\<forall>r\<in>snd ` set (m_requests m). request_matches m f r \<longrightarrow>
       requestView m r \<in> set rows \<or>
       (int (length rows) = rf_Limit f \<and>
        (\<forall>x\<in>set rows. (rq_CreatedAt r, rq_ID r) \<le> (rq_CreatedAt x, rq_ID x))))"
proof -
  let ?L = "all_requests f m"
  define n where "n = (if 0 < rf_Limit f \<and> rf_Limit f < int (length ?L) then nat (rf_Limit f) else length ?L)"
  have rows: "rows = take n ?L" using assms by (auto simp: mem_ListRequests_all n_def)
  have srt: "sorted_wrt (\<lambda>a b. (rq_CreatedAt b, rq_ID b) \<le> (rq_CreatedAt a, rq_ID a)) ?L"
    by (rule sorted_wrt_all_requests)
  then have "sorted_wrt (\<lambda>a b. (rq_CreatedAt b, rq_ID b) \<le> (rq_CreatedAt a, rq_ID a)) (take n ?L @ drop n ?L)" by simp
  then have split: "\<forall>x\<in>set (take n ?L). \<forall>y\<in>set (drop n ?L). (rq_CreatedAt y, rq_ID y) \<le> (rq_CreatedAt x, rq_ID x)"
    and s1: "sorted_wrt (\<lambda>a b. (rq_CreatedAt b, rq_ID b) \<le> (rq_CreatedAt a, rq_ID a)) rows"
    unfolding sorted_wrt_append rows by blast+
  have "requestView m r \<in> set rows \<or>
       (int (length rows) = rf_Limit f \<and> (\<forall>x\<in>set rows. (rq_CreatedAt r, rq_ID r) \<le> (rq_CreatedAt x, rq_ID x)))"
    if "r \<in> snd ` set (m_requests m)" "request_matches m f r" for r
  proof -
    have "requestView m r \<in> set ?L" using that by (auto simp: set_all_requests)
    then have "requestView m r \<in> set (take n ?L) \<or> requestView m r \<in> set (drop n ?L)"
      by (metis UnE append_take_drop_id set_append)
    moreover have "int (length rows) = rf_Limit f" if "drop n ?L \<noteq> []"
      using that by (auto simp: rows n_def split: if_splits)
    ultimately show ?thesis using split rows by fastforce
  qed
  with s1 show ?thesis
    using set_take_subset [of n ?L] by (auto simp: rows n_def set_all_requests)
qed

theorem history_rows_witness:
  "\<exists>rows. mem_ListRequests \<lparr> rf_Limit = 10, rf_Before = None, rf_Server = [], rf_Username = [], rf_Context = [],
      rf_Status = [] \<rparr> ex_mem = Inr rows \<and> int (length rows) \<le> 10"
  using history_rows [of "\<lparr> rf_Limit = 10, rf_Before = None, rf_Server = [], rf_Username = [], rf_Context = [],
      rf_Status = [] \<rparr>" ex_mem]
  by (auto simp: mem_ListRequests_all)

section \<open>Paging\<close>

lemma request_matches_before:
  "rf_Before f = None \<Longrightarrow>
   request_matches m (f\<lparr>rf_Limit := l, rf_Before := Some b\<rparr>) r \<longleftrightarrow> request_matches m f r \<and> rq_CreatedAt r < b"
  by (auto simp: request_matches_def)

lemma all_requests_before:
  assumes "rf_Before f = None"
  shows "all_requests (f\<lparr>rf_Limit := l, rf_Before := Some b\<rparr>) m = filter (\<lambda>r. rq_CreatedAt r < b) (all_requests f m)"
proof -
  let ?key = "\<lambda>r. (rq_CreatedAt r, rq_ID r)" and ?older = "\<lambda>r. rq_CreatedAt r < b"
  let ?rs = "map snd (m_requests m)"
  have 1: "filter (request_matches m (f\<lparr>rf_Limit := l, rf_Before := Some b\<rparr>)) ?rs =
      filter ?older (filter (request_matches m f) ?rs)"
    unfolding filter_filter
    by (rule filter_cong [OF HOL.refl]) (auto simp: request_matches_before [OF assms])
  have 2: "map (requestView m) (filter ?older xs) = filter ?older (map (requestView m) xs)" for xs
    by (simp add: filter_map comp_def)
  show ?thesis unfolding all_requests_def 1 2 filter_sort [symmetric] rev_filter ..
qed

lemma filter_older:
  assumes "sorted_wrt (\<lambda>a b. g b < (g a :: int)) xs" "0 < n" "n \<le> length xs"
  shows "filter (\<lambda>x. g x < g (xs ! (n - 1))) xs = drop n xs"
proof -
  let ?a = "xs ! (n - 1)"
  have xs: "xs = take (n - 1) xs @ ?a # drop n xs"
    using assms(2,3) by (metis Suc_diff_1 Suc_le_eq id_take_nth_drop)
  then have "sorted_wrt (\<lambda>a b. g b < g a) (take (n - 1) xs @ ?a # drop n xs)" using assms(1) by simp
  then have "\<forall>x\<in>set (take (n - 1) xs). g ?a < g x" "\<forall>x\<in>set (drop n xs). g x < g ?a"
    by (auto simp: sorted_wrt_append)
  then have "filter (\<lambda>x. g x < g ?a) (take (n - 1) xs) = []" "filter (\<lambda>x. g x < g ?a) (drop n xs) = drop n xs"
    by (auto simp: filter_empty_conv filter_id_conv)
  then have "filter (\<lambda>x. g x < g ?a) (take (n - 1) xs @ ?a # drop n xs) = drop n xs" by simp
  with xs show ?thesis by metis
qed

lemma sorted_wrt_strict:
  "sorted_wrt (\<lambda>a b. (g b, k b) \<le> (g a, k a)) xs \<Longrightarrow> distinct (map g xs) \<Longrightarrow>
   sorted_wrt (\<lambda>a b. g b < (g a :: int)) xs"
  by (induction xs) (auto simp: less_le, metis imageI)

text \<open>When no two requests were created at the same instant, paging loses nothing: asking for the
  requests before the last one of a page continues exactly where that page ended.\<close>

theorem history_next_page:
  assumes "rf_Before f = None" "distinct (map rq_CreatedAt (all_requests f m))"
    and "0 < n" "n \<le> length (all_requests f m)"
  shows "mem_ListRequests (f\<lparr>rf_Limit := 0, rf_Before := Some (rq_CreatedAt (all_requests f m ! (n - 1)))\<rparr>) m =
    Inr (drop n (all_requests f m))"
  using filter_older [OF sorted_wrt_strict [OF sorted_wrt_all_requests assms(2)] assms(3,4)]
  by (simp add: mem_ListRequests_all all_requests_before [OF assms(1)])

definition ex_filter :: RequestFilter where
  "ex_filter = \<lparr> rf_Limit = 0, rf_Before = None, rf_Server = [], rf_Username = [], rf_Context = [], rf_Status = [] \<rparr>"

lemma ex_all_requests: "all_requests ex_filter ex_mem = [requestView ex_mem ex_pending]"
  by (simp add: all_requests_def ex_mem_def ex_filter_def request_matches_def)

theorem history_next_page_witness:
  "mem_ListRequests (ex_filter\<lparr>rf_Limit := 0, rf_Before := Some (rq_CreatedAt (all_requests ex_filter ex_mem ! (1 - 1)))\<rparr>) ex_mem =
    Inr (drop 1 (all_requests ex_filter ex_mem))"
  by (rule history_next_page) (simp_all add: ex_all_requests, simp add: ex_filter_def)

section \<open>Paging loses requests of one instant\<close>

definition ex_twin :: "string \<Rightarrow> Request" where
  "ex_twin rid = ex_pending\<lparr>rq_ID := rid, rq_CreatedAt := 5\<rparr>"

definition ex_twins :: memory where
  "ex_twins = ex_mem\<lparr>m_requests := [(''r1'', ex_twin ''r1''), (''r2'', ex_twin ''r2'')]\<rparr>"

definition ex_page :: "string \<Rightarrow> HttpRequest" where
  "ex_page before = \<lparr> hq_Method = ''GET'', hq_Path = ''/history'', hq_Authorization = [],
     hq_Query = (\<lambda>k. if k = ''limit'' then ''1'' else if k = ''before'' then before else []), hq_Body = None \<rparr>"

lemma ex_twins_all:
  "all_requests \<lparr> rf_Limit = 2, rf_Before = None, rf_Server = [], rf_Username = [], rf_Context = [], rf_Status = [] \<rparr>
     ex_twins = map (requestView ex_twins) [ex_twin ''r2'', ex_twin ''r1'']"
  "all_requests \<lparr> rf_Limit = 2, rf_Before = Some 5, rf_Server = [], rf_Username = [], rf_Context = [], rf_Status = [] \<rparr>
     ex_twins = []"
  by (simp_all add: all_requests_def ex_twins_def ex_twin_def request_matches_def)

lemma Atoi_1: "Atoi ''1'' = Some 1"
  by (simp add: Atoi_def is_digit_def digits_value_def)

lemma history_limit_pos: "history_limit q = Some limit \<Longrightarrow> 0 < limit"
  by (auto simp: history_limit_def historyDefaultLimit_def historyMaxLimit_def split: if_splits option.splits)

text \<open>A page asked for with \<open>before\<close> shows older requests only, and names an older instant as the next \<open>before\<close>.\<close>

lemma history_page_before:
  assumes "h_store h = memory_store" "history h cx r p m = (m, [], Reply 200 (HistoryOut pg))"
    and "hq_Query r ''before'' \<noteq> []" "h_ParseTime h (hq_Query r ''before'') = Some t"
  shows "hi_ID ` set (hr_Items pg) \<subseteq> rq_ID ` {x \<in> snd ` set (m_requests m). rq_CreatedAt x < t}"
    "hr_NextBefore pg = Some t2 \<Longrightarrow> t2 < t"
proof -
  from assms obtain limit rows f where limit: "history_limit (hq_Query r ''limit'') = Some limit"
    and rows: "mem_ListRequests f m = Inr rows" "rf_Before f = Some t" and pg: "pg = history_page limit rows"
    by (auto simp: history_def wiring Let_def split: option.splits if_splits sum.splits)
  have "set rows \<subseteq> set (all_requests f m)" using rows(1) by (auto simp: mem_ListRequests_all split: if_splits dest: in_set_takeD)
  then have older: "set rows \<subseteq> requestView m ` {x \<in> snd ` set (m_requests m). rq_CreatedAt x < t}"
  proof (rule subset_trans)
    show "set (all_requests f m) \<subseteq> requestView m ` {x \<in> snd ` set (m_requests m). rq_CreatedAt x < t}"
      unfolding set_all_requests using rows(2) by (intro image_mono) (auto simp: request_matches_def)
  qed
  have items: "hr_Items pg = map ToHistoryItem (take (nat limit) rows)"
    using history_limit_pos [OF limit] by (simp add: pg history_page_def Let_def)
  then have "hi_ID ` set (hr_Items pg) \<subseteq> rq_ID ` set rows"
    by (auto simp: ToHistoryItem_def dest: in_set_takeD)
  also have "\<dots> \<subseteq> rq_ID ` {x \<in> snd ` set (m_requests m). rq_CreatedAt x < t}" using older by force
  finally show "hi_ID ` set (hr_Items pg) \<subseteq> rq_ID ` {x \<in> snd ` set (m_requests m). rq_CreatedAt x < t}" .
  assume "hr_NextBefore pg = Some t2"
  then have "t2 = rq_CreatedAt (last (take (nat limit) rows))" "take (nat limit) rows \<noteq> []"
    using history_limit_pos [OF limit] by (auto simp: pg history_page_def Let_def split: if_splits)
  moreover from this(2) have "last (take (nat limit) rows) \<in> set rows" by (meson in_set_takeD last_in_set)
  ultimately show "t2 < t" using older by auto
qed

text \<open>A phone that scrolls: each page is asked for with the instant the page before it named, with any filters and any
  limit, and there may be pages it does not ask for any more.\<close>

inductive history_scroll :: "'s Handler \<Rightarrow> 's \<Rightarrow> time \<Rightarrow> HistoryResponse list \<Rightarrow> bool" for h s where
  scroll_stop: "history_scroll h s t []"
| scroll_last: "history h cx r p s = (s, [], Reply 200 (HistoryOut pg)) \<Longrightarrow> hq_Query r ''before'' \<noteq> [] \<Longrightarrow>
    h_ParseTime h (hq_Query r ''before'') = Some t \<Longrightarrow> history_scroll h s t [pg]"
| scroll_next: "history h cx r p s = (s, [], Reply 200 (HistoryOut pg)) \<Longrightarrow> hq_Query r ''before'' \<noteq> [] \<Longrightarrow>
    h_ParseTime h (hq_Query r ''before'') = Some t \<Longrightarrow> hr_NextBefore pg = Some t2 \<Longrightarrow> history_scroll h s t2 pgs \<Longrightarrow>
    history_scroll h s t (pg # pgs)"

lemma history_scroll_older:
  assumes "h_store h = memory_store" "history_scroll h m t pgs" "pg \<in> set pgs"
  shows "hi_ID ` set (hr_Items pg) \<subseteq> rq_ID ` {x \<in> snd ` set (m_requests m). rq_CreatedAt x < t}"
  using assms(2,3)
proof (induction rule: history_scroll.induct)
  case (scroll_next cx r p pg' t t2 pgs)
  note page = history_page_before [OF assms(1) scroll_next.hyps(1-3)]
  show ?case
  proof (cases "pg = pg'")
    case False
    with scroll_next.prems scroll_next.IH
    have "hi_ID ` set (hr_Items pg) \<subseteq> rq_ID ` {x \<in> snd ` set (m_requests m). rq_CreatedAt x < t2}" by simp
    also have "\<dots> \<subseteq> rq_ID ` {x \<in> snd ` set (m_requests m). rq_CreatedAt x < t}"
      using page(2) [OF scroll_next.hyps(4)] by (intro image_mono) auto
    finally show ?thesis .
  qed (simp add: page(1))
next
  case (scroll_last cx r p pg' t)
  then show ?case using history_page_before(1) [OF assms(1) scroll_last.hyps] by simp
qed simp

text \<open>C29: The history loses requests of one instant. If the first page names an instant as the next \<open>before\<close>, and a request of just that
  instant is not on the first page, then no page that a phone gets by scrolling on shows it, whatever the limits, the filters and
  the number of pages.\<close>

theorem history_skips_ties:
  assumes inv: "mem_inv m" and h: "h_store h = memory_store"
    and first: "history h cx r p m = (m, [], Reply 200 (HistoryOut p1))" "hr_NextBefore p1 = Some t"
    and tie: "map_of (m_requests m) rid = Some x" "rq_CreatedAt x = t" "rid \<notin> hi_ID ` set (hr_Items p1)"
    and scroll: "history_scroll h m t pgs"
  shows "rid \<notin> (\<Union>pg\<in>set (p1 # pgs). hi_ID ` set (hr_Items pg))"
proof -
  have "y = x" if y: "y \<in> snd ` set (m_requests m)" "rq_ID y = rid" for y
  proof -
    have "(rid, y) \<in> set (m_requests m)" "distinct (map fst (m_requests m))"
      using y mem_inv_keyed(3) [OF inv] by (auto simp: keyed_by_def list_all_iff)
    with tie(1) show ?thesis by simp
  qed
  then have "rid \<notin> rq_ID ` {y \<in> snd ` set (m_requests m). rq_CreatedAt y < t}" using tie(2) by blast
  then have "rid \<notin> hi_ID ` set (hr_Items pg)" if "pg \<in> set pgs" for pg
    using history_scroll_older [OF h scroll that] by blast
  with tie(3) show ?thesis by simp
qed

theorem history_skips_ties_witness:
  "\<exists>p1 p2 h. history h (ex_ctx ''n'' []) (ex_page []) None ex_twins = (ex_twins, [], Reply 200 (HistoryOut p1)) \<and>
    history h (ex_ctx ''n'' []) (ex_page ''t'') None ex_twins = (ex_twins, [], Reply 200 (HistoryOut p2)) \<and>
    ''r1'' \<in> map_keys (m_requests ex_twins) \<and> ''r1'' \<notin> hi_ID ` set (hr_Items p1) \<and> ''r1'' \<notin> hi_ID ` set (hr_Items p2)"
proof -
  let ?h = "(ex_handler (ex_body ''bob'') (ex_verdict VerdictDeny))\<lparr>h_ParseTime := (\<lambda>_. Some 5)\<rparr>"
  let ?p1 = "\<lparr> hr_Items = [ToHistoryItem (requestView ex_twins (ex_twin ''r2''))], hr_NextBefore = Some 5 \<rparr>"
  let ?p2 = "\<lparr> hr_Items = [], hr_NextBefore = None \<rparr>"
  note simps = history_def ex_page_def ex_handler_def wiring mem_ListRequests_all ex_twins_all history_limit_def
    Atoi_1 historyMaxLimit_def history_page_def
  have h: "h_store ?h = memory_store" by (simp add: ex_handler_def)
  have 1: "history ?h (ex_ctx ''n'' []) (ex_page []) None ex_twins = (ex_twins, [], Reply 200 (HistoryOut ?p1))"
    by (simp add: simps) (simp add: ex_twin_def)
  have 2: "history ?h (ex_ctx ''n'' []) (ex_page ''t'') None ex_twins = (ex_twins, [], Reply 200 (HistoryOut ?p2))"
    by (simp add: simps)
  have inv: "mem_inv ex_twins"
    by (simp add: mem_inv_def ex_twins_def ex_twin_def ex_defs keyed_by_def unique_on_def map_keys_def wl_key_def)
  have tie: "map_of (m_requests ex_twins) ''r1'' = Some (ex_twin ''r1'')" "rq_CreatedAt (ex_twin ''r1'') = 5"
    "''r1'' \<notin> hi_ID ` set (hr_Items ?p1)" "''r1'' \<in> map_keys (m_requests ex_twins)"
    by (simp_all add: ex_twins_def ex_twin_def ToHistoryItem_def map_keys_def)
  have "history_scroll ?h ex_twins 5 [?p2]"
    by (rule scroll_last [OF 2]) (simp_all add: ex_page_def)
  from history_skips_ties [OF inv h 1 _ tie(1-3) this] have "''r1'' \<notin> hi_ID ` set (hr_Items ?p2)" by simp
  with 1 2 tie(3,4) show ?thesis by blast
qed

end
