(* ===== verification/Agent_Props.thy ===== *)
theory Agent_Props
  imports Example
begin

text \<open>
  The properties of the agent: what lets a user in, what the audit log says, how answers are classified,
  and what a cache refresh leaves behind.
\<close>

section \<open>The decision\<close>

text \<open>The two local lists as \<^verbatim>\<open>Run\<close> reads them.\<close>

definition break_glass :: "Deps \<Rightarrow> bool" where
  "break_glass d \<longleftrightarrow> dp_User d \<in> set (fst (ReadBreakGlass (dp_euid d) (dp_BreakGlass d)))"

definition cached :: "Deps \<Rightarrow> bool" where
  "cached d \<longleftrightarrow>
     Cache_Allows (fst (LoadCache (dp_unmarshal d) (dp_Cache d))) (dp_User d) (dp_Context d) (dp_Now d)"

lemma Run_allow_iff:
  "fst (Run d) = ExitAllow \<longleftrightarrow>
     dp_User d \<noteq> [] \<and>
     (break_glass d \<or>
      (if dp_Mode d = cfg_ModeNotify
       then \<forall>call. dp_Client d = Some call \<longrightarrow> call (check_request d cfg_ModeNotify) (min (budget d) notifyTimeout) \<noteq> Panicked
       else (case dp_Client d of
               None \<Rightarrow> cached d
             | Some call \<Rightarrow>
                 (case call (check_request d cfg_ModeEnforce) (budget d) of
                    Answered resp \<Rightarrow> cp_Verdict resp = ''approve''
                  | CallError e \<Rightarrow> \<not> IsRejected e \<and> cached d
                  | Panicked \<Rightarrow> False))))"
proof -
  have c: "fst (run_cache d) = ExitAllow \<longleftrightarrow> cached d" by (simp add: run_cache_code cached_def)
  show ?thesis
    by (simp add: Run_def break_glass_def BreakGlass_Contains_def run_notify_def run_enforce_def c
        split: option.split call_result.split)
qed

text \<open>C13: The whole decision table of the PAM hook. A nameless login is denied and a break-glass user let
  in. In notify mode everybody else is let in unless the call panics. In any other mode the backend's
  verdict counts; the cache counts only when there is no client or the backend could not be reached,
  never after it rejected the request. Whoever is not let in is denied. So notify mode does not let everybody in, as
  \<^verbatim>\<open>agent/README.md\<close> and the comments of \<^verbatim>\<open>check.go\<close> and \<^verbatim>\<open>config.go\<close> say: without a user name, or after a panic of the
  call, it denies.\<close>

theorem run_decision_table:
  "(fst (Run d) = ExitAllow \<longleftrightarrow>
     dp_User d \<noteq> [] \<and>
     (break_glass d \<or>
      (case dp_Client d of
         None \<Rightarrow> dp_Mode d = cfg_ModeNotify \<or> cached d
       | Some call \<Rightarrow>
           if dp_Mode d = cfg_ModeNotify
           then call (check_request d cfg_ModeNotify) (min (budget d) notifyTimeout) \<noteq> Panicked
           else (case call (check_request d cfg_ModeEnforce) (budget d) of
                   Answered resp \<Rightarrow> cp_Verdict resp = ''approve''
                 | CallError e \<Rightarrow> \<not> IsRejected e \<and> cached d
                 | Panicked \<Rightarrow> False)))) \<and>
   (fst (Run d) \<noteq> ExitAllow \<longrightarrow> fst (Run d) = ExitDeny)"
  using Run_exit [of d] by (auto simp: Run_allow_iff split: option.splits)

text \<open>Dependencies for the examples: root's files, no backend, user alice.\<close>

definition ex_deps :: Deps where
  "ex_deps = \<lparr> dp_Context = ''ssh'', dp_Mode = cfg_ModeEnforce, dp_User = ''alice'', dp_RHost = ''192.0.2.7'',
     dp_TTY = ''ssh'', dp_Command = None, dp_Hostname = ''web1'', dp_euid = 0,
     dp_BreakGlass = Opened \<lparr> fi_Perm = 0x180, fi_Uid = Some 0 \<rparr> ''alice'', dp_Cache = NoFile,
     dp_unmarshal = (\<lambda>_. None), dp_Client = None, dp_Timeout = 30 * Second, dp_Now = Second \<rparr>"

theorem run_decision_table_witness:
  "fst (Run (ex_deps\<lparr>dp_User := []\<rparr>)) = ExitDeny \<and> fst (Run (ex_deps\<lparr>dp_BreakGlass := FileMissing\<rparr>)) = ExitDeny"
  using run_decision_table [of "ex_deps\<lparr>dp_User := []\<rparr>"] run_decision_table [of "ex_deps\<lparr>dp_BreakGlass := FileMissing\<rparr>"]
  by (simp add: ex_deps_def break_glass_def ReadBreakGlass_def cached_def LoadCache_def)

text \<open>C27: The break-glass file names a user exactly when it exists, neither its group nor others can write it, its owner
  is root or the user the agent runs as, and one of the lines that can be read is that name, once everything from the first
  \<open>#\<close> on and the blanks around are removed. In particular a file others can edit lets nobody in.\<close>

theorem breakglass_file:
  "BreakGlass_Contains (fst (ReadBreakGlass euid f)) user \<longleftrightarrow>
   user \<noteq> [] \<and>
   (\<exists>info data. f = Opened info data \<and> fi_Perm info AND 0x12 = 0 \<and>
      (case fi_Uid info of None \<Rightarrow> True | Some uid \<Rightarrow> uid \<in> {0, euid}) \<and>
      (\<exists>l\<in>set (takeWhile scannable (scan_lines data)).
         TrimSpace (takeWhile (\<lambda>c. c \<noteq> CHR ''#'') (dropCR l)) = user))"
proof (cases f)
  case (Opened info data)
  show ?thesis
  proof (cases "checkPrivate euid info")
    case None
    then have "fi_Perm info AND 0x12 = 0" "case fi_Uid info of None \<Rightarrow> True | Some uid \<Rightarrow> uid \<in> {0, euid}"
      by (auto simp: checkPrivate_def split: if_splits option.splits)
    then show ?thesis
      by (simp add: Opened BreakGlass_Contains_def ReadBreakGlass_iff [OF None] breakglass_line_def)
  next
    case (Some e)
    then have "\<not> (fi_Perm info AND 0x12 = 0 \<and> (case fi_Uid info of None \<Rightarrow> True | Some uid \<Rightarrow> uid \<in> {0, euid}))"
      by (auto simp: checkPrivate_def split: if_splits option.splits)
    with Some Opened show ?thesis by (auto simp: BreakGlass_Contains_def ReadBreakGlass_def)
  qed
qed (simp_all add: BreakGlass_Contains_def ReadBreakGlass_def)

theorem breakglass_file_witness:
  "BreakGlass_Contains (fst (ReadBreakGlass 0 (dp_BreakGlass ex_deps))) ''alice''"
  unfolding breakglass_file ex_deps_def
  by (simp add: scan_lines_def scannable_def breakglass_line_def dropCR_def TrimSpace_printable)

text \<open>Without a loadable configuration the hook does not open: only the break-glass list and the cache
  let a user in, and the mode is enforce.\<close>

theorem unconfigured_fails_closed:
  "fst (runCheck ctx pam connect None os_hostname cmdline) = ExitAllow \<longleftrightarrow>
   (ctx = ''ssh'' \<or> ctx = ''sudo'') \<and> dp_User pam \<noteq> [] \<and>
   (break_glass pam \<or> cached (pam\<lparr>dp_Context := ctx\<rparr>))"
proof (cases "ctx = ''ssh'' \<or> ctx = ''sudo''")
  case True
  then show ?thesis
    by (auto simp: runCheck_def Let_def Run_def BreakGlass_Contains_def run_enforce_def run_cache_code
        break_glass_def cached_def)
next
  case False
  then show ?thesis by (simp add: runCheck_def ExitAllow_def)
qed

text \<open>Every run writes exactly one audit line. It has seven blank-separated tokens whatever the user
  and host names contain, no control characters, its first token agrees with the exit code, and its
  third is the user.\<close>

theorem one_audit_line:
  "\<exists>l rest. snd (Run d) = [l] \<and> list_all (\<lambda>c. 32 \<le> (of_char c :: nat)) (Line_String l) \<and>
     split_byte CHR '' '' (Line_String l) =
       (if fst (Run d) = ExitAllow then ''decision=allow'' else ''decision=deny'') #
       (''context='' @ field (ln_Context l)) # (''user='' @ field (dp_User d)) # rest \<and> length rest = 4"
proof -
  from Run_one_line [of d] obtain l where l: "snd (Run d) = [l]" "ln_User l = dp_User d"
    "fst (Run d) = ExitAllow \<longleftrightarrow> ln_Decision l = audit_Allow" "fst (Run d) = ExitDeny \<longleftrightarrow> ln_Decision l = audit_Deny"
    by (auto simp: one_line_def)
  have "field ''allow'' = ''allow''" "field ''deny'' = ''deny''"
    by (rule field_plain; simp)+
  with Run_exit [of d] have "''decision='' @ field (ln_Decision l) =
      (if fst (Run d) = ExitAllow then ''decision=allow'' else ''decision=deny'')"
    using l(3,4) by (auto simp: audit_Allow_def audit_Deny_def)
  with l(1,2) Line_String_split [of l] Line_String_printable [of _ l] show ?thesis by (auto simp: list_all_iff)
qed

section \<open>The client\<close>

text \<open>Every exchange with the backend is classified. It is an answer only with a 2xx status and a body that
  decodes to one of the two verdicts, a rejection exactly for the statuses 400 to 499, and everything
  else, a lost connection, a redirect, a server error or an unreadable body, counts as unreachable.\<close>

theorem client_classifies:
  "(\<exists>resp. client_AccessRequest ue u x = Inr resp \<and> (cp_Verdict resp = ''approve'' \<or> cp_Verdict resp = ''deny'') \<and>
      (\<exists>st b. x = Got st b \<and> 200 \<le> st \<and> st < 300 \<and> u (take client_maxBody b) = Some resp)) \<or>
   (\<exists>st b. x = Got st b \<and> 400 \<le> st \<and> st < 500 \<and>
      client_AccessRequest ue u x = Inl (RejectedError st (errorMessage ue (take client_maxBody b)))) \<or>
   (client_AccessRequest ue u x = Inl UnreachableError \<and>
      (\<nexists>st b. x = Got st b \<and> 400 \<le> st \<and> st < 500) \<and>
      (\<nexists>st b resp. x = Got st b \<and> 200 \<le> st \<and> st < 300 \<and> u (take client_maxBody b) = Some resp \<and>
         (cp_Verdict resp = ''approve'' \<or> cp_Verdict resp = ''deny'')))"
  by (cases x) (auto simp: client_AccessRequest_def client_do_def Let_def split: option.splits)

text \<open>A configuration that loads is safe to use: the backend is reached over https unless plain http was
  allowed explicitly, the token is not empty, the mode is one of two, and the budget of a check, the
  time a login can hang, is the configured one and at most two minutes.\<close>

theorem loaded_config_is_safe:
  assumes "config_finish parse c0 = Inr c" "dp_Timeout d = Config_Timeout c"
  shows "(\<exists>scheme host. parse (gc_BackendURL c) = Some (scheme, host) \<and> host \<noteq> [] \<and>
      (scheme = ''https'' \<or> (scheme = ''http'' \<and> gc_AllowHTTP c0))) \<and>
    gc_ServerToken c \<noteq> [] \<and> (gc_Mode c = cfg_ModeEnforce \<or> gc_Mode c = cfg_ModeNotify) \<and>
    budget d = gc_TimeoutSeconds c * Second \<and> Second \<le> budget d \<and> budget d \<le> 120 * Second"
proof (rule config_finish_cases [OF assms(1)])
  fix scheme host
  assume c: "c = config_defaults c0" "parse (gc_BackendURL c) = Some (scheme, host)" "host \<noteq> []"
    "scheme = ''https'' \<or> (scheme = ''http'' \<and> gc_AllowHTTP c)" "gc_ServerToken c \<noteq> []"
    "gc_Mode c = cfg_ModeEnforce \<or> gc_Mode c = cfg_ModeNotify"
    "1 \<le> gc_TimeoutSeconds c" "gc_TimeoutSeconds c \<le> 120"
  have "gc_AllowHTTP c = gc_AllowHTTP c0" by (simp add: c(1) config_defaults_def)
  moreover have "Config_Timeout c = gc_TimeoutSeconds c * Second"
    using c(7,8) by (simp add: Config_Timeout_def seconds_duration_exact)
  ultimately show ?thesis
    using c(2-8) config_finish_timeout [OF assms(1)] assms(2) by (auto simp: budget_def)
qed

definition ex_config :: AgentConfig where
  "ex_config = \<lparr> gc_BackendURL = ''https://b'', gc_ServerToken = ''tok'', gc_Mode = [], gc_TimeoutSeconds = 0,
                 gc_Hostname = [], gc_AllowHTTP = False, gc_WatchPollSeconds = 0 \<rparr>"

lemma ex_config_finish:
  "config_finish (\<lambda>_. Some (''https'', ''b'')) ex_config =
     Inr (ex_config\<lparr> gc_Mode := cfg_ModeEnforce, gc_TimeoutSeconds := 30, gc_WatchPollSeconds := 2 \<rparr>)"
proof -
  have "TrimSpace ''https://b'' = ''https://b''" by (rule TrimSpace_printable) simp
  then show ?thesis
    by (simp add: config_finish_def config_defaults_def ex_config_def trim_tok TrimRight_byte_def Let_def)
qed

theorem loaded_config_is_safe_witness:
  "\<exists>c. config_finish (\<lambda>_. Some (''https'', ''b'')) ex_config = Inr c \<and> gc_ServerToken c \<noteq> [] \<and>
     budget (ex_deps\<lparr>dp_Timeout := Config_Timeout c\<rparr>) = gc_TimeoutSeconds c * Second"
  using loaded_config_is_safe [OF ex_config_finish, of "ex_deps\<lparr>dp_Timeout := Config_Timeout
      (ex_config\<lparr> gc_Mode := cfg_ModeEnforce, gc_TimeoutSeconds := 30, gc_WatchPollSeconds := 2 \<rparr>)\<rparr>"]
    ex_config_finish by simp

section \<open>The cache\<close>

text \<open>C28: A refresh replaces the cache file as a whole or not at all: the exit code is 0 exactly when the file
  holds the new list, which a later check reads back entry for entry; on every failure, of the
  arguments, the configuration, the backend or any file operation, the old file is still there. No
  other file changes but the temporary one.\<close>

theorem sync_replaces_or_keeps:
  assumes "\<And>c its. fetch c = Inr its \<Longrightarrow>
      unmarshal (marshal (sync_cache now its) @ [CHR 0x0A]) = Some (sync_cache now its)"
    and "runSync args cfg fetch now marshal (SaveCache mk wr rn path) fs = (fs', code)"
  shows "(code = 0 \<longleftrightarrow> args = [] \<and> mk \<and> wr = Wrote \<and> rn \<and> (\<exists>c its. cfg = Some c \<and> fetch c = Inr its)) \<and>
    (\<forall>p. p \<noteq> path \<and> p \<noteq> path @ ''.tmp'' \<longrightarrow> fs' p = fs p) \<and>
    (if code = 0
     then \<exists>c its data. cfg = Some c \<and> fetch c = Inr its \<and> fs' path = Some data \<and>
       LoadCache unmarshal (Contents data) = (sync_cache now its, None)
     else fs' path = fs path)"
proof -
  have code: "code = 0 \<longleftrightarrow> args = [] \<and> mk \<and> wr = Wrote \<and> rn \<and> (\<exists>c its. cfg = Some c \<and> fetch c = Inr its)"
    and frame: "\<forall>p. p \<noteq> path \<and> p \<noteq> path @ ''.tmp'' \<longrightarrow> fs' p = fs p"
    and saved: "if code = 0
      then \<exists>c its. cfg = Some c \<and> fetch c = Inr its \<and> fs' path = Some (marshal (sync_cache now its) @ [CHR 0x0A])
      else fs' path = fs path"
    using assms(2)
    by (auto simp: runSync_def SaveCache_def Let_def split: option.splits sum.splits write_result.splits if_splits)
  from saved have "if code = 0
     then \<exists>c its data. cfg = Some c \<and> fetch c = Inr its \<and> fs' path = Some data \<and>
       LoadCache unmarshal (Contents data) = (sync_cache now its, None)
     else fs' path = fs path"
    using assms(1) by (fastforce simp: LoadCache_def split: if_splits)
  with code frame show ?thesis by blast
qed

definition ex_items :: "ClientEntry list" where
  "ex_items = [\<lparr> cw_ID = ''w1'', cw_Username = ''alice'', cw_Context = ''ssh'', cw_Server = None, cw_ExpiresAt = None \<rparr>]"

theorem sync_replaces_or_keeps_witness:
  "\<exists>fs' code. runSync [] (Some ex_config) (\<lambda>_. Inr ex_items) Second (\<lambda>_. ''{}'')
       (SaveCache True Wrote True ''cache.json'') (\<lambda>_. None) = (fs', code) \<and> code = 0 \<and>
     (\<exists>data. fs' ''cache.json'' = Some data \<and>
        LoadCache (\<lambda>_. Some (sync_cache Second ex_items)) (Contents data) = (sync_cache Second ex_items, None))"
proof -
  obtain fs' code where run: "runSync [] (Some ex_config) (\<lambda>_. Inr ex_items) Second (\<lambda>_. ''{}'')
      (SaveCache True Wrote True ''cache.json'') (\<lambda>_. None) = (fs', code)"
    by fastforce
  have "\<And>c its. (\<lambda>_. Inr ex_items :: (client_error, ClientEntry list) result) c = Inr its \<Longrightarrow>
      (\<lambda>_. Some (sync_cache Second ex_items)) (''{}'' @ [CHR 0x0A]) = Some (sync_cache Second its)" by simp
  from sync_replaces_or_keeps [of "\<lambda>_. Inr ex_items" "\<lambda>_. Some (sync_cache Second ex_items)" "\<lambda>_. ''{}''", OF this run]
  have "code = 0" "\<exists>data. fs' ''cache.json'' = Some data \<and>
      LoadCache (\<lambda>_. Some (sync_cache Second ex_items)) (Contents data) = (sync_cache Second ex_items, None)"
    by (simp, force)
  with run show ?thesis by blast
qed

end
