(* ===== verification/App_Config.thy ===== *)
theory App_Config
  imports Handlers
begin

text \<open>
  The backend's configuration and wiring (\<^verbatim>\<open>backend/internal/app/config.go\<close>, \<^verbatim>\<open>app.go\<close>): the environment is
  read, defaulted and checked, every problem is reported at once, and the result is put together into
  the handler of theory \<open>Handlers\<close>.
\<close>

section \<open>The environment\<close>

record AppConfig =
  ac_DatabaseURL :: string
  ac_AdminToken :: string
  ac_FCMProjectID :: string
  ac_FCMServiceAccountJSON :: string
  ac_ListenAddr :: string
  ac_GeoLookupURL :: string
  ac_VerdictWait :: duration
  ac_AutoblockWindow :: duration
  ac_AutoblockDuration :: duration
  ac_AutoblockThreshold :: int

definition DefaultListenAddr :: string where "DefaultListenAddr = '':8080''"

definition DefaultVerdictWait :: duration where "DefaultVerdictWait = 25 * Second"

definition DefaultAutoblockThreshold :: int where "DefaultAutoblockThreshold = 3"

definition DefaultAutoblockWindow :: duration where "DefaultAutoblockWindow = Hour"

definition DefaultAutoblockDuration :: duration where "DefaultAutoblockDuration = 0"

definition minVerdictWaitSeconds :: int where "minVerdictWaitSeconds = 1"

definition maxVerdictWaitSeconds :: int where "maxVerdictWaitSeconds = 55"

definition PushEnabled :: "AppConfig \<Rightarrow> bool" where
  "PushEnabled c \<longleftrightarrow> ac_FCMProjectID c \<noteq> [] \<and> ac_FCMServiceAccountJSON c \<noteq> []"

text \<open>The problems, with the values their messages show.\<close>

datatype config_problem =
    RequiredVariable string
  | FCMVariablesTogether
  | NotAnInteger string string
  | BelowMinimum string int int
  | AboveMaximum string int int

text \<open>An integer variable with a default and bounds; no upper bound when \<open>hi\<close> is 0.\<close>

definition intVar :: "(string \<Rightarrow> string) \<Rightarrow> string \<Rightarrow> int \<Rightarrow> int \<Rightarrow> int \<Rightarrow> int \<times> config_problem list" where
  "intVar get name def lo hi =
     (let s = get name in
      if s = [] then (def, [])
      else (case Atoi s of
              None \<Rightarrow> (def, [NotAnInteger name s])
            | Some n \<Rightarrow>
                if n < lo then (def, [BelowMinimum name lo n])
                else if 0 < hi \<and> hi < n then (def, [AboveMaximum name hi n])
                else (n, [])))"

definition LoadConfig :: "(string \<Rightarrow> string) \<Rightarrow> (config_problem list, AppConfig) result" where
  "LoadConfig getenv =
     (let get = (\<lambda>name. TrimSpace (getenv name));
          url = get ''DATABASE_URL'';
          admin = get ''ADMIN_TOKEN'';
          project = get ''FCM_PROJECT_ID'';
          account = get ''FCM_SERVICE_ACCOUNT_JSON'';
          addr = get ''LISTEN_ADDR'';
          geo = get ''GEO_LOOKUP_URL'';
          (wait, p1) = intVar get ''VERDICT_WAIT_SECONDS'' (DefaultVerdictWait div Second)
                         minVerdictWaitSeconds maxVerdictWaitSeconds;
          (threshold, p2) = intVar get ''AUTOBLOCK_THRESHOLD'' DefaultAutoblockThreshold 1 0;
          (window, p3) = intVar get ''AUTOBLOCK_WINDOW_SECONDS'' (DefaultAutoblockWindow div Second) 1 0;
          (dur, p4) = intVar get ''AUTOBLOCK_DURATION_SECONDS'' (DefaultAutoblockDuration div Second) 0 0;
          problems =
            (if url = [] then [RequiredVariable ''DATABASE_URL''] else []) @
            (if admin = [] then [RequiredVariable ''ADMIN_TOKEN''] else []) @
            (if (project = []) \<noteq> (account = []) then [FCMVariablesTogether] else []) @
            p1 @ p2 @ p3 @ p4
      in if problems \<noteq> [] then Inl problems
         else Inr \<lparr> ac_DatabaseURL = url, ac_AdminToken = admin, ac_FCMProjectID = project,
                    ac_FCMServiceAccountJSON = account,
                    ac_ListenAddr = (if addr = [] then DefaultListenAddr else addr), ac_GeoLookupURL = geo,
                    ac_VerdictWait = seconds_duration wait, ac_AutoblockWindow = seconds_duration window,
                    ac_AutoblockDuration = seconds_duration dur, ac_AutoblockThreshold = threshold \<rparr>)"

section \<open>The wiring\<close>

datatype start_error = OpenDatabase | FCMClient

text \<open>The opened database, the FCM client built from the configuration and the geo client are arguments;
  \<open>None\<close> is a failure to build them. Without FCM every message is accepted and delivered to nobody.\<close>

definition app_rules :: "AppConfig \<Rightarrow> RulesConfig" where
  "app_rules cfg =
     rules_New \<lparr> rc_Threshold = ac_AutoblockThreshold cfg, rc_Window = ac_AutoblockWindow cfg,
                 rc_BlockDuration = ac_AutoblockDuration cfg \<rparr>"

definition app_New ::
  "'s Store option \<Rightarrow> (string \<Rightarrow> push_data \<Rightarrow> bool) option \<Rightarrow> (string \<Rightarrow> Geo option) \<Rightarrow> Codec \<Rightarrow>
     (time \<Rightarrow> string) \<Rightarrow> (string \<Rightarrow> time option) \<Rightarrow> AppConfig \<Rightarrow> (start_error, 's Handler) result" where
  "app_New pg fcm geo json fmt prs cfg =
     (case pg of
        None \<Rightarrow> Inl OpenDatabase
      | Some S \<Rightarrow>
          (case if PushEnabled cfg then fcm else Some (\<lambda>_ _. True) of
             None \<Rightarrow> Inl FCMClient
           | Some push \<Rightarrow>
               Inr (handler_New
                 \<lparr> h_store = S, h_push = Some push, h_geo = Some geo, h_adminHash = auth_New (ac_AdminToken cfg),
                   h_rules = app_rules cfg,
                   h_cfg = handler_DefaultConfig\<lparr> hc_VerdictWait := ac_VerdictWait cfg \<rparr>,
                   h_json = json, h_FormatTime = fmt, h_ParseTime = prs \<rparr>)))"

section \<open>Lemmas\<close>

lemma intVar_ok:
  assumes "intVar get name def lo hi = (n, [])" "lo \<le> def" "hi = 0 \<or> def \<le> hi"
  shows "lo \<le> n" "0 < hi \<Longrightarrow> n \<le> hi"
  using assms by (auto simp: intVar_def Let_def split: if_splits option.splits)

lemma LoadConfig_cases:
  assumes "LoadConfig getenv = Inr cfg"
  obtains n t w d where "ac_DatabaseURL cfg \<noteq> []" "ac_AdminToken cfg \<noteq> []"
    "ac_AdminToken cfg = TrimSpace (getenv ''ADMIN_TOKEN'')"
    "ac_FCMProjectID cfg = [] \<longleftrightarrow> ac_FCMServiceAccountJSON cfg = []" "ac_ListenAddr cfg \<noteq> []"
    "ac_VerdictWait cfg = seconds_duration n" "1 \<le> n" "n \<le> 55"
    "ac_AutoblockThreshold cfg = t" "1 \<le> t"
    "ac_AutoblockWindow cfg = seconds_duration w" "1 \<le> w"
    "ac_AutoblockDuration cfg = seconds_duration d" "0 \<le> d"
proof -
  define get where "get = (\<lambda>name. TrimSpace (getenv name))"
  obtain n p1 where 1: "intVar get ''VERDICT_WAIT_SECONDS'' 25 1 55 = (n, p1)" by fastforce
  obtain t p2 where 2: "intVar get ''AUTOBLOCK_THRESHOLD'' 3 1 0 = (t, p2)" by fastforce
  obtain w p3 where 3: "intVar get ''AUTOBLOCK_WINDOW_SECONDS'' 3600 1 0 = (w, p3)" by fastforce
  obtain d p4 where 4: "intVar get ''AUTOBLOCK_DURATION_SECONDS'' 0 0 0 = (d, p4)" by fastforce
  note load = assms [unfolded LoadConfig_def get_def [symmetric]]
  have "p1 = []" "p2 = []" "p3 = []" "p4 = []" and flds: "get ''DATABASE_URL'' \<noteq> []" "get ''ADMIN_TOKEN'' \<noteq> []"
    "(get ''FCM_PROJECT_ID'' = []) = (get ''FCM_SERVICE_ACCOUNT_JSON'' = [])"
    and cfg: "cfg = \<lparr> ac_DatabaseURL = get ''DATABASE_URL'', ac_AdminToken = get ''ADMIN_TOKEN'',
      ac_FCMProjectID = get ''FCM_PROJECT_ID'', ac_FCMServiceAccountJSON = get ''FCM_SERVICE_ACCOUNT_JSON'',
      ac_ListenAddr = (if get ''LISTEN_ADDR'' = [] then DefaultListenAddr else get ''LISTEN_ADDR''),
      ac_GeoLookupURL = get ''GEO_LOOKUP_URL'', ac_VerdictWait = seconds_duration n,
      ac_AutoblockWindow = seconds_duration w, ac_AutoblockDuration = seconds_duration d,
      ac_AutoblockThreshold = t \<rparr>"
    using load 1 2 3 4
    by (auto simp: Let_def get_def DefaultVerdictWait_def DefaultAutoblockThreshold_def DefaultAutoblockWindow_def
        DefaultAutoblockDuration_def minVerdictWaitSeconds_def maxVerdictWaitSeconds_def split: if_splits)
  moreover have "1 \<le> n \<and> n \<le> 55" using intVar_ok [OF 1 [unfolded \<open>p1 = []\<close>]] by simp
  moreover have "1 \<le> t" using intVar_ok(1) [OF 2 [unfolded \<open>p2 = []\<close>]] by simp
  moreover have "1 \<le> w" using intVar_ok(1) [OF 3 [unfolded \<open>p3 = []\<close>]] by simp
  moreover have "0 \<le> d" using intVar_ok(1) [OF 4 [unfolded \<open>p4 = []\<close>]] by simp
  ultimately show thesis
    by (intro that [of n t w d]) (auto simp: cfg get_def DefaultListenAddr_def)
qed

lemma app_rules_positive: "1 \<le> rc_Threshold (app_rules cfg)" "0 < rc_Window (app_rules cfg)"
  by (simp_all add: app_rules_def rules_New_def rules_DefaultConfig_def Let_def)

end
