(* ===== verification/App_Props.thy ===== *)
theory App_Props
  imports Example App_Config
begin

text \<open>
  The properties of the backend's start: what a configuration that loads guarantees of the handler built
  from it, and where it does not guard the auto-block durations.
\<close>

text \<open>C30: A backend that starts is safe to expose. Its admin token is not empty, so the admin routes are
  open to exactly the holders of that token; phones are pushed to when both FCM variables are set, never with
  one of them missing; a login waits between 1 and 55 seconds, the configured number of seconds
  exactly; and the auto-block threshold and window are positive.\<close>

theorem started_backend_is_safe:
  assumes "LoadConfig getenv = Inr cfg" "app_New pg fcm geo json fmt prs cfg = Inr h"
  shows "h_adminHash h = HashToken (TrimSpace (getenv ''ADMIN_TOKEN'')) \<and> TrimSpace (getenv ''ADMIN_TOKEN'') \<noteq> [] \<and>
    (PushEnabled cfg \<longleftrightarrow> TrimSpace (getenv ''FCM_PROJECT_ID'') \<noteq> []) \<and>
    (PushEnabled cfg \<longleftrightarrow> TrimSpace (getenv ''FCM_SERVICE_ACCOUNT_JSON'') \<noteq> []) \<and>
    (\<exists>n. 1 \<le> n \<and> n \<le> 55 \<and> hc_VerdictWait (h_cfg h) = n * Second) \<and>
    1 \<le> rc_Threshold (h_rules h) \<and> 0 < rc_Window (h_rules h)"
proof (rule LoadConfig_cases [OF assms(1)])
  fix n t w d
  assume c: "ac_AdminToken cfg \<noteq> []" "ac_AdminToken cfg = TrimSpace (getenv ''ADMIN_TOKEN'')"
    "ac_FCMProjectID cfg = [] \<longleftrightarrow> ac_FCMServiceAccountJSON cfg = []"
    "ac_VerdictWait cfg = seconds_duration n" "1 \<le> n" "n \<le> 55"
  have fcm: "ac_FCMProjectID cfg = TrimSpace (getenv ''FCM_PROJECT_ID'')"
    "ac_FCMServiceAccountJSON cfg = TrimSpace (getenv ''FCM_SERVICE_ACCOUNT_JSON'')"
    using assms(1) by (auto simp: LoadConfig_def Let_def split: if_splits prod.splits)
  obtain S push where h: "h = handler_New
      \<lparr> h_store = S, h_push = Some push, h_geo = Some geo, h_adminHash = auth_New (ac_AdminToken cfg),
        h_rules = app_rules cfg, h_cfg = handler_DefaultConfig\<lparr> hc_VerdictWait := ac_VerdictWait cfg \<rparr>,
        h_json = json, h_FormatTime = fmt, h_ParseTime = prs \<rparr>"
    using assms(2) by (auto simp: app_New_def split: option.splits)
  have wait: "ac_VerdictWait cfg = n * Second" using c(4-6) by (simp add: seconds_duration_exact)
  have "hc_VerdictWait (h_cfg h) = n * Second"
    using c(5) by (simp add: h handler_New_def default_if_def wait Let_def)
  moreover have "h_adminHash h = HashToken (ac_AdminToken cfg)" "h_rules h = app_rules cfg"
    using c(1) by (simp_all add: h handler_New_def auth_New_def Let_def)
  ultimately show ?thesis
    using c app_rules_positive [of cfg] fcm by (auto simp: PushEnabled_def)
qed

definition ex_env :: "string \<Rightarrow> string \<Rightarrow> string" where
  "ex_env secs name =
     (if name = ''DATABASE_URL'' then ''postgres'' else if name = ''ADMIN_TOKEN'' then ''secret''
      else if name = ''AUTOBLOCK_WINDOW_SECONDS'' \<or> name = ''AUTOBLOCK_DURATION_SECONDS'' then secs else [])"

lemma ex_env_words: "TrimSpace ''postgres'' = ''postgres''" "TrimSpace ''secret'' = ''secret''"
  by (rule TrimSpace_printable, simp)+

definition ex_app :: "int \<Rightarrow> AppConfig" where
  "ex_app n = \<lparr> ac_DatabaseURL = ''postgres'', ac_AdminToken = ''secret'', ac_FCMProjectID = [],
     ac_FCMServiceAccountJSON = [], ac_ListenAddr = DefaultListenAddr, ac_GeoLookupURL = [],
     ac_VerdictWait = seconds_duration 25, ac_AutoblockWindow = seconds_duration n,
     ac_AutoblockDuration = seconds_duration n, ac_AutoblockThreshold = 3 \<rparr>"

lemma ex_env_loads:
  "TrimSpace secs = secs \<Longrightarrow> secs \<noteq> [] \<Longrightarrow> Atoi secs = Some n \<Longrightarrow> 1 \<le> n \<Longrightarrow> LoadConfig (ex_env secs) = Inr (ex_app n)"
  by (simp add: LoadConfig_def ex_env_def intVar_def ex_env_words ex_app_def DefaultVerdictWait_def
      DefaultAutoblockThreshold_def)

lemma ex_hour: "TrimSpace ''3600'' = ''3600''" "Atoi ''3600'' = Some 3600"
  by (rule TrimSpace_printable, simp) (simp add: Atoi_def digits_value_def is_digit_def)

theorem started_backend_is_safe_witness:
  "\<exists>h. app_New (Some memory_store) None (\<lambda>_. None) (ex_codec (ex_body []) (ex_verdict [])) (\<lambda>_. []) (\<lambda>_. None)
      (ex_app 3600) = Inr h \<and>
    h_adminHash h = HashToken (TrimSpace (ex_env ''3600'' ''ADMIN_TOKEN'')) \<and>
    (\<exists>n. 1 \<le> n \<and> n \<le> 55 \<and> hc_VerdictWait (h_cfg h) = n * Second)"
proof -
  obtain h where h: "app_New (Some memory_store) None (\<lambda>_. None) (ex_codec (ex_body []) (ex_verdict [])) (\<lambda>_. [])
      (\<lambda>_. None) (ex_app 3600) = Inr h"
    by (simp add: app_New_def PushEnabled_def ex_app_def)
  have "LoadConfig (ex_env ''3600'') = Inr (ex_app 3600)" by (rule ex_env_loads) (simp_all add: ex_hour)
  from started_backend_is_safe [OF this h] h show ?thesis by blast
qed

text \<open>When a configuration loads, and its two times, with the variables read by \<open>intVar\<close>.\<close>

lemma LoadConfig_loads:
  fixes getenv :: "string \<Rightarrow> string"
  defines "get \<equiv> \<lambda>name. TrimSpace (getenv name)"
  shows "(\<exists>cfg. LoadConfig getenv = Inr cfg) \<longleftrightarrow>
      get ''DATABASE_URL'' \<noteq> [] \<and> get ''ADMIN_TOKEN'' \<noteq> [] \<and>
      ((get ''FCM_PROJECT_ID'' = []) = (get ''FCM_SERVICE_ACCOUNT_JSON'' = [])) \<and>
      snd (intVar get ''VERDICT_WAIT_SECONDS'' (DefaultVerdictWait div Second) minVerdictWaitSeconds maxVerdictWaitSeconds) = [] \<and>
      snd (intVar get ''AUTOBLOCK_THRESHOLD'' DefaultAutoblockThreshold 1 0) = [] \<and>
      snd (intVar get ''AUTOBLOCK_WINDOW_SECONDS'' (DefaultAutoblockWindow div Second) 1 0) = [] \<and>
      snd (intVar get ''AUTOBLOCK_DURATION_SECONDS'' (DefaultAutoblockDuration div Second) 0 0) = []"
    and "LoadConfig getenv = Inr cfg \<Longrightarrow>
      ac_AutoblockWindow cfg = seconds_duration (fst (intVar get ''AUTOBLOCK_WINDOW_SECONDS'' (DefaultAutoblockWindow div Second) 1 0)) \<and>
      ac_AutoblockDuration cfg = seconds_duration (fst (intVar get ''AUTOBLOCK_DURATION_SECONDS'' (DefaultAutoblockDuration div Second) 0 0))"
  unfolding get_def LoadConfig_def Let_def split_beta
  subgoal by simp
  subgoal by (drule sym) (simp split: if_splits)
  done

lemma intVar_read:
  assumes "Atoi (get name) = Some n" "snd (intVar get name def lo 0) = []"
  shows "fst (intVar get name def lo 0) = n" "lo \<le> n"
proof -
  have "get name \<noteq> []" using assms(1) by (auto simp: Atoi_def)
  with assms show "fst (intVar get name def lo 0) = n" "lo \<le> n" by (auto simp: intVar_def split: if_splits)
qed

lemma LoadConfig_seconds:
  assumes "LoadConfig getenv = Inr cfg"
  shows "Atoi (TrimSpace (getenv ''AUTOBLOCK_WINDOW_SECONDS'')) = Some w \<Longrightarrow> ac_AutoblockWindow cfg = seconds_duration w"
    "Atoi (TrimSpace (getenv ''AUTOBLOCK_DURATION_SECONDS'')) = Some d \<Longrightarrow> ac_AutoblockDuration cfg = seconds_duration d"
    "Atoi (TrimSpace (getenv ''AUTOBLOCK_DURATION_SECONDS'')) = Some d \<Longrightarrow> 0 \<le> d"
  using LoadConfig_loads(1) [of getenv] LoadConfig_loads(2) [OF assms] assms
    intVar_read [of "\<lambda>name. TrimSpace (getenv name)"] by blast+

lemma LoadConfig_accepts:
  assumes "LoadConfig getenv = Inr cfg" "Atoi (TrimSpace secs) = Some n" "1 \<le> n"
    and "var \<in> {''AUTOBLOCK_WINDOW_SECONDS'', ''AUTOBLOCK_DURATION_SECONDS''}"
  shows "\<exists>cfg'. LoadConfig (getenv(var := secs)) = Inr cfg'"
proof -
  have other: "intVar (\<lambda>x. TrimSpace ((getenv(var := secs)) x)) name def lo hi = intVar (\<lambda>x. TrimSpace (getenv x)) name def lo hi"
    if "name \<noteq> var" for name def lo hi using that by (simp add: intVar_def)
  have this_one: "snd (intVar (\<lambda>x. TrimSpace ((getenv(var := secs)) x)) var def lo 0) = []" if "lo \<le> 1" for def lo
    using assms(2,3) that by (simp add: intVar_def Let_def)
  note old = LoadConfig_loads(1) [of getenv, THEN iffD1, OF exI, OF assms(1)]
  from assms(4) consider "var = ''AUTOBLOCK_WINDOW_SECONDS''" | "var = ''AUTOBLOCK_DURATION_SECONDS''" by blast
  then show ?thesis
    unfolding LoadConfig_loads(1) using old other this_one by cases simp_all
qed

lemma seconds_wrap_negative:
  assumes "2 ^ 63 \<le> n * Second" "n * Second \<le> 2 ^ 64"
  shows "seconds_duration n \<le> 0"
proof -
  have "(n * Second + 2 ^ 63) mod 2 ^ 64 = (n * Second + 2 ^ 63 - 2 ^ 64) mod 2 ^ 64" by (metis minus_mod_self2)
  also have "\<dots> = n * Second + 2 ^ 63 - 2 ^ 64" using assms by (intro mod_pos_pos_trivial) simp_all
  finally show ?thesis using assms by (simp add: seconds_duration_def int64_wrap_def)
qed

text \<open>C40: The two auto-block times have no upper bound, so their seconds can overflow the 64-bit duration. Any number of at
  least one second loads, if the rest of the environment does. While its nanoseconds fit, the window is that number of seconds
  and a block ends that many seconds later, or never for 0. From 2 to the 63 nanoseconds (292 years) up to 2 to the 64, the window
  silently is the default hour, and a block that should end after that time never ends. In general the times are
  those of the wrapped product.\<close>

theorem autoblock_seconds_wrap:
  assumes "LoadConfig getenv = Inr cfg"
    and "Atoi (TrimSpace (getenv ''AUTOBLOCK_WINDOW_SECONDS'')) = Some w"
    and "Atoi (TrimSpace (getenv ''AUTOBLOCK_DURATION_SECONDS'')) = Some d"
    and "var \<in> {''AUTOBLOCK_WINDOW_SECONDS'', ''AUTOBLOCK_DURATION_SECONDS''}" "Atoi (TrimSpace secs) = Some n" "1 \<le> n"
  shows "(\<exists>cfg'. LoadConfig (getenv(var := secs)) = Inr cfg') \<and>
    (let window = (w * Second + 2 ^ 63) mod 2 ^ 64 - 2 ^ 63; duration = (d * Second + 2 ^ 63) mod 2 ^ 64 - 2 ^ 63
     in rc_Window (app_rules cfg) = (if window \<le> 0 then Hour else window) \<and>
        bi_ExpiresAt (autoblock_row (app_rules cfg) now ip stats) = (if duration \<le> 0 then None else Some (now + duration))) \<and>
    (w * Second < 2 ^ 63 \<and> 0 < w \<longrightarrow> rc_Window (app_rules cfg) = w * Second) \<and>
    (d * Second < 2 ^ 63 \<longrightarrow>
       bi_ExpiresAt (autoblock_row (app_rules cfg) now ip stats) = (if d = 0 then None else Some (now + d * Second))) \<and>
    (2 ^ 63 \<le> w * Second \<and> w * Second \<le> 2 ^ 64 \<longrightarrow> rc_Window (app_rules cfg) = Hour) \<and>
    (2 ^ 63 \<le> d * Second \<and> d * Second \<le> 2 ^ 64 \<longrightarrow> bi_ExpiresAt (autoblock_row (app_rules cfg) now ip stats) = None)"
proof -
  note c = LoadConfig_seconds(1) [OF assms(1,2)] LoadConfig_seconds(2) [OF assms(1,3)]
  have d: "0 \<le> d" by (rule LoadConfig_seconds(3) [OF assms(1,3)])
  have window: "rc_Window (app_rules cfg) = (if seconds_duration w \<le> 0 then Hour else seconds_duration w)"
    by (simp add: app_rules_def rules_New_def rules_DefaultConfig_def c Let_def)
  have ends: "bi_ExpiresAt (autoblock_row (app_rules cfg) now ip stats) =
      (if seconds_duration d \<le> 0 then None else Some (now + seconds_duration d))"
    by (simp add: autoblock_row_def app_rules_def rules_New_def c Let_def)
  have exact: "seconds_duration k = k * Second" if "0 \<le> k" "k * Second < 2 ^ 63" for k
    using that by (simp add: seconds_duration_def int64_wrap_def)
  show ?thesis
  proof (intro conjI impI)
    show "\<exists>cfg'. LoadConfig (getenv(var := secs)) = Inr cfg'" by (rule LoadConfig_accepts [OF assms(1,5,6,4)])
    show "let window = (w * Second + 2 ^ 63) mod 2 ^ 64 - 2 ^ 63; duration = (d * Second + 2 ^ 63) mod 2 ^ 64 - 2 ^ 63
     in rc_Window (app_rules cfg) = (if window \<le> 0 then Hour else window) \<and>
        bi_ExpiresAt (autoblock_row (app_rules cfg) now ip stats) = (if duration \<le> 0 then None else Some (now + duration))"
      unfolding Let_def window ends seconds_duration_def int64_wrap_def by blast
  qed (use d exact seconds_wrap_negative [of w] seconds_wrap_negative [of d] in \<open>auto simp: window ends\<close>)
qed

theorem autoblock_seconds_wrap_witness:
  "\<exists>cfg. LoadConfig (ex_env ''9223372037'') = Inr cfg \<and> rc_Window (app_rules cfg) = Hour \<and>
    bi_ExpiresAt (autoblock_row (app_rules cfg) 0 ''192.0.2.7'' \<lparr> ds_Count = 3, ds_First = 0, ds_Last = 0 \<rparr>) = None"
proof -
  have t: "TrimSpace ''9223372037'' = ''9223372037''" by (rule TrimSpace_printable) simp
  have a: "Atoi ''9223372037'' = Some 9223372037" by (simp add: Atoi_def digits_value_def is_digit_def)
  have load: "LoadConfig (ex_env ''9223372037'') = Inr (ex_app 9223372037)" by (rule ex_env_loads) (simp_all add: t a)
  have at: "Atoi (TrimSpace (ex_env ''9223372037'' ''AUTOBLOCK_WINDOW_SECONDS'')) = Some 9223372037"
    "Atoi (TrimSpace (ex_env ''9223372037'' ''AUTOBLOCK_DURATION_SECONDS'')) = Some 9223372037"
    by (simp_all add: ex_env_def t a)
  have "Atoi (TrimSpace ''3600'') = Some 3600" by (simp add: ex_hour)
  from autoblock_seconds_wrap [OF load at _ this, of "''AUTOBLOCK_WINDOW_SECONDS''"] load show ?thesis by simp
qed

end
