(* ===== verification/Geo_Lookup.thy ===== *)
theory Geo_Lookup
  imports Netip Model
begin

text \<open>
  The geo client (\<^verbatim>\<open>backend/internal/geo/geo.go\<close>): which addresses are looked up at all, the cache of positive
  and negative answers, and how an answer is read. The HTTP exchange and JSON decoding are parameters.
\<close>

section \<open>Routable addresses\<close>

text \<open>The classification of \<^verbatim>\<open>net/netip\<close>, for an IPv4 address as four octets and an IPv6 address as eight
  groups.\<close>

definition IsLoopback :: "Addr \<Rightarrow> bool" where
  "IsLoopback a = (case a of Addr4 fs \<Rightarrow> fs ! 0 = 127 | Addr6 gs _ \<Rightarrow> gs = [0, 0, 0, 0, 0, 0, 0, 1])"

definition IsPrivate :: "Addr \<Rightarrow> bool" where
  "IsPrivate a =
     (case a of
        Addr4 fs \<Rightarrow> fs ! 0 = 10 \<or> (fs ! 0 = 172 \<and> 16 \<le> fs ! 1 \<and> fs ! 1 < 32) \<or> (fs ! 0 = 192 \<and> fs ! 1 = 168)
      | Addr6 gs _ \<Rightarrow> gs ! 0 div 256 div 2 = 0x7E)"

definition IsUnspecified :: "Addr \<Rightarrow> bool" where
  "IsUnspecified a = (case a of Addr4 fs \<Rightarrow> fs = [0, 0, 0, 0] | Addr6 gs z \<Rightarrow> gs = [0, 0, 0, 0, 0, 0, 0, 0] \<and> z = [])"

definition IsMulticast :: "Addr \<Rightarrow> bool" where
  "IsMulticast a = (case a of Addr4 fs \<Rightarrow> fs ! 0 div 16 = 14 | Addr6 gs _ \<Rightarrow> gs ! 0 div 256 = 0xFF)"

definition IsLinkLocalUnicast :: "Addr \<Rightarrow> bool" where
  "IsLinkLocalUnicast a =
     (case a of Addr4 fs \<Rightarrow> fs ! 0 = 169 \<and> fs ! 1 = 254 | Addr6 gs _ \<Rightarrow> gs ! 0 div 64 = 0x3FA)"

definition IsLinkLocalMulticast :: "Addr \<Rightarrow> bool" where
  "IsLinkLocalMulticast a =
     (case a of
        Addr4 fs \<Rightarrow> fs ! 0 = 224 \<and> fs ! 1 = 0 \<and> fs ! 2 = 0
      | Addr6 gs _ \<Rightarrow> gs ! 0 div 256 = 0xFF \<and> gs ! 0 mod 16 = 2)"

definition IsInterfaceLocalMulticast :: "Addr \<Rightarrow> bool" where
  "IsInterfaceLocalMulticast a =
     (case a of Addr4 _ \<Rightarrow> False | Addr6 gs _ \<Rightarrow> gs ! 0 div 256 = 0xFF \<and> gs ! 0 mod 16 = 1)"

definition routable :: "string \<Rightarrow> Addr option" where
  "routable ip =
     (case ParseAddr (TrimSpace ip) of
        None \<Rightarrow> None
      | Some addr \<Rightarrow>
          let a = Addr_NoZone (Addr_Unmap addr)
          in if IsLoopback a \<or> IsPrivate a \<or> IsUnspecified a \<or> IsMulticast a \<or> IsLinkLocalUnicast a \<or>
                IsLinkLocalMulticast a \<or> IsInterfaceLocalMulticast a
             then None else Some a)"

section \<open>Reading an answer\<close>

text \<open>The values of a decoded object the reader tells apart: strings, numbers (as the text of the number,
  \<^verbatim>\<open>UseNumber\<close>), anything else.\<close>

datatype json_value = JString string | JNumber string | JOther

type_synonym json_object = "string \<Rightarrow> json_value option"

definition geo_text :: "json_value option \<Rightarrow> string" where
  "geo_text v = (case v of Some (JString s) \<Rightarrow> TrimSpace s | _ \<Rightarrow> [])"

definition isCountryCode :: "string \<Rightarrow> bool" where
  "isCountryCode s \<longleftrightarrow>
     length s = 2 \<and> list_all (\<lambda>(r, _). 65 \<le> r \<and> r \<le> 90) (runes s)"

fun first_country :: "json_object \<Rightarrow> string list \<Rightarrow> string" where
  "first_country f [] = []"
| "first_country f (key # keys) =
     (let s = ToUpper (geo_text (f key)) in if isCountryCode s then s else first_country f keys)"

definition geo_country :: "json_object \<Rightarrow> string" where
  "geo_country f = first_country f [''country_code'', ''countryCode'', ''country'']"

definition isDigits :: "string \<Rightarrow> bool" where
  "isDigits s \<longleftrightarrow> s \<noteq> [] \<and> list_all (\<lambda>(r, _). 48 \<le> r \<and> r \<le> 57) (runes s)"

definition asnFromString :: "string \<Rightarrow> string" where
  "asnFromString s =
     (case strings_Fields s of
        [] \<Rightarrow> []
      | w # _ \<Rightarrow>
          let first = ToUpper w
          in if take 2 first = ''AS'' \<and> isDigits (drop 2 first) then first
             else if isDigits first then ''AS'' @ first
             else [])"

text \<open>A number is read with \<^verbatim>\<open>json.Number.Int64\<close>, which accepts what \<open>Atoi\<close> accepts.\<close>

fun first_asn :: "json_object \<Rightarrow> string list \<Rightarrow> string" where
  "first_asn f [] = []"
| "first_asn f (key # keys) =
     (case f key of
        Some (JNumber v) \<Rightarrow>
          (case Atoi v of Some n \<Rightarrow> ''AS'' @ FormatInt n | None \<Rightarrow> first_asn f keys)
      | Some (JString v) \<Rightarrow>
          (let s = asnFromString v in if s \<noteq> [] then s else first_asn f keys)
      | _ \<Rightarrow> first_asn f keys)"

definition geo_asn :: "json_object \<Rightarrow> string" where
  "geo_asn f = first_asn f [''asn'', ''as'', ''org'']"

definition geo_parse :: "(string \<Rightarrow> json_object option) \<Rightarrow> string \<Rightarrow> Geo option" where
  "geo_parse decode body =
     (case decode body of
        None \<Rightarrow> None
      | Some f \<Rightarrow>
          let g = \<lparr> geo_Country = geo_country f, geo_City = geo_text (f ''city''), geo_ASN = geo_asn f \<rparr>
          in if g = \<lparr> geo_Country = [], geo_City = [], geo_ASN = [] \<rparr> then None else Some g)"

section \<open>The request\<close>

text \<open>\<^verbatim>\<open>strings.ReplaceAll\<close> of the placeholder.\<close>

fun replace_ip :: "string \<Rightarrow> string \<Rightarrow> string" where
  "replace_ip esc [] = []"
| "replace_ip esc (c # cs) =
     (if take 4 (c # cs) = ''{ip}'' then esc @ replace_ip esc (drop 4 (c # cs)) else c # replace_ip esc cs)"

fun has_ip :: "string \<Rightarrow> bool" where
  "has_ip [] = False"
| "has_ip (c # cs) = (take 4 (c # cs) = ''{ip}'' \<or> has_ip cs)"

text \<open>\<open>escape\<close> is \<^verbatim>\<open>url.PathEscape\<close>.\<close>

definition lookupURL :: "(string \<Rightarrow> string) \<Rightarrow> string \<Rightarrow> string \<Rightarrow> string" where
  "lookupURL escape url ip =
     (if has_ip url then replace_ip (escape ip) url
      else TrimRight_byte CHR ''/'' url @ ''/'' @ escape ip)"

definition geo_maxBody :: nat where "geo_maxBody = 65536"

text \<open>One exchange with the provider: it fails, or gives a status and a body that may break off.\<close>

datatype geo_exchange = GeoNoAnswer | GeoAnswer nat "string option"

definition geo_fetch :: "(string \<Rightarrow> json_object option) \<Rightarrow> geo_exchange \<Rightarrow> Geo option" where
  "geo_fetch decode x =
     (case x of
        GeoNoAnswer \<Rightarrow> None
      | GeoAnswer status body \<Rightarrow>
          if status < 200 \<or> 300 \<le> status then None
          else (case body of None \<Rightarrow> None | Some b \<Rightarrow> geo_parse decode (take geo_maxBody b)))"

section \<open>The cache\<close>

definition positiveTTL :: duration where "positiveTTL = 24 * Hour"

definition negativeTTL :: duration where "negativeTTL = Hour"

definition maxEntries :: nat where "maxEntries = 10000"

record geo_entry =
  gn_geo :: "Geo option"
  gn_expiresAt :: time

record GeoClient =
  gk_url :: string
  gk_cache :: "geo_entry gomap"

definition geo_New :: "string \<Rightarrow> GeoClient" where
  "geo_New lookup = \<lparr> gk_url = TrimSpace lookup, gk_cache = [] \<rparr>"

definition geo_cached :: "string \<Rightarrow> time \<Rightarrow> GeoClient \<Rightarrow> Geo option option" where
  "geo_cached key now c =
     (case map_of (gk_cache c) key of
        None \<Rightarrow> None
      | Some e \<Rightarrow> if \<not> now < gn_expiresAt e then None else Some (gn_geo e))"

definition geo_remember :: "string \<Rightarrow> Geo option \<Rightarrow> time \<Rightarrow> GeoClient \<Rightarrow> GeoClient" where
  "geo_remember key g now c =
     (let ttl = (if g \<noteq> None then positiveTTL else negativeTTL);
          cache = (if maxEntries \<le> length (gk_cache c) then [] else gk_cache c)
      in c\<lparr> gk_cache := map_put key \<lparr> gn_geo = g, gn_expiresAt = now + ttl \<rparr> cache \<rparr>)"

text \<open>A lookup: \<open>ask\<close> is the exchange for a URL, \<open>gave_up\<close> whether the caller's context ended during it,
  \<open>t0\<close> and \<open>t1\<close> the clock before and after. The second component says whether the provider was asked.\<close>

definition geo_Lookup ::
  "(string \<Rightarrow> string) \<Rightarrow> (string \<Rightarrow> json_object option) \<Rightarrow> (string \<Rightarrow> geo_exchange) \<Rightarrow> bool \<Rightarrow> time \<Rightarrow> time \<Rightarrow>
     string \<Rightarrow> GeoClient \<Rightarrow> GeoClient \<times> string list \<times> Geo option" where
  "geo_Lookup escape decode ask gave_up t0 t1 ip c =
     (if gk_url c = [] then (c, [], None)
      else (case routable ip of
              None \<Rightarrow> (c, [], None)
            | Some addr \<Rightarrow>
                let key = Addr_String addr in
                (case geo_cached key t0 c of
                   Some g \<Rightarrow> (c, [], g)
                 | None \<Rightarrow>
                     let url = lookupURL escape (gk_url c) key;
                         g = geo_fetch decode (ask url)
                     in if gave_up then (c, [url], None)
                        else (geo_remember key g t1 c, [url], g))))"

end
