(* ===== verification/Geo_Props.thy ===== *)
theory Geo_Props
  imports Geo_Lookup
begin

text \<open>
  The properties of the geo client: what its cache may answer, how large it grows, which addresses never
  leave the backend, and the form of a country code it reports.
\<close>

section \<open>Histories of the cache\<close>

text \<open>The states a client reaches: lookups may run at the same time, but each changes the cache only by
  remembering the answer of its own exchange. The history lists these answers with their times.\<close>

type_synonym geo_history = "(string \<times> Geo option \<times> time) list"

inductive geo_reach :: "string \<Rightarrow> GeoClient \<Rightarrow> geo_history \<Rightarrow> time \<Rightarrow> bool" for url where
  start: "geo_reach url (geo_New url) [] now"
| remember: "geo_reach url (geo_remember key g t c) ((key, g, t) # hist) t"
    if "geo_reach url c hist now" "now \<le> t"

definition geo_ttl :: "Geo option \<Rightarrow> duration" where
  "geo_ttl g = (if g = None then Hour else 24 * Hour)"

definition geo_inv :: "GeoClient \<Rightarrow> geo_history \<Rightarrow> time \<Rightarrow> bool" where
  "geo_inv c hist now \<longleftrightarrow>
     length (gk_cache c) \<le> maxEntries \<and>
     (\<forall>key e. map_of (gk_cache c) key = Some e \<longrightarrow>
        (\<exists>t. (key, gn_geo e, t) \<in> set hist \<and> t \<le> now \<and> gn_expiresAt e = t + geo_ttl (gn_geo e)))"

lemma length_map_put: "length (map_put k v m) \<le> Suc (length m)"
  by (induction m) (auto simp: map_put_def)

lemma geo_inv_remember:
  assumes "geo_inv c hist now" "now \<le> t"
  shows "geo_inv (geo_remember key g t c) ((key, g, t) # hist) t"
proof -
  define cache where "cache = (if maxEntries \<le> length (gk_cache c) then [] else gk_cache c)"
  have c': "gk_cache (geo_remember key g t c)
      = map_put key \<lparr> gn_geo = g, gn_expiresAt = t + geo_ttl g \<rparr> cache"
    by (simp add: geo_remember_def cache_def geo_ttl_def positiveTTL_def negativeTTL_def)
  have "length cache < maxEntries" by (simp add: cache_def maxEntries_def)
  then have "length (gk_cache (geo_remember key g t c)) \<le> maxEntries"
    using length_map_put [of key _ cache] unfolding c' by (meson Suc_leI le_trans)
  moreover have "map_of cache k = Some e \<Longrightarrow> map_of (gk_cache c) k = Some e" for k e
    by (simp add: cache_def split: if_splits)
  ultimately show ?thesis
    using assms unfolding geo_inv_def c'
    by (fastforce split: if_splits)
qed

lemma geo_reach_inv: "geo_reach url c hist now \<Longrightarrow> geo_inv c hist now"
proof (induction rule: geo_reach.induct)
  case (start now)
  show ?case by (simp add: geo_inv_def geo_New_def)
next
  case (remember c hist now t key g)
  then show ?case by (intro geo_inv_remember)
qed

lemma geo_cachedD:
  assumes "geo_inv c hist now" "now \<le> t0" "geo_cached key t0 c = Some g"
  shows "\<exists>t. (key, g, t) \<in> set hist \<and> t \<le> t0 \<and> t0 < t + geo_ttl g"
  using assms by (fastforce simp: geo_inv_def geo_cached_def split: option.splits if_splits)

lemma geo_Lookup_cases:
  assumes "geo_Lookup escape decode ask gave_up t0 t1 ip c = (c', urls, g)" "gk_url c \<noteq> []"
  obtains "routable ip = None" "c' = c" "urls = []" "g = None"
  | addr where "routable ip = Some addr" "geo_cached (Addr_String addr) t0 c = Some g" "c' = c" "urls = []"
  | addr url where "routable ip = Some addr" "geo_cached (Addr_String addr) t0 c = None"
      "url = lookupURL escape (gk_url c) (Addr_String addr)" "urls = [url]"
      "gave_up \<and> c' = c \<and> g = None \<or>
       \<not> gave_up \<and> g = geo_fetch decode (ask url) \<and> c' = geo_remember (Addr_String addr) g t1 c"
proof (cases "routable ip")
  case None
  then show ?thesis using assms by (intro that(1)) (simp_all add: geo_Lookup_def)
next
  case r: (Some addr)
  show ?thesis
  proof (cases "geo_cached (Addr_String addr) t0 c")
    case None
    show ?thesis
      by (rule that(3) [OF r None refl]) (use assms r None in \<open>auto simp: geo_Lookup_def Let_def split: if_splits\<close>)
  next
    case (Some g')
    then show ?thesis using assms r by (intro that(2)) (simp_all add: geo_Lookup_def Let_def)
  qed
qed

text \<open>C36: A geo answer is never stale and the cache never grows without bound. After any history of lookups,
  a lookup of an address that a provider cannot locate gives nothing without a request; an answer without a
  request is one the provider gave for this very address, less than a day ago when it located it and less
  than an hour ago when it did not; otherwise exactly one request goes out and its outcome is the answer,
  remembered unless the caller had given up. The cache holds at most 10000 entries throughout.\<close>

theorem geo_answers_are_fresh:
  assumes "geo_reach url c hist now" "now \<le> t0" "t0 \<le> t1" "gk_url c \<noteq> []"
    and "geo_Lookup escape decode ask gave_up t0 t1 ip c = (c', urls, g)"
  shows "length (gk_cache c') \<le> 10000 \<and>
    (case routable ip of
       None \<Rightarrow> urls = [] \<and> g = None \<and> c' = c
     | Some addr \<Rightarrow>
         (urls = [] \<and> c' = c \<and>
          (\<exists>t. (Addr_String addr, g, t) \<in> set hist \<and> t \<le> t0 \<and>
               t0 < t + (if g = None then Hour else 24 * Hour))) \<or>
         (urls = [lookupURL escape (gk_url c) (Addr_String addr)] \<and>
          (if gave_up then c' = c \<and> g = None
           else g = geo_fetch decode (ask (hd urls)) \<and>
                geo_reach url c' ((Addr_String addr, g, t1) # hist) t1)))"
proof -
  have inv: "geo_inv c hist now" using assms(1) by (rule geo_reach_inv)
  have size: "length (gk_cache c) \<le> 10000" using inv by (simp add: geo_inv_def maxEntries_def)
  from assms(5,4) show ?thesis
  proof (cases rule: geo_Lookup_cases)
    case 1
    then show ?thesis using size by simp
  next
    case (2 addr)
    then show ?thesis using size geo_cachedD [OF inv assms(2) 2(2)] by (simp add: geo_ttl_def)
  next
    case (3 addr u)
    have rem: "geo_reach url (geo_remember (Addr_String addr) g t1 c) ((Addr_String addr, g, t1) # hist) t1"
      using geo_reach.remember [OF assms(1) order_trans [OF assms(2,3)]] .
    then have "length (gk_cache (geo_remember (Addr_String addr) g t1 c)) \<le> 10000"
      by (auto dest!: geo_reach_inv simp: geo_inv_def maxEntries_def)
    then show ?thesis using 3 size rem by auto
  qed
qed

definition ex_located :: Geo where
  "ex_located = \<lparr> geo_Country = ''FR'', geo_City = [], geo_ASN = ''AS3215'' \<rparr>"

lemma ex_routable: "routable ''8.8.4.4'' = Some (Addr4 [8, 8, 4, 4])"
proof -
  have t: "TrimSpace ''8.8.4.4'' = ''8.8.4.4''" by (rule TrimSpace_printable) simp
  have p: "ParseAddr ''8.8.4.4'' = Some (Addr4 [8, 8, 4, 4])"
    by (simp add: ParseAddr_def parseIPv4Fields_def is_digit_def)
  show ?thesis
    by (simp add: routable_def t p Addr_NoZone_def Addr_Unmap_def IsLoopback_def IsPrivate_def IsUnspecified_def
        IsMulticast_def IsLinkLocalUnicast_def IsLinkLocalMulticast_def IsInterfaceLocalMulticast_def)
qed

lemma ex_key: "Addr_String (Addr4 [8, 8, 4, 4]) = ''8.8.4.4''"
  by code_simp

lemma ex_geo_url: "TrimSpace ''http://geo'' = ''http://geo''"
  by (rule TrimSpace_printable) simp

theorem geo_answers_are_fresh_witness:
  "\<exists>c hist c'. geo_reach ''http://geo'' c hist 5 \<and>
     geo_Lookup (\<lambda>s. s) (\<lambda>_. None) (\<lambda>_. GeoNoAnswer) False (3 * Hour) (3 * Hour) ''8.8.4.4'' c
       = (c', [], Some ex_located) \<and>
     length (gk_cache c') \<le> 10000 \<and> (''8.8.4.4'', Some ex_located, 5) \<in> set hist"
proof -
  define c where "c = geo_remember ''8.8.4.4'' (Some ex_located) 5 (geo_New ''http://geo'')"
  have r: "geo_reach ''http://geo'' c [(''8.8.4.4'', Some ex_located, 5)] 5"
    unfolding c_def by (rule geo_reach.remember [OF geo_reach.start [of _ 0]]) simp
  have url: "gk_url c \<noteq> []" unfolding c_def by (simp add: geo_remember_def geo_New_def ex_geo_url)
  have l: "geo_Lookup (\<lambda>s. s) (\<lambda>_. None) (\<lambda>_. GeoNoAnswer) False (3 * Hour) (3 * Hour) ''8.8.4.4'' c
      = (c, [], Some ex_located)"
    using url
    by (simp add: geo_Lookup_def ex_routable ex_key geo_cached_def c_def geo_remember_def geo_New_def Let_def
        positiveTTL_def maxEntries_def)
  have "length (gk_cache c) \<le> 10000"
    using geo_answers_are_fresh [OF r _ _ url l] by simp
  with r l show ?thesis
    by (intro exI [of _ c] exI [of _ "[(''8.8.4.4'', Some ex_located, 5)]"]) simp
qed

section \<open>Reading an answer\<close>

abbreviation capital :: "char \<Rightarrow> bool" where
  "capital c \<equiv> 65 \<le> (of_char c :: nat) \<and> (of_char c :: nat) \<le> 90"

text \<open>A rune decoded as an ASCII character comes from the byte of that character: longer encodings of it, and
  broken ones, decode to something else.\<close>

lemma mod_window: "q * m \<le> b \<Longrightarrow> b < q * m + m \<Longrightarrow> b mod m = b - q * m" for b m q :: nat
proof -
  assume "q * m \<le> b" "b < q * m + m"
  then have "b mod m = (b - q * m + q * m) mod m" "b - q * m < m" by simp_all
  then show ?thesis by simp
qed

lemma lead2: "0xC2 \<le> b \<Longrightarrow> b \<le> 0xDF \<Longrightarrow> 2 \<le> b mod 32" for b :: nat
  using mod_window [of 6 32 b] by simp

lemma lead3: "0xE1 \<le> b \<Longrightarrow> b \<le> 0xEF \<Longrightarrow> 1 \<le> b mod 16" for b :: nat
  using mod_window [of 14 16 b] by simp

lemma lead4: "0xF1 \<le> b \<Longrightarrow> b \<le> 0xF4 \<Longrightarrow> 1 \<le> b mod 8" for b :: nat
  using mod_window [of 30 8 b] by simp

lemma cont3: "0xA0 \<le> b \<Longrightarrow> b \<le> 0xBF \<Longrightarrow> 32 \<le> b mod 64" for b :: nat
  using mod_window [of 2 64 b] by simp

lemma cont4: "0x90 \<le> b \<Longrightarrow> b \<le> 0xBF \<Longrightarrow> 16 \<le> b mod 64" for b :: nat
  using mod_window [of 2 64 b] by simp

lemma decode_rune_ascii:
  assumes "fst (decode_rune (b # bs)) < 0x80"
  shows "b < 0x80"
proof (rule ccontr)
  assume b: "\<not> b < 0x80"
  show False
  proof (cases "0xE0 \<le> b \<and> b \<le> 0xEF \<or> 0xF0 \<le> b \<and> b \<le> 0xF4")
    case False
    then show False
      using assms b lead2 [of b] by (auto simp: RuneError_def split: list.splits if_splits)
  next
    case True
    then show False
      using assms lead3 [of b] lead4 [of b]
      by (auto simp: RuneError_def is_cont_def dest: cont3 cont4 split: list.splits if_splits)
  qed
qed

lemma runes_all_ascii:
  "list_all (\<lambda>(r, _). r < 0x80) (runes s) \<Longrightarrow> runes s = map (\<lambda>c. (of_char c, [c])) s"
proof (induction s rule: runes.induct)
  case (2 c cs)
  have c: "(of_char c :: nat) < 0x80"
    using 2(2) decode_rune_ascii [of "of_char c" "bytes_of cs"]
    by (auto simp: bytes_of_def Let_def simp del: decode_rune.simps)
  then show ?case using 2 by (simp add: bytes_of_def Let_def)
qed simp

lemma isCountryCode_capitals:
  assumes "isCountryCode s"
  obtains a b where "s = [a, b]" "capital a" "capital b"
proof -
  have "runes s = map (\<lambda>c. (of_char c, [c])) s"
    using assms by (intro runes_all_ascii) (auto simp: isCountryCode_def list_all_iff)
  then show ?thesis
    using assms that by (auto simp: isCountryCode_def numeral_2_eq_2 length_Suc_conv)
qed

lemma first_country_code: "first_country f keys = [] \<or> isCountryCode (first_country f keys)"
  by (induction keys) (auto simp: Let_def)

text \<open>What a located answer says. When the provider's answer yields a location, the answer had a 2xx
  status and was read whole or up to its first 64 KiB; the country is empty or exactly two capital letters,
  whatever text and encoding the provider sent, so it can be compared with a country rule; and at least one
  of country, city and network is known.\<close>

theorem geo_country_is_a_code:
  assumes "geo_fetch decode x = Some g"
  shows "(\<exists>status body f. x = GeoAnswer status (Some body) \<and> 200 \<le> status \<and> status < 300 \<and>
      decode (take 65536 body) = Some f \<and> geo_Country g = geo_country f) \<and>
    (geo_Country g = [] \<or> (\<exists>a b. geo_Country g = [a, b] \<and> capital a \<and> capital b)) \<and>
    (geo_Country g \<noteq> [] \<or> geo_City g \<noteq> [] \<or> geo_ASN g \<noteq> [])"
proof -
  obtain status body f where x: "x = GeoAnswer status (Some body)" "200 \<le> status" "status < 300"
    and f: "decode (take 65536 body) = Some f"
    and g: "g = \<lparr> geo_Country = geo_country f, geo_City = geo_text (f ''city''), geo_ASN = geo_asn f \<rparr>"
      "g \<noteq> \<lparr> geo_Country = [], geo_City = [], geo_ASN = [] \<rparr>"
    using assms
    by (auto simp: geo_fetch_def geo_parse_def geo_maxBody_def Let_def
        split: geo_exchange.splits option.splits if_splits)
  have "geo_Country g = [] \<or> (\<exists>a b. geo_Country g = [a, b] \<and> capital a \<and> capital b)"
    using first_country_code [of f "[''country_code'', ''countryCode'', ''country'']"]
    by (auto simp: g(1) geo_country_def elim: isCountryCode_capitals)
  then show ?thesis using x f g by auto
qed

definition ex_geo_object :: json_object where
  "ex_geo_object k = (if k = ''country'' then Some (JString ''FR'') else None)"

lemma ex_geo_parsed:
  "geo_fetch (\<lambda>_. Some ex_geo_object) (GeoAnswer 200 (Some []))
     = Some \<lparr> geo_Country = ''FR'', geo_City = [], geo_ASN = [] \<rparr>"
proof -
  have t: "TrimSpace ''FR'' = ''FR''" by (rule TrimSpace_printable) simp
  have r: "runes ''FR'' = [(70, ''F''), (82, ''R'')]" by (subst runes_ascii) simp_all
  have e: "ToUpper [] = []" by (simp add: ToUpper_def strings_Map_def)
  have u: "ToUpper ''FR'' = ''FR''"
    by (simp add: ToUpper_def strings_Map_def r upper_rune_def encode_rune_def) code_simp
  have c: "isCountryCode ''FR''" "\<not> isCountryCode []"
    by (simp_all add: isCountryCode_def r del: runes.simps)
  show ?thesis
    by (simp add: geo_fetch_def geo_parse_def geo_country_def geo_asn_def geo_text_def ex_geo_object_def t u c e
        Let_def)
qed

theorem geo_country_is_a_code_witness:
  "\<exists>g. geo_fetch (\<lambda>_. Some ex_geo_object) (GeoAnswer 200 (Some [])) = Some g \<and> geo_Country g = ''FR'' \<and>
     (geo_Country g = [] \<or> (\<exists>a b. geo_Country g = [a, b] \<and> capital a \<and> capital b))"
proof (intro exI conjI)
  show "geo_fetch (\<lambda>_. Some ex_geo_object) (GeoAnswer 200 (Some []))
      = Some \<lparr> geo_Country = ''FR'', geo_City = [], geo_ASN = [] \<rparr>"
    by (rule ex_geo_parsed)
  show "geo_Country \<lparr> geo_Country = ''FR'', geo_City = [], geo_ASN = [] \<rparr> = ''FR''" by simp
  show "geo_Country \<lparr> geo_Country = ''FR'', geo_City = [], geo_ASN = [] \<rparr> = [] \<or>
      (\<exists>a b. geo_Country \<lparr> geo_Country = ''FR'', geo_City = [], geo_ASN = [] \<rparr> = [a, b] \<and> capital a \<and> capital b)"
    using geo_country_is_a_code [OF ex_geo_parsed] by (elim conjE)
qed

end
