(* ===== verification/Base64.thy ===== *)
theory Base64
  imports Prelude Go_Strings
begin

text \<open>
  Base64url without padding (\<^verbatim>\<open>base64.RawURLEncoding\<close>), which the backend uses for JWTs and for the tokens
  of enrolled servers: its alphabet, its length, and that no two byte strings share an encoding.
\<close>

text \<open>\<^verbatim>\<open>base64.RawURLEncoding\<close>: six bits per character, no padding.\<close>

definition b64_char :: "nat \<Rightarrow> char" where
  "b64_char n =
     (if n < 26 then char_of (65 + n) else if n < 52 then char_of (71 + n) else if n < 62 then char_of (n - 4)
      else if n = 62 then CHR ''-'' else CHR ''_'')"

fun b64_bytes :: "nat list \<Rightarrow> string" where
  "b64_bytes [] = []"
| "b64_bytes [a] = [b64_char (a div 4), b64_char (a mod 4 * 16)]"
| "b64_bytes [a, b] = [b64_char (a div 4), b64_char (a mod 4 * 16 + b div 16), b64_char (b mod 16 * 4)]"
| "b64_bytes (a # b # c # rest) =
     b64_char (a div 4) # b64_char (a mod 4 * 16 + b div 16) # b64_char (b mod 16 * 4 + c div 64) #
     b64_char (c mod 64) # b64_bytes rest"

definition b64_alphabet :: "char \<Rightarrow> bool" where
  "b64_alphabet c \<longleftrightarrow> (let n = (of_char c :: nat) in
     (65 \<le> n \<and> n \<le> 90) \<or> (97 \<le> n \<and> n \<le> 122) \<or> (48 \<le> n \<and> n \<le> 57) \<or> n = 45 \<or> n = 95)"

lemma of_char_b64: "n < 64 \<Longrightarrow> (of_char (b64_char n) :: nat) =
    (if n < 26 then 65 + n else if n < 52 then 71 + n else if n < 62 then n - 4 else if n = 62 then 45 else 95)"
  by (simp add: b64_char_def)

lemma b64_char_inj: "m < 64 \<Longrightarrow> n < 64 \<Longrightarrow> b64_char m = b64_char n \<longleftrightarrow> m = n"
proof
  assume lt: "m < 64" "n < 64" and "b64_char m = b64_char n"
  then have "(of_char (b64_char m) :: nat) = of_char (b64_char n)" by simp
  then show "m = n" unfolding of_char_b64 [OF lt(1)] of_char_b64 [OF lt(2)] using lt by (simp split: if_splits)
qed simp

lemma b64_char_alphabet: "n < 64 \<Longrightarrow> b64_alphabet (b64_char n)"
  by (auto simp: b64_alphabet_def of_char_b64 Let_def)

text \<open>The sextets of three bytes are below 64 and give the bytes back.\<close>

lemma b64_sextets:
  "a < 256 \<Longrightarrow> a div 4 < 64" "a mod 4 * 16 < 64" "b < 256 \<Longrightarrow> a mod 4 * 16 + b div 16 < 64" "b mod 16 * 4 < 64"
  "c < 256 \<Longrightarrow> b mod 16 * 4 + c div 64 < 64" "c mod 64 < 64" for a b c :: nat
  by (auto simp: less_mult_imp_div_less intro!: less_mult_imp_div_less) (presburger+)?

lemma b64_bytes_alphabet: "list_all (\<lambda>b. b < 256) bs \<Longrightarrow> list_all b64_alphabet (b64_bytes bs)"
  by (induction bs rule: b64_bytes.induct) (simp_all add: b64_char_alphabet b64_sextets)

lemma length_b64_bytes: "length (b64_bytes bs) = (4 * length bs + 2) div 3"
  by (induction bs rule: b64_bytes.induct) simp_all

lemma split_base: "a * m + b = a' * m + b' \<longleftrightarrow> a = a' \<and> b = b'" if "b < m" "b' < m" for a b a' b' m :: nat
proof
  assume "a * m + b = a' * m + b'"
  then have "(b + a * m) mod m = (b' + a' * m) mod m" "(b + a * m) div m = (b' + a' * m) div m"
    by (simp_all add: add.commute)
  then show "a = a' \<and> b = b'" using that by simp
qed simp

lemma div_mod_eqI: "a div m = a' div m \<Longrightarrow> a mod m = a' mod m \<Longrightarrow> a = a'" for a a' m :: nat
  by (metis div_mult_mod_eq)

lemma div16_small: "b < 256 \<Longrightarrow> b div 16 < 16" "c < 256 \<Longrightarrow> c div 64 < 4" for b c :: nat
  by simp_all

lemma b64_two: "a mod 4 * 16 + b div 16 = a' mod 4 * 16 + b' div 16 \<longleftrightarrow> a mod 4 = a' mod 4 \<and> b div 16 = b' div 16"
  if "b < 256" "b' < 256" for a b a' b' :: nat
  using split_base [of "b div 16" 16 "b' div 16"] that by simp

lemma b64_three: "b mod 16 * 4 + c div 64 = b' mod 16 * 4 + c' div 64 \<longleftrightarrow> b mod 16 = b' mod 16 \<and> c div 64 = c' div 64"
  if "c < 256" "c' < 256" for b c b' c' :: nat
  using split_base [of "c div 64" 4 "c' div 64"] that by simp

lemma b64_bytes_inj:
  "list_all (\<lambda>b. b < 256) xs \<Longrightarrow> list_all (\<lambda>b. b < 256) ys \<Longrightarrow> b64_bytes xs = b64_bytes ys \<Longrightarrow> xs = ys"
proof (induction xs arbitrary: ys rule: b64_bytes.induct)
  case 1
  then show ?case by (cases ys rule: b64_bytes.cases) auto
next
  case (2 a)
  then show ?case
    by (cases ys rule: b64_bytes.cases) (auto simp: b64_char_inj b64_sextets intro: div_mod_eqI)
next
  case (3 a b)
  then show ?case
    by (cases ys rule: b64_bytes.cases) (auto simp: b64_char_inj b64_sextets b64_two intro: div_mod_eqI)
next
  case (4 a b c rest)
  then show ?case
    by (cases ys rule: b64_bytes.cases) (auto simp: b64_char_inj b64_sextets b64_two b64_three intro: div_mod_eqI)
qed

lemma b64_dot: "\<not> b64_alphabet CHR ''.''"
  by (simp add: b64_alphabet_def)

end
