(* ===== verification/Fcm.thy ===== *)
theory Fcm
  imports Store Sha256 Base64
begin

text \<open>
  The FCM client (\<^verbatim>\<open>backend/internal/fcm/fcm.go\<close> and \<^verbatim>\<open>token.go\<close>): the service account key, the signed JWT,
  the cached access token, and a send with its one retry after a 401. PEM, X.509, RSA and JSON are parameters;
  base64url is written out. A goroutine takes the client's lock twice at most per attempt, so a send is modelled
  with the changes other goroutines make to the client between its own locked regions.
\<close>

section \<open>Base64url\<close>

definition b64 :: "string \<Rightarrow> string" where
  "b64 v = b64_bytes (map of_char v)"

section \<open>The service account key\<close>

text \<open>What the key file holds, and the functions of \<^verbatim>\<open>encoding/pem\<close>, \<^verbatim>\<open>crypto/x509\<close>, \<^verbatim>\<open>crypto/rsa\<close> and
  \<^verbatim>\<open>encoding/json\<close> the client calls. A PKCS#8 block holds an RSA key (\<open>Some (Some k)\<close>) or another kind of key
  (\<open>Some None\<close>); signing takes the SHA-256 digest.\<close>

record key_file =
  kf_ClientEmail :: string
  kf_PrivateKey :: string
  kf_TokenURI :: string

record jwtClaims =
  jc_Iss :: string
  jc_Scope :: string
  jc_Aud :: string
  jc_Iat :: int
  jc_Exp :: int

record androidConfig =
  an_Priority :: string
  an_TTL :: string

record fcm_message =
  fm_Token :: string
  fm_Data :: "(string \<times> string) list"
  fm_Android :: androidConfig

record errorResponse =
  er_Status :: string
  er_ErrorCodes :: "string list"

record tokenResponse =
  tr_AccessToken :: string
  tr_ExpiresIn :: int

record 'k FcmLib =
  fl_key_file :: "string \<Rightarrow> key_file option"
  fl_pem :: "string \<Rightarrow> string option"
  fl_pkcs8 :: "string \<Rightarrow> 'k option option"
  fl_pkcs1 :: "string \<Rightarrow> 'k option"
  fl_sign :: "'k \<Rightarrow> w32 list \<Rightarrow> string option"
  fl_claims :: "jwtClaims \<Rightarrow> string option"
  fl_message :: "fcm_message \<Rightarrow> string option"
  fl_error :: "string \<Rightarrow> errorResponse option"
  fl_token :: "string \<Rightarrow> tokenResponse option"

datatype key_error = NoProjectID | KeyNotJSON | NoClientEmail | NoPrivateKey | KeyNotPEM | KeyNotRSA | KeyUnreadable

record 'k serviceAccount =
  sa_email :: string
  sa_key :: 'k
  sa_tokenURI :: string

definition defaultTokenURL :: string where "defaultTokenURL = ''https://oauth2.googleapis.com/token''"
definition grantType :: string where "grantType = ''urn:ietf:params:oauth:grant-type:jwt-bearer''"
definition fcm_scope :: string where "fcm_scope = ''https://www.googleapis.com/auth/firebase.messaging''"
definition jwtLifetime :: duration where "jwtLifetime = Hour"
definition refreshMargin :: duration where "refreshMargin = Minute"
definition messageTTL :: string where "messageTTL = ''60s''"
definition errExcerpt :: nat where "errExcerpt = 200"
definition fcm_maxBody :: nat where "fcm_maxBody = 65536"

definition parsePrivateKey :: "'k FcmLib \<Rightarrow> string \<Rightarrow> (key_error, 'k) result" where
  "parsePrivateKey L pemText =
     (case fl_pem L pemText of
        None \<Rightarrow> Inl KeyNotPEM
      | Some der \<Rightarrow>
          (case fl_pkcs8 L der of
             Some (Some k) \<Rightarrow> Inr k
           | Some None \<Rightarrow> Inl KeyNotRSA
           | None \<Rightarrow> (case fl_pkcs1 L der of None \<Rightarrow> Inl KeyUnreadable | Some k \<Rightarrow> Inr k)))"

definition parseServiceAccount :: "'k FcmLib \<Rightarrow> string \<Rightarrow> (key_error, 'k serviceAccount) result" where
  "parseServiceAccount L raw =
     (case fl_key_file L raw of
        None \<Rightarrow> Inl KeyNotJSON
      | Some f \<Rightarrow>
          if kf_ClientEmail f = [] then Inl NoClientEmail
          else if kf_PrivateKey f = [] then Inl NoPrivateKey
          else (case parsePrivateKey L (kf_PrivateKey f) of
                  Inl e \<Rightarrow> Inl e
                | Inr k \<Rightarrow>
                    Inr \<lparr> sa_email = kf_ClientEmail f, sa_key = k,
                          sa_tokenURI = (if kf_TokenURI f = [] then defaultTokenURL else kf_TokenURI f) \<rparr>))"

section \<open>The client\<close>

record 'k FcmClient =
  fk_SendURL :: string
  fk_TokenURL :: string
  fk_email :: string
  fk_key :: 'k
  fk_accessToken :: string
  fk_expiresAt :: time

definition fcm_New :: "'k FcmLib \<Rightarrow> string \<Rightarrow> string \<Rightarrow> (key_error, 'k FcmClient) result" where
  "fcm_New L projectID serviceAccountJSON =
     (if TrimSpace projectID = [] then Inl NoProjectID
      else (case parseServiceAccount L serviceAccountJSON of
              Inl e \<Rightarrow> Inl e
            | Inr sa \<Rightarrow>
                Inr \<lparr> fk_SendURL = ''https://fcm.googleapis.com/v1/projects/'' @ projectID @ ''/messages:send'',
                      fk_TokenURL = sa_tokenURI sa, fk_email = sa_email sa, fk_key = sa_key sa,
                      fk_accessToken = [], fk_expiresAt = ZeroTime \<rparr>))"

section \<open>The access token\<close>

definition time_Unix :: "time \<Rightarrow> int" where
  "time_Unix t = t div Second"

text \<open>Failures of a token request and of a send.\<close>

datatype token_error = ClaimsFailed | SignFailed | TokenNoAnswer | TokenUnread | TokenStatus nat string
  | TokenNotJSON | TokenMissing

datatype send_error = EmptyDeviceToken | EncodeFailed | NoAccessToken token_error | SendNoAnswer | SendUnread
  | ErrUnregistered | SendFailed nat string

text \<open>One HTTP exchange: no answer (the request cannot be built or sent), or a status with a body that may
  break off.\<close>

datatype fcm_exchange = FcmNoAnswer | FcmAnswer nat "string option"

definition signJWT :: "'k FcmLib \<Rightarrow> time \<Rightarrow> 'k FcmClient \<Rightarrow> (token_error, string) result" where
  "signJWT L now c =
     (let header = b64 ''{\"alg\":\"RS256\",\"typ\":\"JWT\"}'' in
      case fl_claims L \<lparr> jc_Iss = fk_email c, jc_Scope = fcm_scope, jc_Aud = fk_TokenURL c,
                         jc_Iat = time_Unix now, jc_Exp = time_Unix (now + jwtLifetime) \<rparr> of
        None \<Rightarrow> Inl ClaimsFailed
      | Some claims \<Rightarrow>
          let signingInput = header @ ''.'' @ b64 claims in
          (case fl_sign L (fk_key c) (sha256 (map of_char signingInput)) of
             None \<Rightarrow> Inl SignFailed
           | Some sig \<Rightarrow> Inr (signingInput @ ''.'' @ b64 sig)))"

definition fcm_excerpt :: "string \<Rightarrow> string" where
  "fcm_excerpt body =
     (let s = strings_Join (strings_Fields body) '' ''
      in if errExcerpt < length s then take errExcerpt s @ ''...'' else s)"

text \<open>The form that goes to the token endpoint: its two values.\<close>

type_synonym token_endpoint = "string \<Rightarrow> (string \<times> string) list \<Rightarrow> fcm_exchange"

definition mint :: "'k FcmLib \<Rightarrow> token_endpoint \<Rightarrow> time \<Rightarrow> 'k FcmClient \<Rightarrow> (token_error, string \<times> duration) result" where
  "mint L ask now c =
     (case signJWT L now c of
        Inl e \<Rightarrow> Inl e
      | Inr assertion \<Rightarrow>
          (case ask (fk_TokenURL c) [(''grant_type'', grantType), (''assertion'', assertion)] of
             FcmNoAnswer \<Rightarrow> Inl TokenNoAnswer
           | FcmAnswer status None \<Rightarrow> Inl TokenUnread
           | FcmAnswer status (Some full) \<Rightarrow>
               let body = take fcm_maxBody full in
               if status < 200 \<or> 300 \<le> status then Inl (TokenStatus status (fcm_excerpt body))
               else (case fl_token L body of
                       None \<Rightarrow> Inl TokenNotJSON
                     | Some tr \<Rightarrow>
                         if tr_AccessToken tr = [] then Inl TokenMissing
                         else Inr (tr_AccessToken tr, seconds_duration (tr_ExpiresIn tr)))))"

definition accessTokenFor ::
  "'k FcmLib \<Rightarrow> token_endpoint \<Rightarrow> time \<Rightarrow> 'k FcmClient \<Rightarrow> 'k FcmClient \<times> (token_error, string) result" where
  "accessTokenFor L ask now c =
     (if fk_accessToken c \<noteq> [] \<and> now < fk_expiresAt c - refreshMargin then (c, Inr (fk_accessToken c))
      else (case mint L ask now c of
              Inl e \<Rightarrow> (c, Inl e)
            | Inr (tok, ttl) \<Rightarrow> (c\<lparr> fk_accessToken := tok, fk_expiresAt := now + ttl \<rparr>, Inr tok)))"

definition fcm_forget :: "string \<Rightarrow> 'k FcmClient \<Rightarrow> 'k FcmClient" where
  "fcm_forget rejected c =
     (if fk_accessToken c = rejected then c\<lparr> fk_accessToken := [], fk_expiresAt := ZeroTime \<rparr> else c)"

section \<open>Sending\<close>

definition deadToken :: "string \<Rightarrow> bool" where
  "deadToken code \<longleftrightarrow> code = ''UNREGISTERED'' \<or> code = ''NOT_FOUND''"

definition saysUnregistered :: "'k FcmLib \<Rightarrow> string \<Rightarrow> bool" where
  "saysUnregistered L body =
     (case fl_error L body of
        None \<Rightarrow> False
      | Some e \<Rightarrow> deadToken (er_Status e) \<or> list_ex deadToken (er_ErrorCodes e))"

definition checkResponse :: "'k FcmLib \<Rightarrow> nat \<Rightarrow> string \<Rightarrow> (send_error, unit) result" where
  "checkResponse L status body =
     (if 200 \<le> status \<and> status < 300 then Inr ()
      else if status = 404 \<or> saysUnregistered L body then Inl ErrUnregistered
      else Inl (SendFailed status (fcm_excerpt body)))"

text \<open>One call of the send endpoint: URL, bearer token and body.\<close>

record fcm_post =
  fp_URL :: string
  fp_Bearer :: string
  fp_Body :: string

definition post :: "(fcm_post \<Rightarrow> fcm_exchange) \<Rightarrow> 'k FcmClient \<Rightarrow> string \<Rightarrow> string \<Rightarrow> (send_error, nat \<times> string) result" where
  "post send c accessToken body =
     (case send \<lparr> fp_URL = fk_SendURL c, fp_Bearer = accessToken, fp_Body = body \<rparr> of
        FcmNoAnswer \<Rightarrow> Inl SendNoAnswer
      | FcmAnswer status None \<Rightarrow> Inl SendUnread
      | FcmAnswer status (Some b) \<Rightarrow> Inr (status, take fcm_maxBody b))"

text \<open>What a send meets on its way: the clock and the token endpoint at its two token lookups, the answers of
  its two calls, and what other goroutines did to the client before its forget and before its second lookup.\<close>

record 'k send_world =
  sw_now1 :: time
  sw_ask1 :: token_endpoint
  sw_send1 :: "fcm_post \<Rightarrow> fcm_exchange"
  sw_others1 :: "'k FcmClient \<Rightarrow> 'k FcmClient"
  sw_others2 :: "'k FcmClient \<Rightarrow> 'k FcmClient"
  sw_now2 :: time
  sw_ask2 :: token_endpoint
  sw_send2 :: "fcm_post \<Rightarrow> fcm_exchange"

definition send_body :: "'k FcmLib \<Rightarrow> string \<Rightarrow> (string \<times> string) list \<Rightarrow> string option" where
  "send_body L token data =
     fl_message L \<lparr> fm_Token = token, fm_Data = data,
                    fm_Android = \<lparr> an_Priority = ''high'', an_TTL = messageTTL \<rparr> \<rparr>"

text \<open>The result lists the bearer tokens of the calls made.\<close>

definition fcm_Send ::
  "'k FcmLib \<Rightarrow> 'k send_world \<Rightarrow> string \<Rightarrow> (string \<times> string) list \<Rightarrow> 'k FcmClient \<Rightarrow>
     'k FcmClient \<times> string list \<times> (send_error, unit) result" where
  "fcm_Send L w token data c =
     (if token = [] then (c, [], Inl EmptyDeviceToken)
      else (case send_body L token data of
              None \<Rightarrow> (c, [], Inl EncodeFailed)
            | Some body \<Rightarrow>
                (case accessTokenFor L (sw_ask1 w) (sw_now1 w) c of
                   (c1, Inl e) \<Rightarrow> (c1, [], Inl (NoAccessToken e))
                 | (c1, Inr tok) \<Rightarrow>
                     let c2 = sw_others1 w c1 in
                     (case post (sw_send1 w) c2 tok body of
                        Inl e \<Rightarrow> (c2, [tok], Inl e)
                      | Inr (status, resp) \<Rightarrow>
                          if status = 401 then
                            (case accessTokenFor L (sw_ask2 w) (sw_now2 w) (sw_others2 w (fcm_forget tok c2)) of
                               (c3, Inl e) \<Rightarrow> (c3, [tok], Inl (NoAccessToken e))
                             | (c3, Inr tok') \<Rightarrow>
                                 (case post (sw_send2 w) c3 tok' body of
                                    Inl e \<Rightarrow> (c3, [tok, tok'], Inl e)
                                  | Inr (status', resp') \<Rightarrow> (c3, [tok, tok'], checkResponse L status' resp')))
                          else (c2, [tok], checkResponse L status resp)))))"

end
