(* ===== verification/Fcm_Props.thy ===== *)
theory Fcm_Props
  imports Fcm
begin

text \<open>
  The properties of the FCM client: the access tokens it uses, what the result of a send means, and the
  assertion it signs.
\<close>

section \<open>Histories of the access token\<close>

text \<open>The tokens a lookup was issued: one, with its time and lifetime, when it asked the endpoint with
  success.\<close>

definition issued :: "'k FcmLib \<Rightarrow> token_endpoint \<Rightarrow> time \<Rightarrow> 'k FcmClient \<Rightarrow> (string \<times> time \<times> duration) list" where
  "issued L ask t c =
     (if fk_accessToken c \<noteq> [] \<and> t < fk_expiresAt c - refreshMargin then []
      else (case mint L ask t c of Inl _ \<Rightarrow> [] | Inr (tok, ttl) \<Rightarrow> [(tok, t, ttl)]))"

text \<open>The locked regions of any number of sends, one after the other: token lookups and forgets.\<close>

inductive fcm_reach :: "'k FcmLib \<Rightarrow> 'k FcmClient \<Rightarrow> (string \<times> time \<times> duration) list \<Rightarrow> time \<Rightarrow> bool" for L where
  start: "fcm_reach L c [] now" if "fcm_New L project json = Inr c"
| lookup: "fcm_reach L (fst (accessTokenFor L ask t c)) (issued L ask t c @ hist) t"
    if "fcm_reach L c hist now" "now \<le> t"
| forget: "fcm_reach L (fcm_forget rejected c) hist now" if "fcm_reach L c hist now"

definition fcm_inv :: "'k FcmClient \<Rightarrow> (string \<times> time \<times> duration) list \<Rightarrow> time \<Rightarrow> bool" where
  "fcm_inv c hist now \<longleftrightarrow>
     fk_accessToken c = [] \<or>
     (\<exists>t ttl. (fk_accessToken c, t, ttl) \<in> set hist \<and> t \<le> now \<and> fk_expiresAt c = t + ttl)"

lemma fcm_New_empty: "fcm_New L project json = Inr c \<Longrightarrow> fk_accessToken c = []"
  by (auto simp: fcm_New_def split: if_splits sum.splits)

lemma mint_nonempty: "mint L ask t c = Inr (tok, ttl) \<Longrightarrow> tok \<noteq> []"
  by (auto simp: mint_def Let_def split: sum.splits fcm_exchange.splits option.splits if_splits)

lemma fcm_reach_inv: "fcm_reach L c hist now \<Longrightarrow> fcm_inv c hist now"
proof (induction rule: fcm_reach.induct)
  case (start project json c now)
  then show ?case by (simp add: fcm_inv_def fcm_New_empty)
next
  case (lookup c hist now t ask)
  have old: "fcm_inv c hist t" using lookup by (force simp: fcm_inv_def)
  show ?case
  proof (cases "fk_accessToken c \<noteq> [] \<and> t < fk_expiresAt c - refreshMargin")
    case True
    then show ?thesis using old by (simp add: accessTokenFor_def issued_def)
  next
    case False
    then show ?thesis
      using old by (force simp: accessTokenFor_def issued_def fcm_inv_def split: sum.splits prod.splits)
  qed
next
  case (forget c hist now rejected)
  then show ?case by (auto simp: fcm_inv_def fcm_forget_def)
qed

text \<open>C35: A push never goes out with an access token that is about to expire. After any history of lookups and
  forgets by concurrent sends, a lookup returns a token that the endpoint issued for this client: just now, or
  earlier with more than a minute of its lifetime left. Until a minute before the end of a new token's
  lifetime, lookups return it without another request; and a failed request leaves the client as it was.\<close>

theorem fcm_token_is_valid:
  assumes "fcm_reach L c hist now" "now \<le> t" "accessTokenFor L ask t c = (c', r)"
  shows "case r of
      Inl _ \<Rightarrow> c' = c
    | Inr tok \<Rightarrow>
        tok \<noteq> [] \<and>
        ((c' = c \<and> (\<exists>t0 ttl. (tok, t0, ttl) \<in> set hist \<and> t0 \<le> t \<and> t + Minute < t0 + ttl)) \<or>
         (\<exists>ttl. mint L ask t c = Inr (tok, ttl) \<and>
            (\<forall>ask' t'. t' + Minute < t + ttl \<longrightarrow> accessTokenFor L ask' t' c' = (c', Inr tok))))"
proof (cases "fk_accessToken c \<noteq> [] \<and> t < fk_expiresAt c - refreshMargin")
  case True
  then obtain t0 ttl where h: "(fk_accessToken c, t0, ttl) \<in> set hist" "t0 \<le> now" "fk_expiresAt c = t0 + ttl"
    using fcm_reach_inv [OF assms(1)] by (auto simp: fcm_inv_def)
  have "c' = c" "r = Inr (fk_accessToken c)" using True assms(3) by (auto simp: accessTokenFor_def)
  moreover have "t0 \<le> t" "t + Minute < t0 + ttl" using h True assms(2) by (auto simp: refreshMargin_def)
  ultimately show ?thesis using True h(1) by auto
next
  case False
  show ?thesis
  proof (cases "mint L ask t c")
    case (Inl e)
    then show ?thesis using False assms(3) by (auto simp: accessTokenFor_def)
  next
    case (Inr m)
    then obtain tok ttl where m: "mint L ask t c = Inr (tok, ttl)" by (cases m) auto
    then have c': "c' = c\<lparr> fk_accessToken := tok, fk_expiresAt := t + ttl \<rparr>" "r = Inr tok"
      using False assms(3) by (auto simp: accessTokenFor_def)
    have "tok \<noteq> []" using m by (rule mint_nonempty)
    then show ?thesis using m c' by (auto simp: accessTokenFor_def refreshMargin_def)
  qed
qed

section \<open>The result of a send\<close>

lemma post_Inr:
  "post send c tok body = Inr (status, resp) \<longleftrightarrow>
     (\<exists>b. send \<lparr> fp_URL = fk_SendURL c, fp_Bearer = tok, fp_Body = body \<rparr> = FcmAnswer status (Some b) \<and>
          resp = take fcm_maxBody b)"
  by (auto simp: post_def split: fcm_exchange.splits option.splits)

lemma post_Inl: "post send c tok body = Inl e \<Longrightarrow> e \<noteq> ErrUnregistered"
  by (auto simp: post_def split: fcm_exchange.splits option.splits)

lemma accessTokenFor_frame [simp]:
  "fk_SendURL (fst (accessTokenFor L ask t c)) = fk_SendURL c"
  by (auto simp: accessTokenFor_def split: sum.splits prod.splits)

lemma fcm_forget_frame [simp]: "fk_SendURL (fcm_forget tok c) = fk_SendURL c"
  by (simp add: fcm_forget_def)

text \<open>The course of a send: no call, one call, or two calls with a 401 in between.\<close>

lemma accessTokenFor_fails: "accessTokenFor L ask t c = (c', Inl e) \<Longrightarrow> mint L ask t c = Inl e"
  by (auto simp: accessTokenFor_def split: if_splits sum.splits)

lemma fcm_Send_cases:
  assumes "fcm_Send L w token data c = (c', toks, r)"
  obtains (none) e where "toks = []" "r = Inl e" "e \<noteq> ErrUnregistered"
      "token = [] \<or> send_body L token data = None \<or> (\<exists>e. mint L (sw_ask1 w) (sw_now1 w) c = Inl e)"
  | (one) body c1 tok where "token \<noteq> []" "send_body L token data = Some body"
      "accessTokenFor L (sw_ask1 w) (sw_now1 w) c = (c1, Inr tok)" "toks = [tok]" "c' = sw_others1 w c1"
      "case post (sw_send1 w) c' tok body of
         Inl e \<Rightarrow> r = Inl e
       | Inr (status, resp) \<Rightarrow> status \<noteq> 401 \<and> r = checkResponse L status resp"
  | (stuck) body c1 tok c2 resp e where "send_body L token data = Some body"
      "accessTokenFor L (sw_ask1 w) (sw_now1 w) c = (c1, Inr tok)" "c2 = sw_others1 w c1"
      "post (sw_send1 w) c2 tok body = Inr (401, resp)" "toks = [tok]" "r = Inl (NoAccessToken e)"
      "mint L (sw_ask2 w) (sw_now2 w) (sw_others2 w (fcm_forget tok c2)) = Inl e"
  | (two) body c1 tok c2 resp tok' where "token \<noteq> []" "send_body L token data = Some body"
      "accessTokenFor L (sw_ask1 w) (sw_now1 w) c = (c1, Inr tok)" "c2 = sw_others1 w c1"
      "post (sw_send1 w) c2 tok body = Inr (401, resp)"
      "accessTokenFor L (sw_ask2 w) (sw_now2 w) (sw_others2 w (fcm_forget tok c2)) = (c', Inr tok')"
      "toks = [tok, tok']"
      "case post (sw_send2 w) c' tok' body of
         Inl e \<Rightarrow> r = Inl e
       | Inr (status, resp) \<Rightarrow> r = checkResponse L status resp"
proof (cases "token = [] \<or> send_body L token data = None")
  case True
  then show ?thesis using assms by (intro none [of "if token = [] then EmptyDeviceToken else EncodeFailed"])
      (auto simp: fcm_Send_def split: option.splits if_splits)
next
  case False
  then obtain body where b: "token \<noteq> []" "send_body L token data = Some body" by auto
  obtain c1 rt where at: "accessTokenFor L (sw_ask1 w) (sw_now1 w) c = (c1, rt)" by fastforce
  show ?thesis
  proof (cases rt)
    case (Inl e)
    then show ?thesis using assms b at by (intro none [of "NoAccessToken e"]) (auto simp: fcm_Send_def dest: accessTokenFor_fails)
  next
    case tok: (Inr tok)
    define c2 where "c2 = sw_others1 w c1"
    show ?thesis
    proof (cases "\<exists>resp. post (sw_send1 w) c2 tok body = Inr (401, resp)")
      case False
      then show ?thesis using assms b at tok
        by (intro one [of body c1 tok])
          (auto simp: fcm_Send_def c2_def Let_def split: sum.splits prod.splits if_splits)
    next
      case True
      then obtain resp where p: "post (sw_send1 w) c2 tok body = Inr (401, resp)" ..
      obtain c3 rt' where at': "accessTokenFor L (sw_ask2 w) (sw_now2 w) (sw_others2 w (fcm_forget tok c2)) = (c3, rt')"
        by fastforce
      show ?thesis
      proof (cases rt')
        case (Inl e)
        then show ?thesis using assms b at tok p at' 
          by (intro stuck [of body c1 tok c2 resp e])
            (auto simp: fcm_Send_def c2_def Let_def dest: accessTokenFor_fails)
      next
        case (Inr tok')
        then show ?thesis using assms b at tok p at'
          by (intro two [of body c1 tok c2 resp tok'])
            (auto simp: fcm_Send_def c2_def Let_def split: sum.splits prod.splits if_splits)
      qed
    qed
  qed
qed

text \<open>The answer that decides a send: of its last call.\<close>

definition last_answer :: "'k send_world \<Rightarrow> 'k FcmClient \<Rightarrow> string list \<Rightarrow> string \<Rightarrow> fcm_exchange" where
  "last_answer w c toks body =
     (if length toks = 2 then sw_send2 w else sw_send1 w)
       \<lparr> fp_URL = fk_SendURL c, fp_Bearer = last toks, fp_Body = body \<rparr>"

definition answer_result :: "'k FcmLib \<Rightarrow> fcm_exchange \<Rightarrow> (send_error, unit) result" where
  "answer_result L x =
     (case x of
        FcmNoAnswer \<Rightarrow> Inl SendNoAnswer
      | FcmAnswer status None \<Rightarrow> Inl SendUnread
      | FcmAnswer status (Some b) \<Rightarrow> checkResponse L status (take 65536 b))"

lemma post_result:
  "(case post send c tok body of Inl e \<Rightarrow> r = Inl e | Inr (status, resp) \<Rightarrow> r = checkResponse L status resp) \<Longrightarrow>
   r = answer_result L (send \<lparr> fp_URL = fk_SendURL c, fp_Bearer = tok, fp_Body = body \<rparr>)"
  by (auto simp: post_def answer_result_def fcm_maxBody_def split: fcm_exchange.splits option.splits)

lemma answer_result_ok:
  "answer_result L x = Inr () \<longleftrightarrow> (\<exists>status b. x = FcmAnswer status (Some b) \<and> 200 \<le> status \<and> status < 300)"
  by (auto simp: answer_result_def checkResponse_def split: fcm_exchange.splits option.splits)

lemma answer_result_dead:
  "answer_result L x = Inl ErrUnregistered \<longleftrightarrow>
     (\<exists>status b. x = FcmAnswer status (Some b) \<and> \<not> (200 \<le> status \<and> status < 300) \<and>
        (status = 404 \<or> saysUnregistered L (take 65536 b)))"
  by (auto simp: answer_result_def checkResponse_def split: fcm_exchange.splits option.splits)

text \<open>Undisturbed, the lookup after a forget finds no token and asks for one.\<close>

lemma retry_mints:
  assumes "accessTokenFor L ask1 t1 c = (c1, Inr tok)"
    and "accessTokenFor L ask2 t2 (fcm_forget tok c1) = (c2, Inr tok')"
  shows "\<exists>d ttl. mint L ask2 t2 d = Inr (tok', ttl) \<and> fk_accessToken d = []"
proof -
  have "fk_accessToken c1 = tok"
    using assms(1) by (auto simp: accessTokenFor_def split: if_splits sum.splits prod.splits)
  then have d: "fk_accessToken (fcm_forget tok c1) = []" by (simp add: fcm_forget_def)
  with assms(2) show ?thesis
    by (intro exI [of _ "fcm_forget tok c1"]) (auto simp: accessTokenFor_def split: sum.splits)
qed

text \<open>The token of a retry is newly issued, or not the rejected one unless somebody put that back.\<close>

lemma retry_token:
  assumes "accessTokenFor L ask t (others (fcm_forget tok c)) = (c', Inr tok')"
    and "\<forall>d. fk_accessToken (others d) = tok \<longrightarrow> fk_accessToken d = tok"
  shows "tok' \<noteq> tok \<or> (\<exists>d ttl. mint L ask t d = Inr (tok', ttl))"
proof (rule disjCI)
  assume no: "\<nexists>d ttl. mint L ask t d = Inr (tok', ttl)"
  let ?d = "others (fcm_forget tok c)"
  have d: "fk_accessToken ?d = tok'" "tok' \<noteq> []"
    using assms(1) no by (auto simp: accessTokenFor_def split: if_splits sum.splits)
  show "tok' \<noteq> tok"
  proof
    assume eq: "tok' = tok"
    with d(1) assms(2) have "fk_accessToken (fcm_forget tok c) = tok" by blast
    with eq d(2) show False by (simp add: fcm_forget_def split: if_splits)
  qed
qed

lemma saysUnregistered_iff:
  "saysUnregistered L b \<longleftrightarrow>
     (\<exists>e. fl_error L b = Some e \<and> set (er_Status e # er_ErrorCodes e) \<inter> {''UNREGISTERED'', ''NOT_FOUND''} \<noteq> {})"
  by (auto simp: saysUnregistered_def deadToken_def list_ex_iff split: option.split)

text \<open>C34: What the result of a send says. FCM is called unless the message cannot be encoded or no access token can be
  had. The call is repeated exactly once when FCM answers it with 401, unless no access token can be had then, which
  is reported; it is not repeated otherwise. The send succeeds exactly when the last call was answered with a 2xx
  status, and reports the phone as unregistered exactly when the last call was answered with 404 or, outside 2xx, with
  an error body whose status or one of whose codes is \<^verbatim>\<open>UNREGISTERED\<close> or \<^verbatim>\<open>NOT_FOUND\<close>. The second call carries
  another token than the rejected one, or a newly issued one, unless another goroutine put the rejected token back; when
  nothing else happened to the client in between it carries a newly issued one.\<close>

theorem fcm_send_outcome:
  assumes "fcm_Send L w token data c = (c', toks, r)"
    and "\<forall>d. fk_SendURL (sw_others1 w d) = fk_SendURL d" "\<forall>d. fk_SendURL (sw_others2 w d) = fk_SendURL d"
  shows "length toks \<le> 2 \<and>
    (toks = [] \<longrightarrow> token = [] \<or> send_body L token data = None \<or> (\<exists>e. mint L (sw_ask1 w) (sw_now1 w) c = Inl e)) \<and>
    (r = Inr () \<longleftrightarrow> toks \<noteq> [] \<and>
       (\<exists>body status b. send_body L token data = Some body \<and>
          last_answer w c toks body = FcmAnswer status (Some b) \<and> 200 \<le> status \<and> status < 300)) \<and>
    (r = Inl ErrUnregistered \<longleftrightarrow> toks \<noteq> [] \<and>
       (\<exists>body status b. send_body L token data = Some body \<and>
          last_answer w c toks body = FcmAnswer status (Some b) \<and> \<not> (200 \<le> status \<and> status < 300) \<and>
          (length toks = 2 \<or> status \<noteq> 401) \<and>
          (status = 404 \<or> (\<exists>e. fl_error L (take 65536 b) = Some e \<and>
             set (er_Status e # er_ErrorCodes e) \<inter> {''UNREGISTERED'', ''NOT_FOUND''} \<noteq> {})))) \<and>
    (\<forall>body b. toks \<noteq> [] \<and> send_body L token data = Some body \<and>
       sw_send1 w \<lparr> fp_URL = fk_SendURL c, fp_Bearer = hd toks, fp_Body = body \<rparr> = FcmAnswer 401 (Some b) \<longrightarrow>
       length toks = 2 \<or> (\<exists>d e. mint L (sw_ask2 w) (sw_now2 w) d = Inl e \<and> r = Inl (NoAccessToken e))) \<and>
    (length toks = 2 \<longrightarrow>
       (\<exists>body b. send_body L token data = Some body \<and>
          sw_send1 w \<lparr> fp_URL = fk_SendURL c, fp_Bearer = hd toks, fp_Body = body \<rparr> = FcmAnswer 401 (Some b)) \<and>
       ((\<forall>d. fk_accessToken (sw_others2 w d) = hd toks \<longrightarrow> fk_accessToken d = hd toks) \<longrightarrow>
          last toks \<noteq> hd toks \<or> (\<exists>d ttl. mint L (sw_ask2 w) (sw_now2 w) d = Inr (last toks, ttl))) \<and>
       (sw_others1 w = id \<and> sw_others2 w = id \<longrightarrow>
          (\<exists>d ttl. mint L (sw_ask2 w) (sw_now2 w) d = Inr (last toks, ttl) \<and> fk_accessToken d = [])))"
proof -
  have call: "r = Inr () \<longleftrightarrow> (\<exists>status b. x = FcmAnswer status (Some b) \<and> 200 \<le> status \<and> status < 300)"
    "r = Inl ErrUnregistered \<longleftrightarrow> (\<exists>status b. x = FcmAnswer status (Some b) \<and> \<not> (200 \<le> status \<and> status < 300) \<and>
       (status = 404 \<or> (\<exists>e. fl_error L (take 65536 b) = Some e \<and>
          set (er_Status e # er_ErrorCodes e) \<inter> {''UNREGISTERED'', ''NOT_FOUND''} \<noteq> {})))" if "r = answer_result L x" for x
    unfolding saysUnregistered_iff [symmetric] using that by (simp_all only: answer_result_ok answer_result_dead)
  from assms(1) show ?thesis
  proof (cases rule: fcm_Send_cases)
    case (none e)
    then show ?thesis by auto
  next
    case (one body c1 tok)
    have url: "fk_SendURL c' = fk_SendURL c"
      using accessTokenFor_frame [of L "sw_ask1 w" "sw_now1 w" c] one(3,5) assms(2) by simp
    have x: "r = answer_result L (last_answer w c toks body)"
      using post_result [where send = "sw_send1 w" and c = c' and tok = tok and body = body and r = r and L = L] one(4,6) url
      by (auto simp: last_answer_def split: sum.splits prod.splits)
    have no: "sw_send1 w \<lparr> fp_URL = fk_SendURL c, fp_Bearer = tok, fp_Body = body \<rparr> \<noteq> FcmAnswer 401 (Some b)" for b
      using one(6) url by (auto simp: post_def split: sum.splits)
    then have "last_answer w c toks body \<noteq> FcmAnswer 401 (Some b)" for b using one(4) by (simp add: last_answer_def)
    then show ?thesis using one(2,4) no call [OF x] by auto
  next
    case (stuck body c1 tok c2 resp e)
    have url: "fk_SendURL c2 = fk_SendURL c"
      using accessTokenFor_frame [of L "sw_ask1 w" "sw_now1 w" c] stuck(2,3) assms(2) by simp
    obtain b where "last_answer w c toks body = FcmAnswer 401 (Some b)"
      using stuck(4,5) url by (auto simp: post_Inr last_answer_def)
    then show ?thesis using stuck by auto
  next
    case (two body c1 tok c2 resp tok')
    have url2: "fk_SendURL c2 = fk_SendURL c"
      using accessTokenFor_frame [of L "sw_ask1 w" "sw_now1 w" c] two(3,4) assms(2) by simp
    have url: "fk_SendURL c' = fk_SendURL c"
      using accessTokenFor_frame [of L "sw_ask2 w" "sw_now2 w" "sw_others2 w (fcm_forget tok c2)"] two(6) assms(3)
      by (simp add: url2)
    have x: "r = answer_result L (last_answer w c toks body)"
      using post_result [where send = "sw_send2 w" and c = c' and tok = tok' and body = body and r = r and L = L] two(7,8) url
      by (auto simp: last_answer_def split: sum.splits prod.splits)
    have first: "\<exists>b. sw_send1 w \<lparr> fp_URL = fk_SendURL c, fp_Bearer = hd toks, fp_Body = body \<rparr> = FcmAnswer 401 (Some b)"
      using two(5,7) url2 by (auto simp: post_Inr)
    have new: "\<exists>d ttl. mint L (sw_ask2 w) (sw_now2 w) d = Inr (last toks, ttl) \<and> fk_accessToken d = []"
      if "sw_others1 w = id" "sw_others2 w = id"
      using retry_mints [of L _ _ c c1 tok "sw_ask2 w" "sw_now2 w" c' tok'] two(3,4,6,7) that by auto
    have other: "last toks \<noteq> hd toks \<or> (\<exists>d ttl. mint L (sw_ask2 w) (sw_now2 w) d = Inr (last toks, ttl))"
      if "\<forall>d. fk_accessToken (sw_others2 w d) = hd toks \<longrightarrow> fk_accessToken d = hd toks"
      using retry_token [where others = "sw_others2 w", OF two(6)] two(7) that by simp
    have "length toks = 2" "toks \<noteq> []" using two(7) by simp_all
    then show ?thesis using two(2) first new other call [OF x] by (intro conjI) auto
  qed
qed

section \<open>Examples\<close>

definition ex_fcm_lib :: "unit FcmLib" where
  "ex_fcm_lib =
     \<lparr> fl_key_file = (\<lambda>_. Some \<lparr> kf_ClientEmail = ''svc'', kf_PrivateKey = ''pem'', kf_TokenURI = [] \<rparr>),
       fl_pem = Some, fl_pkcs8 = (\<lambda>_. Some (Some ())), fl_pkcs1 = (\<lambda>_. None), fl_sign = (\<lambda>_ _. Some ''s''),
       fl_claims = (\<lambda>_. Some ''c''), fl_message = (\<lambda>_. Some ''m''), fl_error = (\<lambda>_. None),
       fl_token = (\<lambda>body. Some \<lparr> tr_AccessToken = body, tr_ExpiresIn = 3600 \<rparr>) \<rparr>"

definition ex_fcm :: "unit FcmClient" where
  "ex_fcm = \<lparr> fk_SendURL = ''https://fcm.googleapis.com/v1/projects/p/messages:send'',
     fk_TokenURL = defaultTokenURL, fk_email = ''svc'', fk_key = (), fk_accessToken = [], fk_expiresAt = ZeroTime \<rparr>"

lemma ex_fcm_New: "fcm_New ex_fcm_lib ''p'' ''k'' = Inr ex_fcm"
proof -
  have "TrimSpace ''p'' = ''p''" by (rule TrimSpace_printable) simp
  then show ?thesis
    by (simp add: fcm_New_def parseServiceAccount_def parsePrivateKey_def ex_fcm_lib_def ex_fcm_def)
qed

lemma ex_signed: "\<exists>a. signJWT ex_fcm_lib t c = Inr a"
  by (simp add: signJWT_def ex_fcm_lib_def Let_def)

lemma ex_mint:
  "tok \<noteq> [] \<Longrightarrow> length tok \<le> 65536 \<Longrightarrow>
   mint ex_fcm_lib (\<lambda>_ _. FcmAnswer 200 (Some tok)) t c = Inr (tok, 3600 * Second)"
  using ex_signed [of t c]
  by (auto simp: mint_def ex_fcm_lib_def fcm_maxBody_def Let_def seconds_duration_exact)

lemma ex_lookup:
  "accessTokenFor ex_fcm_lib (\<lambda>_ _. FcmAnswer 200 (Some ''tok1'')) 0 ex_fcm
     = (ex_fcm\<lparr> fk_accessToken := ''tok1'', fk_expiresAt := 3600 * Second \<rparr>, Inr ''tok1'')"
proof -
  have "mint ex_fcm_lib (\<lambda>_ _. FcmAnswer 200 (Some ''tok1'')) 0 ex_fcm = Inr (''tok1'', 3600 * Second)"
    by (rule ex_mint) simp_all
  then show ?thesis by (simp add: accessTokenFor_def ex_fcm_def)
qed

theorem fcm_token_is_valid_witness:
  "\<exists>c'. fcm_reach ex_fcm_lib ex_fcm [] 0 \<and>
     accessTokenFor ex_fcm_lib (\<lambda>_ _. FcmAnswer 200 (Some ''tok1'')) 0 ex_fcm = (c', Inr ''tok1'') \<and>
     accessTokenFor ex_fcm_lib (\<lambda>_ _. FcmNoAnswer) (58 * Minute) c' = (c', Inr ''tok1'')"
proof -
  have r: "fcm_reach ex_fcm_lib ex_fcm [] 0" using ex_fcm_New by (rule fcm_reach.start)
  have m: "mint ex_fcm_lib (\<lambda>_ _. FcmAnswer 200 (Some ''tok1'')) 0 ex_fcm = Inr (''tok1'', 3600 * Second)"
    by (rule ex_mint) simp_all
  from fcm_token_is_valid [OF r _ ex_lookup] m r ex_lookup show ?thesis by auto
qed

definition ex_send_world :: "unit send_world" where
  "ex_send_world =
     \<lparr> sw_now1 = 0, sw_ask1 = (\<lambda>_ _. FcmAnswer 200 (Some ''tok1'')), sw_send1 = (\<lambda>_. FcmAnswer 401 (Some [])),
       sw_others1 = id, sw_others2 = id, sw_now2 = 5,
       sw_ask2 = (\<lambda>_ _. FcmAnswer 200 (Some ''tok2'')), sw_send2 = (\<lambda>_. FcmAnswer 200 (Some [])) \<rparr>"

lemma ex_sent:
  "fcm_Send ex_fcm_lib ex_send_world ''phone'' [] ex_fcm
     = (ex_fcm\<lparr> fk_accessToken := ''tok2'', fk_expiresAt := 5 + 3600 * Second \<rparr>, [''tok1'', ''tok2''], Inr ())"
proof -
  let ?d = "ex_fcm\<lparr> fk_accessToken := [], fk_expiresAt := ZeroTime \<rparr>"
  have "mint ex_fcm_lib (\<lambda>_ _. FcmAnswer 200 (Some ''tok2'')) 5 ?d = Inr (''tok2'', 3600 * Second)"
    by (rule ex_mint) simp_all
  then have "accessTokenFor ex_fcm_lib (\<lambda>_ _. FcmAnswer 200 (Some ''tok2'')) 5 ?d
      = (ex_fcm\<lparr> fk_accessToken := ''tok2'', fk_expiresAt := 5 + 3600 * Second \<rparr>, Inr ''tok2'')"
    by (simp add: accessTokenFor_def)
  moreover have "send_body ex_fcm_lib ''phone'' [] = Some ''m''" by (simp add: send_body_def ex_fcm_lib_def)
  ultimately show ?thesis
    by (simp add: fcm_Send_def ex_send_world_def ex_lookup post_def fcm_forget_def checkResponse_def)
qed

theorem fcm_send_outcome_witness:
  "\<exists>c' toks. fcm_Send ex_fcm_lib ex_send_world ''phone'' [] ex_fcm = (c', toks, Inr ()) \<and> length toks = 2 \<and>
     (\<exists>d ttl. mint ex_fcm_lib (sw_ask2 ex_send_world) (sw_now2 ex_send_world) d = Inr (last toks, ttl) \<and>
        fk_accessToken d = [])"
proof -
  have "sw_others1 ex_send_world = id" "sw_others2 ex_send_world = id" by (simp_all add: ex_send_world_def)
  with fcm_send_outcome [OF ex_sent] have
    "\<exists>d ttl. mint ex_fcm_lib (sw_ask2 ex_send_world) (sw_now2 ex_send_world) d = Inr (last [''tok1'', ''tok2''], ttl) \<and>
        fk_accessToken d = []"
    by simp
  then show ?thesis
    by (intro exI [of _ "ex_fcm\<lparr> fk_accessToken := ''tok2'', fk_expiresAt := 5 + 3600 * Second \<rparr>"]
        exI [of _ "[''tok1'', ''tok2'']"]) (simp add: ex_sent)
qed

section \<open>The assertion\<close>

lemma b64_list: "list_all b64_alphabet (b64 v)"
  unfolding b64_def by (rule b64_bytes_alphabet) (simp add: list_all_iff of_char_less_256)

lemma b64_no_dot: "CHR ''.'' \<notin> set (b64 v)"
  using b64_list [of v] b64_dot by (auto simp: list_all_iff)

text \<open>The assertion that buys an access token is a JWT in three parts: when signing succeeds, splitting the
  text at its dots gives the encoded header, the encoded claims and the encoded signature of exactly the first
  two. The claims name the service account as issuer, the token endpoint as audience and the messaging scope,
  and they end one hour after they begin, in whole seconds, which is the maximum the endpoint accepts.\<close>

theorem jwt_three_parts:
  assumes "signJWT L now c = Inr assertion"
  shows "\<exists>header claims sig.
    split_byte CHR ''.'' assertion = [b64 header, b64 claims, b64 sig] \<and>
    fl_claims L \<lparr> jc_Iss = fk_email c, jc_Scope = fcm_scope, jc_Aud = fk_TokenURL c,
                  jc_Iat = now div Second, jc_Exp = now div Second + 3600 \<rparr> = Some claims \<and>
    fl_sign L (fk_key c) (sha256 (map of_char (b64 header @ ''.'' @ b64 claims))) = Some sig"
proof -
  define header where "header = ''{\"alg\":\"RS256\",\"typ\":\"JWT\"}''"
  have exp: "time_Unix (now + jwtLifetime) = now div Second + 3600"
    by (simp add: time_Unix_def jwtLifetime_def)
  obtain claims sig where a: "assertion = b64 header @ ''.'' @ b64 claims @ ''.'' @ b64 sig"
    and cl: "fl_claims L \<lparr> jc_Iss = fk_email c, jc_Scope = fcm_scope, jc_Aud = fk_TokenURL c,
                  jc_Iat = time_Unix now, jc_Exp = time_Unix (now + jwtLifetime) \<rparr> = Some claims"
    and sg: "fl_sign L (fk_key c) (sha256 (map of_char (b64 header @ ''.'' @ b64 claims))) = Some sig"
    using assms by (auto simp: signJWT_def header_def Let_def split: option.splits)
  have "split_byte CHR ''.'' assertion = [b64 header, b64 claims, b64 sig]"
    unfolding a using split_byte_append_sep [of "CHR ''.''"] split_byte_single [OF b64_no_dot]
    by (simp add: b64_no_dot)
  moreover have "fl_claims L \<lparr> jc_Iss = fk_email c, jc_Scope = fcm_scope, jc_Aud = fk_TokenURL c,
      jc_Iat = now div Second, jc_Exp = now div Second + 3600 \<rparr> = Some claims"
    using cl by (simp only: exp) (simp only: time_Unix_def)
  ultimately show ?thesis using sg by blast
qed

theorem jwt_three_parts_witness:
  "\<exists>assertion header claims sig. signJWT ex_fcm_lib 7 ex_fcm = Inr assertion \<and>
    split_byte CHR ''.'' assertion = [b64 header, b64 claims, b64 sig]"
  using ex_signed [of 7 ex_fcm] jwt_three_parts [of ex_fcm_lib 7 ex_fcm] by blast

end
