(* ===== verification/Agent_Watch.thy ===== *)
theory Agent_Watch
  imports Check "HOL-Library.Monad_Syntax"
begin

text \<open>
  The Windows side of the agent: reading sshd's messages (\<^verbatim>\<open>agent/internal/watch/parse.go\<close>), following the event
  log with wevtutil (\<^verbatim>\<open>source_windows.go\<close>), the polling loop (\<^verbatim>\<open>watch.go\<close>) and the command (\<^verbatim>\<open>cmd/ssh-sentinel/
  watch.go\<close>). The tool, XML and time parsing are parameters.
\<close>

section \<open>The message of an accepted login\<close>

text \<open>The expression \<^verbatim>\<open>Accepted (\S+) for (\S+) from (\S+) port \d+\<close>. Each group is followed by a space, which
  \<^verbatim>\<open>\S\<close> does not match, so at a given position the groups are the maximal runs; the expression is not anchored
  and the leftmost match counts.\<close>

definition re_space :: "char \<Rightarrow> bool" where
  "re_space c \<longleftrightarrow> (let b = (of_char c :: nat) in b = 9 \<or> b = 10 \<or> b = 12 \<or> b = 13 \<or> b = 32)"

definition skip_text :: "string \<Rightarrow> string \<Rightarrow> string option" where
  "skip_text lit s = (if take (length lit) s = lit then Some (drop (length lit) s) else None)"

definition take_group :: "string \<Rightarrow> (string \<times> string) option" where
  "take_group s =
     (let w = takeWhile (\<lambda>c. \<not> re_space c) s
      in if w = [] then None else Some (w, dropWhile (\<lambda>c. \<not> re_space c) s))"

definition accepted_here :: "string \<Rightarrow> (string \<times> string \<times> string) option" where
  "accepted_here s =
     do {
       s \<leftarrow> skip_text ''Accepted '' s; (method, s) \<leftarrow> take_group s;
       s \<leftarrow> skip_text '' for '' s; (user, s) \<leftarrow> take_group s;
       s \<leftarrow> skip_text '' from '' s; (ip, s) \<leftarrow> take_group s;
       s \<leftarrow> skip_text '' port '' s;
       if s \<noteq> [] \<and> is_digit (hd s) then Some (user, ip, method) else None
     }"

fun ParseAccepted :: "string \<Rightarrow> (string \<times> string \<times> string) option" where
  "ParseAccepted [] = accepted_here []"
| "ParseAccepted (c # cs) =
     (case accepted_here (c # cs) of Some m \<Rightarrow> Some m | None \<Rightarrow> ParseAccepted cs)"

record RawEvent =
  re_RecordID :: nat
  re_Time :: time
  re_Data :: "string list"

fun first_accepted :: "RawEvent \<Rightarrow> string list \<Rightarrow> Event list" where
  "first_accepted r [] = []"
| "first_accepted r (d # ds) =
     (case ParseAccepted d of
        None \<Rightarrow> first_accepted r ds
      | Some (user, ip, method) \<Rightarrow>
          [\<lparr> ev_RecordID = re_RecordID r, ev_Time = re_Time r, ev_Username = user, ev_SourceIP = ip,
             ev_Method = method \<rparr>])"

definition ToEvents :: "RawEvent list \<Rightarrow> Event list" where
  "ToEvents raw = concat (map (\<lambda>r. first_accepted r (re_Data r)) raw)"

section \<open>The output of wevtutil\<close>

text \<open>One decoded \<^verbatim>\<open><Event>\<close>: record id, the text of the time, the values.\<close>

record xml_event =
  xe_EventRecordID :: nat
  xe_SystemTime :: string
  xe_Data :: "string list"

definition utf8_bom :: string where "utf8_bom = map char_of [0xEF :: nat, 0xBB, 0xBF]"

definition TrimPrefix :: "string \<Rightarrow> string \<Rightarrow> string" where
  "TrimPrefix prefix s = (if take (length prefix) s = prefix then drop (length prefix) s else s)"

definition raw_event :: "(string \<Rightarrow> time option) \<Rightarrow> xml_event \<Rightarrow> RawEvent" where
  "raw_event parseTime e =
     \<lparr> re_RecordID = xe_EventRecordID e,
       re_Time = (case parseTime (xe_SystemTime e) of Some t \<Rightarrow> t | None \<Rightarrow> ZeroTime),
       re_Data = map TrimSpace (xe_Data e) \<rparr>"

definition ParseWevtutilXML ::
  "(string \<Rightarrow> xml_event list option) \<Rightarrow> (string \<Rightarrow> time option) \<Rightarrow> string \<Rightarrow> RawEvent list option" where
  "ParseWevtutilXML unmarshal parseTime data =
     (let data = TrimSpace (TrimPrefix utf8_bom data) in
      if data = [] then Some []
      else (case unmarshal (''<Events>'' @ data @ ''</Events>'') of
              None \<Rightarrow> None
            | Some evs \<Rightarrow> Some (map (raw_event parseTime) evs)))"

text \<open>UTF-16, little endian; a last odd byte is dropped, an unpaired surrogate becomes the replacement rune.\<close>

fun u16_units :: "nat list \<Rightarrow> nat list" where
  "u16_units (a # b # bs) = (a + 256 * b) # u16_units bs"
| "u16_units _ = []"

fun utf16_Decode :: "nat list \<Rightarrow> nat list" where
  "utf16_Decode [] = []"
| "utf16_Decode [u] = [if 0xD800 \<le> u \<and> u < 0xE000 then RuneError else u]"
| "utf16_Decode (u # v # us) =
     (if u < 0xD800 \<or> 0xE000 \<le> u then u # utf16_Decode (v # us)
      else if u < 0xDC00 \<and> 0xDC00 \<le> v \<and> v < 0xE000
      then ((u - 0xD800) * 1024 + (v - 0xDC00) + 0x10000) # utf16_Decode us
      else RuneError # utf16_Decode (v # us))"

definition decodeOutput :: "string \<Rightarrow> string" where
  "decodeOutput b =
     (if 2 \<le> length b \<and> bytes_of (take 2 b) = [0xFF, 0xFE]
      then concat (map encode_rune (utf16_Decode (u16_units (bytes_of (drop 2 b)))))
      else TrimPrefix utf8_bom b)"

section \<open>The event source\<close>

text \<open>A run of the tool: its output, its message on failure, or it could not be started.\<close>

datatype tool_run = ToolOutput string | ToolFailed string | ToolMissing

record WatchLib =
  wx_run :: "string list \<Rightarrow> tool_run"
  wx_xml :: "string \<Rightarrow> xml_event list option"
  wx_time :: "string \<Rightarrow> time option"

datatype watch_error = WevtutilFailed string | WevtutilMissing | BadEventXML

definition wev_query :: "WatchLib \<Rightarrow> string \<Rightarrow> string \<Rightarrow> string list \<Rightarrow> (watch_error, RawEvent list) result" where
  "wev_query X channel q extra =
     (case wx_run X ([''qe'', channel, ''/q:'' @ q, ''/f:xml''] @ extra) of
        ToolFailed err \<Rightarrow> Inl (WevtutilFailed (TrimSpace (decodeOutput err)))
      | ToolMissing \<Rightarrow> Inl WevtutilMissing
      | ToolOutput out \<Rightarrow>
          (case ParseWevtutilXML (wx_xml X) (wx_time X) (decodeOutput out) of
             None \<Rightarrow> Inl BadEventXML
           | Some raw \<Rightarrow> Inr raw))"

record WevtutilSource =
  ws_Channel :: string
  ws_Lookback :: duration
  ws_last :: nat
  ws_primed :: bool

definition NewSystemSource :: "string \<Rightarrow> duration \<Rightarrow> WevtutilSource" where
  "NewSystemSource channel lookback =
     \<lparr> ws_Channel = channel, ws_Lookback = lookback, ws_last = 0, ws_primed = False \<rparr>"

fun wev_advance :: "RawEvent list \<Rightarrow> WevtutilSource \<Rightarrow> WevtutilSource" where
  "wev_advance [] s = s"
| "wev_advance (r # rs) s =
     wev_advance rs (if ws_last s < re_RecordID r then s\<lparr> ws_last := re_RecordID r \<rparr> else s)"

definition lookback_query :: "duration \<Rightarrow> string" where
  "lookback_query d =
     ''*[System[(EventID=4) and TimeCreated[timediff(@SystemTime) <= '' @ FormatInt (d div 1000000) @ '']]]''"

definition newest_query :: string where "newest_query = ''*[System[EventID=4]]''"

definition after_query :: "nat \<Rightarrow> string" where
  "after_query n = ''*[System[(EventID=4) and (EventRecordID > '' @ FormatInt (int n) @ '')]]''"

definition wev_Next :: "WatchLib \<Rightarrow> WevtutilSource \<Rightarrow> WevtutilSource \<times> (watch_error, Event list) result" where
  "wev_Next X s =
     (if \<not> ws_primed s then
        let s = s\<lparr> ws_primed := True \<rparr> in
        if 0 < ws_Lookback s then
          (case wev_query X (ws_Channel s) (lookback_query (ws_Lookback s)) [] of
             Inl e \<Rightarrow> (s, Inl e)
           | Inr raw \<Rightarrow> (wev_advance raw s, Inr (ToEvents raw)))
        else
          (case wev_query X (ws_Channel s) newest_query [''/c:1'', ''/rd:true''] of
             Inl e \<Rightarrow> (s, Inl e)
           | Inr raw \<Rightarrow> (wev_advance raw s, Inr []))
      else
        (case wev_query X (ws_Channel s) (after_query (ws_last s)) [] of
           Inl e \<Rightarrow> (s, Inl e)
         | Inr raw \<Rightarrow> (wev_advance raw s, Inr (ToEvents raw))))"

section \<open>The loop and the command\<close>

text \<open>One round of the loop: the tool as it answers in this round, the backend's answers, whether the context
  had ended when the round was over, and whether the loop then stopped (it may see the ticker first).\<close>

record watch_round =
  wr_lib :: WatchLib
  wr_call :: "ClientRequest \<Rightarrow> (client_error, ClientResponse) result"
  wr_done :: bool
  wr_stop :: bool

text \<open>The loop over its rounds: the source, the lines reported, the errors printed, and whether it returned.\<close>

fun watch_Run ::
  "string \<Rightarrow> watch_round list \<Rightarrow> WevtutilSource \<Rightarrow> WevtutilSource \<times> Line list \<times> watch_error list \<times> bool" where
  "watch_Run hostname [] s = (s, [], [], False)"
| "watch_Run hostname (r # rs) s =
     (let (s, next) = wev_Next (wr_lib r) s;
          (res, lines) = watch_RunOnce (wr_call r) hostname next;
          errs = (case res of Inl e \<Rightarrow> if wr_done r then [] else [e] | Inr _ \<Rightarrow> [])
      in if wr_stop r then (s, lines, errs, True)
         else let (s, lines', errs', returned) = watch_Run hostname rs s
              in (s, lines @ lines', errs @ errs', returned))"

definition watch_interval :: "duration \<Rightarrow> duration" where
  "watch_interval poll = (if poll \<le> 0 then 2 * Second else poll)"

definition onceLookback :: duration where "onceLookback = 5 * Minute"

text \<open>\<^verbatim>\<open>runWatch\<close> after the flags are parsed (\<open>rest\<close> are the arguments left over); \<open>windows\<close> says whether the
  binary has an event source. The result is the exit code with the lines reported.\<close>

definition runWatch ::
  "bool \<Rightarrow> string \<Rightarrow> string list \<Rightarrow> AgentConfig option \<Rightarrow> bool \<Rightarrow> string \<Rightarrow> watch_round \<Rightarrow> watch_round list \<Rightarrow>
     nat \<times> Line list" where
  "runWatch once channel rest cfg windows os_hostname round rounds =
     (if rest \<noteq> [] then (2, [])
      else (case cfg of
              None \<Rightarrow> (1, [])
            | Some c \<Rightarrow>
                if \<not> windows then (2, [])
                else
                  let src = NewSystemSource channel (if once then onceLookback else 0);
                      host = (if gc_Hostname c = [] then os_hostname else gc_Hostname c)
                  in if once then
                       (case watch_RunOnce (wr_call round) host (snd (wev_Next (wr_lib round) src)) of
                          (Inl _, lines) \<Rightarrow> (1, lines)
                        | (Inr _, lines) \<Rightarrow> (0, lines))
                     else let (_, lines, _, _) = watch_Run host rounds src in (0, lines)))"

end
