(* ===== verification/Watch_Props.thy ===== *)
theory Watch_Props
  imports Agent_Watch
begin

text \<open>
  The properties of the watcher: which messages count as logins, and which records of the event log it reports
  over a sequence of polls.
\<close>

section \<open>Messages\<close>

abbreviation re_word :: "string \<Rightarrow> bool" where
  "re_word w \<equiv> w \<noteq> [] \<and> list_all (\<lambda>c. \<not> re_space c) w"

definition accepted_message :: "string \<Rightarrow> string \<Rightarrow> string \<Rightarrow> string \<Rightarrow> string" where
  "accepted_message method user ip port =
     ''Accepted '' @ method @ '' for '' @ user @ '' from '' @ ip @ '' port '' @ port"

lemma skip_text_append [simp]: "skip_text lit (lit @ s) = Some s"
  by (simp add: skip_text_def)

lemma take_group_word: "re_word w \<Longrightarrow> take_group (w @ CHR '' '' # s) = Some (w, CHR '' '' # s)"
  by (simp add: take_group_def re_space_def list_all_iff takeWhile_append dropWhile_append)

lemma accepted_here_message:
  assumes "re_word method" "re_word user" "re_word ip" "port \<noteq> []" "is_digit (hd port)"
  shows "accepted_here (accepted_message method user ip port) = Some (user, ip, method)"
proof -
  have g: "take_group (w @ '' for '' @ s) = Some (w, '' for '' @ s)" "take_group (w @ '' from '' @ s) = Some (w, '' from '' @ s)"
    "take_group (w @ '' port '' @ s) = Some (w, '' port '' @ s)" if "re_word w" for w s
    using take_group_word [OF that] by simp_all
  show ?thesis
    unfolding accepted_here_def accepted_message_def
    using assms by (simp only: skip_text_append g Option.bind.bind_lunit prod.case if_True simp_thms)
qed

lemma ParseAccepted_here: "accepted_here s = Some m \<Longrightarrow> ParseAccepted s = Some m"
  by (cases s) simp_all

lemma ParseAccepted_skip: "CHR ''A'' \<notin> set pre \<Longrightarrow> ParseAccepted (pre @ s) = ParseAccepted s"
proof (induction pre)
  case (Cons c pre)
  have "skip_text ''Accepted '' (c # pre @ s) = None" using Cons.prems by (auto simp: skip_text_def)
  then have "accepted_here (c # pre @ s) = None" by (simp add: accepted_here_def)
  then show ?case using Cons by simp
qed simp

text \<open>An accepted login is read from its message wherever it stands: after any text without a capital A, a
  message of the form sshd writes yields exactly its user, its source address and its method, whatever follows
  the first digit of the port.\<close>

theorem accepted_login_parsed:
  assumes "CHR ''A'' \<notin> set pre" "re_word method" "re_word user" "re_word ip" "port \<noteq> []" "is_digit (hd port)"
  shows "ParseAccepted (pre @ accepted_message method user ip port) = Some (user, ip, method)"
  unfolding ParseAccepted_skip [OF assms(1)]
  using assms(2-) by (intro ParseAccepted_here accepted_here_message)

theorem accepted_login_parsed_witness:
  "ParseAccepted (''sshd: '' @ accepted_message ''publickey'' ''deploy'' ''203.0.113.42'' ''51234 ssh2'')
     = Some (''deploy'', ''203.0.113.42'', ''publickey'')"
  by (rule accepted_login_parsed) (simp_all add: re_space_def is_digit_def)

text \<open>C39: The search is not anchored, so a failed login can be reported as an accepted one: sshd logs the user
  name a stranger typed, and a name of the right form makes the message of the failed attempt yield a login of
  the user and from the address the stranger chose, not the real address.\<close>

theorem failed_login_reported:
  assumes "re_word method" "re_word user" "re_word ip" "port \<noteq> []" "is_digit (hd port)"
    and "name = accepted_message method user ip port"
  shows "ParseAccepted (''Failed password for invalid user '' @ name @ '' from '' @ real @ '' port 22 ssh2'')
    = Some (user, ip, method)"
proof -
  have "ParseAccepted (''Failed password for invalid user '' @
      accepted_message method user ip (port @ '' from '' @ real @ '' port 22 ssh2'')) = Some (user, ip, method)"
    using assms(1-5) by (subst ParseAccepted_skip) (simp, intro ParseAccepted_here accepted_here_message, simp_all)
  then show ?thesis by (simp add: assms(6) accepted_message_def)
qed

theorem failed_login_reported_witness:
  "ParseAccepted (''Failed password for invalid user '' @ accepted_message ''x'' ''root'' ''10.0.0.1'' ''1'' @
      '' from '' @ ''203.0.113.66'' @ '' port 22 ssh2'') = Some (''root'', ''10.0.0.1'', ''x'')"
  by (rule failed_login_reported [OF _ _ _ _ _ refl]) (simp_all add: re_space_def is_digit_def)

section \<open>Polls\<close>

text \<open>What the tool does: with a log whose records have growing ids, it prints the records after an id, or the
  newest one; or it fails.\<close>

definition reads_log :: "WatchLib \<Rightarrow> string \<Rightarrow> RawEvent list \<Rightarrow> bool" where
  "reads_log X channel log \<longleftrightarrow>
     sorted_wrt (<) (map re_RecordID log) \<and> list_all (\<lambda>r. 0 < re_RecordID r) log \<and>
     (\<forall>n. wev_query X channel (after_query n) [] = Inr (filter (\<lambda>r. n < re_RecordID r) log)) \<and>
     wev_query X channel newest_query [''/c:1'', ''/rd:true''] = Inr (if log = [] then [] else [last log])"

definition tool_fails :: "WatchLib \<Rightarrow> string \<Rightarrow> bool" where
  "tool_fails X channel \<longleftrightarrow> (\<forall>q extra. isl (wev_query X channel q extra))"

text \<open>A log that only grows, seen by the rounds of the loop; \<open>None\<close> is a round whose tool fails.\<close>

fun log_history :: "string \<Rightarrow> RawEvent list \<Rightarrow> (watch_round \<times> RawEvent list option) list \<Rightarrow> bool" where
  "log_history channel log [] = True"
| "log_history channel log ((r, None) # rs) = (tool_fails (wr_lib r) channel \<and> log_history channel log rs)"
| "log_history channel log ((r, Some log') # rs) =
     (reads_log (wr_lib r) channel log' \<and> take (length log) log' = log \<and> log_history channel log' rs)"

fun final_log :: "RawEvent list \<Rightarrow> (watch_round \<times> RawEvent list option) list \<Rightarrow> RawEvent list" where
  "final_log log [] = log"
| "final_log log ((r, None) # rs) = final_log log rs"
| "final_log log ((r, Some log') # rs) = final_log log' rs"

lemma wev_advance_frame [simp]:
  "ws_primed (wev_advance raw s) = ws_primed s" "ws_Channel (wev_advance raw s) = ws_Channel s"
  by (induction raw arbitrary: s) simp_all

lemma wev_advance_less:
  "ws_last (wev_advance raw s) < n \<longleftrightarrow> ws_last s < n \<and> list_all (\<lambda>r. re_RecordID r < n) raw"
proof (induction raw arbitrary: s)
  case (Cons r raw)
  show ?case by (cases "ws_last s < re_RecordID r") (auto simp: Cons)
qed simp

lemma final_log_grows: "log_history ch log rs \<Longrightarrow> \<exists>ext. final_log log rs = log @ ext"
proof (induction log rs rule: final_log.induct)
  case (3 log r log' rs)
  then obtain ext where "final_log log' rs = log' @ ext" by auto
  moreover have "log' = log @ drop (length log) log'" using 3(2) by (metis append_take_drop_id log_history.simps(3))
  ultimately show ?case by (metis append.assoc final_log.simps(3))
qed auto

lemma final_log_sorted:
  "log_history ch log rs \<Longrightarrow> sorted_wrt (<) (map re_RecordID log) \<Longrightarrow>
   sorted_wrt (<) (map re_RecordID (final_log log rs))"
  by (induction log rs rule: final_log.induct) (auto simp: reads_log_def)

lemma final_log_pos:
  "log_history ch log rs \<Longrightarrow> list_all (\<lambda>r. 0 < re_RecordID r) log \<Longrightarrow>
   list_all (\<lambda>r. 0 < re_RecordID r) (final_log log rs)"
  by (induction log rs rule: final_log.induct) (auto simp: reads_log_def)

lemma sorted_last: "sorted_wrt (<) (map f xs) \<Longrightarrow> x \<in> set xs \<Longrightarrow> f x \<le> f (last xs)" for f :: "'a \<Rightarrow> nat"
proof (induction xs)
  case (Cons y ys)
  then show ?case by (cases "ys = []") (auto dest: last_in_set intro: less_imp_le)
qed simp

text \<open>Once primed, the rounds report every record after the bookmark, once and in order.\<close>

lemma watch_Run_primed:
  assumes "log_history (ws_Channel s) log rs" "ws_primed s" "sorted_wrt (<) (map re_RecordID log)"
    "list_all (\<lambda>r. re_RecordID r \<le> ws_last s) log"
    "list_all (\<lambda>(r, _). wr_call r = call \<and> \<not> wr_stop r) rs"
  shows "fst (snd (watch_Run host (map fst rs) s))
    = map (watch_report call host) (ToEvents (filter (\<lambda>r. ws_last s < re_RecordID r) (final_log log rs)))"
  using assms
proof (induction rs arbitrary: s log)
  case Nil
  have "filter (\<lambda>r. ws_last s < re_RecordID r) log = []" using Nil(4) by (auto simp: filter_empty_conv list_all_iff)
  then show ?case by (simp add: ToEvents_def)
next
  case (Cons p rs)
  obtain r seen where p: "p = (r, seen)" by fastforce
  show ?case
  proof (cases seen)
    case None
    then obtain e where "wev_query (wr_lib r) (ws_Channel s) (after_query (ws_last s)) [] = Inl e"
      using Cons.prems(1) by (auto simp: p tool_fails_def isl_def)
    then have n: "wev_Next (wr_lib r) s = (s, Inl e)" using Cons.prems(2) by (simp add: wev_Next_def)
    show ?thesis
      using Cons.IH [of s log] Cons.prems None by (simp add: p n watch_RunOnce_def Let_def split_beta)
  next
    case (Some log')
    let ?new = "filter (\<lambda>r. ws_last s < re_RecordID r) log'"
    define s' where "s' = wev_advance ?new s"
    have n: "wev_Next (wr_lib r) s = (s', Inr (ToEvents ?new))"
      using Cons.prems(1,2) Some by (simp add: p wev_Next_def reads_log_def s'_def)
    have hist: "log_history (ws_Channel s') log' rs" and srt: "sorted_wrt (<) (map re_RecordID log')"
      using Cons.prems(1) Some by (simp_all add: p s'_def reads_log_def)
    have le: "re_RecordID x \<le> ws_last s'" if "x \<in> set log'" for x
      using wev_advance_less [of ?new s "re_RecordID x"] that by (force simp: s'_def list_all_iff)
    have IH: "fst (snd (watch_Run host (map fst rs) s'))
        = map (watch_report call host) (ToEvents (filter (\<lambda>r. ws_last s' < re_RecordID r) (final_log log' rs)))"
      using Cons.IH [OF hist] Cons.prems(2,5) srt le by (simp add: s'_def p list_all_iff)
    obtain ext where ext: "final_log log' rs = log' @ ext" using final_log_grows [OF hist] by blast
    have later: "re_RecordID a < re_RecordID b" if "a \<in> set log'" "b \<in> set ext" for a b
      using final_log_sorted [OF hist srt] that unfolding ext by (auto simp: sorted_wrt_append)
    have "filter (\<lambda>r. ws_last s' < re_RecordID r) log' = []" using le by (auto simp: filter_empty_conv not_less)
    moreover have "filter (\<lambda>r. ws_last s' < re_RecordID r) ext = filter (\<lambda>r. ws_last s < re_RecordID r) ext"
      using later by (intro filter_cong) (auto simp: s'_def wev_advance_less list_all_iff)
    ultimately have "filter (\<lambda>r. ws_last s < re_RecordID r) (final_log log' rs)
        = ?new @ filter (\<lambda>r. ws_last s' < re_RecordID r) (final_log log' rs)"
      by (simp add: ext)
    then show ?thesis
      using IH Cons.prems(5) Some by (simp add: p n watch_RunOnce_def Let_def split_beta ToEvents_def)
  qed
qed

text \<open>C37: The watcher reports every login once and none from before it started. Over a log that only grows,
  with a first poll that succeeds and any of the later ones failing, the lines it reports are those of the
  accepted logins among the records added after the first poll and up to the last successful one, in the order
  of the log.\<close>

theorem watch_reports_once:
  assumes "reads_log (wr_lib r0) channel log0" "log_history channel log0 rs"
    and "list_all (\<lambda>(r, _). wr_call r = call \<and> \<not> wr_stop r) ((r0, Some log0) # rs)"
  shows "fst (snd (watch_Run host (map fst ((r0, Some log0) # rs)) (NewSystemSource channel 0)))
    = map (watch_report call host) (ToEvents (drop (length log0) (final_log log0 rs)))"
proof -
  define s where "s = wev_advance (if log0 = [] then [] else [last log0]) ((NewSystemSource channel 0)\<lparr> ws_primed := True \<rparr>)"
  have srt: "sorted_wrt (<) (map re_RecordID log0)" and pos: "list_all (\<lambda>r. 0 < re_RecordID r) log0"
    using assms(1) by (simp_all add: reads_log_def)
  have last: "ws_last s = (if log0 = [] then 0 else re_RecordID (last log0))"
    using pos by (simp add: s_def NewSystemSource_def list_all_iff)
  have le: "re_RecordID r \<le> ws_last s" if "r \<in> set log0" for r
    using sorted_last [OF srt that] that by (auto simp: last)
  have n: "wev_Next (wr_lib r0) (NewSystemSource channel 0) = (s, Inr [])"
    using assms(1) by (simp add: wev_Next_def NewSystemSource_def s_def reads_log_def)
  have ch: "ws_Channel s = channel" "ws_primed s" by (simp_all add: s_def NewSystemSource_def)
  obtain ext where ext: "final_log log0 rs = log0 @ ext" using final_log_grows [OF assms(2)] by blast
  have later: "ws_last s < re_RecordID b" if "b \<in> set ext" for b
    using final_log_sorted [OF assms(2) srt] final_log_pos [OF assms(2) pos] that
    unfolding ext by (auto simp: last sorted_wrt_append list_all_iff)
  have "filter (\<lambda>r. ws_last s < re_RecordID r) (final_log log0 rs) = drop (length log0) (final_log log0 rs)"
    using le later by (simp add: ext filter_empty_conv not_less)
  then show ?thesis
    using watch_Run_primed [of s log0 rs call host] assms(2,3) srt le
    by (simp add: n ch watch_RunOnce_def Let_def split_beta list_all_iff)
qed

text \<open>C38: When the very first poll fails, the watcher forgets that it has not found the end of the log: the next
  poll asks for everything after record 0, so every accepted login the log still holds is reported as new,
  those from before the watcher started included.\<close>

theorem failed_priming_replays:
  assumes "tool_fails (wr_lib r0) channel" "reads_log (wr_lib r1) channel log" "\<not> wr_stop r0" "wr_call r1 = call"
  shows "fst (snd (watch_Run host [r0, r1] (NewSystemSource channel 0))) = map (watch_report call host) (ToEvents log)"
proof -
  obtain e where "wev_query (wr_lib r0) channel newest_query [''/c:1'', ''/rd:true''] = Inl e"
    using assms(1) by (auto simp: tool_fails_def isl_def)
  then have n: "wev_Next (wr_lib r0) (NewSystemSource channel 0) = ((NewSystemSource channel 0)\<lparr> ws_primed := True \<rparr>, Inl e)"
    by (simp add: wev_Next_def NewSystemSource_def)
  have "filter (\<lambda>r. 0 < re_RecordID r) log = log"
    using assms(2) by (auto simp: reads_log_def list_all_iff intro: filter_True)
  then have "wev_query (wr_lib r1) channel (after_query 0) [] = Inr log"
    using assms(2) by (simp add: reads_log_def)
  then have n1: "snd (wev_Next (wr_lib r1) ((NewSystemSource channel 0)\<lparr> ws_primed := True \<rparr>)) = Inr (ToEvents log)"
    by (simp add: wev_Next_def NewSystemSource_def)
  show ?thesis using assms(3,4) n1 by (simp add: n watch_RunOnce_def Let_def split_beta)
qed

section \<open>An example log\<close>

text \<open>A tool that knows one record: it prints it when asked for the newest one or for those after 0.\<close>

definition ex_message :: string where
  "ex_message = accepted_message ''publickey'' ''deploy'' ''203.0.113.42'' ''51234 ssh2''"

definition ex_record :: RawEvent where
  "ex_record = \<lparr> re_RecordID = 1, re_Time = 0, re_Data = [''sshd'', ex_message] \<rparr>"

definition ex_tool :: WatchLib where
  "ex_tool =
     \<lparr> wx_run = (\<lambda>args. if args ! 2 = ''/q:'' @ newest_query \<or> args ! 2 = ''/q:'' @ after_query 0
                        then ToolOutput ''x'' else ToolOutput []),
       wx_xml = (\<lambda>_. Some [\<lparr> xe_EventRecordID = 1, xe_SystemTime = [], xe_Data = [''sshd'', ex_message] \<rparr>]),
       wx_time = (\<lambda>_. Some 0) \<rparr>"

definition ex_no_tool :: WatchLib where
  "ex_no_tool = \<lparr> wx_run = (\<lambda>_. ToolMissing), wx_xml = (\<lambda>_. None), wx_time = (\<lambda>_. None) \<rparr>"

lemma FormatInt_zero: "FormatInt (int n) = FormatInt 0 \<longleftrightarrow> n = 0"
proof
  assume eq: "FormatInt (int n) = FormatInt 0"
  have z: "FormatInt 0 = [dec_digit 0]" by (simp add: FormatInt_def dec_digits.simps)
  show "n = 0"
  proof (cases "n < 10")
    case True
    then have "of_char (dec_digit n) = (of_char (dec_digit 0) :: nat)"
      using eq z by (simp add: FormatInt_def dec_digits.simps [of n])
    then show ?thesis using True by (simp add: dec_digit_def)
  next
    case False
    have "dec_digits m \<noteq> []" for m by (subst dec_digits.simps) simp
    then show ?thesis using eq z False by (simp add: FormatInt_def dec_digits.simps [of n])
  qed
qed simp

lemma decodeOutput_short: "length b < 2 \<Longrightarrow> decodeOutput b = b"
  by (simp add: decodeOutput_def TrimPrefix_def utf8_bom_def) (auto dest: arg_cong [of _ _ length])

lemma ex_query:
  "wev_query ex_tool channel q extra =
     Inr (if q = newest_query \<or> q = after_query 0 then [ex_record] else [])"
proof -
  have "TrimSpace ''x'' = ''x''" "TrimSpace ''sshd'' = ''sshd''" by (rule TrimSpace_printable, simp)+
  moreover have "TrimSpace ex_message = ex_message"
    by (rule TrimSpace_ascii) (simp_all add: ex_message_def accepted_message_def IsSpace_def)
  moreover have "TrimPrefix utf8_bom ''x'' = ''x''" "TrimPrefix utf8_bom [] = []"
    by (simp_all add: TrimPrefix_def utf8_bom_def)
  ultimately show ?thesis
    by (simp add: wev_query_def ex_tool_def decodeOutput_short ParseWevtutilXML_def raw_event_def ex_record_def Let_def)
qed

lemma ex_reads_log: "reads_log ex_tool channel [ex_record]"
proof -
  have neq: "newest_query \<noteq> after_query n" for n by (simp add: newest_query_def after_query_def)
  have "after_query n = after_query 0 \<longleftrightarrow> n = 0" for n by (simp add: after_query_def FormatInt_zero)
  then show ?thesis
    using neq by (auto simp: reads_log_def ex_query ex_record_def neq [symmetric])
qed

lemma ex_ToEvents:
  "ToEvents [ex_record] = [\<lparr> ev_RecordID = 1, ev_Time = 0, ev_Username = ''deploy'', ev_SourceIP = ''203.0.113.42'',
     ev_Method = ''publickey'' \<rparr>]"
proof -
  have "ParseAccepted ex_message = Some (''deploy'', ''203.0.113.42'', ''publickey'')"
    unfolding ex_message_def
    by (rule ParseAccepted_here, rule accepted_here_message) (simp_all add: re_space_def is_digit_def)
  moreover have "ParseAccepted ''sshd'' = None"
    using ParseAccepted_skip [of "''sshd''" "[]"] by (simp add: accepted_here_def skip_text_def)
  ultimately show ?thesis by (simp add: ToEvents_def ex_record_def)
qed

definition ex_round :: "WatchLib \<Rightarrow> watch_round" where
  "ex_round X = \<lparr> wr_lib = X, wr_call = (\<lambda>_. Inl UnreachableError), wr_done = False, wr_stop = False \<rparr>"

definition ex_empty_tool :: WatchLib where
  "ex_empty_tool = \<lparr> wx_run = (\<lambda>_. ToolOutput []), wx_xml = (\<lambda>_. None), wx_time = (\<lambda>_. None) \<rparr>"

lemma ex_reads_empty: "reads_log ex_empty_tool channel []"
  by (simp add: reads_log_def wev_query_def ex_empty_tool_def decodeOutput_short ParseWevtutilXML_def TrimPrefix_def
      utf8_bom_def)

lemma ex_fails: "tool_fails ex_no_tool channel"
  by (simp add: tool_fails_def wev_query_def ex_no_tool_def)

theorem watch_reports_once_witness:
  "map ln_User (fst (snd (watch_Run ''win-01'' [ex_round ex_empty_tool, ex_round ex_no_tool, ex_round ex_tool,
     ex_round ex_tool] (NewSystemSource ''ssh'' 0)))) = [''deploy'']"
proof -
  have "fst (snd (watch_Run ''win-01'' (map fst [(ex_round ex_empty_tool, Some []), (ex_round ex_no_tool, None),
      (ex_round ex_tool, Some [ex_record]), (ex_round ex_tool, Some [ex_record])]) (NewSystemSource ''ssh'' 0)))
    = map (watch_report (\<lambda>_. Inl UnreachableError) ''win-01'') (ToEvents (drop (length ([] :: RawEvent list))
        (final_log [] [(ex_round ex_no_tool, None), (ex_round ex_tool, Some [ex_record]),
          (ex_round ex_tool, Some [ex_record])])))"
    by (rule watch_reports_once) (simp_all add: ex_round_def ex_reads_empty ex_reads_log ex_fails)
  then show ?thesis by (simp add: ex_ToEvents watch_report_def Let_def)
qed

theorem failed_priming_replays_witness:
  "map ln_User (fst (snd (watch_Run ''win-01'' [ex_round ex_no_tool, ex_round ex_tool] (NewSystemSource ''ssh'' 0))))
     = [''deploy'']"
proof -
  have "fst (snd (watch_Run ''win-01'' [ex_round ex_no_tool, ex_round ex_tool] (NewSystemSource ''ssh'' 0)))
    = map (watch_report (\<lambda>_. Inl UnreachableError) ''win-01'') (ToEvents [ex_record])"
    by (rule failed_priming_replays) (simp_all add: ex_round_def ex_reads_log ex_fails)
  then show ?thesis by (simp add: ex_ToEvents watch_report_def Let_def)
qed

end
