(* ===== verification/Server_Cmd.thy ===== *)
theory Server_Cmd
  imports App_Config Router Base64
begin

text \<open>
  The commands of the backend besides serving (\<^verbatim>\<open>backend/cmd/server\<close>): enrolling a server, the health probe and
  the migrations of \<^verbatim>\<open>backend/internal/db/migrate.go\<close>; and the start of the Scaleway function
  (\<^verbatim>\<open>backend/adapters/scaleway/api\<close>) with its retries.
\<close>

section \<open>Enrollment\<close>

definition tokenBytes :: nat where "tokenBytes = 32"

text \<open>\<open>rand\<close> gives the requested number of random bytes, or fails.\<close>

definition newToken :: "(nat \<Rightarrow> nat list option) \<Rightarrow> string option" where
  "newToken rand = map_option b64_bytes (rand tokenBytes)"

text \<open>\<^verbatim>\<open>runEnroll\<close>: \<open>flags\<close> are the values of \<^verbatim>\<open>--name\<close> and \<^verbatim>\<open>--os\<close> if the flags parse, \<open>pg\<close> the store if the
  database opens; the result is the store's state, the exit code and the lines on standard output. \<open>nid\<close> is
  the id the store gives the new row.\<close>

definition runEnroll ::
  "(string \<times> string) option \<Rightarrow> (string \<Rightarrow> string) \<Rightarrow> (nat \<Rightarrow> nat list option) \<Rightarrow> 's Store option \<Rightarrow> string \<Rightarrow> time \<Rightarrow>
     's \<Rightarrow> 's \<times> nat \<times> string list" where
  "runEnroll flags getenv rand pg nid now s =
     (case flags of
        None \<Rightarrow> (s, 2, [])
      | Some (name0, osName) \<Rightarrow>
          let name = TrimSpace name0 in
          if name = [] then (s, 2, [])
          else if \<not> ValidOS osName then (s, 2, [])
          else if getenv ''DATABASE_URL'' = [] then (s, 1, [])
          else (case newToken rand of
                  None \<Rightarrow> (s, 1, [])
                | Some token \<Rightarrow>
                    (case pg of
                       None \<Rightarrow> (s, 1, [])
                     | Some S \<Rightarrow>
                         (case st_CreateServer S nid name (HashToken token) osName now s of
                            (s', Inl _) \<Rightarrow> (s', 1, [])
                          | (s', Inr srv) \<Rightarrow> (s', 0, [token])))))"

section \<open>The health probe\<close>

text \<open>\<^verbatim>\<open>net.SplitHostPort\<close>: the port is what follows the last colon. An address in brackets must be followed by
  that colon; without brackets the host has no colon; no other brackets are allowed.\<close>

definition last_colon :: "string \<Rightarrow> nat option" where
  "last_colon s =
     (if CHR '':'' \<in> set s then Some (length s - 1 - length (takeWhile (\<lambda>c. c \<noteq> CHR '':'') (rev s))) else None)"

definition SplitHostPort :: "string \<Rightarrow> (string \<times> string) option" where
  "SplitHostPort s =
     (case last_colon s of
        None \<Rightarrow> None
      | Some i \<Rightarrow>
          if s ! 0 = CHR ''['' then
            (let e = length (takeWhile (\<lambda>c. c \<noteq> CHR '']'') s) in
             if e = length s \<or> e + 1 \<noteq> i then None
             else if CHR ''['' \<in> set (drop 1 s) \<or> CHR '']'' \<in> set (drop (e + 1) s) then None
             else Some (drop 1 (take e s), drop (i + 1) s))
          else if CHR '':'' \<in> set (take i s) then None
          else if CHR ''['' \<in> set s \<or> CHR '']'' \<in> set s then None
          else Some (take i s, drop (i + 1) s))"

definition healthURL :: "string \<Rightarrow> string option" where
  "healthURL listenAddr =
     (let addr = (if listenAddr = [] then DefaultListenAddr else listenAddr) in
      case SplitHostPort addr of
        None \<Rightarrow> None
      | Some (_, port) \<Rightarrow> Some (''http://127.0.0.1:'' @ port @ ''/healthz''))"

text \<open>\<open>get\<close> is the status of a GET, if there is an answer.\<close>

definition runHealthcheck :: "(string \<Rightarrow> string) \<Rightarrow> (string \<Rightarrow> nat option) \<Rightarrow> nat" where
  "runHealthcheck getenv get =
     (case healthURL (getenv ''LISTEN_ADDR'') of
        None \<Rightarrow> 1
      | Some url \<Rightarrow> (case get url of None \<Rightarrow> 1 | Some status \<Rightarrow> if status \<noteq> 200 then 1 else 0))"

section \<open>Migrations\<close>

text \<open>The database as far as the migrations see it: the schema, the table \<^verbatim>\<open>schema_migrations\<close> if it exists, with
  the versions in the order they were recorded.\<close>

record 'd migrated =
  mg_schema :: 'd
  mg_versions :: "string list option"

datatype migrate_error = BeginFailed | LockFailed | CommitFailed | TableFailed | CheckFailed | FileFailed
  | StatementFailed | RecordFailed

text \<open>Which of the operations of a transaction fail. A commit that fails may still have taken effect, when only
  its answer was lost.\<close>

record step_faults =
  sf_begin :: bool
  sf_lock :: bool
  sf_commit :: bool
  sf_lost :: bool
  sf_statement :: bool
  sf_record :: bool

text \<open>A step runs in a transaction under the migration lock: it takes effect as a whole, or not at all.\<close>

definition migrationStep ::
  "step_faults \<Rightarrow> ('d migrated \<Rightarrow> (migrate_error, 'd migrated) result) \<Rightarrow> 'd migrated \<Rightarrow>
     'd migrated \<times> migrate_error option" where
  "migrationStep f fn db =
     (if sf_begin f then (db, Some BeginFailed)
      else if sf_lock f then (db, Some LockFailed)
      else (case fn db of
              Inl e \<Rightarrow> (db, Some e)
            | Inr db' \<Rightarrow> if sf_commit f then (if sf_lost f then db' else db, Some CommitFailed) else (db', None)))"

definition create_versions :: "step_faults \<Rightarrow> 'd migrated \<Rightarrow> 'd migrated \<times> migrate_error option" where
  "create_versions f =
     migrationStep f (\<lambda>db. if sf_statement f then Inl TableFailed
       else Inr (case mg_versions db of None \<Rightarrow> db\<lparr> mg_versions := Some [] \<rparr> | Some _ \<Rightarrow> db))"

definition TrimSuffix_sql :: "string \<Rightarrow> string" where
  "TrimSuffix_sql name =
     (if 4 \<le> length name \<and> drop (length name - 4) name = ''.sql'' then take (length name - 4) name else name)"

text \<open>\<open>read\<close> gives the text of an embedded file, \<open>exec\<close> the effect of the statements of a file on the schema.\<close>

definition applyMigration ::
  "(string \<Rightarrow> string option) \<Rightarrow> (string \<Rightarrow> 'd \<Rightarrow> 'd option) \<Rightarrow> step_faults \<Rightarrow> string \<Rightarrow> 'd migrated \<Rightarrow>
     'd migrated \<times> migrate_error option" where
  "applyMigration read exec f name =
     migrationStep f (\<lambda>db.
       case mg_versions db of
         None \<Rightarrow> Inl CheckFailed
       | Some vs \<Rightarrow>
           if sf_statement f then Inl CheckFailed
           else if TrimSuffix_sql name \<in> set vs then Inr db
           else (case read name of
                   None \<Rightarrow> Inl FileFailed
                 | Some body \<Rightarrow>
                     (case exec body (mg_schema db) of
                        None \<Rightarrow> Inl StatementFailed
                      | Some d \<Rightarrow>
                          if sf_record f then Inl RecordFailed
                          else Inr \<lparr> mg_schema = d, mg_versions = Some (vs @ [TrimSuffix_sql name]) \<rparr>)))"

definition migration_names :: "(string \<times> bool) list \<Rightarrow> string list" where
  "migration_names entries =
     sort (map fst (filter (\<lambda>(name, isdir). \<not> isdir \<and> 4 \<le> length name \<and> drop (length name - 4) name = ''.sql'') entries))"

fun apply_all ::
  "(string \<Rightarrow> string option) \<Rightarrow> (string \<Rightarrow> 'd \<Rightarrow> 'd option) \<Rightarrow> (string \<Rightarrow> step_faults) \<Rightarrow> string list \<Rightarrow> 'd migrated \<Rightarrow>
     'd migrated \<times> migrate_error option" where
  "apply_all read exec f [] db = (db, None)"
| "apply_all read exec f (name # names) db =
     (case applyMigration read exec (f name) name db of
        (db', Some e) \<Rightarrow> (db', Some e)
      | (db', None) \<Rightarrow> apply_all read exec f names db')"

definition Migrate ::
  "(string \<times> bool) list \<Rightarrow> (string \<Rightarrow> string option) \<Rightarrow> (string \<Rightarrow> 'd \<Rightarrow> 'd option) \<Rightarrow> step_faults \<Rightarrow> (string \<Rightarrow> step_faults) \<Rightarrow>
     'd migrated \<Rightarrow> 'd migrated \<times> migrate_error option" where
  "Migrate entries read exec f0 f db =
     (case create_versions f0 db of
        (db', Some e) \<Rightarrow> (db', Some e)
      | (db', None) \<Rightarrow> apply_all read exec f (migration_names entries) db')"

section \<open>The Scaleway function\<close>

datatype secret_error = SecretUnreachable | SecretUnread | SecretStatus nat | SecretNotJSON | SecretNoData | SecretNotBase64

datatype secret_answer = SecretNoAnswer | SecretAnswer nat "string option"

definition maxSecretBody :: nat where "maxSecretBody = 1048576"

text \<open>\<open>data\<close> is the field of the answer, if it is JSON; \<open>decode\<close> is standard base64.\<close>

definition secret_access ::
  "(string \<Rightarrow> string option) \<Rightarrow> (string \<Rightarrow> string option) \<Rightarrow> (string \<Rightarrow> string \<Rightarrow> secret_answer) \<Rightarrow> string \<Rightarrow> string \<Rightarrow> string \<Rightarrow>
     string \<Rightarrow> (secret_error, string) result" where
  "secret_access data decode get baseURL region secretID token =
     (let url = TrimRight_byte CHR ''/'' baseURL @ ''/secret-manager/v1beta1/regions/'' @ region @ ''/secrets/'' @
            secretID @ ''/versions/latest/access''
      in case get url token of
           SecretNoAnswer \<Rightarrow> Inl SecretUnreachable
         | SecretAnswer status None \<Rightarrow> Inl SecretUnread
         | SecretAnswer status (Some full) \<Rightarrow>
             if status \<noteq> 200 then Inl (SecretStatus status)
             else (case data (take maxSecretBody full) of
                     None \<Rightarrow> Inl SecretNotJSON
                   | Some d \<Rightarrow>
                       if d = [] then Inl SecretNoData
                       else (case decode d of None \<Rightarrow> Inl SecretNotBase64 | Some v \<Rightarrow> Inr v)))"

datatype env_error = SecretVarsMissing "string list" | SecretFailed secret_error

definition withFCMKey ::
  "(string \<Rightarrow> string \<Rightarrow> string \<Rightarrow> (secret_error, string) result) \<Rightarrow> (string \<Rightarrow> string) \<Rightarrow>
     (env_error, (string \<Rightarrow> string) \<times> bool) result" where
  "withFCMKey access getenv =
     (if TrimSpace (getenv ''FCM_SERVICE_ACCOUNT_JSON'') \<noteq> [] then Inr (getenv, False)
      else let secretID = TrimSpace (getenv ''FCM_SERVICE_ACCOUNT_SECRET_ID'') in
      if secretID = [] then Inr (getenv, False)
      else
        let token = TrimSpace (getenv ''SCW_SECRET_KEY''); region = TrimSpace (getenv ''SCW_DEFAULT_REGION'');
            missing = (if token = [] then [''SCW_SECRET_KEY''] else []) @
                      (if region = [] then [''SCW_DEFAULT_REGION''] else [])
        in if missing \<noteq> [] then Inl (SecretVarsMissing missing)
           else (case access region secretID token of
                   Inl e \<Rightarrow> Inl (SecretFailed e)
                 | Inr key \<Rightarrow>
                     Inr ((\<lambda>name. if name = ''FCM_SERVICE_ACCOUNT_JSON'' then key else getenv name), True)))"

datatype function_error = EnvError env_error | ConfigError "config_problem list" | AppError start_error

text \<open>\<open>app\<close> is \<open>app_New\<close> with the database and the clients it builds.\<close>

definition scaleway_start ::
  "(string \<Rightarrow> string \<Rightarrow> string \<Rightarrow> (secret_error, string) result) \<Rightarrow> (string \<Rightarrow> string) \<Rightarrow>
     (AppConfig \<Rightarrow> (start_error, 's Handler) result) \<Rightarrow> (function_error, 's Handler) result" where
  "scaleway_start access getenv app =
     (case withFCMKey access getenv of
        Inl e \<Rightarrow> Inl (EnvError e)
      | Inr (env, _) \<Rightarrow>
          (case LoadConfig env of
             Inl ps \<Rightarrow> Inl (ConfigError ps)
           | Inr cfg \<Rightarrow> (case app cfg of Inl e \<Rightarrow> Inl (AppError e) | Inr h \<Rightarrow> Inr h)))"

definition retryAfter :: duration where "retryAfter = 5 * Second"

text \<open>The state of a function instance: the backend once it runs, the last failure, the time of the last
  attempt. \<open>start\<close> is what an attempt now gives; the last component of the result says whether one was made.\<close>

record ('a, 'e) instance_state =
  in_backend :: "'a option"
  in_initErr :: "'e option"
  in_lastAttempt :: time

definition scaleway_instance ::
  "('e, 'a) result \<Rightarrow> time \<Rightarrow> ('a, 'e) instance_state \<Rightarrow> ('a, 'e) instance_state \<times> ('e, 'a) result \<times> bool" where
  "scaleway_instance start now st =
     (case (in_backend st, in_initErr st) of
        (Some a, _) \<Rightarrow> (st, Inr a, False)
      | (None, initErr) \<Rightarrow>
          if initErr \<noteq> None \<and> now - in_lastAttempt st < retryAfter then (st, Inl (the initErr), False)
          else (case start of
                  Inl e \<Rightarrow> (\<lparr> in_backend = None, in_initErr = Some e, in_lastAttempt = now \<rparr>, Inl e, True)
                | Inr a \<Rightarrow> (\<lparr> in_backend = Some a, in_initErr = None, in_lastAttempt = now \<rparr>, Inr a, True)))"

definition scaleway_Handle ::
  "(function_error, 's Handler) result \<Rightarrow> time \<Rightarrow> 's Ctx \<Rightarrow> HttpRequest \<Rightarrow> ('s Handler, function_error) instance_state \<Rightarrow> 's \<Rightarrow>
     ('s Handler, function_error) instance_state \<times> 's served" where
  "scaleway_Handle start now cx r st s =
     (case scaleway_instance start now st of
        (st', Inl e, _) \<Rightarrow> (st', s, [], Reply 500 (ErrorBody ''backend not configured''))
      | (st', Inr h, _) \<Rightarrow> (st', serve h cx r s))"

end
