(* ===== verification/Cmd_Props.thy ===== *)
theory Cmd_Props
  imports Server_Cmd System
begin

text \<open>
  The backend's commands: how an enrollment ends, over any store, and that migrations are applied once and in
  order even when several replicas start together.
\<close>

section \<open>Enrollment\<close>

lemma b64_printable: "b64_alphabet c \<Longrightarrow> 32 < (of_char c :: nat) \<and> (of_char c :: nat) < 128"
  by (auto simp: b64_alphabet_def Let_def)

lemma newToken_shape:
  assumes "newToken rand = Some tok" "\<And>n bs. rand n = Some bs \<Longrightarrow> length bs = n \<and> list_all (\<lambda>b. b < 256) bs"
  shows "length tok = 43" "TrimSpace tok = tok"
proof -
  obtain bs where bs: "rand 32 = Some bs" "tok = b64_bytes bs"
    using assms(1) by (auto simp: newToken_def tokenBytes_def)
  show "length tok = 43" using assms(2) [OF bs(1)] by (simp add: bs(2) length_b64_bytes)
  have "list_all b64_alphabet tok" using assms(2) [OF bs(1)] by (simp add: bs(2) b64_bytes_alphabet)
  then show "TrimSpace tok = tok" by (intro TrimSpace_printable) (auto simp: list_all_iff b64_printable)
qed

text \<open>Enrollment over any store: it ends before the store is asked, or as the store answers.\<close>

lemma runEnroll_cases:
  assumes "runEnroll flags getenv rand (Some S) nid now s = (s', code, out)"
  obtains (early) "code \<noteq> 0" "s' = s" "out = []"
  | (refused) name os tok e where "flags = Some (name, os)" "code = 1" "out = []"
      "st_CreateServer S nid (TrimSpace name) (HashToken tok) os now s = (s', Inl e)"
  | (enrolled) name os tok srv where "flags = Some (name, os)" "code = 0" "out = [tok]" "newToken rand = Some tok"
      "st_CreateServer S nid (TrimSpace name) (HashToken tok) os now s = (s', Inr srv)"
proof (cases "flags = None \<or> newToken rand = None")
  case True
  then have "runEnroll flags getenv rand (Some S) nid now s \<in> {(s, 1, []), (s, 2, [])}"
    by (cases flags) (simp_all add: runEnroll_def Let_def split: prod.split)
  then show ?thesis unfolding assms by (intro early) auto
next
  case False
  then obtain q tok where "flags = Some q" "newToken rand = Some tok" by (metis option.exhaust)
  then obtain name os where f: "flags = Some (name, os)" "newToken rand = Some tok" by (cases q) simp
  obtain s2 r where c: "st_CreateServer S nid (TrimSpace name) (HashToken tok) os now s = (s2, r)" by fastforce
  have run: "runEnroll flags getenv rand (Some S) nid now s =
      (if TrimSpace name = [] \<or> \<not> ValidOS os then (s, 2, []) else if getenv ''DATABASE_URL'' = [] then (s, 1, [])
       else (s2, case r of Inl _ \<Rightarrow> (1, []) | Inr _ \<Rightarrow> (0, [tok])))"
    unfolding runEnroll_def f Let_def by (simp add: f c split: sum.split)
  show ?thesis
  proof (cases "TrimSpace name = [] \<or> \<not> ValidOS os \<or> getenv ''DATABASE_URL'' = []")
    case True
    then show ?thesis using assms unfolding run by (intro early) (auto split: if_split_asm)
  next
    case False
    then have "(s', code, out) = (s2, case r of Inl _ \<Rightarrow> (1, []) | Inr _ \<Rightarrow> (0, [tok]))" using assms run by simp
    then show ?thesis using f c refused [of name os tok] enrolled [of name os tok] by (cases r) simp_all
  qed
qed

section \<open>Migrations\<close>

text \<open>The schema after some files, executed in order on a first schema.\<close>

fun run_files :: "(string \<Rightarrow> string option) \<Rightarrow> (string \<Rightarrow> 'd \<Rightarrow> 'd option) \<Rightarrow> string list \<Rightarrow> 'd \<Rightarrow> 'd option" where
  "run_files read exec [] d = Some d"
| "run_files read exec (name # names) d =
     (case read name of None \<Rightarrow> None | Some body \<Rightarrow>
        (case exec body d of None \<Rightarrow> None | Some d' \<Rightarrow> run_files read exec names d'))"

lemma run_files_snoc:
  "run_files read exec (names @ [name]) d =
     (case run_files read exec names d of None \<Rightarrow> None | Some d' \<Rightarrow>
        (case read name of None \<Rightarrow> None | Some body \<Rightarrow> exec body d'))"
  by (induction names arbitrary: d) (auto split: option.splits)

text \<open>The first \<open>k\<close> files are recorded and make up the schema.\<close>

definition migrated_to ::
  "(string \<Rightarrow> string option) \<Rightarrow> (string \<Rightarrow> 'd \<Rightarrow> 'd option) \<Rightarrow> string list \<Rightarrow> 'd \<Rightarrow> nat \<Rightarrow> 'd migrated \<Rightarrow> bool" where
  "migrated_to read exec names d0 k db \<longleftrightarrow>
     k \<le> length names \<and> run_files read exec (take k names) d0 = Some (mg_schema db) \<and>
     mg_versions db = Some (map TrimSuffix_sql (take k names))"

lemma migrationStep_cases:
  assumes "migrationStep f fn db = (db', e)"
  obtains "db' = db" "e \<noteq> None" | "fn db = Inr db'"
  using assms by (auto simp: migrationStep_def split: if_splits sum.splits)

lemma applyMigration_progress:
  assumes m: "migrated_to read exec names d0 k db" and n: "n \<le> k" "n < length names"
    and d: "distinct (map TrimSuffix_sql names)" and a: "applyMigration read exec f (names ! n) db = (db', e)"
  shows "(db' = db \<and> e \<noteq> None) \<or> migrated_to read exec names d0 (max k (Suc n)) db'"
  using a [unfolded applyMigration_def]
proof (cases rule: migrationStep_cases)
  case 1
  then show ?thesis by simp
next
  case 2
  let ?vs = "map TrimSuffix_sql (take k names)"
  have v: "mg_versions db = Some ?vs" using m by (simp add: migrated_to_def)
  show ?thesis
  proof (cases "n < k")
    case True
    then have "TrimSuffix_sql (names ! n) \<in> set ?vs"
      using n by (force simp: in_set_conv_nth)
    then have "db' = db" using 2 by (simp add: v split: if_splits)
    moreover have "max k (Suc n) = k" using True by simp
    ultimately show ?thesis using m by simp
  next
    case False
    then have k: "k = n" using n by simp
    have new: "take (Suc n) names = take n names @ [names ! n]" using n by (simp add: take_Suc_conv_app_nth)
    have "distinct (map TrimSuffix_sql (take (Suc n) names))" using d by (metis distinct_take take_map)
    then have "TrimSuffix_sql (names ! n) \<notin> set ?vs" by (simp add: new k)
    then obtain body s where b: "read (names ! n) = Some body" "exec body (mg_schema db) = Some s"
      and db': "db' = \<lparr> mg_schema = s, mg_versions = Some (?vs @ [TrimSuffix_sql (names ! n)]) \<rparr>"
      using 2 by (auto simp: v split: if_splits option.splits)
    show ?thesis
      using m b n unfolding migrated_to_def k db' by (simp add: max_def new run_files_snoc)
  qed
qed

text \<open>Replicas that start at the same time: \<open>pos r\<close> is 0 before replica \<open>r\<close> has made sure of the table of
  versions, and one more than the number of files it has passed afterwards. Steps of replicas interleave in any
  order; a replica whose step fails starts over, now or later.\<close>

inductive replicas ::
  "(string \<Rightarrow> string option) \<Rightarrow> (string \<Rightarrow> 'd \<Rightarrow> 'd option) \<Rightarrow> string list \<Rightarrow> 'd \<Rightarrow> 'd migrated \<Rightarrow> (nat \<Rightarrow> nat) \<Rightarrow> bool"
  for read exec names d0 where
  fresh: "replicas read exec names d0 \<lparr> mg_schema = d0, mg_versions = None \<rparr> (\<lambda>_. 0)"
| table: "replicas read exec names d0 db' (pos(r := if e = None then 1 else 0))"
    if "replicas read exec names d0 db pos" "pos r = 0" "create_versions f db = (db', e)"
| step: "replicas read exec names d0 db' (pos(r := if e = None then Suc (Suc n) else 0))"
    if "replicas read exec names d0 db pos" "pos r = Suc n" "n < length names"
      "applyMigration read exec f (names ! n) db = (db', e)"

lemma create_versions_cases:
  assumes "create_versions f db = (db', e)"
  obtains "db' = db" "e \<noteq> None" | "db' = (case mg_versions db of None \<Rightarrow> db\<lparr> mg_versions := Some [] \<rparr> | Some _ \<Rightarrow> db)"
  using assms [unfolded create_versions_def] by (cases rule: migrationStep_cases) (auto split: if_splits)

lemma replicas_inv:
  assumes "replicas read exec names d0 db pos" "distinct (map TrimSuffix_sql names)"
  shows "(mg_versions db = None \<and> mg_schema db = d0 \<and> (\<forall>r. pos r = 0)) \<or>
    (\<exists>k. migrated_to read exec names d0 k db \<and> (\<forall>r. pos r \<le> Suc k))"
  using assms(1)
proof (induction rule: replicas.induct)
  case fresh
  then show ?case by simp
next
  case (table db pos r f db' e)
  from table.hyps(3) show ?case
  proof (cases rule: create_versions_cases)
    case 1
    then show ?thesis using table.IH table.hyps(2) by (auto simp: fun_upd_idem)
  next
    case 2
    then have "\<exists>k. migrated_to read exec names d0 k db' \<and> (\<forall>r. pos r \<le> Suc k)"
      using table.IH by (auto simp: migrated_to_def)
    then show ?thesis by auto
  qed
next
  case (step db pos r n f db' e)
  then obtain k where k: "migrated_to read exec names d0 k db" "\<forall>r. pos r \<le> Suc k" by force
  then have "n \<le> k" using step.hyps(2) by (metis Suc_le_mono)
  note p = applyMigration_progress [OF k(1) this step.hyps(3) assms(2) step.hyps(4)]
  from p show ?case
  proof
    assume "db' = db \<and> e \<noteq> None"
    then show ?thesis using k by auto
  next
    assume "migrated_to read exec names d0 (max k (Suc n)) db'"
    moreover have "pos ra \<le> Suc (max k (Suc n))" for ra using k(2) by (meson Suc_le_mono le_trans max.cobounded1)
    ultimately show ?thesis by (intro disjI2 exI [of _ "max k (Suc n)"]) auto
  qed
qed

lemma TrimSuffix_sql_inj:
  assumes "4 \<le> length a" "drop (length a - 4) a = ''.sql''" "4 \<le> length b" "drop (length b - 4) b = ''.sql''"
    and "TrimSuffix_sql a = TrimSuffix_sql b"
  shows "a = b"
proof -
  have "a = take (length a - 4) a @ ''.sql''" "b = take (length b - 4) b @ ''.sql''"
    using assms(1-4) by (metis append_take_drop_id)+
  then show ?thesis using assms by (simp add: TrimSuffix_sql_def)
qed

lemma migration_versions_distinct:
  assumes "distinct (map fst entries)"
  shows "distinct (map TrimSuffix_sql (migration_names entries))"
proof -
  have "distinct (migration_names entries)"
    using assms by (simp add: migration_names_def distinct_map_filter)
  moreover have "inj_on TrimSuffix_sql (set (migration_names entries))"
    by (auto simp: migration_names_def inj_on_def intro: TrimSuffix_sql_inj)
  ultimately show ?thesis by (simp add: distinct_map)
qed

lemma apply_all_complete:
  assumes "distinct (map TrimSuffix_sql names)"
  shows "migrated_to read exec names d0 k db \<Longrightarrow> n \<le> k \<Longrightarrow> names' = drop n names \<Longrightarrow>
    apply_all read exec f names' db = (db', None) \<Longrightarrow> migrated_to read exec names d0 (length names) db'"
proof (induction names' arbitrary: n k db)
  case Nil
  then have "k = length names" by (simp add: migrated_to_def)
  then show ?case using Nil by simp
next
  case (Cons name rest)
  have n: "n < length names" "names ! n = name" "rest = drop (Suc n) names"
    using Cons.prems(3) by (metis drop_all linorder_not_less list.distinct(1), metis nth_via_drop, metis Cons_nth_drop_Suc
        drop_all linorder_not_less list.distinct(1) list.inject)
  obtain db1 e where a: "applyMigration read exec (f name) name db = (db1, e)" by fastforce
  then have e: "e = None" "apply_all read exec f rest db1 = (db', None)"
    using Cons.prems(4) by (auto split: option.splits)
  have "migrated_to read exec names d0 (max k (Suc n)) db1"
    using applyMigration_progress [OF Cons.prems(1,2) n(1) assms, of "f name" db1 e] a e(1) n(2) by simp
  then show ?case by (rule Cons.IH [OF _ _ n(3) e(2)]) simp
qed

lemma Migrate_complete:
  assumes "replicas read exec (migration_names entries) d0 db pos" "distinct (map fst entries)"
    and "Migrate entries read exec f0 f db = (db', None)"
  shows "run_files read exec (migration_names entries) d0 = Some (mg_schema db') \<and>
    mg_versions db' = Some (map TrimSuffix_sql (migration_names entries))"
proof -
  define names where "names = migration_names entries"
  have d: "distinct (map TrimSuffix_sql names)"
    unfolding names_def using assms(2) by (rule migration_versions_distinct)
  note inv = replicas_inv [OF assms(1) [folded names_def] d]
  obtain db1 where c: "create_versions f0 db = (db1, None)" and a: "apply_all read exec f names db1 = (db', None)"
    using assms(3) by (auto simp: Migrate_def names_def split: option.splits prod.splits)
  have "\<exists>k. migrated_to read exec names d0 k db1"
    using c by (rule create_versions_cases) (use inv in \<open>auto simp: migrated_to_def\<close>)
  then show ?thesis using apply_all_complete [OF d, of read exec d0 _ db1 0 names f db'] a
    by (auto simp: migrated_to_def names_def)
qed

text \<open>C33: Migrations are applied at most once and in file order, whatever fails and however replicas interleave.
  In every reachable state the recorded versions are those of the first files in name order, each once, and the
  schema is exactly the effect of these files, so no file is half applied; a replica that got through has all
  files applied; and from every such state a migration run that reports success leaves all files applied.\<close>

theorem migrations_once_in_order:
  assumes "replicas read exec (migration_names entries) d0 db pos" "distinct (map fst entries)"
  shows "\<exists>k. k \<le> length (migration_names entries) \<and>
    run_files read exec (take k (migration_names entries)) d0 = Some (mg_schema db) \<and>
    distinct (map TrimSuffix_sql (migration_names entries)) \<and>
    (case mg_versions db of None \<Rightarrow> k = 0 | Some vs \<Rightarrow> vs = map TrimSuffix_sql (take k (migration_names entries))) \<and>
    (\<forall>r. pos r = Suc (length (migration_names entries)) \<longrightarrow> k = length (migration_names entries)) \<and>
    (\<forall>f0 f db'. Migrate entries read exec f0 f db = (db', None) \<longrightarrow>
       run_files read exec (migration_names entries) d0 = Some (mg_schema db') \<and>
       mg_versions db' = Some (map TrimSuffix_sql (migration_names entries)))"
proof -
  define names where "names = migration_names entries"
  have d: "distinct (map TrimSuffix_sql names)"
    unfolding names_def using assms(2) by (rule migration_versions_distinct)
  note inv = replicas_inv [OF assms(1) [folded names_def] d]
  note run = Migrate_complete [OF assms, folded names_def]
  from inv show ?thesis
  proof
    assume "mg_versions db = None \<and> mg_schema db = d0 \<and> (\<forall>r. pos r = 0)"
    then show ?thesis using run d by (intro exI [of _ 0]) (auto simp: names_def)
  next
    assume "\<exists>k. migrated_to read exec names d0 k db \<and> (\<forall>r. pos r \<le> Suc k)"
    then obtain k where k: "migrated_to read exec names d0 k db" "\<forall>r. pos r \<le> Suc k" by blast
    have "k = length names" if "pos r = Suc (length names)" for r
      using k that unfolding migrated_to_def by (metis Suc_le_mono le_antisym)
    then show ?thesis using run d k unfolding names_def migrated_to_def by (intro exI [of _ k]) auto
  qed
qed

definition ex_no_faults :: step_faults where
  "ex_no_faults = \<lparr> sf_begin = False, sf_lock = False, sf_commit = False, sf_lost = False, sf_statement = False, sf_record = False \<rparr>"

definition ex_entries :: "(string \<times> bool) list" where
  "ex_entries = [(''001_init.sql'', False), (''embed.go'', False)]"

lemma ex_names: "migration_names ex_entries = [''001_init.sql'']"
  by (simp add: migration_names_def ex_entries_def)

lemma ex_distinct: "distinct (map fst ex_entries)"
  by (simp add: ex_entries_def)

theorem migrations_once_in_order_witness:
  "\<exists>db pos k. replicas Some (\<lambda>body d. Some (d @ [body])) (migration_names ex_entries) [] db pos \<and>
     mg_versions db = Some [''001_init''] \<and> mg_schema db = [''001_init.sql''] \<and> k = (1 :: nat) \<and>
     run_files Some (\<lambda>body d. Some (d @ [body])) (take k (migration_names ex_entries)) [] = Some (mg_schema db)"
proof -
  let ?e = "\<lambda>body d. Some (d @ [body])"
  let ?names = "migration_names ex_entries"
  define db where "db = \<lparr> mg_schema = [''001_init.sql''], mg_versions = Some [''001_init''] \<rparr>"
  have 0: "replicas Some ?e ?names [] \<lparr> mg_schema = [], mg_versions = None \<rparr> (\<lambda>_. 0)" by (rule replicas.fresh)
  have c: "create_versions ex_no_faults \<lparr> mg_schema = [], mg_versions = None \<rparr>
      = (\<lparr> mg_schema = [], mg_versions = Some [] \<rparr>, None)"
    by (simp add: create_versions_def migrationStep_def ex_no_faults_def)
  have 1: "replicas Some ?e ?names [] \<lparr> mg_schema = [], mg_versions = Some [] \<rparr> ((\<lambda>_. 0)(0 := 1))"
    using replicas.table [OF 0 _ c, of 0] by simp
  have a: "applyMigration Some ?e ex_no_faults (?names ! 0) \<lparr> mg_schema = [], mg_versions = Some [] \<rparr> = (db, None)"
    by (simp add: ex_names applyMigration_def migrationStep_def ex_no_faults_def db_def TrimSuffix_sql_def)
  have 2: "replicas Some ?e ?names [] db ((\<lambda>_. 0)(0 := 2))"
    using replicas.step [OF 1 _ _ a, of 0] by (simp add: ex_names numeral_2_eq_2)
  obtain k where k: "run_files Some ?e (take k ?names) [] = Some (mg_schema db)" "k = length ?names"
    using migrations_once_in_order [OF 2 ex_distinct] by (auto simp: ex_names)
  have "k = 1" using k(2) by (simp add: ex_names)
  with k(1) have "run_files Some ?e (take 1 ?names) [] = Some (mg_schema db)" by (simp only:)
  with 2 show ?thesis by (intro exI [of _ db] exI [of _ "(\<lambda>_. 0)(0 := 2)"] exI [of _ 1]) (simp add: db_def)
qed

end
