(* ===== verification/Conformance.thy ===== *)
theory Conformance
  imports Store
begin

text \<open>
  The conformance suite every store has to pass (\<^verbatim>\<open>backend/internal/db/dbtest/conformance.go\<close>), as executable
  tests over any implementation of the interface. A subtest is a function of the state of the store and of
  the number of ids generated so far; \<^verbatim>\<open>t.Fatalf\<close> ends it with the text of what was checked. Calls and checks
  take the rest of the test as their last argument, in the order of the code. An instant has no location
  here, so the test that a time is in UTC has no counterpart.
\<close>

section \<open>Tests\<close>

datatype trial = Passed | Fatal string

type_synonym 's test = "'s \<times> nat \<Rightarrow> trial"

text \<open>A store, the empty state that \<^verbatim>\<open>open\<close> gives, and the ids that \<open>NewID\<close> and the store generate.\<close>

record 's rig =
  rg_store :: "'s Store"
  rg_open :: 's
  rg_ids :: "nat \<Rightarrow> string"

definition passed :: "'s test" where
  "passed w = Passed"

definition fatal :: "string \<Rightarrow> 's test" where
  "fatal what w = Fatal what"

definition new_id :: "'s rig \<Rightarrow> (string \<Rightarrow> 's test) \<Rightarrow> 's test" where
  "new_id R k = (\<lambda>(s, n). k (rg_ids R n) (s, Suc n))"

definition ask :: "'s rig \<Rightarrow> ('s Store \<Rightarrow> 's \<Rightarrow> 'a) \<Rightarrow> ('a \<Rightarrow> 's test) \<Rightarrow> 's test" where
  "ask R q k = (\<lambda>(s, n). k (q (rg_store R) s) (s, n))"

definition exec :: "'s rig \<Rightarrow> ('s Store \<Rightarrow> 's \<Rightarrow> 's \<times> 'a) \<Rightarrow> ('a \<Rightarrow> 's test) \<Rightarrow> 's test" where
  "exec R u k = (\<lambda>(s, n). case u (rg_store R) s of (s', r) \<Rightarrow> k r (s', n))"

text \<open>An operation that inserts a row under a new id.\<close>

definition insert_row :: "'s rig \<Rightarrow> ('s Store \<Rightarrow> string \<Rightarrow> 's \<Rightarrow> 's \<times> 'a) \<Rightarrow> ('a \<Rightarrow> 's test) \<Rightarrow> 's test" where
  "insert_row R u k = new_id R (\<lambda>nid. exec R (\<lambda>S. u S nid) k)"

definition err_of :: "(store_error, 'a) result \<Rightarrow> store_error option" where
  "err_of r = (case r of Inl e \<Rightarrow> Some e | Inr _ \<Rightarrow> None)"

section \<open>Helpers\<close>

definition conf_base :: time where "conf_base = 1789416000 * Second"
definition ipA :: string where "ipA = ''203.0.113.42''"
definition ipB :: string where "ipB = ''198.51.100.7''"

definition conf_at :: "duration \<Rightarrow> time" where "conf_at d = conf_base + d"
definition atPtr :: "duration \<Rightarrow> time option" where "atPtr d = Some (conf_at d)"

definition check :: "string \<Rightarrow> bool \<Rightarrow> 's test \<Rightarrow> 's test" where
  "check what b k = (if b then k else fatal what)"

definition checkErr :: "string \<Rightarrow> store_error option \<Rightarrow> store_error \<Rightarrow> 's test \<Rightarrow> 's test" where
  "checkErr what err want k = (if err = Some want then k else fatal what)"

definition no_error :: "string \<Rightarrow> store_error option \<Rightarrow> 's test \<Rightarrow> 's test" where
  "no_error what err k = (case err of None \<Rightarrow> k | Some _ \<Rightarrow> fatal what)"

definition succeeds :: "string \<Rightarrow> (store_error, 'a) result \<Rightarrow> ('a \<Rightarrow> 's test) \<Rightarrow> 's test" where
  "succeeds what r k = (case r of Inl _ \<Rightarrow> fatal what | Inr a \<Rightarrow> k a)"

definition checkTime :: "string \<Rightarrow> time \<Rightarrow> time \<Rightarrow> 's test \<Rightarrow> 's test" where
  "checkTime what got want k = (if got = want then k else fatal what)"

definition checkTimePtr :: "string \<Rightarrow> time option \<Rightarrow> time option \<Rightarrow> 's test \<Rightarrow> 's test" where
  "checkTimePtr what got want k =
     (case (got, want) of
        (None, None) \<Rightarrow> k
      | (Some g, Some w) \<Rightarrow> checkTime what g w k
      | _ \<Rightarrow> fatal what)"

definition checkStrPtr :: "string \<Rightarrow> string option \<Rightarrow> string option \<Rightarrow> 's test \<Rightarrow> 's test" where
  "checkStrPtr what got want k =
     (case (got, want) of
        (None, None) \<Rightarrow> k
      | (Some g, Some w) \<Rightarrow> if g = w then k else fatal what
      | _ \<Rightarrow> fatal what)"

definition checkIDs :: "string \<Rightarrow> string list \<Rightarrow> string list \<Rightarrow> 's test \<Rightarrow> 's test" where
  "checkIDs what got want k =
     (if length got \<noteq> length want then fatal what
      else if list_all2 (\<lambda>g w. g = w) got want then k else fatal what)"

definition mustServer :: "'s rig \<Rightarrow> string \<Rightarrow> (Server \<Rightarrow> 's test) \<Rightarrow> 's test" where
  "mustServer R name k =
     insert_row R (\<lambda>S nid. st_CreateServer S nid name (''hash-'' @ name) OSLinux conf_base) (\<lambda>r.
     succeeds ''create server'' r k)"

definition mustDevice :: "'s rig \<Rightarrow> string \<Rightarrow> string \<Rightarrow> (Device \<Rightarrow> 's test) \<Rightarrow> 's test" where
  "mustDevice R token label k =
     insert_row R (\<lambda>S nid. st_UpsertDevice S nid token PlatformAndroid (Some label) conf_base) (\<lambda>r.
     succeeds ''upsert device'' r (\<lambda>(d, _). k d))"

definition pendingRequest :: "Server \<Rightarrow> string \<Rightarrow> time \<Rightarrow> Request" where
  "pendingRequest srv username t =
     \<lparr> rq_ID = [], rq_ServerID = sv_ID srv, rq_ServerName = [], rq_Context = ContextSSH, rq_Username = username,
       rq_SourceIP = Some ipA, rq_Hostname = sv_Name srv, rq_TTY = None, rq_Command = None, rq_Geo = None,
       rq_Status = StatusPending, rq_DecidedBy = None, rq_DecidedByDevice = None, rq_DecidedByDeviceLabel = None,
       rq_CreatedAt = t, rq_ExpiresAt = t + 30 * Second, rq_DecidedAt = None \<rparr>"

definition mustRequest :: "'s rig \<Rightarrow> Request \<Rightarrow> (Request \<Rightarrow> 's test) \<Rightarrow> 's test" where
  "mustRequest R r k =
     insert_row R (\<lambda>S nid. st_CreateRequest S nid r) (\<lambda>got. succeeds ''create request'' got k)"

definition mustWhitelist :: "'s rig \<Rightarrow> WhitelistEntry \<Rightarrow> time \<Rightarrow> (WhitelistEntry \<Rightarrow> 's test) \<Rightarrow> 's test" where
  "mustWhitelist R e now k =
     insert_row R (\<lambda>S nid. st_UpsertWhitelist S nid e now) (\<lambda>r.
     succeeds ''upsert whitelist'' r (\<lambda>(got, _). k got))"

definition mustBlock :: "'s rig \<Rightarrow> BlockedIP \<Rightarrow> (BlockedIP \<Rightarrow> 's test) \<Rightarrow> 's test" where
  "mustBlock R b k =
     insert_row R (\<lambda>S nid. st_UpsertBlockedIP S nid b) (\<lambda>r. succeeds ''upsert blocked ip'' r k)"

definition conform_Ping :: "'s rig \<Rightarrow> 's test" where
  "conform_Ping R = ask R st_Ping (\<lambda>e. no_error ''ping'' e passed)"

section \<open>Servers\<close>

definition servers_Create :: "'s rig \<Rightarrow> 's test" where
  "servers_Create R =
     insert_row R (\<lambda>S nid. st_CreateServer S nid ''web-01'' ''hash-1'' OSLinux conf_base) (\<lambda>r.
     succeeds ''create'' r (\<lambda>srv.
     check ''create: empty id'' (sv_ID srv \<noteq> []) (
     check ''create'' (sv_Name srv = ''web-01'' \<and> sv_TokenHash srv = ''hash-1'' \<and> sv_OS srv = OSLinux) (
     checkTime ''created_at'' (sv_CreatedAt srv) conf_base (
     checkTimePtr ''last_seen_at'' (sv_LastSeenAt srv) None (
     passed))))))"

definition servers_ConflictOnName :: "'s rig \<Rightarrow> 's test" where
  "servers_ConflictOnName R =
     mustServer R ''web-01'' (\<lambda>_.
     insert_row R (\<lambda>S nid. st_CreateServer S nid ''web-01'' ''other-hash'' OSLinux conf_base) (\<lambda>r.
     checkErr ''duplicate name'' (err_of r) ErrConflict (
     passed)))"

definition servers_ConflictOnHash :: "'s rig \<Rightarrow> 's test" where
  "servers_ConflictOnHash R =
     mustServer R ''web-01'' (\<lambda>_.
     insert_row R (\<lambda>S nid. st_CreateServer S nid ''web-02'' ''hash-web-01'' OSWindows conf_base) (\<lambda>r.
     checkErr ''duplicate hash'' (err_of r) ErrConflict (
     passed)))"

definition servers_ByHashAndByName :: "'s rig \<Rightarrow> 's test" where
  "servers_ByHashAndByName R =
     mustServer R ''web-01'' (\<lambda>srv.
     mustServer R ''db-01'' (\<lambda>_.
     ask R (\<lambda>S. st_ServerByTokenHash S ''hash-web-01'') (\<lambda>r.
     succeeds ''by hash'' r (\<lambda>byHash.
     check ''by hash'' (sv_ID byHash = sv_ID srv \<and> sv_Name byHash = ''web-01'') (
     checkTime ''created_at'' (sv_CreatedAt byHash) conf_base (
     ask R (\<lambda>S. st_ServerByName S ''web-01'') (\<lambda>r.
     succeeds ''by name'' r (\<lambda>byName.
     check ''by name'' (sv_ID byName = sv_ID srv \<and> sv_TokenHash byName = ''hash-web-01'') (
     passed)))))))))"

definition servers_NotFound :: "'s rig \<Rightarrow> 's test" where
  "servers_NotFound R =
     mustServer R ''web-01'' (\<lambda>_.
     ask R (\<lambda>S. st_ServerByTokenHash S ''unknown'') (\<lambda>r.
     checkErr ''by hash'' (err_of r) ErrNotFound (
     ask R (\<lambda>S. st_ServerByName S ''unknown'') (\<lambda>r.
     checkErr ''by name'' (err_of r) ErrNotFound (
     new_id R (\<lambda>nid.
     exec R (\<lambda>S. st_TouchServer S nid conf_base) (\<lambda>err.
     checkErr ''touch'' err ErrNotFound (
     passed))))))))"

definition servers_Touch :: "'s rig \<Rightarrow> 's test" where
  "servers_Touch R =
     mustServer R ''web-01'' (\<lambda>srv.
     exec R (\<lambda>S. st_TouchServer S (sv_ID srv) (conf_at Minute)) (\<lambda>err.
     no_error ''touch'' err (
     ask R (\<lambda>S. st_ServerByName S ''web-01'') (\<lambda>r.
     succeeds ''by name'' r (\<lambda>got.
     checkTimePtr ''last_seen_at'' (sv_LastSeenAt got) (atPtr Minute) (
     passed))))))"

section \<open>Devices\<close>

definition deviceIDs :: "Device list \<Rightarrow> string list" where
  "deviceIDs ds = map dv_ID ds"

definition devices_UpsertCreatesThenRefreshes :: "'s rig \<Rightarrow> 's test" where
  "devices_UpsertCreatesThenRefreshes R =
     insert_row R (\<lambda>S nid. st_UpsertDevice S nid ''tok-1'' PlatformAndroid (Some ''Pixel 8'') conf_base) (\<lambda>r.
     succeeds ''first upsert'' r (\<lambda>(d1, created).
     check ''first upsert'' (created \<and> dv_ID d1 \<noteq> []) (
     check ''first upsert'' (dv_FCMToken d1 = ''tok-1'' \<and> dv_Platform d1 = PlatformAndroid) (
     checkStrPtr ''label'' (dv_Label d1) (Some ''Pixel 8'') (
     checkTime ''created_at'' (dv_CreatedAt d1) conf_base (
     checkTimePtr ''last_seen_at'' (dv_LastSeenAt d1) (atPtr 0) (
     insert_row R (\<lambda>S nid. st_UpsertDevice S nid ''tok-1'' PlatformIOS (Some ''iPhone'') (conf_at Hour)) (\<lambda>r.
     succeeds ''second upsert'' r (\<lambda>(d2, created).
     check ''second upsert'' (\<not> created) (
     check ''second upsert'' (dv_ID d2 = dv_ID d1 \<and> dv_Platform d2 = PlatformIOS) (
     checkStrPtr ''label'' (dv_Label d2) (Some ''iPhone'') (
     checkTime ''created_at'' (dv_CreatedAt d2) conf_base (
     checkTimePtr ''last_seen_at'' (dv_LastSeenAt d2) (atPtr Hour) (
     insert_row R (\<lambda>S nid. st_UpsertDevice S nid ''tok-1'' PlatformIOS None (conf_at (2 * Hour))) (\<lambda>r.
     succeeds ''third upsert'' r (\<lambda>(d3, created).
     check ''third upsert'' (\<not> created \<and> dv_ID d3 = dv_ID d1) (
     checkStrPtr ''label'' (dv_Label d3) None (
     passed))))))))))))))))))"

definition devices_ByID :: "'s rig \<Rightarrow> 's test" where
  "devices_ByID R =
     mustDevice R ''tok-1'' ''Pixel 8'' (\<lambda>d.
     ask R (\<lambda>S. st_DeviceByID S (dv_ID d)) (\<lambda>r.
     succeeds ''by id'' r (\<lambda>got.
     check ''by id'' (dv_ID got = dv_ID d \<and> dv_FCMToken got = ''tok-1'' \<and> dv_Platform got = PlatformAndroid) (
     checkStrPtr ''label'' (dv_Label got) (Some ''Pixel 8'') (
     checkTime ''created_at'' (dv_CreatedAt got) conf_base (
     checkTimePtr ''last_seen_at'' (dv_LastSeenAt got) (atPtr 0) (
     new_id R (\<lambda>nid.
     ask R (\<lambda>S. st_DeviceByID S nid) (\<lambda>r.
     checkErr ''unknown id'' (err_of r) ErrNotFound (
     passed))))))))))"

definition devices_ListOrderedByCreation :: "'s rig \<Rightarrow> 's test" where
  "devices_ListOrderedByCreation R =
     insert_row R (\<lambda>S nid. st_UpsertDevice S nid ''tok-c'' PlatformAndroid None (conf_at (2 * Hour))) (\<lambda>r.
     succeeds ''upsert'' r (\<lambda>(c, _).
     insert_row R (\<lambda>S nid. st_UpsertDevice S nid ''tok-a'' PlatformAndroid None conf_base) (\<lambda>r.
     succeeds ''upsert'' r (\<lambda>(a, _).
     insert_row R (\<lambda>S nid. st_UpsertDevice S nid ''tok-b'' PlatformIOS None (conf_at Hour)) (\<lambda>r.
     succeeds ''upsert'' r (\<lambda>(b, _).
     ask R st_ListDevices (\<lambda>r.
     succeeds ''list'' r (\<lambda>ds.
     checkIDs ''list'' (deviceIDs ds) [dv_ID a, dv_ID b, dv_ID c] (
     checkTime ''created_at'' (dv_CreatedAt (ds ! 0)) conf_base (
     passed))))))))))"

definition devices_Delete :: "'s rig \<Rightarrow> 's test" where
  "devices_Delete R =
     mustDevice R ''tok-1'' ''Pixel 8'' (\<lambda>d.
     exec R (\<lambda>S. st_DeleteDevice S (dv_ID d) (conf_at Minute)) (\<lambda>err.
     no_error ''delete'' err (
     ask R (\<lambda>S. st_DeviceByID S (dv_ID d)) (\<lambda>r.
     checkErr ''by id after delete'' (err_of r) ErrNotFound (
     exec R (\<lambda>S. st_DeleteDevice S (dv_ID d) (conf_at (2 * Minute))) (\<lambda>err.
     checkErr ''second delete'' err ErrNotFound (
     new_id R (\<lambda>nid.
     exec R (\<lambda>S. st_DeleteDevice S nid (conf_at Minute)) (\<lambda>err.
     checkErr ''unknown id'' err ErrNotFound (
     ask R st_ListDevices (\<lambda>r.
     succeeds ''list'' r (\<lambda>ds.
     check ''list after delete'' (length ds = 0) (
     passed)))))))))))))"

definition devices_DeleteThenRegisterAgain :: "'s rig \<Rightarrow> 's test" where
  "devices_DeleteThenRegisterAgain R =
     mustDevice R ''tok-1'' ''Pixel 8'' (\<lambda>d.
     exec R (\<lambda>S. st_DeleteDevice S (dv_ID d) (conf_at Minute)) (\<lambda>err.
     no_error ''delete'' err (
     insert_row R (\<lambda>S nid. st_UpsertDevice S nid ''tok-1'' PlatformAndroid (Some ''Pixel 8 again'') (conf_at Hour)) (\<lambda>r.
     succeeds ''upsert after delete'' r (\<lambda>(back, created).
     check ''upsert after delete'' (\<not> created \<and> dv_ID back = dv_ID d \<and> dv_DeletedAt back = None) (
     ask R (\<lambda>S. st_DeviceByID S (dv_ID d)) (\<lambda>r.
     no_error ''by id after re-registration'' (err_of r) (
     ask R st_ListDevices (\<lambda>r.
     succeeds ''list'' r (\<lambda>ds.
     checkIDs ''list'' (deviceIDs ds) [dv_ID d] (
     checkStrPtr ''label'' (dv_Label (ds ! 0)) (Some ''Pixel 8 again'') (
     passed))))))))))))"

definition entry :: "string \<Rightarrow> string \<Rightarrow> string option \<Rightarrow> time option \<Rightarrow> WhitelistEntry" where
  "entry username ctx serverID expires =
     \<lparr> wl_ID = [], wl_Username = username, wl_Context = ctx, wl_ServerID = serverID, wl_ServerName = None,
       wl_ExpiresAt = expires, wl_CreatedAt = ZeroTime, wl_CreatedFrom = None, wl_CreatedByDevice = None,
       wl_CreatedByDeviceLabel = None \<rparr>"

definition devices_DeleteKeepsReferencesAndLabel :: "'s rig \<Rightarrow> 's test" where
  "devices_DeleteKeepsReferencesAndLabel R =
     mustServer R ''web-01'' (\<lambda>srv.
     mustDevice R ''tok-1'' ''Pixel 8'' (\<lambda>dev.
     mustRequest R (pendingRequest srv ''deploy'' conf_base) (\<lambda>r.
     exec R (\<lambda>S. st_DecideRequest S (rq_ID r) StatusApproved (Some (dv_ID dev)) (conf_at (5 * Second))) (\<lambda>v.
     no_error ''decide'' (err_of v) (
     mustWhitelist R ((entry ''deploy'' ContextSSH None None)\<lparr> wl_CreatedFrom := Some (rq_ID r),
       wl_CreatedByDevice := Some (dv_ID dev) \<rparr>) conf_base (\<lambda>w.
     exec R (\<lambda>S. st_DeleteDevice S (dv_ID dev) (conf_at Minute)) (\<lambda>err.
     no_error ''delete'' err (
     ask R (\<lambda>S. st_RequestByID S (rq_ID r)) (\<lambda>res.
     succeeds ''request by id'' res (\<lambda>gotR.
     check ''request status after device delete'' (rq_Status gotR = StatusApproved) (
     checkStrPtr ''decided_by'' (rq_DecidedBy gotR) (Some DecidedByAdmin) (
     checkStrPtr ''decided_by_device'' (rq_DecidedByDevice gotR) (Some (dv_ID dev)) (
     checkStrPtr ''decided_by_device label'' (rq_DecidedByDeviceLabel gotR) (Some ''Pixel 8'') (
     checkTimePtr ''decided_at'' (rq_DecidedAt gotR) (atPtr (5 * Second)) (
     ask R (\<lambda>S. st_WhitelistByID S (wl_ID w)) (\<lambda>res.
     succeeds ''whitelist by id'' res (\<lambda>gotW.
     checkStrPtr ''created_by_device'' (wl_CreatedByDevice gotW) (Some (dv_ID dev)) (
     checkStrPtr ''created_by_device label'' (wl_CreatedByDeviceLabel gotW) (Some ''Pixel 8'') (
     checkStrPtr ''created_from'' (wl_CreatedFrom gotW) (Some (rq_ID r)) (
     passed))))))))))))))))))))"

section \<open>Requests\<close>

definition requestIDs :: "Request list \<Rightarrow> string list" where
  "requestIDs rs = map rq_ID rs"

text \<open>The local \<^verbatim>\<open>check\<close> of the first subtest.\<close>

definition check_pending :: "Server \<Rightarrow> Geo option \<Rightarrow> Request \<Rightarrow> 's test \<Rightarrow> 's test" where
  "check_pending srv geo r k =
     check ''server'' (rq_ServerID r = sv_ID srv \<and> rq_ServerName r = ''web-01'') (
     check ''fields'' (rq_Context r = ContextSSH \<and> rq_Username r = ''deploy'' \<and> rq_Hostname r = ''web-01'') (
     checkStrPtr ''source_ip'' (rq_SourceIP r) (Some ipA) (
     checkStrPtr ''tty'' (rq_TTY r) (Some ''pts/0'') (
     checkStrPtr ''command'' (rq_Command r) (Some ''sudo systemctl restart nginx'') (
     check ''geo'' (rq_Geo r \<noteq> None \<and> rq_Geo r = geo) (
     check ''status'' (rq_Status r = StatusPending) (
     checkStrPtr ''decided_by'' (rq_DecidedBy r) None (
     checkStrPtr ''decided_by_device'' (rq_DecidedByDevice r) None (
     checkStrPtr ''decided_by_device label'' (rq_DecidedByDeviceLabel r) None (
     checkTime ''created_at'' (rq_CreatedAt r) conf_base (
     checkTime ''expires_at'' (rq_ExpiresAt r) (conf_at (30 * Second)) (
     checkTimePtr ''decided_at'' (rq_DecidedAt r) None (
     k)))))))))))))"

definition requests_CreatePending :: "'s rig \<Rightarrow> 's test" where
  "requests_CreatePending R =
     mustServer R ''web-01'' (\<lambda>srv.
     let geo = Some \<lparr> geo_Country = ''FR'', geo_City = ''Paris'', geo_ASN = ''AS12876'' \<rparr>;
         req = (pendingRequest srv ''deploy'' conf_base)\<lparr> rq_TTY := Some ''pts/0'',
           rq_Command := Some ''sudo systemctl restart nginx'', rq_Geo := geo \<rparr> in
     mustRequest R req (\<lambda>got.
     check ''create: empty id'' (rq_ID got \<noteq> []) (
     check_pending srv geo got (
     ask R (\<lambda>S. st_RequestByID S (rq_ID got)) (\<lambda>r.
     succeeds ''by id'' r (\<lambda>again.
     check ''by id'' (rq_ID again = rq_ID got) (
     check_pending srv geo again (
     passed))))))))"

definition final_cases :: "(string \<times> string option \<times> time option) list" where
  "final_cases =
     [(StatusWhitelisted, Some DecidedByWhitelist, atPtr 0),
      (StatusBlockedIP, Some DecidedByAutoblock, atPtr 0),
      (StatusBlockedGeo, Some DecidedByGeoRule, atPtr 0),
      (StatusNotified, None, None),
      (StatusTimeout, Some DecidedByTimeout, None),
      (StatusDenied, Some DecidedByAdmin, atPtr (7 * Second)),
      (StatusApproved, Some DecidedByAdmin, atPtr (7 * Second))]"

definition requests_CreateFinalStatuses :: "'s rig \<Rightarrow> 's test" where
  "requests_CreateFinalStatuses R =
     mustServer R ''web-01'' (\<lambda>srv.
     foldr (\<lambda>(status, decidedBy, decidedAt) k.
         mustRequest R ((pendingRequest srv ''deploy'' conf_base)\<lparr> rq_Status := status, rq_DecidedBy := decidedBy,
           rq_DecidedAt := decidedAt \<rparr>) (\<lambda>got.
         check status (rq_Status got = status) (
         checkStrPtr ''decided_by'' (rq_DecidedBy got) decidedBy (
         checkTimePtr ''decided_at'' (rq_DecidedAt got) decidedAt k)))) final_cases (
     mustRequest R ((pendingRequest srv ''deploy'' conf_base)\<lparr> rq_Context := ContextSudo, rq_SourceIP := None,
       rq_Geo := None, rq_Command := Some ''sudo ls'' \<rparr>) (\<lambda>got.
     check ''sudo request'' (rq_Context got = ContextSudo \<and> rq_SourceIP got = None \<and> rq_Geo got = None) (
     passed))))"

definition requests_CreateEmptyStatusIsPending :: "'s rig \<Rightarrow> 's test" where
  "requests_CreateEmptyStatusIsPending R =
     mustServer R ''web-01'' (\<lambda>srv.
     mustRequest R ((pendingRequest srv ''deploy'' conf_base)\<lparr> rq_Status := [] \<rparr>) (\<lambda>got.
     check ''status'' (rq_Status got = StatusPending) (
     passed)))"

definition requests_CreateUnknownServer :: "'s rig \<Rightarrow> 's test" where
  "requests_CreateUnknownServer R =
     new_id R (\<lambda>ghost.
     let srv = \<lparr> sv_ID = ghost, sv_Name = ''ghost'', sv_TokenHash = [], sv_OS = [], sv_CreatedAt = ZeroTime,
                 sv_LastSeenAt = None \<rparr> in
     insert_row R (\<lambda>S nid. st_CreateRequest S nid (pendingRequest srv ''deploy'' conf_base)) (\<lambda>r.
     checkErr ''create'' (err_of r) ErrNotFound (
     passed)))"

definition requests_ByIDNotFound :: "'s rig \<Rightarrow> 's test" where
  "requests_ByIDNotFound R =
     new_id R (\<lambda>nid.
     ask R (\<lambda>S. st_RequestByID S nid) (\<lambda>r.
     checkErr ''by id'' (err_of r) ErrNotFound (
     passed)))"

definition check_approved :: "Device \<Rightarrow> Request \<Rightarrow> 's test \<Rightarrow> 's test" where
  "check_approved dev r k =
     check ''decided'' (rq_Status r = StatusApproved \<and> rq_ServerName r = ''web-01'') (
     checkStrPtr ''decided_by'' (rq_DecidedBy r) (Some DecidedByAdmin) (
     checkStrPtr ''decided_by_device'' (rq_DecidedByDevice r) (Some (dv_ID dev)) (
     checkStrPtr ''decided_by_device label'' (rq_DecidedByDeviceLabel r) (Some ''Pixel 8'') (
     checkTimePtr ''decided_at'' (rq_DecidedAt r) (atPtr (5 * Second)) (
     k)))))"

definition requests_DecideApprove :: "'s rig \<Rightarrow> 's test" where
  "requests_DecideApprove R =
     mustServer R ''web-01'' (\<lambda>srv.
     mustDevice R ''tok-1'' ''Pixel 8'' (\<lambda>dev.
     mustRequest R (pendingRequest srv ''deploy'' conf_base) (\<lambda>r.
     exec R (\<lambda>S. st_DecideRequest S (rq_ID r) StatusApproved (Some (dv_ID dev)) (conf_at (5 * Second))) (\<lambda>res.
     succeeds ''decide'' res (\<lambda>got.
     check_approved dev got (
     ask R (\<lambda>S. st_RequestByID S (rq_ID r)) (\<lambda>res.
     succeeds ''by id'' res (\<lambda>again.
     check_approved dev again (
     exec R (\<lambda>S. st_DecideRequest S (rq_ID r) StatusDenied None (conf_at (6 * Second))) (\<lambda>res.
     checkErr ''second decide'' (err_of res) ErrAlreadyDecided (
     ask R (\<lambda>S. st_RequestByID S (rq_ID r)) (\<lambda>res.
     succeeds ''by id'' res (\<lambda>again.
     check_approved dev again (
     passed))))))))))))))"

definition requests_DecideDenyWithoutDevice :: "'s rig \<Rightarrow> 's test" where
  "requests_DecideDenyWithoutDevice R =
     mustServer R ''web-01'' (\<lambda>srv.
     mustRequest R (pendingRequest srv ''deploy'' conf_base) (\<lambda>r.
     exec R (\<lambda>S. st_DecideRequest S (rq_ID r) StatusDenied None (conf_at (5 * Second))) (\<lambda>res.
     succeeds ''decide'' res (\<lambda>got.
     check ''status'' (rq_Status got = StatusDenied) (
     checkStrPtr ''decided_by'' (rq_DecidedBy got) (Some DecidedByAdmin) (
     checkStrPtr ''decided_by_device'' (rq_DecidedByDevice got) None (
     checkStrPtr ''decided_by_device label'' (rq_DecidedByDeviceLabel got) None (
     checkTimePtr ''decided_at'' (rq_DecidedAt got) (atPtr (5 * Second)) (
     passed)))))))))"

definition requests_DecideAfterExpiry :: "'s rig \<Rightarrow> 's test" where
  "requests_DecideAfterExpiry R =
     mustServer R ''web-01'' (\<lambda>srv.
     mustRequest R (pendingRequest srv ''deploy'' conf_base) (\<lambda>r.
     exec R (\<lambda>S. st_DecideRequest S (rq_ID r) StatusApproved None (conf_at (30 * Second))) (\<lambda>res.
     checkErr ''decide at expiry'' (err_of res) ErrAlreadyDecided (
     exec R (\<lambda>S. st_DecideRequest S (rq_ID r) StatusApproved None (conf_at (31 * Second))) (\<lambda>res.
     checkErr ''decide after expiry'' (err_of res) ErrAlreadyDecided (
     ask R (\<lambda>S. st_RequestByID S (rq_ID r)) (\<lambda>res.
     succeeds ''by id'' res (\<lambda>got.
     check ''row changed by a refused decide'' (rq_Status got = StatusPending \<and> rq_DecidedBy got = None) (
     passed)))))))))"

definition requests_DecideUnknown :: "'s rig \<Rightarrow> 's test" where
  "requests_DecideUnknown R =
     new_id R (\<lambda>nid.
     exec R (\<lambda>S. st_DecideRequest S nid StatusApproved None conf_base) (\<lambda>res.
     checkErr ''decide'' (err_of res) ErrNotFound (
     passed)))"

definition requests_DecideAfterTimeout :: "'s rig \<Rightarrow> 's test" where
  "requests_DecideAfterTimeout R =
     mustServer R ''web-01'' (\<lambda>srv.
     mustRequest R (pendingRequest srv ''deploy'' conf_base) (\<lambda>r.
     exec R (\<lambda>S. st_MarkTimeout S (rq_ID r) (conf_at (30 * Second))) (\<lambda>res.
     no_error ''mark timeout'' (err_of res) (
     exec R (\<lambda>S. st_DecideRequest S (rq_ID r) StatusApproved None (conf_at (10 * Second))) (\<lambda>res.
     checkErr ''decide'' (err_of res) ErrAlreadyDecided (
     passed))))))"

definition requests_MarkTimeout :: "'s rig \<Rightarrow> 's test" where
  "requests_MarkTimeout R =
     mustServer R ''web-01'' (\<lambda>srv.
     mustRequest R (pendingRequest srv ''deploy'' conf_base) (\<lambda>r.
     exec R (\<lambda>S. st_MarkTimeout S (rq_ID r) (conf_at (30 * Second))) (\<lambda>res.
     check ''mark timeout'' (res = Inr True) (
     ask R (\<lambda>S. st_RequestByID S (rq_ID r)) (\<lambda>res.
     succeeds ''by id'' res (\<lambda>got.
     check ''status'' (rq_Status got = StatusTimeout) (
     checkStrPtr ''decided_by'' (rq_DecidedBy got) (Some DecidedByTimeout) (
     checkStrPtr ''decided_by_device'' (rq_DecidedByDevice got) None (
     checkTimePtr ''decided_at'' (rq_DecidedAt got) None (
     exec R (\<lambda>S. st_MarkTimeout S (rq_ID r) (conf_at (31 * Second))) (\<lambda>res.
     check ''second mark timeout'' (res = Inr False) (
     mustRequest R (pendingRequest srv ''deploy'' conf_base) (\<lambda>decided.
     exec R (\<lambda>S. st_DecideRequest S (rq_ID decided) StatusApproved None (conf_at Second)) (\<lambda>res.
     no_error ''decide'' (err_of res) (
     exec R (\<lambda>S. st_MarkTimeout S (rq_ID decided) (conf_at (30 * Second))) (\<lambda>res.
     check ''mark timeout on a decided row'' (res = Inr False) (
     new_id R (\<lambda>nid.
     exec R (\<lambda>S. st_MarkTimeout S nid conf_base) (\<lambda>res.
     checkErr ''unknown id'' (err_of res) ErrNotFound (
     passed))))))))))))))))))))"

text \<open>The local \<^verbatim>\<open>list\<close>, and the filter that sets nothing.\<close>

definition list_is :: "'s rig \<Rightarrow> string \<Rightarrow> RequestFilter \<Rightarrow> string list \<Rightarrow> (Request list \<Rightarrow> 's test) \<Rightarrow> 's test" where
  "list_is R what f want k =
     ask R (\<lambda>S. st_ListRequests S f) (\<lambda>r.
     succeeds what r (\<lambda>got.
     checkIDs what (requestIDs got) want (k got)))"

definition no_filter :: RequestFilter where
  "no_filter = \<lparr> rf_Limit = 0, rf_Before = None, rf_Server = [], rf_Username = [], rf_Context = [], rf_Status = [] \<rparr>"

definition requests_List :: "'s rig \<Rightarrow> 's test" where
  "requests_List R =
     mustServer R ''web-01'' (\<lambda>web.
     mustServer R ''db-01'' (\<lambda>dbs.
     let r1 = pendingRequest web ''alice'' (conf_at (1 * Minute));
         r2 = (pendingRequest dbs ''bob'' (conf_at (2 * Minute)))\<lparr> rq_Context := ContextSudo, rq_Status := StatusDenied,
           rq_DecidedBy := Some DecidedByAdmin, rq_DecidedAt := atPtr (2 * Minute + 5 * Second) \<rparr>;
         r3 = (pendingRequest web ''alice'' (conf_at (3 * Minute)))\<lparr> rq_Context := ContextSudo,
           rq_Status := StatusApproved, rq_DecidedBy := Some DecidedByAdmin,
           rq_DecidedAt := atPtr (3 * Minute + 5 * Second) \<rparr>;
         r4 = (pendingRequest dbs ''alice'' (conf_at (4 * Minute)))\<lparr> rq_Status := StatusTimeout,
           rq_DecidedBy := Some DecidedByTimeout \<rparr>;
         ten = no_filter\<lparr> rf_Limit := 10 \<rparr>;
         early = atPtr (3 * Minute) in
     mustRequest R r3 (\<lambda>c3. let id3 = rq_ID c3 in
     mustRequest R r1 (\<lambda>c1. let id1 = rq_ID c1 in
     mustRequest R r4 (\<lambda>c4. let id4 = rq_ID c4 in
     mustRequest R r2 (\<lambda>c2. let id2 = rq_ID c2 in
     list_is R ''all'' ten [id4, id3, id2, id1] (\<lambda>all.
     check ''server names not joined'' (rq_ServerName (all ! 2) = ''db-01'' \<and> rq_ServerName (all ! 3) = ''web-01'') (
     checkTime ''created_at'' (rq_CreatedAt (all ! 0)) (conf_at (4 * Minute)) (
     list_is R ''no limit'' no_filter [id4, id3, id2, id1] (\<lambda>_.
     list_is R ''limit 2'' (no_filter\<lparr> rf_Limit := 2 \<rparr>) [id4, id3] (\<lambda>_.
     list_is R ''before'' (ten\<lparr> rf_Before := early \<rparr>) [id2, id1] (\<lambda>_.
     list_is R ''before + limit'' (no_filter\<lparr> rf_Limit := 1, rf_Before := early \<rparr>) [id2] (\<lambda>_.
     list_is R ''server'' (ten\<lparr> rf_Server := ''web-01'' \<rparr>) [id3, id1] (\<lambda>_.
     list_is R ''username'' (ten\<lparr> rf_Username := ''alice'' \<rparr>) [id4, id3, id1] (\<lambda>_.
     list_is R ''context'' (ten\<lparr> rf_Context := ContextSudo \<rparr>) [id3, id2] (\<lambda>_.
     list_is R ''status'' (ten\<lparr> rf_Status := StatusDenied \<rparr>) [id2] (\<lambda>_.
     list_is R ''username + context'' (ten\<lparr> rf_Username := ''alice'', rf_Context := ContextSSH \<rparr>) [id4, id1] (\<lambda>_.
     list_is R ''unknown server'' (ten\<lparr> rf_Server := ''ghost'' \<rparr>) [] (\<lambda>_.
     passed)))))))))))))))))))"

definition denied :: "'s rig \<Rightarrow> Server \<Rightarrow> string \<Rightarrow> duration \<Rightarrow> 's test \<Rightarrow> 's test" where
  "denied R srv ip decidedAt k =
     mustRequest R ((pendingRequest srv ''deploy'' (conf_at (decidedAt - 5 * Second)))\<lparr> rq_SourceIP := Some ip,
       rq_Status := StatusDenied, rq_DecidedBy := Some DecidedByAdmin, rq_DecidedAt := atPtr decidedAt \<rparr>) (\<lambda>_. k)"

definition requests_CountDenials :: "'s rig \<Rightarrow> 's test" where
  "requests_CountDenials R =
     mustServer R ''web-01'' (\<lambda>srv.
     denied R srv ipA (- Second) (
     denied R srv ipA 0 (
     denied R srv ipA (10 * Minute) (
     denied R srv ipA (20 * Minute) (
     denied R srv ipB (5 * Minute) (
     mustRequest R ((pendingRequest srv ''deploy'' (conf_at (5 * Minute)))\<lparr> rq_Status := StatusTimeout,
       rq_DecidedBy := Some DecidedByTimeout \<rparr>) (\<lambda>_.
     mustRequest R ((pendingRequest srv ''deploy'' (conf_at (6 * Minute)))\<lparr> rq_Status := StatusApproved,
       rq_DecidedBy := Some DecidedByAdmin, rq_DecidedAt := atPtr (6 * Minute) \<rparr>) (\<lambda>_.
     ask R (\<lambda>S. st_CountDenials S ipA conf_base) (\<lambda>r.
     succeeds ''count'' r (\<lambda>st.
     check ''count'' (ds_Count st = 3) (
     checkTime ''first'' (ds_First st) conf_base (
     checkTime ''last'' (ds_Last st) (conf_at (20 * Minute)) (
     ask R (\<lambda>S. st_CountDenials S ipA (conf_at (21 * Minute))) (\<lambda>r.
     succeeds ''count outside window'' r (\<lambda>st.
     check ''count outside window'' (ds_Count st = 0 \<and> ds_First st = ZeroTime \<and> ds_Last st = ZeroTime) (
     ask R (\<lambda>S. st_CountDenials S ''192.0.2.1'' conf_base) (\<lambda>r.
     succeeds ''count unknown ip'' r (\<lambda>st.
     check ''count unknown ip'' (ds_Count st = 0) (
     passed)))))))))))))))))))"

section \<open>Whitelist\<close>

definition whitelistIDs :: "WhitelistEntry list \<Rightarrow> string list" where
  "whitelistIDs es = map wl_ID es"

definition whitelist_FindPrefersServerEntry :: "'s rig \<Rightarrow> 's test" where
  "whitelist_FindPrefersServerEntry R =
     mustServer R ''web-01'' (\<lambda>web.
     mustServer R ''db-01'' (\<lambda>dbs.
     mustWhitelist R (entry ''deploy'' ContextSSH None None) conf_base (\<lambda>global.
     mustWhitelist R (entry ''deploy'' ContextSSH (Some (sv_ID web)) None) conf_base (\<lambda>perServer.
     ask R (\<lambda>S. st_FindWhitelist S ''deploy'' ContextSSH (sv_ID web) conf_base) (\<lambda>r.
     succeeds ''find on web-01'' r (\<lambda>got.
     check ''find on web-01'' (wl_ID got = wl_ID perServer) (
     checkStrPtr ''server_id'' (wl_ServerID got) (Some (sv_ID web)) (
     checkStrPtr ''server name'' (wl_ServerName got) (Some ''web-01'') (
     ask R (\<lambda>S. st_FindWhitelist S ''deploy'' ContextSSH (sv_ID dbs) conf_base) (\<lambda>r.
     succeeds ''find on db-01'' r (\<lambda>got.
     check ''find on db-01'' (wl_ID got = wl_ID global) (
     checkStrPtr ''server_id'' (wl_ServerID got) None (
     checkStrPtr ''server name'' (wl_ServerName got) None (
     checkTime ''created_at'' (wl_CreatedAt got) conf_base (
     passed)))))))))))))))"

definition whitelist_FindIgnoresExpiredAndOtherContext :: "'s rig \<Rightarrow> 's test" where
  "whitelist_FindIgnoresExpiredAndOtherContext R =
     mustServer R ''web-01'' (\<lambda>web.
     mustWhitelist R (entry ''deploy'' ContextSSH (Some (sv_ID web)) (atPtr Hour)) conf_base (\<lambda>ssh.
     mustWhitelist R (entry ''deploy'' ContextSudo (Some (sv_ID web)) None) conf_base (\<lambda>sudo.
     ask R (\<lambda>S. st_FindWhitelist S ''deploy'' ContextSSH (sv_ID web) (conf_at (59 * Minute))) (\<lambda>r.
     succeeds ''find before expiry'' r (\<lambda>got.
     check ''find before expiry'' (wl_ID got = wl_ID ssh) (
     checkTimePtr ''expires_at'' (wl_ExpiresAt got) (atPtr Hour) (
     ask R (\<lambda>S. st_FindWhitelist S ''deploy'' ContextSSH (sv_ID web) (conf_at Hour)) (\<lambda>r.
     checkErr ''find at expiry'' (err_of r) ErrNotFound (
     ask R (\<lambda>S. st_FindWhitelist S ''deploy'' ContextSSH (sv_ID web) (conf_at (2 * Hour))) (\<lambda>r.
     checkErr ''find after expiry'' (err_of r) ErrNotFound (
     ask R (\<lambda>S. st_FindWhitelist S ''deploy'' ContextSudo (sv_ID web) (conf_at (2 * Hour))) (\<lambda>r.
     succeeds ''find sudo'' r (\<lambda>got.
     check ''find sudo'' (wl_ID got = wl_ID sudo) (
     ask R (\<lambda>S. st_FindWhitelist S ''someone'' ContextSudo (sv_ID web) conf_base) (\<lambda>r.
     checkErr ''find unknown user'' (err_of r) ErrNotFound (
     passed))))))))))))))))"

definition whitelist_ListForAdminAndForServer :: "'s rig \<Rightarrow> 's test" where
  "whitelist_ListForAdminAndForServer R =
     mustServer R ''web-01'' (\<lambda>web.
     mustServer R ''db-01'' (\<lambda>dbs.
     mustWhitelist R (entry ''ansible'' ContextSSH None None) (conf_at (1 * Minute)) (\<lambda>g.
     mustWhitelist R (entry ''deploy'' ContextSSH (Some (sv_ID web)) None) (conf_at (2 * Minute)) (\<lambda>a.
     mustWhitelist R (entry ''deploy'' ContextSudo (Some (sv_ID dbs)) None) (conf_at (3 * Minute)) (\<lambda>b.
     exec R (\<lambda>S. st_ListWhitelist S None (conf_at (10 * Minute))) (\<lambda>r.
     succeeds ''list all'' r (\<lambda>all.
     checkIDs ''list all'' (whitelistIDs all) [wl_ID b, wl_ID a, wl_ID g] (
     checkStrPtr ''server name'' (wl_ServerName (all ! 1)) (Some ''web-01'') (
     checkStrPtr ''global server name'' (wl_ServerName (all ! 2)) None (
     checkTime ''created_at'' (wl_CreatedAt (all ! 0)) (conf_at (3 * Minute)) (
     exec R (\<lambda>S. st_ListWhitelist S (Some (sv_ID web)) (conf_at (10 * Minute))) (\<lambda>r.
     succeeds ''list web-01'' r (\<lambda>forWeb.
     checkIDs ''list web-01'' (whitelistIDs forWeb) [wl_ID a, wl_ID g] (
     exec R (\<lambda>S. st_ListWhitelist S (Some (sv_ID dbs)) (conf_at (10 * Minute))) (\<lambda>r.
     succeeds ''list db-01'' r (\<lambda>forDB.
     checkIDs ''list db-01'' (whitelistIDs forDB) [wl_ID b, wl_ID g] (
     passed)))))))))))))))))"

definition whitelist_ListDeletesExpiredRows :: "'s rig \<Rightarrow> 's test" where
  "whitelist_ListDeletesExpiredRows R =
     mustWhitelist R (entry ''ansible'' ContextSSH None None) conf_base (\<lambda>keep.
     mustWhitelist R (entry ''deploy'' ContextSSH None (atPtr Hour)) (conf_at Minute) (\<lambda>gone.
     exec R (\<lambda>S. st_ListWhitelist S None (conf_at (59 * Minute))) (\<lambda>r.
     succeeds ''list before expiry'' r (\<lambda>before.
     checkIDs ''list before expiry'' (whitelistIDs before) [wl_ID gone, wl_ID keep] (
     exec R (\<lambda>S. st_ListWhitelist S None (conf_at Hour)) (\<lambda>r.
     succeeds ''list at expiry'' r (\<lambda>after.
     checkIDs ''list at expiry'' (whitelistIDs after) [wl_ID keep] (
     ask R (\<lambda>S. st_WhitelistByID S (wl_ID gone)) (\<lambda>r.
     checkErr ''expired row after list'' (err_of r) ErrNotFound (
     ask R (\<lambda>S. st_WhitelistByID S (wl_ID keep)) (\<lambda>r.
     no_error ''permanent row after list'' (err_of r) (
     passed))))))))))))"

definition whitelist_UpsertCreatesThenRefreshes :: "'s rig \<Rightarrow> 's test" where
  "whitelist_UpsertCreatesThenRefreshes R =
     mustServer R ''web-01'' (\<lambda>web.
     mustDevice R ''tok-1'' ''Pixel 8'' (\<lambda>dev.
     mustRequest R (pendingRequest web ''deploy'' conf_base) (\<lambda>r.
     insert_row R (\<lambda>S nid. st_UpsertWhitelist S nid ((entry ''deploy'' ContextSSH (Some (sv_ID web)) (atPtr Hour))
       \<lparr> wl_CreatedFrom := Some (rq_ID r), wl_CreatedByDevice := Some (dv_ID dev) \<rparr>) conf_base) (\<lambda>res.
     succeeds ''first upsert'' res (\<lambda>(e1, created).
     check ''first upsert'' (created \<and> wl_ID e1 \<noteq> []) (
     check ''first upsert'' (wl_Username e1 = ''deploy'' \<and> wl_Context e1 = ContextSSH) (
     checkStrPtr ''server_id'' (wl_ServerID e1) (Some (sv_ID web)) (
     checkStrPtr ''server name'' (wl_ServerName e1) (Some ''web-01'') (
     checkTimePtr ''expires_at'' (wl_ExpiresAt e1) (atPtr Hour) (
     checkTime ''created_at'' (wl_CreatedAt e1) conf_base (
     checkStrPtr ''created_from'' (wl_CreatedFrom e1) (Some (rq_ID r)) (
     checkStrPtr ''created_by_device'' (wl_CreatedByDevice e1) (Some (dv_ID dev)) (
     checkStrPtr ''created_by_device label'' (wl_CreatedByDeviceLabel e1) (Some ''Pixel 8'') (
     insert_row R (\<lambda>S nid. st_UpsertWhitelist S nid (entry ''deploy'' ContextSSH (Some (sv_ID web)) None) (conf_at Hour)) (\<lambda>res.
     succeeds ''second upsert'' res (\<lambda>(e2, created).
     check ''second upsert'' (\<not> created \<and> wl_ID e2 = wl_ID e1) (
     checkTimePtr ''expires_at'' (wl_ExpiresAt e2) None (
     checkTime ''created_at'' (wl_CreatedAt e2) conf_base (
     checkStrPtr ''created_from'' (wl_CreatedFrom e2) (Some (rq_ID r)) (
     checkStrPtr ''created_by_device'' (wl_CreatedByDevice e2) (Some (dv_ID dev)) (
     checkStrPtr ''created_by_device label'' (wl_CreatedByDeviceLabel e2) (Some ''Pixel 8'') (
     insert_row R (\<lambda>S nid. st_UpsertWhitelist S nid (entry ''deploy'' ContextSSH (Some (sv_ID web)) (atPtr (3 * Hour)))
       (conf_at (2 * Hour))) (\<lambda>res.
     succeeds ''third upsert'' res (\<lambda>(e3, created).
     check ''third upsert'' (\<not> created \<and> wl_ID e3 = wl_ID e1) (
     checkTimePtr ''expires_at'' (wl_ExpiresAt e3) (atPtr (3 * Hour)) (
     passed))))))))))))))))))))))))))"

definition whitelist_UpsertGlobalAndServerAreIndependent :: "'s rig \<Rightarrow> 's test" where
  "whitelist_UpsertGlobalAndServerAreIndependent R =
     mustServer R ''web-01'' (\<lambda>web.
     insert_row R (\<lambda>S nid. st_UpsertWhitelist S nid (entry ''deploy'' ContextSSH None None) conf_base) (\<lambda>res.
     succeeds ''global'' res (\<lambda>(g, created).
     check ''global'' created (
     insert_row R (\<lambda>S nid. st_UpsertWhitelist S nid (entry ''deploy'' ContextSSH (Some (sv_ID web)) None) conf_base) (\<lambda>res.
     succeeds ''per-server'' res (\<lambda>(a, created).
     check ''per-server'' created (
     check ''global and per-server entries share an id'' (wl_ID g \<noteq> wl_ID a) (
     insert_row R (\<lambda>S nid. st_UpsertWhitelist S nid (entry ''deploy'' ContextSSH None (atPtr Hour)) conf_base) (\<lambda>res.
     succeeds ''global again'' res (\<lambda>(g2, created).
     check ''global again'' (\<not> created \<and> wl_ID g2 = wl_ID g) (
     insert_row R (\<lambda>S nid. st_UpsertWhitelist S nid (entry ''deploy'' ContextSSH (Some (sv_ID web)) (atPtr Hour)) conf_base) (\<lambda>res.
     succeeds ''per-server again'' res (\<lambda>(a2, created).
     check ''per-server again'' (\<not> created \<and> wl_ID a2 = wl_ID a) (
     insert_row R (\<lambda>S nid. st_UpsertWhitelist S nid (entry ''deploy'' ContextSudo None None) conf_base) (\<lambda>res.
     succeeds ''other context'' res (\<lambda>(sudo, created).
     check ''other context'' (created \<and> wl_ID sudo \<noteq> wl_ID g) (
     passed)))))))))))))))))"

definition whitelist_UpsertUnknownServer :: "'s rig \<Rightarrow> 's test" where
  "whitelist_UpsertUnknownServer R =
     new_id R (\<lambda>ghost.
     insert_row R (\<lambda>S nid. st_UpsertWhitelist S nid (entry ''deploy'' ContextSSH (Some ghost) None) conf_base) (\<lambda>res.
     checkErr ''upsert'' (err_of res) ErrNotFound (
     passed)))"

definition whitelist_ByIDAndDelete :: "'s rig \<Rightarrow> 's test" where
  "whitelist_ByIDAndDelete R =
     mustServer R ''web-01'' (\<lambda>web.
     mustWhitelist R (entry ''deploy'' ContextSudo (Some (sv_ID web)) (atPtr Hour)) conf_base (\<lambda>e.
     ask R (\<lambda>S. st_WhitelistByID S (wl_ID e)) (\<lambda>r.
     succeeds ''by id'' r (\<lambda>got.
     check ''by id'' (wl_ID got = wl_ID e \<and> wl_Username got = ''deploy'' \<and> wl_Context got = ContextSudo) (
     checkStrPtr ''server name'' (wl_ServerName got) (Some ''web-01'') (
     checkTimePtr ''expires_at'' (wl_ExpiresAt got) (atPtr Hour) (
     checkTime ''created_at'' (wl_CreatedAt got) conf_base (
     exec R (\<lambda>S. st_DeleteWhitelist S (wl_ID e)) (\<lambda>err.
     no_error ''delete'' err (
     ask R (\<lambda>S. st_WhitelistByID S (wl_ID e)) (\<lambda>r.
     checkErr ''by id after delete'' (err_of r) ErrNotFound (
     exec R (\<lambda>S. st_DeleteWhitelist S (wl_ID e)) (\<lambda>err.
     checkErr ''second delete'' err ErrNotFound (
     new_id R (\<lambda>nid.
     ask R (\<lambda>S. st_WhitelistByID S nid) (\<lambda>r.
     checkErr ''unknown id'' (err_of r) ErrNotFound (
     passed)))))))))))))))))"

section \<open>Blocked addresses\<close>

definition blockedIDs :: "BlockedIP list \<Rightarrow> string list" where
  "blockedIDs bs = map bi_ID bs"

definition block :: "string \<Rightarrow> time \<Rightarrow> time option \<Rightarrow> BlockedIP" where
  "block ip createdAt expires =
     \<lparr> bi_ID = [], bi_IP = ip, bi_Reason = ''autoblock'', bi_DenialCount = 3,
       bi_FirstDeniedAt = createdAt + - 20 * Minute, bi_LastDeniedAt = createdAt, bi_HitCount = 0,
       bi_LastHitAt = None, bi_CreatedAt = createdAt, bi_ExpiresAt = expires \<rparr>"

definition blocked_UpsertInserts :: "'s rig \<Rightarrow> 's test" where
  "blocked_UpsertInserts R =
     mustBlock R (block ipA conf_base None) (\<lambda>b.
     check ''insert'' (bi_ID b \<noteq> [] \<and> bi_IP b = ipA \<and> bi_Reason b = ''autoblock'' \<and> bi_DenialCount b = 3 \<and>
       bi_HitCount b = 0) (
     checkTime ''first_denied_at'' (bi_FirstDeniedAt b) (conf_at (- 20 * Minute)) (
     checkTime ''last_denied_at'' (bi_LastDeniedAt b) conf_base (
     checkTimePtr ''last_hit_at'' (bi_LastHitAt b) None (
     checkTime ''created_at'' (bi_CreatedAt b) conf_base (
     checkTimePtr ''expires_at'' (bi_ExpiresAt b) None (
     mustBlock R ((block ipB conf_base (atPtr Hour))\<lparr> bi_Reason := [] \<rparr>) (\<lambda>b2.
     check ''empty reason'' (bi_Reason b2 = ''autoblock'') (
     checkTimePtr ''expires_at'' (bi_ExpiresAt b2) (atPtr Hour) (
     passed))))))))))"

definition blocked_ByIPFoundEvenWhenExpired :: "'s rig \<Rightarrow> 's test" where
  "blocked_ByIPFoundEvenWhenExpired R =
     mustBlock R (block ipA (conf_at (- 2 * Hour)) (atPtr (- Hour))) (\<lambda>b.
     ask R (\<lambda>S. st_BlockedIPByIP S ipA) (\<lambda>r.
     succeeds ''by ip'' r (\<lambda>got.
     check ''by ip'' (bi_ID got = bi_ID b \<and> \<not> BlockedIP_Active got conf_base) (
     checkTimePtr ''expires_at'' (bi_ExpiresAt got) (atPtr (- Hour)) (
     ask R (\<lambda>S. st_BlockedIPByIP S ''192.0.2.1'') (\<lambda>r.
     checkErr ''unknown ip'' (err_of r) ErrNotFound (
     passed)))))))"

definition blocked_Hit :: "'s rig \<Rightarrow> 's test" where
  "blocked_Hit R =
     mustBlock R (block ipA conf_base None) (\<lambda>b.
     exec R (\<lambda>S. st_RecordBlockedIPHit S (bi_ID b) (conf_at Minute)) (\<lambda>err.
     no_error ''first hit'' err (
     exec R (\<lambda>S. st_RecordBlockedIPHit S (bi_ID b) (conf_at (2 * Minute))) (\<lambda>err.
     no_error ''second hit'' err (
     ask R (\<lambda>S. st_BlockedIPByIP S ipA) (\<lambda>r.
     succeeds ''by ip'' r (\<lambda>got.
     check ''hit_count'' (bi_HitCount got = 2) (
     checkTimePtr ''last_hit_at'' (bi_LastHitAt got) (atPtr (2 * Minute)) (
     new_id R (\<lambda>nid.
     exec R (\<lambda>S. st_RecordBlockedIPHit S nid conf_base) (\<lambda>err.
     checkErr ''hit unknown id'' err ErrNotFound (
     passed))))))))))))"

definition blocked_ListActiveNewestFirst :: "'s rig \<Rightarrow> 's test" where
  "blocked_ListActiveNewestFirst R =
     mustBlock R (block ipA (conf_at (1 * Minute)) None) (\<lambda>b1.
     mustBlock R (block ipB (conf_at (2 * Minute)) (atPtr Hour)) (\<lambda>b2.
     mustBlock R (block ''192.0.2.1'' (conf_at (3 * Minute)) (atPtr (5 * Minute))) (\<lambda>_.
     mustBlock R (block ''192.0.2.2'' (conf_at (4 * Minute)) (atPtr (10 * Minute))) (\<lambda>_.
     ask R (\<lambda>S. st_ListBlockedIPs S (conf_at (10 * Minute))) (\<lambda>r.
     succeeds ''list'' r (\<lambda>bs.
     checkIDs ''list'' (blockedIDs bs) [bi_ID b2, bi_ID b1] (
     checkTime ''created_at'' (bi_CreatedAt (bs ! 0)) (conf_at (2 * Minute)) (
     passed))))))))"

definition check_rearmed :: "BlockedIP \<Rightarrow> 's test \<Rightarrow> 's test" where
  "check_rearmed b k =
     check ''re-armed'' (bi_Reason b = ''manual'' \<and> bi_DenialCount b = 5 \<and> bi_HitCount b = 0) (
     checkTime ''first_denied_at'' (bi_FirstDeniedAt b) (conf_at (90 * Minute)) (
     checkTime ''last_denied_at'' (bi_LastDeniedAt b) (conf_at (2 * Hour)) (
     checkTimePtr ''last_hit_at'' (bi_LastHitAt b) None (
     checkTime ''created_at'' (bi_CreatedAt b) (conf_at (2 * Hour)) (
     checkTimePtr ''expires_at'' (bi_ExpiresAt b) (atPtr (3 * Hour)) (
     k))))))"

definition blocked_UpsertRearmsKeepingID :: "'s rig \<Rightarrow> 's test" where
  "blocked_UpsertRearmsKeepingID R =
     mustBlock R (block ipA conf_base None) (\<lambda>b1.
     exec R (\<lambda>S. st_RecordBlockedIPHit S (bi_ID b1) (conf_at Minute)) (\<lambda>err.
     no_error ''hit'' err (
     exec R (\<lambda>S. st_UnblockIP S (bi_ID b1) (conf_at Hour)) (\<lambda>err.
     no_error ''unblock'' err (
     mustBlock R \<lparr> bi_ID = [], bi_IP = ipA, bi_Reason = ''manual'', bi_DenialCount = 5,
       bi_FirstDeniedAt = conf_at (90 * Minute), bi_LastDeniedAt = conf_at (2 * Hour), bi_HitCount = 0,
       bi_LastHitAt = None, bi_CreatedAt = conf_at (2 * Hour), bi_ExpiresAt = atPtr (3 * Hour) \<rparr> (\<lambda>b2.
     check ''re-arm changed the id'' (bi_ID b2 = bi_ID b1) (
     check_rearmed b2 (
     ask R (\<lambda>S. st_BlockedIPByIP S ipA) (\<lambda>r.
     succeeds ''by ip'' r (\<lambda>got.
     check_rearmed got (
     ask R (\<lambda>S. st_ListBlockedIPs S (conf_at (2 * Hour))) (\<lambda>r.
     succeeds ''list'' r (\<lambda>bs.
     checkIDs ''list'' (blockedIDs bs) [bi_ID b1] (
     passed))))))))))))))"

definition blocked_Unblock :: "'s rig \<Rightarrow> 's test" where
  "blocked_Unblock R =
     mustBlock R (block ipA conf_base None) (\<lambda>b.
     exec R (\<lambda>S. st_UnblockIP S (bi_ID b) (conf_at Hour)) (\<lambda>err.
     no_error ''unblock'' err (
     ask R (\<lambda>S. st_BlockedIPByIP S ipA) (\<lambda>r.
     succeeds ''by ip'' r (\<lambda>got.
     checkTimePtr ''expires_at'' (bi_ExpiresAt got) (atPtr Hour) (
     check ''active flags wrong after unblock''
       (BlockedIP_Active got (conf_at (30 * Minute)) \<and> \<not> BlockedIP_Active got (conf_at Hour)) (
     ask R (\<lambda>S. st_ListBlockedIPs S (conf_at Hour)) (\<lambda>r.
     succeeds ''list'' r (\<lambda>bs.
     check ''list after unblock'' (length bs = 0) (
     exec R (\<lambda>S. st_UnblockIP S (bi_ID b) (conf_at (2 * Hour))) (\<lambda>err.
     checkErr ''second unblock'' err ErrNotFound (
     new_id R (\<lambda>nid.
     exec R (\<lambda>S. st_UnblockIP S nid conf_base) (\<lambda>err.
     checkErr ''unknown id'' err ErrNotFound (
     mustBlock R (block ipB conf_base (atPtr Hour)) (\<lambda>timed.
     exec R (\<lambda>S. st_UnblockIP S (bi_ID timed) (conf_at (2 * Hour))) (\<lambda>err.
     checkErr ''unblock an expired block'' err ErrNotFound (
     exec R (\<lambda>S. st_UnblockIP S (bi_ID timed) (conf_at (30 * Minute))) (\<lambda>err.
     no_error ''unblock a timed block before its expiry'' err (
     passed))))))))))))))))))))"

section \<open>Geo rules\<close>

definition geo_Create :: "'s rig \<Rightarrow> 's test" where
  "geo_Create R =
     insert_row R (\<lambda>S nid. st_CreateGeoRule S nid ''KP'' (Some ''no staff there'') conf_base) (\<lambda>r.
     succeeds ''create'' r (\<lambda>g.
     check ''create'' (gr_ID g \<noteq> [] \<and> gr_Country g = ''KP'') (
     checkStrPtr ''note'' (gr_Note g) (Some ''no staff there'') (
     checkTime ''created_at'' (gr_CreatedAt g) conf_base (
     insert_row R (\<lambda>S nid. st_CreateGeoRule S nid ''FR'' None conf_base) (\<lambda>r.
     succeeds ''create without note'' r (\<lambda>g2.
     checkStrPtr ''note'' (gr_Note g2) None (
     passed))))))))"

definition geo_Conflict :: "'s rig \<Rightarrow> 's test" where
  "geo_Conflict R =
     insert_row R (\<lambda>S nid. st_CreateGeoRule S nid ''KP'' None conf_base) (\<lambda>r.
     no_error ''create'' (err_of r) (
     insert_row R (\<lambda>S nid. st_CreateGeoRule S nid ''KP'' (Some ''again'') conf_base) (\<lambda>r.
     checkErr ''duplicate'' (err_of r) ErrConflict (
     passed))))"

definition geo_ByCountry :: "'s rig \<Rightarrow> 's test" where
  "geo_ByCountry R =
     insert_row R (\<lambda>S nid. st_CreateGeoRule S nid ''KP'' (Some ''note'') conf_base) (\<lambda>r.
     succeeds ''create'' r (\<lambda>g.
     ask R (\<lambda>S. st_GeoRuleByCountry S ''KP'') (\<lambda>r.
     succeeds ''by country'' r (\<lambda>got.
     check ''by country'' (gr_ID got = gr_ID g \<and> gr_Country got = ''KP'') (
     checkStrPtr ''note'' (gr_Note got) (Some ''note'') (
     checkTime ''created_at'' (gr_CreatedAt got) conf_base (
     ask R (\<lambda>S. st_GeoRuleByCountry S ''FR'') (\<lambda>r.
     checkErr ''unknown country'' (err_of r) ErrNotFound (
     passed)))))))))"

definition geo_ListOrderedByCountry :: "'s rig \<Rightarrow> 's test" where
  "geo_ListOrderedByCountry R =
     foldr (\<lambda>c k.
         insert_row R (\<lambda>S nid. st_CreateGeoRule S nid c None conf_base) (\<lambda>r.
         no_error ''create'' (err_of r) k)) [''RU'', ''CN'', ''KP''] (
     ask R st_ListGeoRules (\<lambda>r.
     succeeds ''list'' r (\<lambda>gs.
     checkIDs ''list'' (map gr_Country gs) [''CN'', ''KP'', ''RU''] (
     passed))))"

definition geo_Delete :: "'s rig \<Rightarrow> 's test" where
  "geo_Delete R =
     insert_row R (\<lambda>S nid. st_CreateGeoRule S nid ''KP'' None conf_base) (\<lambda>r.
     succeeds ''create'' r (\<lambda>g.
     exec R (\<lambda>S. st_DeleteGeoRule S (gr_ID g)) (\<lambda>err.
     no_error ''delete'' err (
     ask R (\<lambda>S. st_GeoRuleByCountry S ''KP'') (\<lambda>r.
     checkErr ''by country after delete'' (err_of r) ErrNotFound (
     exec R (\<lambda>S. st_DeleteGeoRule S (gr_ID g)) (\<lambda>err.
     checkErr ''second delete'' err ErrNotFound (
     new_id R (\<lambda>nid.
     exec R (\<lambda>S. st_DeleteGeoRule S nid) (\<lambda>err.
     checkErr ''unknown id'' err ErrNotFound (
     passed)))))))))))"

section \<open>The suite\<close>

text \<open>Each group with its subtests, each on a store of its own.\<close>

definition conformServers :: "'s rig \<Rightarrow> (string \<times> 's test) list" where
  "conformServers R =
     [(''Create'', servers_Create R), (''ConflictOnName'', servers_ConflictOnName R),
      (''ConflictOnHash'', servers_ConflictOnHash R), (''ByHashAndByName'', servers_ByHashAndByName R),
      (''NotFound'', servers_NotFound R), (''Touch'', servers_Touch R)]"

definition conformDevices :: "'s rig \<Rightarrow> (string \<times> 's test) list" where
  "conformDevices R =
     [(''UpsertCreatesThenRefreshes'', devices_UpsertCreatesThenRefreshes R), (''ByID'', devices_ByID R),
      (''ListOrderedByCreation'', devices_ListOrderedByCreation R), (''Delete'', devices_Delete R),
      (''DeleteThenRegisterAgain'', devices_DeleteThenRegisterAgain R),
      (''DeleteKeepsReferencesAndLabel'', devices_DeleteKeepsReferencesAndLabel R)]"

definition conformRequests :: "'s rig \<Rightarrow> (string \<times> 's test) list" where
  "conformRequests R =
     [(''CreatePending'', requests_CreatePending R), (''CreateFinalStatuses'', requests_CreateFinalStatuses R),
      (''CreateEmptyStatusIsPending'', requests_CreateEmptyStatusIsPending R),
      (''CreateUnknownServer'', requests_CreateUnknownServer R), (''ByIDNotFound'', requests_ByIDNotFound R),
      (''DecideApprove'', requests_DecideApprove R),
      (''DecideDenyWithoutDevice'', requests_DecideDenyWithoutDevice R),
      (''DecideAfterExpiry'', requests_DecideAfterExpiry R), (''DecideUnknown'', requests_DecideUnknown R),
      (''DecideAfterTimeout'', requests_DecideAfterTimeout R), (''MarkTimeout'', requests_MarkTimeout R),
      (''List'', requests_List R), (''CountDenials'', requests_CountDenials R)]"

definition conformWhitelist :: "'s rig \<Rightarrow> (string \<times> 's test) list" where
  "conformWhitelist R =
     [(''FindPrefersServerEntry'', whitelist_FindPrefersServerEntry R),
      (''FindIgnoresExpiredAndOtherContext'', whitelist_FindIgnoresExpiredAndOtherContext R),
      (''ListForAdminAndForServer'', whitelist_ListForAdminAndForServer R),
      (''ListDeletesExpiredRows'', whitelist_ListDeletesExpiredRows R),
      (''UpsertCreatesThenRefreshes'', whitelist_UpsertCreatesThenRefreshes R),
      (''UpsertGlobalAndServerAreIndependent'', whitelist_UpsertGlobalAndServerAreIndependent R),
      (''UpsertUnknownServer'', whitelist_UpsertUnknownServer R), (''ByIDAndDelete'', whitelist_ByIDAndDelete R)]"

definition conformBlockedIPs :: "'s rig \<Rightarrow> (string \<times> 's test) list" where
  "conformBlockedIPs R =
     [(''UpsertInserts'', blocked_UpsertInserts R),
      (''ByIPFoundEvenWhenExpired'', blocked_ByIPFoundEvenWhenExpired R), (''Hit'', blocked_Hit R),
      (''ListActiveNewestFirst'', blocked_ListActiveNewestFirst R),
      (''UpsertRearmsKeepingID'', blocked_UpsertRearmsKeepingID R), (''Unblock'', blocked_Unblock R)]"

definition conformGeoRules :: "'s rig \<Rightarrow> (string \<times> 's test) list" where
  "conformGeoRules R =
     [(''Create'', geo_Create R), (''Conflict'', geo_Conflict R), (''ByCountry'', geo_ByCountry R),
      (''ListOrderedByCountry'', geo_ListOrderedByCountry R), (''Delete'', geo_Delete R)]"

text \<open>The outcome of every subtest.\<close>

definition Conformance :: "'s rig \<Rightarrow> (string \<times> trial) list" where
  "Conformance R =
     map (\<lambda>(name, t). (name, t (rg_open R, 0)))
       ((''Ping'', conform_Ping R) # conformServers R @ conformDevices R @ conformRequests R @ conformWhitelist R @
        conformBlockedIPs R @ conformGeoRules R)"

definition conforms :: "'s rig \<Rightarrow> bool" where
  "conforms R \<longleftrightarrow> list_all (\<lambda>(_, outcome). outcome = Passed) (Conformance R)"

end
