(* ===== verification/Postgres.thy ===== *)
theory Postgres
  imports Memory
begin

text \<open>
  The PostgreSQL store (\<^verbatim>\<open>backend/internal/db/postgres*.go\<close>): every statement as an operation on tables under the
  constraints of \<^verbatim>\<open>migrations/001_init.sql\<close> and \<^verbatim>\<open>002_devices_deleted_at.sql\<close>. A table is the list of its rows;
  the order of the list is never observed, since a query selects by a unique key or sorts. Rows reuse the
  records of the model; the display fields of a stored request or whitelist row (server name, device label)
  are no columns and are overwritten by every SELECT.

  What the database and the driver add is an environment: the precision of a timestamp, the casts to UUID
  and INET, which statements fail and whether a failed one took effect all the same, and what other
  connections do between two statements of one operation. A value the server refuses for another reason,
  such as a NUL byte in a text, is a failed statement too.
\<close>

section \<open>Tables, environment, errors\<close>

record pg_db =
  pg_servers :: "Server list"
  pg_devices :: "Device list"
  pg_requests :: "Request list"
  pg_whitelist :: "WhitelistEntry list"
  pg_blocked :: "BlockedIP list"
  pg_geoRules :: "GeoRule list"

record pg_env =
  pe_time :: "time \<Rightarrow> time"
  pe_uuid :: "string \<Rightarrow> string option"
  pe_inet :: "string \<Rightarrow> string option"
  pe_fault :: "string \<Rightarrow> bool"
  pe_lost :: "string \<Rightarrow> bool"
  pe_between :: "pg_db \<Rightarrow> pg_db"

datatype pg_error = PgNoRows | PgCode string

definition pgUniqueViolation :: string where "pgUniqueViolation = ''23505''"
definition pgForeignKeyViolation :: string where "pgForeignKeyViolation = ''23503''"
definition pgCheckViolation :: pg_error where "pgCheckViolation = PgCode ''23514''"
definition pgInvalidText :: pg_error where "pgInvalidText = PgCode ''22P02''"
definition pgOutOfRange :: pg_error where "pgOutOfRange = PgCode ''22003''"
definition pgTooLong :: pg_error where "pgTooLong = PgCode ''22001''"

definition pg_wrap :: "string \<Rightarrow> pg_error \<Rightarrow> store_error" where
  "pg_wrap op err =
     (case err of
        PgNoRows \<Rightarrow> ErrNotFound
      | PgCode c \<Rightarrow>
          if c = pgUniqueViolation then ErrConflict
          else if c = pgForeignKeyViolation then ErrNotFound
          else ErrOther op)"

text \<open>A statement changes the tables or fails without effect; a query only reads.\<close>

definition pg_stmt ::
  "pg_env \<Rightarrow> string \<Rightarrow> (pg_db \<Rightarrow> (pg_error, pg_db \<times> 'a) result) \<Rightarrow> pg_db \<Rightarrow> pg_db \<times> (store_error, 'a) result" where
  "pg_stmt E op f db =
     (case f db of
        Inl e \<Rightarrow> (db, Inl (if pe_fault E op then ErrOther op else pg_wrap op e))
      | Inr (db', a) \<Rightarrow>
          if pe_fault E op then (if pe_lost E op then db' else db, Inl (ErrOther op)) else (db', Inr a))"

definition pg_query :: "pg_env \<Rightarrow> string \<Rightarrow> (pg_db \<Rightarrow> (pg_error, 'a) result) \<Rightarrow> pg_db \<Rightarrow> (store_error, 'a) result" where
  "pg_query E op f db =
     (if pe_fault E op then Inl (ErrOther op) else (case f db of Inl e \<Rightarrow> Inl (pg_wrap op e) | Inr a \<Rightarrow> Inr a))"

definition pg_affected :: "pg_db \<times> (store_error, nat) result \<Rightarrow> pg_db \<times> store_error option" where
  "pg_affected r =
     (case r of
        (db, Inl e) \<Rightarrow> (db, Some e)
      | (db, Inr n) \<Rightarrow> (db, if n = 0 then Some ErrNotFound else None))"

text \<open>UPDATE with the number of rows it matched, and the row of a SELECT that finds at most one.\<close>

definition upd_rows :: "('a \<Rightarrow> bool) \<Rightarrow> ('a \<Rightarrow> 'a) \<Rightarrow> 'a list \<Rightarrow> 'a list" where
  "upd_rows P f t = map (\<lambda>r. if P r then f r else r) t"

definition count_rows :: "('a \<Rightarrow> bool) \<Rightarrow> 'a list \<Rightarrow> nat" where
  "count_rows P t = length (filter P t)"

definition sel_row :: "('a \<Rightarrow> bool) \<Rightarrow> 'a list \<Rightarrow> (pg_error, 'a) result" where
  "sel_row P t = (case List.find P t of None \<Rightarrow> Inl PgNoRows | Some r \<Rightarrow> Inr r)"

text \<open>Casts of parameters; NULL stays NULL.\<close>

definition with_uuid :: "pg_env \<Rightarrow> string \<Rightarrow> (string \<Rightarrow> (pg_error, 'a) result) \<Rightarrow> (pg_error, 'a) result" where
  "with_uuid E s k = (case pe_uuid E s of None \<Rightarrow> Inl pgInvalidText | Some u \<Rightarrow> k u)"

definition with_inet :: "pg_env \<Rightarrow> string \<Rightarrow> (string \<Rightarrow> (pg_error, 'a) result) \<Rightarrow> (pg_error, 'a) result" where
  "with_inet E s k = (case pe_inet E s of None \<Rightarrow> Inl pgInvalidText | Some u \<Rightarrow> k u)"

definition opt_cast ::
  "(string \<Rightarrow> string option) \<Rightarrow> string option \<Rightarrow> (string option \<Rightarrow> (pg_error, 'a) result) \<Rightarrow> (pg_error, 'a) result" where
  "opt_cast cast v k =
     (case v of None \<Rightarrow> k None | Some s \<Rightarrow> (case cast s of None \<Rightarrow> Inl pgInvalidText | Some u \<Rightarrow> k (Some u)))"

definition int4 :: "int \<Rightarrow> bool" where
  "int4 n \<longleftrightarrow> - (2 ^ 31) \<le> n \<and> n < 2 ^ 31"

definition has_server :: "pg_db \<Rightarrow> string \<Rightarrow> bool" where
  "has_server db sid \<longleftrightarrow> list_ex (\<lambda>s. sv_ID s = sid) (pg_servers db)"

definition has_device :: "pg_db \<Rightarrow> string option \<Rightarrow> bool" where
  "has_device db did = (case did of None \<Rightarrow> True | Some d \<Rightarrow> list_ex (\<lambda>x. dv_ID x = d) (pg_devices db))"

definition has_request :: "pg_db \<Rightarrow> string option \<Rightarrow> bool" where
  "has_request db rid = (case rid of None \<Rightarrow> True | Some d \<Rightarrow> list_ex (\<lambda>x. rq_ID x = d) (pg_requests db))"

definition pg_Ping :: "pg_env \<Rightarrow> pg_db \<Rightarrow> store_error option" where
  "pg_Ping E db = (if pe_fault E ''ping'' then Some (ErrOther ''ping'') else None)"

section \<open>Servers\<close>

definition pg_CreateServer ::
  "pg_env \<Rightarrow> string \<Rightarrow> string \<Rightarrow> string \<Rightarrow> string \<Rightarrow> time \<Rightarrow> pg_db \<Rightarrow> pg_db \<times> (store_error, Server) result" where
  "pg_CreateServer E nid name tokenHash os now =
     pg_stmt E ''create server'' (\<lambda>db.
       if \<not> ValidOS os then Inl pgCheckViolation
       else if list_ex (\<lambda>s. sv_Name s = name \<or> sv_TokenHash s = tokenHash) (pg_servers db)
       then Inl (PgCode pgUniqueViolation)
       else let s = \<lparr> sv_ID = nid, sv_Name = name, sv_TokenHash = tokenHash, sv_OS = os,
                      sv_CreatedAt = pe_time E now, sv_LastSeenAt = None \<rparr>
            in Inr (db\<lparr> pg_servers := pg_servers db @ [s] \<rparr>, s))"

definition pg_ServerByTokenHash :: "pg_env \<Rightarrow> string \<Rightarrow> pg_db \<Rightarrow> (store_error, Server) result" where
  "pg_ServerByTokenHash E hash =
     pg_query E ''server by token hash'' (\<lambda>db. sel_row (\<lambda>s. sv_TokenHash s = hash) (pg_servers db))"

definition pg_ServerByName :: "pg_env \<Rightarrow> string \<Rightarrow> pg_db \<Rightarrow> (store_error, Server) result" where
  "pg_ServerByName E name = pg_query E ''server by name'' (\<lambda>db. sel_row (\<lambda>s. sv_Name s = name) (pg_servers db))"

definition pg_TouchServer :: "pg_env \<Rightarrow> string \<Rightarrow> time \<Rightarrow> pg_db \<Rightarrow> pg_db \<times> store_error option" where
  "pg_TouchServer E sid now db =
     pg_affected (pg_stmt E ''touch server'' (\<lambda>db.
       with_uuid E sid (\<lambda>u.
         let P = (\<lambda>s. sv_ID s = u)
         in Inr (db\<lparr> pg_servers := upd_rows P (\<lambda>s. s\<lparr> sv_LastSeenAt := Some (pe_time E now) \<rparr>) (pg_servers db) \<rparr>,
                 count_rows P (pg_servers db)))) db)"

section \<open>Devices\<close>

definition pg_UpsertDevice ::
  "pg_env \<Rightarrow> string \<Rightarrow> string \<Rightarrow> string \<Rightarrow> string option \<Rightarrow> time \<Rightarrow> pg_db \<Rightarrow> pg_db \<times> (store_error, Device \<times> bool) result" where
  "pg_UpsertDevice E nid fcmToken platform label now =
     pg_stmt E ''upsert device'' (\<lambda>db.
       if \<not> ValidPlatform platform then Inl pgCheckViolation
       else let P = (\<lambda>d. dv_FCMToken d = fcmToken);
                f = (\<lambda>d. d\<lparr> dv_Platform := platform, dv_Label := label, dv_LastSeenAt := Some (pe_time E now),
                            dv_DeletedAt := None \<rparr>)
            in (case List.find P (pg_devices db) of
                  Some d \<Rightarrow> Inr (db\<lparr> pg_devices := upd_rows P f (pg_devices db) \<rparr>, f d, False)
                | None \<Rightarrow>
                    let d = \<lparr> dv_ID = nid, dv_FCMToken = fcmToken, dv_Platform = platform, dv_Label = label,
                              dv_CreatedAt = pe_time E now, dv_LastSeenAt = Some (pe_time E now), dv_DeletedAt = None \<rparr>
                    in Inr (db\<lparr> pg_devices := pg_devices db @ [d] \<rparr>, d, True)))"

definition pg_DeviceByID :: "pg_env \<Rightarrow> string \<Rightarrow> pg_db \<Rightarrow> (store_error, Device) result" where
  "pg_DeviceByID E did =
     pg_query E ''device by id'' (\<lambda>db.
       with_uuid E did (\<lambda>u. sel_row (\<lambda>d. dv_ID d = u \<and> dv_DeletedAt d = None) (pg_devices db)))"

definition pg_ListDevices :: "pg_env \<Rightarrow> pg_db \<Rightarrow> (store_error, Device list) result" where
  "pg_ListDevices E =
     pg_query E ''list devices'' (\<lambda>db.
       Inr (sort_key (\<lambda>d. (dv_CreatedAt d, dv_ID d)) (filter (\<lambda>d. dv_DeletedAt d = None) (pg_devices db))))"

definition pg_DeleteDevice :: "pg_env \<Rightarrow> string \<Rightarrow> time \<Rightarrow> pg_db \<Rightarrow> pg_db \<times> store_error option" where
  "pg_DeleteDevice E did now db =
     pg_affected (pg_stmt E ''delete device'' (\<lambda>db.
       with_uuid E did (\<lambda>u.
         let P = (\<lambda>d. dv_ID d = u \<and> dv_DeletedAt d = None)
         in Inr (db\<lparr> pg_devices := upd_rows P (\<lambda>d. d\<lparr> dv_DeletedAt := Some (pe_time E now) \<rparr>) (pg_devices db) \<rparr>,
                 count_rows P (pg_devices db)))) db)"

section \<open>Geo rules\<close>

text \<open>A \<^verbatim>\<open>CHAR(2)\<close> value: trailing blanks do not count, neither in a comparison nor toward the length.\<close>

definition bpchar :: "string \<Rightarrow> string" where
  "bpchar s = TrimRight_byte CHR '' '' s"

definition scanGeoRule :: "GeoRule \<Rightarrow> GeoRule" where
  "scanGeoRule g = g\<lparr> gr_Country := TrimSpace (gr_Country g) \<rparr>"

definition pg_ListGeoRules :: "pg_env \<Rightarrow> pg_db \<Rightarrow> (store_error, GeoRule list) result" where
  "pg_ListGeoRules E =
     pg_query E ''list geo rules'' (\<lambda>db. Inr (map scanGeoRule (sort_key gr_Country (pg_geoRules db))))"

definition pg_GeoRuleByCountry :: "pg_env \<Rightarrow> string \<Rightarrow> pg_db \<Rightarrow> (store_error, GeoRule) result" where
  "pg_GeoRuleByCountry E country =
     pg_query E ''geo rule by country'' (\<lambda>db.
       map_sum id scanGeoRule (sel_row (\<lambda>g. gr_Country g = bpchar country) (pg_geoRules db)))"

definition pg_CreateGeoRule ::
  "pg_env \<Rightarrow> string \<Rightarrow> string \<Rightarrow> string option \<Rightarrow> time \<Rightarrow> pg_db \<Rightarrow> pg_db \<times> (store_error, GeoRule) result" where
  "pg_CreateGeoRule E nid country note now =
     pg_stmt E ''create geo rule'' (\<lambda>db.
       if 2 < length (runes (bpchar country)) then Inl pgTooLong
       else if list_ex (\<lambda>g. gr_Country g = bpchar country) (pg_geoRules db) then Inl (PgCode pgUniqueViolation)
       else let g = \<lparr> gr_ID = nid, gr_Country = bpchar country, gr_Note = note, gr_CreatedAt = pe_time E now \<rparr>
            in Inr (db\<lparr> pg_geoRules := pg_geoRules db @ [g] \<rparr>, scanGeoRule g))"

definition pg_DeleteGeoRule :: "pg_env \<Rightarrow> string \<Rightarrow> pg_db \<Rightarrow> pg_db \<times> store_error option" where
  "pg_DeleteGeoRule E gid db =
     pg_affected (pg_stmt E ''delete geo rule'' (\<lambda>db.
       with_uuid E gid (\<lambda>u.
         Inr (db\<lparr> pg_geoRules := filter (\<lambda>g. gr_ID g \<noteq> u) (pg_geoRules db) \<rparr>,
              count_rows (\<lambda>g. gr_ID g = u) (pg_geoRules db)))) db)"

section \<open>Requests\<close>

text \<open>The SELECT all request queries share: the row with the joined server name and device label.\<close>

definition requestSelect :: "pg_db \<Rightarrow> Request \<Rightarrow> Request" where
  "requestSelect db r =
     r\<lparr> rq_ServerName := (case List.find (\<lambda>s. sv_ID s = rq_ServerID r) (pg_servers db) of
                            None \<Rightarrow> [] | Some s \<Rightarrow> sv_Name s),
        rq_DecidedByDeviceLabel :=
          (case List.find (\<lambda>d. Some (dv_ID d) = rq_DecidedByDevice r) (pg_devices db) of
             None \<Rightarrow> None | Some d \<Rightarrow> dv_Label d) \<rparr>"

definition pg_RequestByID :: "pg_env \<Rightarrow> string \<Rightarrow> pg_db \<Rightarrow> (store_error, Request) result" where
  "pg_RequestByID E rid =
     pg_query E ''request by id'' (\<lambda>db.
       with_uuid E rid (\<lambda>u. map_sum id (requestSelect db) (sel_row (\<lambda>r. rq_ID r = u) (pg_requests db))))"

definition valid_decided_by :: "string option \<Rightarrow> bool" where
  "valid_decided_by d \<longleftrightarrow>
     d \<in> {None, Some DecidedByAdmin, Some DecidedByWhitelist, Some DecidedByTimeout, Some DecidedByAutoblock,
          Some DecidedByGeoRule}"

definition insert_request :: "pg_env \<Rightarrow> string \<Rightarrow> Request \<Rightarrow> pg_db \<Rightarrow> (pg_error, pg_db \<times> string) result" where
  "insert_request E nid r db =
     (let status = (if rq_Status r = [] then StatusPending else rq_Status r) in
      with_uuid E (rq_ServerID r) (\<lambda>sid.
      opt_cast (pe_inet E) (rq_SourceIP r) (\<lambda>ip.
      opt_cast (pe_uuid E) (rq_DecidedByDevice r) (\<lambda>dev.
        if \<not> ValidContext (rq_Context r) \<or> \<not> ValidStatus status \<or> \<not> valid_decided_by (rq_DecidedBy r)
        then Inl pgCheckViolation
        else if \<not> has_server db sid \<or> \<not> has_device db dev then Inl (PgCode pgForeignKeyViolation)
        else Inr (db\<lparr> pg_requests := pg_requests db @
               [r\<lparr> rq_ID := nid, rq_ServerID := sid, rq_SourceIP := ip, rq_Status := status,
                   rq_DecidedByDevice := dev, rq_CreatedAt := pe_time E (rq_CreatedAt r),
                   rq_ExpiresAt := pe_time E (rq_ExpiresAt r),
                   rq_DecidedAt := map_option (pe_time E) (rq_DecidedAt r) \<rparr>] \<rparr>, nid)))))"

definition pg_CreateRequest ::
  "pg_env \<Rightarrow> string \<Rightarrow> Request \<Rightarrow> pg_db \<Rightarrow> pg_db \<times> (store_error, Request) result" where
  "pg_CreateRequest E nid r db =
     (case pg_stmt E ''create request'' (insert_request E nid r) db of
        (db', Inl e) \<Rightarrow> (db', Inl e)
      | (db', Inr rid) \<Rightarrow> let db'' = pe_between E db' in (db'', pg_RequestByID E rid db''))"

text \<open>The UPDATE of a verdict: its WHERE and SET clauses.\<close>

definition decidable :: "string \<Rightarrow> time \<Rightarrow> Request \<Rightarrow> bool" where
  "decidable u t r \<longleftrightarrow> rq_ID r = u \<and> rq_Status r = StatusPending \<and> t < rq_ExpiresAt r"

definition decided_row :: "string \<Rightarrow> string option \<Rightarrow> time \<Rightarrow> Request \<Rightarrow> Request" where
  "decided_row status dev t r =
     r\<lparr> rq_Status := status, rq_DecidedBy := Some DecidedByAdmin, rq_DecidedByDevice := dev, rq_DecidedAt := Some t \<rparr>"

definition decide_statement ::
  "pg_env \<Rightarrow> string \<Rightarrow> string \<Rightarrow> string option \<Rightarrow> time \<Rightarrow> pg_db \<Rightarrow> (pg_error, pg_db \<times> nat) result" where
  "decide_statement E rid status deviceID now db =
     with_uuid E rid (\<lambda>u.
     opt_cast (pe_uuid E) deviceID (\<lambda>dev.
       let t = pe_time E now; n = count_rows (decidable u t) (pg_requests db)
       in if 0 < n \<and> \<not> ValidStatus status then Inl pgCheckViolation
          else if 0 < n \<and> \<not> has_device db dev then Inl (PgCode pgForeignKeyViolation)
          else Inr (db\<lparr> pg_requests := upd_rows (decidable u t) (decided_row status dev t) (pg_requests db) \<rparr>, n)))"

definition pg_DecideRequest ::
  "pg_env \<Rightarrow> string \<Rightarrow> string \<Rightarrow> string option \<Rightarrow> time \<Rightarrow> pg_db \<Rightarrow> pg_db \<times> (store_error, Request) result" where
  "pg_DecideRequest E rid status deviceID now db =
     (case pg_stmt E ''decide request'' (decide_statement E rid status deviceID now) db of
        (db', Inl e) \<Rightarrow> (db', Inl e)
      | (db', Inr n) \<Rightarrow>
          let db'' = pe_between E db' in
          if n = 0 then
            (case pg_RequestByID E rid db'' of
               Inl e \<Rightarrow> (db'', Inl e)
             | Inr _ \<Rightarrow> (db'', Inl ErrAlreadyDecided))
          else (db'', pg_RequestByID E rid db''))"

definition timeout_statement :: "pg_env \<Rightarrow> string \<Rightarrow> pg_db \<Rightarrow> (pg_error, pg_db \<times> nat) result" where
  "timeout_statement E rid db =
     with_uuid E rid (\<lambda>u.
       let P = (\<lambda>r. rq_ID r = u \<and> rq_Status r = StatusPending)
       in Inr (db\<lparr> pg_requests := upd_rows P (\<lambda>r. r\<lparr> rq_Status := StatusTimeout,
                     rq_DecidedBy := Some DecidedByTimeout, rq_DecidedAt := None \<rparr>) (pg_requests db) \<rparr>,
               count_rows P (pg_requests db)))"

definition pg_MarkTimeout :: "pg_env \<Rightarrow> string \<Rightarrow> time \<Rightarrow> pg_db \<Rightarrow> pg_db \<times> (store_error, bool) result" where
  "pg_MarkTimeout E rid now db =
     (case pg_stmt E ''mark timeout'' (timeout_statement E rid) db of
        (db', Inl e) \<Rightarrow> (db', Inl e)
      | (db', Inr n) \<Rightarrow>
          if n = 0 then
            (let db'' = pe_between E db' in
             case pg_RequestByID E rid db'' of Inl e \<Rightarrow> (db'', Inl e) | Inr _ \<Rightarrow> (db'', Inr False))
          else (db', Inr True))"

text \<open>The WHERE clause of a listing: one condition for each filter that is set.\<close>

definition request_where :: "pg_env \<Rightarrow> RequestFilter \<Rightarrow> pg_db \<Rightarrow> Request \<Rightarrow> bool" where
  "request_where E f db r \<longleftrightarrow>
     (case rf_Before f of None \<Rightarrow> True | Some b \<Rightarrow> rq_CreatedAt r < pe_time E b) \<and>
     (rf_Server f = [] \<or>
      map_option sv_Name (List.find (\<lambda>s. sv_ID s = rq_ServerID r) (pg_servers db)) = Some (rf_Server f)) \<and>
     (rf_Username f = [] \<or> rq_Username r = rf_Username f) \<and>
     (rf_Context f = [] \<or> rq_Context r = rf_Context f) \<and>
     (rf_Status f = [] \<or> rq_Status r = rf_Status f)"

definition pg_ListRequests :: "pg_env \<Rightarrow> RequestFilter \<Rightarrow> pg_db \<Rightarrow> (store_error, Request list) result" where
  "pg_ListRequests E f =
     pg_query E ''list requests'' (\<lambda>db.
       let rows = rev (sort_key (\<lambda>r. (rq_CreatedAt r, rq_ID r)) (filter (request_where E f db) (pg_requests db)));
           rows = (if 0 < rf_Limit f then take (nat (rf_Limit f)) rows else rows)
       in Inr (map (requestSelect db) rows))"

definition pg_CountDenials :: "pg_env \<Rightarrow> string \<Rightarrow> time \<Rightarrow> pg_db \<Rightarrow> (store_error, DenialStats) result" where
  "pg_CountDenials E ip since =
     pg_query E ''count denials'' (\<lambda>db.
       with_inet E ip (\<lambda>a.
         let ts = List.map_filter (\<lambda>r.
               case rq_DecidedAt r of
                 None \<Rightarrow> None
               | Some at \<Rightarrow> if rq_Status r = StatusDenied \<and> rq_SourceIP r = Some a \<and> pe_time E since \<le> at
                            then Some at else None) (pg_requests db)
         in Inr \<lparr> ds_Count = int (length ts), ds_First = (if ts = [] then ZeroTime else Min (set ts)),
                  ds_Last = (if ts = [] then ZeroTime else Max (set ts)) \<rparr>))"

section \<open>Whitelist\<close>

definition whitelistSelect :: "pg_db \<Rightarrow> WhitelistEntry \<Rightarrow> WhitelistEntry" where
  "whitelistSelect db e =
     e\<lparr> wl_ServerName := map_option sv_Name (List.find (\<lambda>s. Some (sv_ID s) = wl_ServerID e) (pg_servers db)),
        wl_CreatedByDeviceLabel :=
          (case List.find (\<lambda>d. Some (dv_ID d) = wl_CreatedByDevice e) (pg_devices db) of
             None \<Rightarrow> None | Some d \<Rightarrow> dv_Label d) \<rparr>"

definition pg_FindWhitelist ::
  "pg_env \<Rightarrow> string \<Rightarrow> string \<Rightarrow> string \<Rightarrow> time \<Rightarrow> pg_db \<Rightarrow> (store_error, WhitelistEntry) result" where
  "pg_FindWhitelist E username ctx serverID now =
     pg_query E ''find whitelist'' (\<lambda>db.
       with_uuid E serverID (\<lambda>sid.
         let rows = filter (\<lambda>e. wl_Username e = username \<and> wl_Context e = ctx \<and>
                (wl_ServerID e = Some sid \<or> wl_ServerID e = None) \<and> unexpired (wl_ExpiresAt e) (pe_time E now))
                (pg_whitelist db)
         in (case sort_key (\<lambda>e. wl_ServerID e = None) rows of
               [] \<Rightarrow> Inl PgNoRows | e # _ \<Rightarrow> Inr (whitelistSelect db e))))"

definition pg_ListWhitelist ::
  "pg_env \<Rightarrow> string option \<Rightarrow> time \<Rightarrow> pg_db \<Rightarrow> pg_db \<times> (store_error, WhitelistEntry list) result" where
  "pg_ListWhitelist E serverID now db =
     (case pg_stmt E ''delete expired whitelist'' (\<lambda>db.
         Inr (db\<lparr> pg_whitelist := filter (\<lambda>e. unexpired (wl_ExpiresAt e) (pe_time E now)) (pg_whitelist db) \<rparr>, ())) db of
        (db', Inl e) \<Rightarrow> (db', Inl e)
      | (db', Inr _) \<Rightarrow>
          let db'' = pe_between E db' in
          (db'', pg_query E ''list whitelist'' (\<lambda>db.
             opt_cast (pe_uuid E) serverID (\<lambda>sid.
               Inr (sort_key (\<lambda>e. (- wl_CreatedAt e, wl_ID e)) (map (whitelistSelect db)
                 (filter (\<lambda>e. unexpired (wl_ExpiresAt e) (pe_time E now) \<and>
                     (sid = None \<or> wl_ServerID e = sid \<or> wl_ServerID e = None)) (pg_whitelist db)))))) db''))"

definition pg_WhitelistByID :: "pg_env \<Rightarrow> string \<Rightarrow> pg_db \<Rightarrow> (store_error, WhitelistEntry) result" where
  "pg_WhitelistByID E wid =
     pg_query E ''whitelist by id'' (\<lambda>db.
       with_uuid E wid (\<lambda>u. map_sum id (whitelistSelect db) (sel_row (\<lambda>e. wl_ID e = u) (pg_whitelist db))))"

text \<open>The two INSERT statements differ in the index that decides about the conflict: user, context and server,
  or user and context among the rows without a server.\<close>

definition save_entry ::
  "pg_env \<Rightarrow> string \<Rightarrow> WhitelistEntry \<Rightarrow> string option \<Rightarrow> string option \<Rightarrow> string option \<Rightarrow> time \<Rightarrow> pg_db \<Rightarrow>
     (pg_error, pg_db \<times> string \<times> bool) result" where
  "save_entry E nid e sid from dev now db =
     (if \<not> ValidContext (wl_Context e) then Inl pgCheckViolation
      else let P = (\<lambda>x. wl_Username x = wl_Username e \<and> wl_Context x = wl_Context e \<and> wl_ServerID x = sid);
               expires = map_option (pe_time E) (wl_ExpiresAt e)
           in (case List.find P (pg_whitelist db) of
                 Some x \<Rightarrow>
                   Inr (db\<lparr> pg_whitelist := upd_rows P (\<lambda>x. x\<lparr> wl_ExpiresAt := expires \<rparr>) (pg_whitelist db) \<rparr>,
                        wl_ID x, False)
               | None \<Rightarrow>
                   if (case sid of None \<Rightarrow> False | Some s \<Rightarrow> \<not> has_server db s) \<or> \<not> has_request db from \<or> \<not> has_device db dev
                   then Inl (PgCode pgForeignKeyViolation)
                   else Inr (db\<lparr> pg_whitelist := pg_whitelist db @
                          [e\<lparr> wl_ID := nid, wl_ServerID := sid, wl_ExpiresAt := expires, wl_CreatedAt := pe_time E now,
                              wl_CreatedFrom := from, wl_CreatedByDevice := dev \<rparr>] \<rparr>, nid, True)))"

definition upsert_entry ::
  "pg_env \<Rightarrow> string \<Rightarrow> WhitelistEntry \<Rightarrow> time \<Rightarrow> pg_db \<Rightarrow> (pg_error, pg_db \<times> string \<times> bool) result" where
  "upsert_entry E nid e now db =
     opt_cast (pe_uuid E) (wl_ServerID e) (\<lambda>sid.
     opt_cast (pe_uuid E) (wl_CreatedFrom e) (\<lambda>from.
     opt_cast (pe_uuid E) (wl_CreatedByDevice e) (\<lambda>dev. save_entry E nid e sid from dev now db)))"

definition pg_UpsertWhitelist ::
  "pg_env \<Rightarrow> string \<Rightarrow> WhitelistEntry \<Rightarrow> time \<Rightarrow> pg_db \<Rightarrow> pg_db \<times> (store_error, WhitelistEntry \<times> bool) result" where
  "pg_UpsertWhitelist E nid e now db =
     (case pg_stmt E ''upsert whitelist'' (upsert_entry E nid e now) db of
        (db', Inl err) \<Rightarrow> (db', Inl err)
      | (db', Inr (wid, inserted)) \<Rightarrow>
          let db'' = pe_between E db' in
          (case pg_WhitelistByID E wid db'' of
             Inl err \<Rightarrow> (db'', Inl err)
           | Inr entry \<Rightarrow> (db'', Inr (entry, inserted))))"

definition pg_DeleteWhitelist :: "pg_env \<Rightarrow> string \<Rightarrow> pg_db \<Rightarrow> pg_db \<times> store_error option" where
  "pg_DeleteWhitelist E wid db =
     pg_affected (pg_stmt E ''delete whitelist'' (\<lambda>db.
       with_uuid E wid (\<lambda>u.
         Inr (db\<lparr> pg_whitelist := filter (\<lambda>e. wl_ID e \<noteq> u) (pg_whitelist db) \<rparr>,
              count_rows (\<lambda>e. wl_ID e = u) (pg_whitelist db)))) db)"

section \<open>Blocked addresses\<close>

definition pg_BlockedIPByIP :: "pg_env \<Rightarrow> string \<Rightarrow> pg_db \<Rightarrow> (store_error, BlockedIP) result" where
  "pg_BlockedIPByIP E ip =
     pg_query E ''blocked ip by ip'' (\<lambda>db. with_inet E ip (\<lambda>a. sel_row (\<lambda>b. bi_IP b = a) (pg_blocked db)))"

definition pg_RecordBlockedIPHit :: "pg_env \<Rightarrow> string \<Rightarrow> time \<Rightarrow> pg_db \<Rightarrow> pg_db \<times> store_error option" where
  "pg_RecordBlockedIPHit E bid now db =
     pg_affected (pg_stmt E ''record blocked ip hit'' (\<lambda>db.
       with_uuid E bid (\<lambda>u.
         let P = (\<lambda>b. bi_ID b = u)
         in if list_ex (\<lambda>b. P b \<and> \<not> int4 (bi_HitCount b + 1)) (pg_blocked db) then Inl pgOutOfRange
            else Inr (db\<lparr> pg_blocked := upd_rows P (\<lambda>b. b\<lparr> bi_HitCount := bi_HitCount b + 1,
                            bi_LastHitAt := Some (pe_time E now) \<rparr>) (pg_blocked db) \<rparr>,
                      count_rows P (pg_blocked db)))) db)"

definition pg_ListBlockedIPs :: "pg_env \<Rightarrow> time \<Rightarrow> pg_db \<Rightarrow> (store_error, BlockedIP list) result" where
  "pg_ListBlockedIPs E now =
     pg_query E ''list blocked ips'' (\<lambda>db.
       Inr (sort_key (\<lambda>b. (- bi_CreatedAt b, bi_ID b))
              (filter (\<lambda>b. unexpired (bi_ExpiresAt b) (pe_time E now)) (pg_blocked db))))"

text \<open>The values of the INSERT.\<close>

definition blocked_values :: "pg_env \<Rightarrow> string \<Rightarrow> string \<Rightarrow> BlockedIP \<Rightarrow> BlockedIP" where
  "blocked_values E nid ip b =
     \<lparr> bi_ID = nid, bi_IP = ip, bi_Reason = (if bi_Reason b = [] then ''autoblock'' else bi_Reason b),
       bi_DenialCount = bi_DenialCount b, bi_FirstDeniedAt = pe_time E (bi_FirstDeniedAt b),
       bi_LastDeniedAt = pe_time E (bi_LastDeniedAt b), bi_HitCount = bi_HitCount b,
       bi_LastHitAt = map_option (pe_time E) (bi_LastHitAt b), bi_CreatedAt = pe_time E (bi_CreatedAt b),
       bi_ExpiresAt = map_option (pe_time E) (bi_ExpiresAt b) \<rparr>"

definition pg_UpsertBlockedIP ::
  "pg_env \<Rightarrow> string \<Rightarrow> BlockedIP \<Rightarrow> pg_db \<Rightarrow> pg_db \<times> (store_error, BlockedIP) result" where
  "pg_UpsertBlockedIP E nid b =
     pg_stmt E ''upsert blocked ip'' (\<lambda>db.
       with_inet E (bi_IP b) (\<lambda>a.
         let new = blocked_values E nid a b;
             P = (\<lambda>x. bi_IP x = a);
             f = (\<lambda>x. new\<lparr> bi_ID := bi_ID x, bi_IP := bi_IP x, bi_HitCount := 0, bi_LastHitAt := None \<rparr>)
         in if \<not> int4 (bi_DenialCount b) \<or> \<not> int4 (bi_HitCount b) then Inl pgOutOfRange
            else (case List.find P (pg_blocked db) of
                    Some x \<Rightarrow> Inr (db\<lparr> pg_blocked := upd_rows P f (pg_blocked db) \<rparr>, f x)
                  | None \<Rightarrow> Inr (db\<lparr> pg_blocked := pg_blocked db @ [new] \<rparr>, new))))"

definition pg_UnblockIP :: "pg_env \<Rightarrow> string \<Rightarrow> time \<Rightarrow> pg_db \<Rightarrow> pg_db \<times> store_error option" where
  "pg_UnblockIP E bid now db =
     pg_affected (pg_stmt E ''unblock ip'' (\<lambda>db.
       with_uuid E bid (\<lambda>u.
         let P = (\<lambda>b. bi_ID b = u \<and> unexpired (bi_ExpiresAt b) (pe_time E now))
         in Inr (db\<lparr> pg_blocked := upd_rows P (\<lambda>b. b\<lparr> bi_ExpiresAt := Some (pe_time E now) \<rparr>) (pg_blocked db) \<rparr>,
                 count_rows P (pg_blocked db)))) db)"

section \<open>The interface value\<close>

definition postgres_store :: "pg_env \<Rightarrow> pg_db Store" where
  "postgres_store E = \<lparr>
     st_Ping = pg_Ping E, st_CreateServer = pg_CreateServer E, st_ServerByTokenHash = pg_ServerByTokenHash E,
     st_ServerByName = pg_ServerByName E, st_TouchServer = pg_TouchServer E, st_UpsertDevice = pg_UpsertDevice E,
     st_DeviceByID = pg_DeviceByID E, st_ListDevices = pg_ListDevices E, st_DeleteDevice = pg_DeleteDevice E,
     st_CreateRequest = pg_CreateRequest E, st_RequestByID = pg_RequestByID E,
     st_DecideRequest = pg_DecideRequest E, st_MarkTimeout = pg_MarkTimeout E, st_ListRequests = pg_ListRequests E,
     st_CountDenials = pg_CountDenials E, st_FindWhitelist = pg_FindWhitelist E,
     st_ListWhitelist = pg_ListWhitelist E, st_UpsertWhitelist = pg_UpsertWhitelist E,
     st_WhitelistByID = pg_WhitelistByID E, st_DeleteWhitelist = pg_DeleteWhitelist E,
     st_BlockedIPByIP = pg_BlockedIPByIP E, st_RecordBlockedIPHit = pg_RecordBlockedIPHit E,
     st_ListBlockedIPs = pg_ListBlockedIPs E, st_UpsertBlockedIP = pg_UpsertBlockedIP E,
     st_UnblockIP = pg_UnblockIP E, st_ListGeoRules = pg_ListGeoRules E,
     st_GeoRuleByCountry = pg_GeoRuleByCountry E, st_CreateGeoRule = pg_CreateGeoRule E,
     st_DeleteGeoRule = pg_DeleteGeoRule E \<rparr>"

end
