(* ===== verification/Postgres_Sim.thy ===== *)
theory Postgres_Sim
  imports Postgres Memory_Laws
begin

text \<open>
  The PostgreSQL store against the in-memory store: the tables read as the maps of theory \<open>Memory\<close>, and every
  statement as the operation of the same name there. Timestamps are the rounded ones and ids and addresses the
  cast ones; what the database refuses or a fault prevents leaves the tables as they are.
\<close>

section \<open>Tables as maps\<close>

definition rows_map :: "('a \<Rightarrow> string) \<Rightarrow> 'a list \<Rightarrow> 'a gomap" where
  "rows_map key t = map (\<lambda>r. (key r, r)) t"

definition pg_abs :: "pg_db \<Rightarrow> memory" where
  "pg_abs db =
     \<lparr> m_servers = rows_map sv_ID (pg_servers db), m_devices = rows_map dv_ID (pg_devices db),
       m_requests = rows_map rq_ID (pg_requests db), m_whitelist = rows_map wl_ID (pg_whitelist db),
       m_blocked = rows_map bi_ID (pg_blocked db), m_geoRules = rows_map gr_ID (pg_geoRules db), m_PingErr = None \<rparr>"

lemma pg_abs_simps [simp]:
  "m_servers (pg_abs db) = rows_map sv_ID (pg_servers db)" "m_devices (pg_abs db) = rows_map dv_ID (pg_devices db)"
  "m_requests (pg_abs db) = rows_map rq_ID (pg_requests db)" "m_whitelist (pg_abs db) = rows_map wl_ID (pg_whitelist db)"
  "m_blocked (pg_abs db) = rows_map bi_ID (pg_blocked db)" "m_geoRules (pg_abs db) = rows_map gr_ID (pg_geoRules db)"
  by (simp_all add: pg_abs_def)

lemma pg_abs_update [simp]:
  "pg_abs (db\<lparr> pg_servers := s \<rparr>) = (pg_abs db)\<lparr> m_servers := rows_map sv_ID s \<rparr>"
  "pg_abs (db\<lparr> pg_devices := d \<rparr>) = (pg_abs db)\<lparr> m_devices := rows_map dv_ID d \<rparr>"
  "pg_abs (db\<lparr> pg_requests := r \<rparr>) = (pg_abs db)\<lparr> m_requests := rows_map rq_ID r \<rparr>"
  "pg_abs (db\<lparr> pg_whitelist := w \<rparr>) = (pg_abs db)\<lparr> m_whitelist := rows_map wl_ID w \<rparr>"
  "pg_abs (db\<lparr> pg_blocked := b \<rparr>) = (pg_abs db)\<lparr> m_blocked := rows_map bi_ID b \<rparr>"
  "pg_abs (db\<lparr> pg_geoRules := g \<rparr>) = (pg_abs db)\<lparr> m_geoRules := rows_map gr_ID g \<rparr>"
  by (simp_all add: pg_abs_def)

lemma pg_abs_same [simp]:
  "(pg_abs db)\<lparr> m_servers := rows_map sv_ID (pg_servers db) \<rparr> = pg_abs db"
  "(pg_abs db)\<lparr> m_devices := rows_map dv_ID (pg_devices db) \<rparr> = pg_abs db"
  "(pg_abs db)\<lparr> m_requests := rows_map rq_ID (pg_requests db) \<rparr> = pg_abs db"
  "(pg_abs db)\<lparr> m_whitelist := rows_map wl_ID (pg_whitelist db) \<rparr> = pg_abs db"
  "(pg_abs db)\<lparr> m_blocked := rows_map bi_ID (pg_blocked db) \<rparr> = pg_abs db"
  "(pg_abs db)\<lparr> m_geoRules := rows_map gr_ID (pg_geoRules db) \<rparr> = pg_abs db"
  by (simp_all add: pg_abs_def)

lemma map_of_rows [simp]: "map_of (rows_map key t) k = List.find (\<lambda>r. key r = k) t"
  by (induction t) (auto simp: rows_map_def)

lemma map_find_rows [simp]: "map_find P (rows_map key t) = map_option (\<lambda>r. (key r, r)) (List.find P t)"
  by (induction t) (auto simp: rows_map_def map_find_def)

lemma map_snd_rows [simp]: "map snd (rows_map key t) = t"
  by (simp add: rows_map_def comp_def)

lemma map_keys_rows [simp]: "map_keys (rows_map key t) = key ` set t"
  by (force simp: rows_map_def map_keys_def)

lemma rows_append: "key v \<notin> key ` set t \<Longrightarrow> map_put (key v) v (rows_map key t) = rows_map key (t @ [v])"
  by (induction t) (auto simp: rows_map_def map_put_def)

lemma rows_delete: "map_del k (rows_map key t) = rows_map key (filter (\<lambda>r. key r \<noteq> k) t)"
  by (induction t) (auto simp: rows_map_def map_del_def)

lemma rows_filter: "filter (\<lambda>(_, r). P r) (rows_map key t) = rows_map key (filter P t)"
  by (induction t) (auto simp: rows_map_def)

lemma rows_update:
  assumes "distinct (map key t)" "List.find P t = Some r" "\<And>x. x \<in> set t \<Longrightarrow> P x \<Longrightarrow> key x = key r" "key (f r) = key r"
  shows "map_put (key r) (f r) (rows_map key t) = rows_map key (upd_rows P f t)"
  using assms
proof (induction t)
  case (Cons x t)
  show ?case
  proof (cases "P x")
    case True
    then have r: "r = x" using Cons.prems(2) by simp
    have "\<not> P y" if y: "y \<in> set t" for y
    proof
      assume "P y"
      then have "key y = key x" using Cons.prems(3) [of y] y r by simp
      moreover have "key y \<in> key ` set t" using y by (rule imageI)
      ultimately show False using Cons.prems(1) by simp
    qed
    then have "upd_rows P f t = t" by (simp add: upd_rows_def map_idI)
    then show ?thesis using True r Cons.prems(4) by (simp add: rows_map_def map_put_def upd_rows_def)
  next
    case False
    have f: "List.find P t = Some r" using Cons.prems(2) False by simp
    then have "r \<in> set t" by (auto simp: find_Some_iff)
    then have "key x \<noteq> key r" using Cons.prems(1) by auto
    then show ?thesis
      using Cons.IH [OF _ f] Cons.prems(1,3,4) False by (simp add: rows_map_def map_put_def upd_rows_def)
  qed
qed simp

lemma upd_rows_none: "List.find P t = None \<Longrightarrow> upd_rows P f t = t"
  by (auto simp: upd_rows_def find_None_iff intro: map_idI)

lemma count_rows_zero: "count_rows P t = 0 \<longleftrightarrow> List.find P t = None"
  by (auto simp: count_rows_def find_None_iff filter_empty_conv)

lemma list_ex_find: "list_ex P t \<longleftrightarrow> List.find P t \<noteq> None"
  by (induction t) auto

lemma find_SomeD: "List.find P t = Some r \<Longrightarrow> r \<in> set t \<and> P r"
  by (auto simp: find_Some_iff)

lemma find_key:
  "distinct (map key t) \<Longrightarrow> r \<in> set t \<Longrightarrow> List.find (\<lambda>x. key x = key r) t = Some r"
proof (induction t)
  case (Cons y t)
  show ?case
  proof (cases "r = y")
    case False
    then have "r \<in> set t" using Cons.prems(2) by simp
    moreover from this have "key y \<noteq> key r" using Cons.prems(1) by auto
    ultimately show ?thesis using Cons by simp
  qed simp
qed simp

text \<open>With unique ids, a condition that fixes the id finds the row of that id if it meets the rest.\<close>

lemma find_key_and:
  assumes "distinct (map key t)"
  shows "List.find (\<lambda>x. key x = k \<and> Q x) t =
    (case List.find (\<lambda>x. key x = k) t of None \<Rightarrow> None | Some r \<Rightarrow> if Q r then Some r else None)"
  using assms
proof (induction t)
  case (Cons y t)
  show ?case
  proof (cases "key y = k")
    case True
    then have "key x \<noteq> k" if "x \<in> set t" for x
      using Cons.prems that by (metis distinct.simps(2) imageI list.simps(9) set_map)
    then have "List.find (\<lambda>x. key x = k \<and> Q x) t = None" by (auto simp: find_None_iff)
    then show ?thesis using True by simp
  next
    case False
    then show ?thesis using Cons by simp
  qed
qed simp

text \<open>What the invariant of the in-memory store says of the tables.\<close>

lemma distinct_rows: "keyed_by key (rows_map key t) \<longleftrightarrow> distinct (map key t)"
  by (auto simp: keyed_by_def rows_map_def comp_def list_all_iff)

lemma unique_rows:
  assumes "unique_on (\<lambda>_. True) f (rows_map key t)" "x \<in> set t" "y \<in> set t" "f x = f y"
  shows "key x = key y"
proof -
  have "(key x, x) \<in> set (rows_map key t)" "(key y, y) \<in> set (rows_map key t)"
    using assms(2,3) by (simp_all add: rows_map_def)
  from unique_onD [OF assms(1) this] assms(4) show ?thesis by simp
qed

definition pg_ok :: "pg_db \<Rightarrow> bool" where
  "pg_ok db \<longleftrightarrow> mem_inv (pg_abs db)"

lemma pg_ok_distinct:
  assumes "pg_ok db"
  shows "distinct (map sv_ID (pg_servers db))" "distinct (map dv_ID (pg_devices db))"
    "distinct (map rq_ID (pg_requests db))" "distinct (map wl_ID (pg_whitelist db))"
    "distinct (map bi_ID (pg_blocked db))" "distinct (map gr_ID (pg_geoRules db))"
  using assms by (auto simp: pg_ok_def mem_inv_def distinct_rows)

text \<open>Updates by id: what they do to the map, and how many rows they match.\<close>

lemma rows_update_id:
  assumes "distinct (map key t)" "\<And>r. key (f r) = key r"
  shows "rows_map key (upd_rows (\<lambda>x. key x = k \<and> Q x) f t) =
    (case List.find (\<lambda>x. key x = k) t of
       None \<Rightarrow> rows_map key t
     | Some r \<Rightarrow> if Q r then map_put k (f r) (rows_map key t) else rows_map key t)"
proof (cases "List.find (\<lambda>x. key x = k \<and> Q x) t")
  case None
  then show ?thesis
    using find_key_and [OF assms(1), of k Q] by (auto simp: upd_rows_none split: option.splits if_splits)
next
  case (Some r)
  then have r: "List.find (\<lambda>x. key x = k) t = Some r" "Q r" "key r = k"
    using find_key_and [OF assms(1), of k Q] find_SomeD [OF Some] by (auto split: option.splits if_splits)
  have "map_put (key r) (f r) (rows_map key t) = rows_map key (upd_rows (\<lambda>x. key x = k \<and> Q x) f t)"
    using assms(1) Some by (rule rows_update) (use r assms(2) in auto)
  then show ?thesis using r by simp
qed

lemma count_rows_id:
  assumes "distinct (map key t)"
  shows "count_rows (\<lambda>x. key x = k \<and> Q x) t = 0 \<longleftrightarrow>
    (case List.find (\<lambda>x. key x = k) t of None \<Rightarrow> True | Some r \<Rightarrow> \<not> Q r)"
  by (auto simp: count_rows_zero find_key_and [OF assms] split: option.splits)

lemmas rows_update_key = rows_update_id [where Q = "\<lambda>_. True", simplified]
lemmas count_rows_key = count_rows_id [where Q = "\<lambda>_. True", simplified]

lemma pg_ok_unique:
  assumes "pg_ok db"
  shows "x \<in> set (pg_devices db) \<Longrightarrow> y \<in> set (pg_devices db) \<Longrightarrow> dv_FCMToken x = dv_FCMToken y \<Longrightarrow> dv_ID x = dv_ID y"
    "b \<in> set (pg_blocked db) \<Longrightarrow> c \<in> set (pg_blocked db) \<Longrightarrow> bi_IP b = bi_IP c \<Longrightarrow> bi_ID b = bi_ID c"
    "e \<in> set (pg_whitelist db) \<Longrightarrow> f \<in> set (pg_whitelist db) \<Longrightarrow> wl_key e = wl_key f \<Longrightarrow> wl_ID e = wl_ID f"
  using assms by (auto simp: pg_ok_def mem_inv_def intro: unique_rows)

lemma pg_ok_server:
  assumes "pg_ok db" "e \<in> set (pg_whitelist db)" "wl_ServerID e = Some sid"
  shows "map_of (m_servers (pg_abs db)) sid \<noteq> None"
proof -
  have "sid \<in> map_keys (m_servers (pg_abs db))"
    using assms unfolding pg_ok_def mem_inv_def by (auto simp: list_all_iff rows_map_def map_keys_def)
  then show ?thesis by (simp only: map_keys_iff) simp
qed

section \<open>Statements and faults\<close>

lemma pg_stmt_cases:
  assumes "pg_stmt E op f db = (db', r)"
  obtains (kept) "db' = db" "isl r" | (ran) a where "f db = Inr (db', a)" "r = Inr a \<or> isl r"
  using assms by (auto simp: pg_stmt_def split: sum.splits prod.splits if_splits)

lemma pg_affected_state: "pg_affected x = (db', r) \<Longrightarrow> \<exists>r'. x = (db', r')"
  by (auto simp: pg_affected_def split: prod.splits sum.splits)

lemma opt_cast_Inr: "opt_cast c v k = Inr x \<longleftrightarrow>
    (v = None \<and> k None = Inr x) \<or> (\<exists>s u. v = Some s \<and> c s = Some u \<and> k (Some u) = Inr x)"
  by (auto simp: opt_cast_def split: option.splits)

lemma with_uuid_Inr: "with_uuid E s k = Inr x \<longleftrightarrow> (\<exists>u. pe_uuid E s = Some u \<and> k u = Inr x)"
  by (auto simp: with_uuid_def split: option.splits)

lemma with_inet_Inr: "with_inet E s k = Inr x \<longleftrightarrow> (\<exists>u. pe_inet E s = Some u \<and> k u = Inr x)"
  by (auto simp: with_inet_def split: option.splits)

lemmas casts = opt_cast_Inr with_uuid_Inr with_inet_Inr

text \<open>One step: the tables stay, or they change as the in-memory store does in one of its own steps.\<close>

definition pg_sim :: "pg_db \<Rightarrow> pg_db \<Rightarrow> bool" where
  "pg_sim db db' \<longleftrightarrow> db' = db \<or> mem_step (pg_abs db) (pg_abs db')"

lemma pg_sim_stmt:
  assumes "pg_stmt E op f db = (db', r)" "\<And>a. f db = Inr (db', a) \<Longrightarrow> pg_sim db db'"
  shows "pg_sim db db'"
  using assms(1)
proof (cases rule: pg_stmt_cases)
  case kept
  then show ?thesis by (simp add: pg_sim_def)
next
  case (ran a)
  then show ?thesis by (intro assms(2))
qed

lemma pg_sim_affected:
  assumes "pg_affected (pg_stmt E op f db) = (db', r)" "\<And>a. f db = Inr (db', a) \<Longrightarrow> pg_sim db db'"
  shows "pg_sim db db'"
proof -
  obtain r' where "pg_stmt E op f db = (db', r')" using pg_affected_state [OF assms(1)] by blast
  then show ?thesis by (rule pg_sim_stmt) (rule assms(2))
qed

lemma pg_simI: "pg_abs db' = m \<Longrightarrow> mem_step (pg_abs db) m \<Longrightarrow> pg_sim db db'"
  by (simp add: pg_sim_def)

lemma TouchServer_sim:
  assumes "pg_ok db" "pg_TouchServer E sid now db = (db', r)"
  shows "pg_sim db db'"
proof (rule pg_sim_affected [OF assms(2) [unfolded pg_TouchServer_def]], goal_cases)
  case (1 a)
  then obtain u where db': "db' = db\<lparr> pg_servers := upd_rows (\<lambda>s. sv_ID s = u) (\<lambda>s. s\<lparr> sv_LastSeenAt := Some (pe_time E now) \<rparr>) (pg_servers db) \<rparr>"
    by (auto simp: casts Let_def split: if_splits)
  have "pg_abs db' = fst (mem_TouchServer u (pe_time E now) (pg_abs db))"
    using pg_ok_distinct [OF assms(1)] by (simp add: db' mem_TouchServer_def rows_update_key split: option.split)
  then show ?case by (rule pg_simI) (rule mem_step.TouchServer)
qed

lemma DeleteDevice_sim:
  assumes "pg_ok db" "pg_DeleteDevice E did now db = (db', r)"
  shows "pg_sim db db'"
proof (rule pg_sim_affected [OF assms(2) [unfolded pg_DeleteDevice_def]], goal_cases)
  case (1 a)
  then obtain u where db': "db' = db\<lparr> pg_devices := upd_rows (\<lambda>d. dv_ID d = u \<and> dv_DeletedAt d = None) (\<lambda>d. d\<lparr> dv_DeletedAt := Some (pe_time E now) \<rparr>) (pg_devices db) \<rparr>"
    by (auto simp: casts Let_def split: if_splits)
  have "pg_abs db' = fst (mem_DeleteDevice u (pe_time E now) (pg_abs db))"
    using pg_ok_distinct [OF assms(1)] by (simp add: db' mem_DeleteDevice_def rows_update_id split: option.split)
  then show ?case by (rule pg_simI) (rule mem_step.DeleteDevice)
qed

lemma RecordBlockedIPHit_sim:
  assumes "pg_ok db" "pg_RecordBlockedIPHit E bid now db = (db', r)"
  shows "pg_sim db db'"
proof (rule pg_sim_affected [OF assms(2) [unfolded pg_RecordBlockedIPHit_def]], goal_cases)
  case (1 a)
  then obtain u where db': "db' = db\<lparr> pg_blocked := upd_rows (\<lambda>b. bi_ID b = u) (\<lambda>b. b\<lparr> bi_HitCount := bi_HitCount b + 1,
      bi_LastHitAt := Some (pe_time E now) \<rparr>) (pg_blocked db) \<rparr>"
    by (auto simp: casts Let_def split: if_splits)
  have "pg_abs db' = fst (mem_RecordBlockedIPHit u (pe_time E now) (pg_abs db))"
    using pg_ok_distinct [OF assms(1)] by (simp add: db' mem_RecordBlockedIPHit_def rows_update_key split: option.split)
  then show ?case by (rule pg_simI) (rule mem_step.RecordBlockedIPHit)
qed

lemma UnblockIP_sim:
  assumes "pg_ok db" "pg_UnblockIP E bid now db = (db', r)"
  shows "pg_sim db db'"
proof (rule pg_sim_affected [OF assms(2) [unfolded pg_UnblockIP_def]], goal_cases)
  case (1 a)
  then obtain u where db': "db' = db\<lparr> pg_blocked := upd_rows (\<lambda>b. bi_ID b = u \<and> unexpired (bi_ExpiresAt b) (pe_time E now))
      (\<lambda>b. b\<lparr> bi_ExpiresAt := Some (pe_time E now) \<rparr>) (pg_blocked db) \<rparr>"
    by (auto simp: casts Let_def split: if_splits)
  have "pg_abs db' = fst (mem_UnblockIP u (pe_time E now) (pg_abs db))"
    using pg_ok_distinct [OF assms(1)] by (simp add: db' mem_UnblockIP_def BlockedIP_Active_unexpired rows_update_id split: option.split)
  then show ?case by (rule pg_simI) (rule mem_step.UnblockIP)
qed

lemma DeleteGeoRule_sim:
  assumes "pg_DeleteGeoRule E gid db = (db', r)"
  shows "pg_sim db db'"
proof (rule pg_sim_affected [OF assms [unfolded pg_DeleteGeoRule_def]], goal_cases)
  case (1 a)
  then obtain u where db': "db' = db\<lparr> pg_geoRules := filter (\<lambda>x. gr_ID x \<noteq> u) (pg_geoRules db) \<rparr>"
    by (auto simp: casts)
  have "List.find (\<lambda>x. gr_ID x = u) (pg_geoRules db) = None \<Longrightarrow> filter (\<lambda>x. gr_ID x \<noteq> u) (pg_geoRules db) = pg_geoRules db"
    by (auto simp: find_None_iff intro: filter_True)
  then have "pg_abs db' = fst (mem_DeleteGeoRule u (pg_abs db))"
    by (simp add: db' mem_DeleteGeoRule_def rows_delete split: option.split)
  then show ?case by (rule pg_simI) (rule mem_step.DeleteGeoRule)
qed

lemma DeleteWhitelist_sim:
  assumes "pg_DeleteWhitelist E wid db = (db', r)"
  shows "pg_sim db db'"
proof (rule pg_sim_affected [OF assms [unfolded pg_DeleteWhitelist_def]], goal_cases)
  case (1 a)
  then obtain u where db': "db' = db\<lparr> pg_whitelist := filter (\<lambda>x. wl_ID x \<noteq> u) (pg_whitelist db) \<rparr>"
    by (auto simp: casts)
  have "List.find (\<lambda>x. wl_ID x = u) (pg_whitelist db) = None \<Longrightarrow> filter (\<lambda>x. wl_ID x \<noteq> u) (pg_whitelist db) = pg_whitelist db"
    by (auto simp: find_None_iff intro: filter_True)
  then have "pg_abs db' = fst (mem_DeleteWhitelist u (pg_abs db))"
    by (simp add: db' mem_DeleteWhitelist_def rows_delete split: option.split)
  then show ?case by (rule pg_simI) (rule mem_step.DeleteWhitelist)
qed

lemma CreateServer_sim:
  assumes "pg_CreateServer E nid name hash os now db = (db', r)" "nid \<notin> sv_ID ` set (pg_servers db)"
  shows "pg_sim db db'"
proof (rule pg_sim_stmt [OF assms(1) [unfolded pg_CreateServer_def]], goal_cases)
  case (1 a)
  define new where "new = \<lparr> sv_ID = nid, sv_Name = name, sv_TokenHash = hash, sv_OS = os, sv_CreatedAt = pe_time E now,
      sv_LastSeenAt = None \<rparr>"
  have new: "sv_ID new = nid" by (simp add: new_def)
  have "pg_abs db' = fst (mem_CreateServer nid name hash os (pe_time E now) (pg_abs db))"
    using 1 assms(2) rows_append [of sv_ID new "pg_servers db", unfolded new]
    by (auto simp: mem_CreateServer_def Let_def list_ex_find new_def split: option.splits if_splits)
  then show ?case by (rule pg_simI) (rule mem_step.CreateServer, use assms(2) in simp)
qed

lemma CreateGeoRule_sim:
  assumes "pg_CreateGeoRule E nid country note now db = (db', r)" "nid \<notin> gr_ID ` set (pg_geoRules db)"
  shows "pg_sim db db'"
proof (rule pg_sim_stmt [OF assms(1) [unfolded pg_CreateGeoRule_def]], goal_cases)
  case (1 a)
  define new where "new = \<lparr> gr_ID = nid, gr_Country = bpchar country, gr_Note = note, gr_CreatedAt = pe_time E now \<rparr>"
  have new: "gr_ID new = nid" by (simp add: new_def)
  have "pg_abs db' = fst (mem_CreateGeoRule nid (bpchar country) note (pe_time E now) (pg_abs db))"
    using 1 assms(2) rows_append [of gr_ID new "pg_geoRules db", unfolded new]
    by (auto simp: mem_CreateGeoRule_def Let_def list_ex_find new_def split: option.splits if_splits)
  then show ?case by (rule pg_simI) (rule mem_step.CreateGeoRule, use assms(2) in simp)
qed

lemma UpsertDevice_sim:
  assumes "pg_ok db" "pg_UpsertDevice E nid token platform label now db = (db', r)" "nid \<notin> dv_ID ` set (pg_devices db)"
  shows "pg_sim db db'"
proof (rule pg_sim_stmt [OF assms(2) [unfolded pg_UpsertDevice_def]], goal_cases)
  case (1 a)
  let ?P = "\<lambda>d. dv_FCMToken d = token"
  define f :: "Device \<Rightarrow> Device" where "f = (\<lambda>d. d\<lparr> dv_Platform := platform, dv_Label := label, dv_LastSeenAt := Some (pe_time E now),
    dv_DeletedAt := None \<rparr>)"
  define new where "new = \<lparr> dv_ID = nid, dv_FCMToken = token, dv_Platform = platform, dv_Label = label,
    dv_CreatedAt = pe_time E now, dv_LastSeenAt = Some (pe_time E now), dv_DeletedAt = None \<rparr>"
  have "pg_abs db' = fst (mem_UpsertDevice nid token platform label (pe_time E now) (pg_abs db))"
  proof (cases "List.find ?P (pg_devices db)")
    case None
    have "dv_ID new = nid" by (simp add: new_def)
    then show ?thesis
      using 1 None assms(3) rows_append [of dv_ID new "pg_devices db"]
      by (auto simp: mem_UpsertDevice_def Let_def new_def split: if_splits)
  next
    case (Some d)
    have "map_put (dv_ID d) (f d) (rows_map dv_ID (pg_devices db)) = rows_map dv_ID (upd_rows ?P f (pg_devices db))"
    proof (rule rows_update [OF pg_ok_distinct(2) [OF assms(1)] Some])
      fix y
      assume "y \<in> set (pg_devices db)" "dv_FCMToken y = token"
      then show "dv_ID y = dv_ID d" using find_SomeD [OF Some] by (intro pg_ok_unique(1) [OF assms(1)]) simp_all
    qed (simp add: f_def)
    then show ?thesis
      using 1 Some by (auto simp: mem_UpsertDevice_def Let_def f_def split: if_splits)
  qed
  then show ?case by (rule pg_simI) (rule mem_step.UpsertDevice, use assms(3) in simp)
qed

text \<open>A new block starts without hits; then inserting it and re-arming an old one write the same columns.\<close>

lemma UpsertBlockedIP_sim:
  assumes "pg_ok db" "pg_UpsertBlockedIP E nid b db = (db', r)" "nid \<notin> bi_ID ` set (pg_blocked db)"
    and "bi_HitCount b = 0" "bi_LastHitAt b = None"
  shows "pg_sim db db'"
proof (rule pg_sim_stmt [OF assms(2) [unfolded pg_UpsertBlockedIP_def]], goal_cases)
  case (1 a)
  then obtain ip where ip: "pe_inet E (bi_IP b) = Some ip" by (auto simp: casts)
  let ?P = "\<lambda>x. bi_IP x = ip"
  define b' where "b' = b\<lparr> bi_IP := ip, bi_FirstDeniedAt := pe_time E (bi_FirstDeniedAt b),
    bi_LastDeniedAt := pe_time E (bi_LastDeniedAt b), bi_CreatedAt := pe_time E (bi_CreatedAt b),
    bi_ExpiresAt := map_option (pe_time E) (bi_ExpiresAt b) \<rparr>"
  define new where "new = blocked_values E nid ip b"
  define f :: "BlockedIP \<Rightarrow> BlockedIP"
    where "f = (\<lambda>x. new\<lparr> bi_ID := bi_ID x, bi_IP := bi_IP x, bi_HitCount := 0, bi_LastHitAt := None \<rparr>)"
  have new: "new = b'\<lparr> bi_HitCount := 0, bi_LastHitAt := None,
      bi_Reason := (if bi_Reason b' = [] then ''autoblock'' else bi_Reason b'), bi_ID := nid \<rparr>" "bi_IP b' = ip"
    using assms(4,5) by (cases b, simp add: new_def b'_def blocked_values_def) (simp add: b'_def)
  have "pg_abs db' = fst (mem_UpsertBlockedIP nid b' (pg_abs db))"
  proof (cases "List.find ?P (pg_blocked db)")
    case None
    then have db': "db' = db\<lparr> pg_blocked := pg_blocked db @ [new] \<rparr>"
      using 1 ip by (auto simp: with_inet_def Let_def new_def split: if_splits)
    have "bi_ID new = nid" by (simp add: new)
    then show ?thesis
      using None assms(3) rows_append [of bi_ID new "pg_blocked db"] new
      by (simp add: db' mem_UpsertBlockedIP_def Let_def)
  next
    case (Some x)
    then have db': "db' = db\<lparr> pg_blocked := upd_rows ?P f (pg_blocked db) \<rparr>"
      using 1 ip by (auto simp: with_inet_def Let_def f_def new_def split: if_splits)
    have x: "x \<in> set (pg_blocked db)" "bi_IP x = ip" using find_SomeD [OF Some] by auto
    have "map_put (bi_ID x) (f x) (rows_map bi_ID (pg_blocked db)) = rows_map bi_ID (upd_rows ?P f (pg_blocked db))"
    proof (rule rows_update [OF pg_ok_distinct(5) [OF assms(1)] Some])
      fix y
      assume "y \<in> set (pg_blocked db)" "bi_IP y = ip"
      then show "bi_ID y = bi_ID x" using x by (intro pg_ok_unique(2) [OF assms(1)]) simp_all
    qed (simp add: f_def)
    moreover have "f x = b'\<lparr> bi_HitCount := 0, bi_LastHitAt := None,
        bi_Reason := (if bi_Reason b' = [] then ''autoblock'' else bi_Reason b'), bi_ID := bi_ID x \<rparr>"
      using x(2) by (simp add: f_def new b'_def)
    ultimately show ?thesis
      using Some new(2) by (simp add: db' mem_UpsertBlockedIP_def Let_def)
  qed
  then show ?case by (rule pg_simI) (rule mem_step.UpsertBlockedIP, use assms(3) in simp)
qed

lemma insert_request_sim:
  assumes "insert_request E nid r db = Inr (db', x)" "nid \<notin> rq_ID ` set (pg_requests db)"
  shows "pg_sim db db'"
proof -
  obtain sid ip dev where srv: "has_server db sid"
    and db': "db' = db\<lparr> pg_requests := pg_requests db @
         [r\<lparr> rq_ID := nid, rq_ServerID := sid, rq_SourceIP := ip,
             rq_Status := (if rq_Status r = [] then StatusPending else rq_Status r),
             rq_DecidedByDevice := dev, rq_CreatedAt := pe_time E (rq_CreatedAt r),
             rq_ExpiresAt := pe_time E (rq_ExpiresAt r),
             rq_DecidedAt := map_option (pe_time E) (rq_DecidedAt r) \<rparr>] \<rparr>"
    using assms(1) unfolding insert_request_def Let_def casts by (auto split: if_split_asm)
  define r' where "r' = r\<lparr> rq_ServerID := sid, rq_SourceIP := ip, rq_DecidedByDevice := dev,
    rq_CreatedAt := pe_time E (rq_CreatedAt r), rq_ExpiresAt := pe_time E (rq_ExpiresAt r),
    rq_DecidedAt := map_option (pe_time E) (rq_DecidedAt r) \<rparr>"
  define new where "new = r'\<lparr> rq_ID := nid, rq_Status := (if rq_Status r' = [] then StatusPending else rq_Status r') \<rparr>"
  have new: "db' = db\<lparr> pg_requests := pg_requests db @ [new] \<rparr>" "rq_ID new = nid" "rq_ServerID r' = sid"
    by (simp_all add: db' new_def r'_def)
  obtain y where y: "List.find (\<lambda>s. sv_ID s = sid) (pg_servers db) = Some y"
    using srv by (auto simp: has_server_def list_ex_find)
  have "fst (mem_CreateRequest nid r' (pg_abs db))
      = (pg_abs db)\<lparr> m_requests := map_put nid new (rows_map rq_ID (pg_requests db)) \<rparr>"
    using y new(3) by (simp add: mem_CreateRequest_def Let_def new_def)
  then have "pg_abs db' = fst (mem_CreateRequest nid r' (pg_abs db))"
    using assms(2) rows_append [of rq_ID new "pg_requests db"] new(1,2) by simp
  then show ?thesis by (rule pg_simI) (rule mem_step.CreateRequest, use assms(2) in simp)
qed

lemma decide_sim:
  assumes "pg_ok db" "decide_statement E rid status deviceID now db = Inr (db', n)"
    and "status \<in> {StatusApproved, StatusDenied}"
  shows "pg_sim db db'"
proof -
  obtain u dev where db': "db' = db\<lparr> pg_requests := upd_rows (decidable u (pe_time E now))
      (decided_row status dev (pe_time E now)) (pg_requests db) \<rparr>"
    using assms(2) unfolding decide_statement_def casts Let_def by (auto split: if_split_asm)
  have "pg_abs db' = fst (mem_DecideRequest u status dev (pe_time E now) (pg_abs db))"
    using pg_ok_distinct [OF assms(1)] rows_update_id [of rq_ID "pg_requests db" "decided_row status dev (pe_time E now)" u]
    by (simp add: db' mem_DecideRequest_def Let_def decidable_def [abs_def] decided_row_def split: option.split)
  then show ?thesis by (rule pg_simI) (rule mem_step.DecideRequest [OF assms(3)])
qed

lemma timeout_sim:
  assumes "pg_ok db" "timeout_statement E rid db = Inr (db', n)"
  shows "pg_sim db db'"
proof -
  obtain u where db': "db' = db\<lparr> pg_requests := upd_rows (\<lambda>r. rq_ID r = u \<and> rq_Status r = StatusPending)
      (\<lambda>r. r\<lparr> rq_Status := StatusTimeout, rq_DecidedBy := Some DecidedByTimeout, rq_DecidedAt := None \<rparr>)
      (pg_requests db) \<rparr>"
    using assms(2) unfolding timeout_statement_def casts Let_def by auto
  have "pg_abs db' = fst (mem_MarkTimeout u 0 (pg_abs db))"
    using pg_ok_distinct [OF assms(1)] by (simp add: db' mem_MarkTimeout_def rows_update_id split: option.split)
  then show ?thesis by (rule pg_simI) (rule mem_step.MarkTimeout)
qed

lemma expire_sim:
  "pg_abs (db\<lparr> pg_whitelist := filter (\<lambda>e. unexpired (wl_ExpiresAt e) now) (pg_whitelist db) \<rparr>)
     = fst (mem_ListWhitelist None now (pg_abs db))"
  by (simp add: mem_ListWhitelist_def Let_def rows_filter)

lemma save_entry_sim:
  assumes "pg_ok db" "save_entry E nid e sid from' dev now db = Inr (db', x)" "nid \<notin> wl_ID ` set (pg_whitelist db)"
  shows "pg_sim db db'"
proof -
  define e' where "e' = e\<lparr> wl_ServerID := sid, wl_ExpiresAt := map_option (pe_time E) (wl_ExpiresAt e),
    wl_CreatedFrom := from', wl_CreatedByDevice := dev \<rparr>"
  have e': "wl_Username e' = wl_Username e" "wl_Context e' = wl_Context e" "wl_ServerID e' = sid"
    "wl_ExpiresAt e' = map_option (pe_time E) (wl_ExpiresAt e)"
    by (simp_all add: e'_def)
  let ?P = "\<lambda>x. wl_Username x = wl_Username e \<and> wl_Context x = wl_Context e \<and> wl_ServerID x = sid"
  have "pg_abs db' = fst (mem_UpsertWhitelist nid e' (pe_time E now) (pg_abs db))"
  proof (cases "List.find ?P (pg_whitelist db)")
    case None
    define new where "new = e'\<lparr> wl_ID := nid, wl_CreatedAt := pe_time E now \<rparr>"
    have db': "db' = db\<lparr> pg_whitelist := pg_whitelist db @ [new] \<rparr>" and srv: "\<forall>s. sid = Some s \<longrightarrow> has_server db s"
      using assms(2) None by (auto simp: save_entry_def Let_def new_def e'_def split: if_split_asm option.splits)
    have known: "(case sid of None \<Rightarrow> False | Some s \<Rightarrow> map_of (m_servers (pg_abs db)) s = None) = False"
      using srv by (auto simp: has_server_def list_ex_find split: option.split)
    have "wl_ID new = nid" by (simp add: new_def)
    then show ?thesis
      using None assms(3) rows_append [of wl_ID new "pg_whitelist db"] known
      by (simp add: db' mem_UpsertWhitelist_def e' Let_def new_def [symmetric])
  next
    case (Some y)
    let ?f = "\<lambda>x. x\<lparr> wl_ExpiresAt := map_option (pe_time E) (wl_ExpiresAt e) \<rparr>"
    have y: "y \<in> set (pg_whitelist db)" "?P y" using find_SomeD [OF Some] by auto
    have db': "db' = db\<lparr> pg_whitelist := upd_rows ?P ?f (pg_whitelist db) \<rparr>"
      using assms(2) Some by (auto simp: save_entry_def Let_def split: if_split_asm)
    have "map_put (wl_ID y) (?f y) (rows_map wl_ID (pg_whitelist db)) = rows_map wl_ID (upd_rows ?P ?f (pg_whitelist db))"
    proof (rule rows_update [OF pg_ok_distinct(4) [OF assms(1)] Some])
      fix z
      assume "z \<in> set (pg_whitelist db)" "?P z"
      then show "wl_ID z = wl_ID y" using y by (intro pg_ok_unique(3) [OF assms(1)]) (simp_all add: wl_key_def)
    qed simp
    moreover have "(case sid of None \<Rightarrow> False | Some s \<Rightarrow> map_of (m_servers (pg_abs db)) s = None) = False"
      using pg_ok_server [OF assms(1) y(1)] y(2) by (auto split: option.split)
    ultimately show ?thesis
      using Some by (simp add: db' mem_UpsertWhitelist_def e' Let_def)
  qed
  then show ?thesis by (rule pg_simI) (rule mem_step.UpsertWhitelist, use assms(3) in simp)
qed

section \<open>Operations of two statements\<close>

text \<open>Other connections only run operations of the store.\<close>

definition pg_calm :: "pg_env \<Rightarrow> bool" where
  "pg_calm E \<longleftrightarrow> (\<forall>db. pg_ok db \<longrightarrow> mem_steps (pg_abs db) (pg_abs (pe_between E db)))"

lemma pg_sim_steps: "pg_sim db db' \<Longrightarrow> mem_steps (pg_abs db) (pg_abs db')"
  by (auto simp: pg_sim_def intro: mem_steps.intros)

lemma pg_sim_ok: "pg_sim db db' \<Longrightarrow> pg_ok db \<Longrightarrow> pg_ok db'"
  unfolding pg_ok_def using pg_sim_steps mem_steps_inv by blast

lemma pg_sim_between:
  "pg_sim db db' \<Longrightarrow> pg_ok db \<Longrightarrow> pg_calm E \<Longrightarrow> mem_steps (pg_abs db) (pg_abs (pe_between E db'))"
  using pg_sim_ok pg_sim_steps mem_steps_trans unfolding pg_calm_def by blast

lemma CreateRequest_sim:
  assumes "pg_ok db" "pg_calm E" "nid \<notin> rq_ID ` set (pg_requests db)"
  shows "mem_steps (pg_abs db) (pg_abs (fst (pg_CreateRequest E nid r db)))"
proof -
  obtain db' x where s: "pg_stmt E ''create request'' (insert_request E nid r) db = (db', x)" by fastforce
  have "pg_sim db db'" using s by (rule pg_sim_stmt) (rule insert_request_sim [OF _ assms(3)])
  with pg_sim_steps [OF this] pg_sim_between [OF this assms(1,2)] show ?thesis
    by (simp add: pg_CreateRequest_def s Let_def split: sum.split)
qed

lemma DecideRequest_sim:
  assumes "pg_ok db" "pg_calm E" "status \<in> {StatusApproved, StatusDenied}"
  shows "mem_steps (pg_abs db) (pg_abs (fst (pg_DecideRequest E rid status deviceID now db)))"
proof -
  obtain db' x where s: "pg_stmt E ''decide request'' (decide_statement E rid status deviceID now) db = (db', x)"
    by fastforce
  have "pg_sim db db'" using s by (rule pg_sim_stmt) (rule decide_sim [OF assms(1) _ assms(3)])
  with pg_sim_steps [OF this] pg_sim_between [OF this assms(1,2)] show ?thesis
    by (simp add: pg_DecideRequest_def s Let_def split: sum.split)
qed

lemma MarkTimeout_sim:
  assumes "pg_ok db" "pg_calm E"
  shows "mem_steps (pg_abs db) (pg_abs (fst (pg_MarkTimeout E rid now db)))"
proof -
  obtain db' x where s: "pg_stmt E ''mark timeout'' (timeout_statement E rid) db = (db', x)" by fastforce
  have "pg_sim db db'" using s by (rule pg_sim_stmt) (rule timeout_sim [OF assms(1)])
  with pg_sim_steps [OF this] pg_sim_between [OF this assms(1,2)] show ?thesis
    by (simp add: pg_MarkTimeout_def s Let_def split: sum.split)
qed

lemma ListWhitelist_sim:
  assumes "pg_ok db" "pg_calm E"
  shows "mem_steps (pg_abs db) (pg_abs (fst (pg_ListWhitelist E serverID now db)))"
proof -
  let ?f = "\<lambda>db. Inr (db\<lparr> pg_whitelist := filter (\<lambda>e. unexpired (wl_ExpiresAt e) (pe_time E now)) (pg_whitelist db) \<rparr>, ())"
  obtain db' x where s: "pg_stmt E ''delete expired whitelist'' ?f db = (db', x)" by fastforce
  have "pg_sim db db'" using s
  proof (rule pg_sim_stmt)
    fix a
    assume "?f db = Inr (db', a)"
    then have "pg_abs db' = fst (mem_ListWhitelist None (pe_time E now) (pg_abs db))" using expire_sim by auto
    then show "pg_sim db db'" by (rule pg_simI) (rule mem_step.ListWhitelist)
  qed
  with pg_sim_steps [OF this] pg_sim_between [OF this assms] show ?thesis
    by (simp add: pg_ListWhitelist_def s Let_def split: sum.split)
qed

lemma UpsertWhitelist_sim:
  assumes "pg_ok db" "pg_calm E" "nid \<notin> wl_ID ` set (pg_whitelist db)"
  shows "mem_steps (pg_abs db) (pg_abs (fst (pg_UpsertWhitelist E nid e now db)))"
proof -
  obtain db' x where s: "pg_stmt E ''upsert whitelist'' (upsert_entry E nid e now) db = (db', x)" by fastforce
  have "pg_sim db db'" using s
  proof (rule pg_sim_stmt)
    fix a
    assume "upsert_entry E nid e now db = Inr (db', a)"
    then obtain sid from' dev where "save_entry E nid e sid from' dev now db = Inr (db', a)"
      unfolding upsert_entry_def casts by blast
    then show "pg_sim db db'" by (rule save_entry_sim [OF assms(1) _ assms(3)])
  qed
  with pg_sim_steps [OF this] pg_sim_between [OF this assms(1,2)] show ?thesis
    by (simp add: pg_UpsertWhitelist_def s Let_def split: sum.split)
qed

section \<open>Steps of the store\<close>

text \<open>One operation by any process, in any environment whose other connections run operations too. Ids of new
  rows are fresh, a verdict approves or denies, and a new block has no hits yet.\<close>

inductive pg_step :: "pg_db \<Rightarrow> pg_db \<Rightarrow> bool" where
  CreateServer: "nid \<notin> sv_ID ` set (pg_servers db) \<Longrightarrow> pg_step db (fst (pg_CreateServer E nid name hash os now db))"
| TouchServer: "pg_step db (fst (pg_TouchServer E sid now db))"
| UpsertDevice: "nid \<notin> dv_ID ` set (pg_devices db) \<Longrightarrow>
    pg_step db (fst (pg_UpsertDevice E nid token platform label now db))"
| DeleteDevice: "pg_step db (fst (pg_DeleteDevice E did now db))"
| CreateRequest: "pg_calm E \<Longrightarrow> nid \<notin> rq_ID ` set (pg_requests db) \<Longrightarrow> pg_step db (fst (pg_CreateRequest E nid r db))"
| DecideRequest: "pg_calm E \<Longrightarrow> status \<in> {StatusApproved, StatusDenied} \<Longrightarrow>
    pg_step db (fst (pg_DecideRequest E rid status dev now db))"
| MarkTimeout: "pg_calm E \<Longrightarrow> pg_step db (fst (pg_MarkTimeout E rid now db))"
| ListWhitelist: "pg_calm E \<Longrightarrow> pg_step db (fst (pg_ListWhitelist E srv now db))"
| UpsertWhitelist: "pg_calm E \<Longrightarrow> nid \<notin> wl_ID ` set (pg_whitelist db) \<Longrightarrow>
    pg_step db (fst (pg_UpsertWhitelist E nid e now db))"
| DeleteWhitelist: "pg_step db (fst (pg_DeleteWhitelist E wid db))"
| RecordBlockedIPHit: "pg_step db (fst (pg_RecordBlockedIPHit E bid now db))"
| UpsertBlockedIP: "nid \<notin> bi_ID ` set (pg_blocked db) \<Longrightarrow> bi_HitCount b = 0 \<Longrightarrow> bi_LastHitAt b = None \<Longrightarrow>
    pg_step db (fst (pg_UpsertBlockedIP E nid b db))"
| UnblockIP: "pg_step db (fst (pg_UnblockIP E bid now db))"
| CreateGeoRule: "nid \<notin> gr_ID ` set (pg_geoRules db) \<Longrightarrow>
    pg_step db (fst (pg_CreateGeoRule E nid country note now db))"
| DeleteGeoRule: "pg_step db (fst (pg_DeleteGeoRule E gid db))"

inductive pg_steps :: "pg_db \<Rightarrow> pg_db \<Rightarrow> bool" where
  none: "pg_steps db db"
| one_more: "pg_steps db db' \<Longrightarrow> pg_step db' db'' \<Longrightarrow> pg_steps db db''"

lemma sim_fst:
  assumes "\<And>db' r. x = (db', r) \<Longrightarrow> pg_sim db db'"
  shows "mem_steps (pg_abs db) (pg_abs (fst x))"
  using assms [of "fst x" "snd x"] by (simp add: pg_sim_steps)

lemma pg_step_sim:
  assumes "pg_step db db'" "pg_ok db"
  shows "mem_steps (pg_abs db) (pg_abs db')"
  using assms
proof (induction rule: pg_step.induct)
  case (CreateServer nid db E name hash os now)
  then show ?case by (intro sim_fst) (rule CreateServer_sim)
next
  case (TouchServer db E sid now)
  then show ?case by (intro sim_fst) (rule TouchServer_sim)
next
  case (UpsertDevice nid db E token platform label now)
  then show ?case by (intro sim_fst) (rule UpsertDevice_sim)
next
  case (DeleteDevice db E did now)
  then show ?case by (intro sim_fst) (rule DeleteDevice_sim)
next
  case (DeleteWhitelist db E wid)
  then show ?case by (intro sim_fst) (rule DeleteWhitelist_sim)
next
  case (RecordBlockedIPHit db E bid now)
  then show ?case by (intro sim_fst) (rule RecordBlockedIPHit_sim)
next
  case (UpsertBlockedIP nid db b E)
  then show ?case by (intro sim_fst) (rule UpsertBlockedIP_sim)
next
  case (UnblockIP db E bid now)
  then show ?case by (intro sim_fst) (rule UnblockIP_sim)
next
  case (CreateGeoRule nid db E country remark now)
  then show ?case by (intro sim_fst) (rule CreateGeoRule_sim)
next
  case (DeleteGeoRule db E gid)
  then show ?case by (intro sim_fst) (rule DeleteGeoRule_sim)
qed (blast intro: CreateRequest_sim DecideRequest_sim MarkTimeout_sim ListWhitelist_sim UpsertWhitelist_sim)+

lemma pg_steps_sim: "pg_steps db db' \<Longrightarrow> pg_ok db \<Longrightarrow> mem_steps (pg_abs db) (pg_abs db') \<and> pg_ok db'"
proof (induction rule: pg_steps.induct)
  case (none db)
  then show ?case by (simp add: mem_steps.none)
next
  case (one_more db db' db'')
  then have "mem_steps (pg_abs db') (pg_abs db'')" using pg_step_sim by blast
  then show ?case using one_more mem_steps_trans mem_steps_inv unfolding pg_ok_def by blast
qed

end
