(* ===== verification/Postgres_Props.thy ===== *)
theory Postgres_Props
  imports Postgres_Sim
begin

text \<open>
  The properties of the PostgreSQL store: it refines the in-memory store under faults and interference, a
  verdict it confirms is final, and its queries answer as those of the in-memory store.
\<close>

section \<open>An environment\<close>

text \<open>Microseconds, canonical ids and addresses, no fault and no interference.\<close>

definition ex_pg_env :: pg_env where
  "ex_pg_env = \<lparr> pe_time = (\<lambda>t. t div 1000 * 1000), pe_uuid = Some, pe_inet = Some, pe_fault = (\<lambda>_. False),
     pe_lost = (\<lambda>_. False), pe_between = (\<lambda>db. db) \<rparr>"

definition pg_New :: pg_db where
  "pg_New = \<lparr> pg_servers = [], pg_devices = [], pg_requests = [], pg_whitelist = [], pg_blocked = [], pg_geoRules = [] \<rparr>"

lemma pg_ok_New: "pg_ok pg_New"
proof -
  have "pg_abs pg_New = mem_New" by (simp add: pg_abs_def pg_New_def mem_New_def rows_map_def)
  then show ?thesis by (simp add: pg_ok_def mem_inv_New)
qed

lemma ex_pg_calm: "pg_calm ex_pg_env"
  by (simp add: pg_calm_def ex_pg_env_def mem_steps.none)

section \<open>Refinement\<close>

text \<open>C5: The PostgreSQL store refines the in-memory store. Over any sequence of operations by any number of
  processes, with statements that fail or whose answer is lost, with refused values, and with other
  connections between the two statements of an operation, the tables go only through states that operations of
  the in-memory store reach. So the unique keys and the references hold in every state, a request row stays
  with its login columns, and its decision is written at most once.\<close>

theorem postgres_refines_memory:
  assumes "pg_steps db db'" "pg_ok db"
  shows "mem_steps (pg_abs db) (pg_abs db') \<and> mem_inv (pg_abs db') \<and>
    (\<forall>rid r. List.find (\<lambda>x. rq_ID x = rid) (pg_requests db) = Some r \<longrightarrow>
       (\<exists>r'. List.find (\<lambda>x. rq_ID x = rid) (pg_requests db') = Some r' \<and> same_login r r' \<and> decision_step r r'))"
proof -
  have s: "mem_steps (pg_abs db) (pg_abs db')" "pg_ok db'" using pg_steps_sim [OF assms] by auto
  have "rows_evolve (map_of (m_requests (pg_abs db))) (map_of (m_requests (pg_abs db')))"
    using s(1) by (rule mem_steps_evolve)
  then show ?thesis using s by (simp add: rows_evolve_def pg_ok_def)
qed

lemma ex_pg_enrolled:
  "pg_steps pg_New (fst (pg_CreateServer ex_pg_env ''s1'' ''web'' ''hash'' OSLinux 1500 pg_New))"
  by (rule pg_steps.one_more [OF pg_steps.none], rule pg_step.CreateServer) (simp add: pg_New_def)

theorem postgres_refines_memory_witness:
  "\<exists>db. pg_steps pg_New db \<and> map sv_Name (pg_servers db) = [''web''] \<and> map sv_CreatedAt (pg_servers db) = [1000] \<and>
     mem_steps (pg_abs pg_New) (pg_abs db) \<and> mem_inv (pg_abs db)"
proof -
  let ?db = "fst (pg_CreateServer ex_pg_env ''s1'' ''web'' ''hash'' OSLinux 1500 pg_New)"
  have "pg_servers ?db = [\<lparr> sv_ID = ''s1'', sv_Name = ''web'', sv_TokenHash = ''hash'', sv_OS = OSLinux,
      sv_CreatedAt = 1000, sv_LastSeenAt = None \<rparr>]"
    by (simp add: pg_CreateServer_def pg_stmt_def ValidOS_def ex_pg_env_def pg_New_def Let_def)
  then show ?thesis
    using postgres_refines_memory [OF ex_pg_enrolled pg_ok_New] ex_pg_enrolled by (intro exI [of _ ?db]) simp
qed

section \<open>Verdicts\<close>

lemma RequestByID_Inr:
  "pg_RequestByID E rid db = Inr v \<Longrightarrow>
   \<exists>u r. pe_uuid E rid = Some u \<and> List.find (\<lambda>x. rq_ID x = u) (pg_requests db) = Some r \<and> v = requestSelect db r"
  by (auto simp: pg_RequestByID_def pg_query_def with_uuid_def sel_row_def split: if_split_asm option.splits sum.splits)

lemma requestSelect_decision [simp]:
  "same_decision r (requestSelect db r)" "same_login r (requestSelect db r)"
  by (simp_all add: requestSelect_def same_decision_def same_login_def)

lemma find_updated:
  fixes key :: "'a \<Rightarrow> string"
  assumes "distinct (map key t)" "List.find (\<lambda>x. key x = k \<and> Q x) t = Some r" "\<And>r. key (f r) = key r"
  shows "List.find (\<lambda>x. key x = k) (upd_rows (\<lambda>x. key x = k \<and> Q x) f t) = Some (f r)"
proof -
  have "List.find (\<lambda>x. key x = k) t = Some r" "Q r"
    using find_key_and [OF assms(1), of k Q] assms(2) by (auto split: option.splits if_splits)
  then have "rows_map key (upd_rows (\<lambda>x. key x = k \<and> Q x) f t) = map_put k (f r) (rows_map key t)"
    using rows_update_id [OF assms(1,3), of k Q] by simp
  then have "map_of (rows_map key (upd_rows (\<lambda>x. key x = k \<and> Q x) f t)) k = Some (f r)" by simp
  then show ?thesis by simp
qed

lemma DecideRequest_confirmed:
  assumes "pg_DecideRequest E rid status deviceID now db = (db2, Inr v)"
  obtains u dev db1 n where "pe_uuid E rid = Some u" "decide_statement E rid status deviceID now db = Inr (db1, n)" "n \<noteq> 0"
    "db2 = pe_between E db1" "pg_RequestByID E rid db2 = Inr v"
proof -
  obtain db1 x where s: "pg_stmt E ''decide request'' (decide_statement E rid status deviceID now) db = (db1, x)" by fastforce
  then obtain n where x: "x = Inr n" "n \<noteq> 0" "db2 = pe_between E db1" "pg_RequestByID E rid db2 = Inr v"
    using assms by (auto simp: pg_DecideRequest_def Let_def split: sum.splits if_split_asm)
  have "decide_statement E rid status deviceID now db = Inr (db1, n)"
    using s x(1) by (auto simp: pg_stmt_def split: sum.splits prod.splits if_split_asm)
  then show ?thesis using x RequestByID_Inr [OF x(4)] that by blast
qed

lemma decided_stays:
  assumes "mem_steps (pg_abs db) (pg_abs db')" "List.find (\<lambda>x. rq_ID x = u) (pg_requests db) = Some r"
    and "rq_Status r \<noteq> StatusPending"
  shows "\<exists>r'. List.find (\<lambda>x. rq_ID x = u) (pg_requests db') = Some r' \<and> same_login r r' \<and> same_decision r r'"
  using rows_evolveD [OF mem_steps_evolve [OF assms(1)], of u r] assms(2,3) decision_step_final by auto

text \<open>The row before the UPDATE of a confirmed verdict, and the row read back.\<close>

lemma confirmed_row:
  assumes "pg_ok db" "pg_calm E" "status \<in> {StatusApproved, StatusDenied}"
    and "pg_DecideRequest E rid status deviceID now db = (db', Inr v)"
  shows "\<exists>u dev r r2. pe_uuid E rid = Some u \<and> opt_cast (pe_uuid E) deviceID Inr = Inr dev \<and>
    List.find (\<lambda>x. rq_ID x = u) (pg_requests db) = Some r \<and> rq_Status r = StatusPending \<and> pe_time E now < rq_ExpiresAt r \<and>
    pg_ok db' \<and> List.find (\<lambda>x. rq_ID x = u) (pg_requests db') = Some r2 \<and> v = requestSelect db' r2 \<and>
    same_login (decided_row status dev (pe_time E now) r) r2 \<and> same_decision (decided_row status dev (pe_time E now) r) r2"
  using assms(4)
proof (rule DecideRequest_confirmed)
  fix u db1 n
  assume u: "pe_uuid E rid = Some u" and st: "decide_statement E rid status deviceID now db = Inr (db1, n)" and n: "n \<noteq> 0"
    and db': "db' = pe_between E db1" and v: "pg_RequestByID E rid db' = Inr v"
  let ?t = "pe_time E now"
  note d = pg_ok_distinct(3) [OF assms(1)]
  obtain dev where dev: "opt_cast (pe_uuid E) deviceID Inr = Inr dev"
    and db1: "db1 = db\<lparr> pg_requests := upd_rows (decidable u ?t) (decided_row status dev ?t) (pg_requests db) \<rparr>"
    and cnt: "n = count_rows (decidable u ?t) (pg_requests db)"
    using st u unfolding decide_statement_def casts Let_def by (auto simp: opt_cast_def split: if_split_asm)
  obtain r where r: "List.find (\<lambda>x. rq_ID x = u \<and> rq_Status x = StatusPending \<and> ?t < rq_ExpiresAt x) (pg_requests db) = Some r"
    using n cnt count_rows_zero [of "decidable u ?t" "pg_requests db"] by (auto simp: decidable_def [abs_def])
  then have rp: "rq_ID r = u" "rq_Status r = StatusPending" "?t < rq_ExpiresAt r" "r \<in> set (pg_requests db)"
    using find_SomeD [OF r] by auto
  have r1: "List.find (\<lambda>x. rq_ID x = u) (pg_requests db1) = Some (decided_row status dev ?t r)"
    using find_updated [OF d r, of "decided_row status dev ?t"] by (simp add: db1 decidable_def [abs_def] decided_row_def)
  have ok1: "pg_ok db1" using decide_sim [OF assms(1) st assms(3)] assms(1) pg_sim_ok by blast
  have bt: "mem_steps (pg_abs db1) (pg_abs db')" using assms(2) ok1 unfolding pg_calm_def db' by blast
  then have ok': "pg_ok db'" using ok1 mem_steps_inv unfolding pg_ok_def by blast
  have fin: "rq_Status (decided_row status dev ?t r) \<noteq> StatusPending" using assms(3) by (auto simp: decided_row_def)
  from decided_stays [OF bt r1 fin] obtain r2 where r2: "List.find (\<lambda>x. rq_ID x = u) (pg_requests db') = Some r2"
    "same_login (decided_row status dev ?t r) r2" "same_decision (decided_row status dev ?t r) r2" by blast
  have "v = requestSelect db' r2" using RequestByID_Inr [OF v] u r2(1) by auto
  moreover have "List.find (\<lambda>x. rq_ID x = u) (pg_requests db) = Some r" using find_key [OF d rp(4)] by (simp add: rp(1))
  ultimately show ?thesis using u dev rp(2,3) ok' r2 by blast
qed

text \<open>C9: A verdict the PostgreSQL store confirms is recorded, was in time and stays. When DecideRequest returns
  the row, whatever other connections did meanwhile, the row carries exactly this verdict with this device, by
  an admin, at the (rounded) time of the call, which is before the expiry of the request; the request was
  pending when the UPDATE ran; and after any further operations of the store the row in the table still
  carries the same decision.\<close>

theorem pg_verdict_is_final:
  assumes "pg_ok db" "pg_calm E" "status \<in> {StatusApproved, StatusDenied}"
    and "pg_DecideRequest E rid status deviceID now db = (db', Inr v)"
  shows "rq_Status v = status \<and> rq_DecidedBy v = Some DecidedByAdmin \<and> rq_DecidedAt v = Some (pe_time E now) \<and>
    opt_cast (pe_uuid E) deviceID Inr = Inr (rq_DecidedByDevice v) \<and> pe_time E now < rq_ExpiresAt v \<and>
    (\<exists>r. List.find (\<lambda>x. rq_ID x = rq_ID v) (pg_requests db) = Some r \<and> rq_Status r = StatusPending) \<and>
    (\<forall>db''. pg_steps db' db'' \<longrightarrow>
       (\<exists>r. List.find (\<lambda>x. rq_ID x = rq_ID v) (pg_requests db'') = Some r \<and> same_login v r \<and> same_decision v r))"
proof -
  from confirmed_row [OF assms] obtain u dev r r2 where c: "opt_cast (pe_uuid E) deviceID Inr = Inr dev"
    "List.find (\<lambda>x. rq_ID x = u) (pg_requests db) = Some r" "rq_Status r = StatusPending" "pe_time E now < rq_ExpiresAt r"
    "pg_ok db'" "List.find (\<lambda>x. rq_ID x = u) (pg_requests db') = Some r2" "v = requestSelect db' r2"
    "same_login (decided_row status dev (pe_time E now) r) r2" "same_decision (decided_row status dev (pe_time E now) r) r2"
    by blast
  have sv: "same_login r2 v" "same_decision r2 v" by (simp_all add: c(7))
  have id: "rq_ID v = u" "rq_Status r2 \<noteq> StatusPending"
    using sv(1) c(9) assms(3) find_SomeD [OF c(6)] by (auto simp: same_login_def same_decision_def decided_row_def)
  have later: "\<exists>r. List.find (\<lambda>x. rq_ID x = u) (pg_requests db'') = Some r \<and> same_login v r \<and> same_decision v r"
    if st: "pg_steps db' db''" for db''
  proof -
    obtain r3 where "List.find (\<lambda>x. rq_ID x = u) (pg_requests db'') = Some r3" "same_login r2 r3" "same_decision r2 r3"
      using decided_stays [OF _ c(6) id(2)] pg_steps_sim [OF st c(5)] by blast
    then show ?thesis using sv by (auto simp: same_login_def same_decision_def)
  qed
  show ?thesis
    using c(1-4,8,9) sv later id(1) by (auto simp: same_login_def same_decision_def decided_row_def)
qed

definition ex_pg_request :: Request where
  "ex_pg_request = \<lparr> rq_ID = ''r1'', rq_ServerID = ''s1'', rq_ServerName = [], rq_Context = ContextSSH,
     rq_Username = ''alice'', rq_SourceIP = None, rq_Hostname = ''web'', rq_TTY = None, rq_Command = None, rq_Geo = None,
     rq_Status = StatusPending, rq_DecidedBy = None, rq_DecidedByDevice = None, rq_DecidedByDeviceLabel = None,
     rq_CreatedAt = 0, rq_ExpiresAt = 30 * Second, rq_DecidedAt = None \<rparr>"

definition ex_pg_db :: pg_db where
  "ex_pg_db = pg_New\<lparr> pg_servers := [\<lparr> sv_ID = ''s1'', sv_Name = ''web'', sv_TokenHash = ''hash'', sv_OS = OSLinux,
       sv_CreatedAt = 0, sv_LastSeenAt = None \<rparr>], pg_requests := [ex_pg_request] \<rparr>"

lemma ex_pg_db_ok: "pg_ok ex_pg_db"
  by (simp add: pg_ok_def mem_inv_def pg_abs_def ex_pg_db_def pg_New_def rows_map_def keyed_by_def unique_on_def
      map_keys_def ex_pg_request_def)

lemma ex_pg_decided:
  "\<exists>db' v. pg_DecideRequest ex_pg_env ''r1'' StatusApproved None 1500 ex_pg_db = (db', Inr v) \<and> rq_ID v = ''r1''"
  by (simp add: pg_DecideRequest_def pg_stmt_def decide_statement_def with_uuid_def opt_cast_def ex_pg_env_def ex_pg_db_def
      pg_New_def ex_pg_request_def count_rows_def decidable_def ValidStatus_def has_device_def upd_rows_def decided_row_def
      pg_RequestByID_def pg_query_def sel_row_def requestSelect_def Let_def)

theorem pg_verdict_is_final_witness:
  "\<exists>db' v. pg_DecideRequest ex_pg_env ''r1'' StatusApproved None 1500 ex_pg_db = (db', Inr v) \<and>
     rq_Status v = StatusApproved \<and> rq_DecidedAt v = Some 1000"
proof -
  obtain db' v where d: "pg_DecideRequest ex_pg_env ''r1'' StatusApproved None 1500 ex_pg_db = (db', Inr v)"
    using ex_pg_decided by blast
  from pg_verdict_is_final [OF ex_pg_db_ok ex_pg_calm _ d] d show ?thesis by (simp add: ex_pg_env_def)
qed

section \<open>Queries\<close>

definition pg_quiet :: "pg_env \<Rightarrow> bool" where
  "pg_quiet E \<longleftrightarrow> (\<forall>op. \<not> pe_fault E op)"

text \<open>What only well-behaved callers store: no display name on an entry for every server, no blanks around a
  country, no decision at the zero time.\<close>

definition pg_tidy :: "pg_db \<Rightarrow> bool" where
  "pg_tidy db \<longleftrightarrow>
     list_all (\<lambda>e. wl_ServerID e = None \<longrightarrow> wl_ServerName e = None) (pg_whitelist db) \<and>
     list_all (\<lambda>g. TrimSpace (gr_Country g) = gr_Country g) (pg_geoRules db) \<and>
     list_all (\<lambda>r. rq_DecidedAt r \<noteq> Some ZeroTime) (pg_requests db)"

lemma pg_query_quiet:
  "pg_quiet E \<Longrightarrow> pg_query E op f db = (case f db of Inl e \<Rightarrow> Inl (pg_wrap op e) | Inr a \<Rightarrow> Inr a)"
  by (simp add: pg_query_def pg_quiet_def)

lemma joined_label:
  "(case List.find (\<lambda>d. Some (dv_ID d) = did) (pg_devices db) of None \<Rightarrow> None | Some d \<Rightarrow> dv_Label d)
     = deviceLabel (pg_abs db) did"
proof (cases did)
  case None
  have "List.find (\<lambda>_. False) (pg_devices db) = None" by (simp add: find_None_iff)
  then show ?thesis using None by (simp add: deviceLabel_def)
qed (simp add: deviceLabel_def)

lemma requestSelect_view: "requestSelect db r = requestView (pg_abs db) r"
  by (simp add: requestSelect_def requestView_def serverName_def joined_label)

lemma whitelistSelect_view:
  assumes "pg_ok db" "pg_tidy db" "e \<in> set (pg_whitelist db)"
  shows "whitelistSelect db e = whitelistView (pg_abs db) e"
proof -
  show ?thesis
  proof (cases "wl_ServerID e")
    case None
    then have "wl_ServerName e = None" using assms(2,3) by (auto simp: pg_tidy_def list_all_iff)
    moreover have "List.find (\<lambda>_. False) (pg_servers db) = None" by (simp add: find_None_iff)
    ultimately show ?thesis using None by (simp add: whitelistSelect_def whitelistView_def joined_label)
  next
    case (Some sid)
    then obtain s where "List.find (\<lambda>s. sv_ID s = sid) (pg_servers db) = Some s"
      using pg_ok_server [OF assms(1,3)] by auto
    then show ?thesis using Some by (simp add: whitelistSelect_def whitelistView_def joined_label serverName_def)
  qed
qed

lemma pg_RequestByID_mem:
  "pg_quiet E \<Longrightarrow> pe_uuid E rid = Some rid \<Longrightarrow> pg_RequestByID E rid db = mem_RequestByID rid (pg_abs db)"
  by (simp add: pg_RequestByID_def pg_query_quiet with_uuid_def sel_row_def mem_RequestByID_def requestSelect_view
      pg_wrap_def split: option.split)

lemma sort_key_head:
  assumes "sort_key f xs = y # ys"
  shows "y \<in> set xs" "x \<in> set xs \<Longrightarrow> f y \<le> f x"
proof -
  have "set xs = set (y # ys)" "sorted (map f (y # ys))" using assms by (metis set_sort, metis sorted_sort_key)
  then show "y \<in> set xs" "x \<in> set xs \<Longrightarrow> f y \<le> f x" by auto
qed

lemma pg_FindWhitelist_mem:
  assumes "pg_quiet E" "pg_ok db" "pg_tidy db" "pe_uuid E sid = Some sid"
  shows "pg_FindWhitelist E u c sid now db = mem_FindWhitelist u c sid (pe_time E now) (pg_abs db)"
proof -
  let ?t = "pe_time E now"
  let ?rows = "filter (wl_covers u c sid ?t) (pg_whitelist db)"
  have rows: "filter (\<lambda>e. wl_Username e = u \<and> wl_Context e = c \<and> (wl_ServerID e = Some sid \<or> wl_ServerID e = None) \<and>
      unexpired (wl_ExpiresAt e) ?t) (pg_whitelist db) = ?rows"
    by (intro filter_cong) (auto simp: wl_covers_unexpired)
  show ?thesis
  proof (cases "sort_key (\<lambda>e. wl_ServerID e = None) ?rows")
    case Nil
    then have none: "\<not> wl_covers u c sid ?t e" if "e \<in> set (pg_whitelist db)" for e
      using that by (metis empty_filter_conv set_empty set_sort)
    then have "find_whitelist u c sid ?t None (pg_whitelist db) = None"
      using find_whitelist_SomeD [of u c sid ?t None "pg_whitelist db"]
      by (cases "find_whitelist u c sid ?t None (pg_whitelist db)") auto
    then show ?thesis
      using Nil by (simp add: pg_FindWhitelist_def pg_query_quiet [OF assms(1)] with_uuid_def assms(4) rows
          mem_FindWhitelist_def pg_wrap_def)
  next
    case (Cons h hs)
    have h: "h \<in> set (pg_whitelist db)" "wl_covers u c sid ?t h" using sort_key_head(1) [OF Cons] by auto
    obtain w where w: "find_whitelist u c sid ?t None (pg_whitelist db) = Some w"
      using find_whitelist_NoneD [of u c sid ?t None "pg_whitelist db"] h by fastforce
    then have wc: "w \<in> set (pg_whitelist db)" "wl_covers u c sid ?t w" using find_whitelist_SomeD [OF w] by auto
    have le: "wl_ServerID h = None \<longrightarrow> wl_ServerID e = None" if "e \<in> set (pg_whitelist db)" "wl_covers u c sid ?t e" for e
      using sort_key_head(2) [OF Cons, of e] that by auto
    have "wl_ServerID h = wl_ServerID w"
    proof (cases "wl_ServerID h")
      case None
      then show ?thesis using le [OF wc] by simp
    next
      case (Some s)
      then have "wl_ServerID h = Some sid" using h(2) by (auto simp: wl_covers_unexpired)
      then show ?thesis using find_whitelist_specific [OF h, of None] w by auto
    qed
    then have "wl_key h = wl_key w" using h(2) wc(2) by (auto simp: wl_key_def wl_covers_unexpired)
    then have eq: "wl_ID h = wl_ID w" by (rule pg_ok_unique(3) [OF assms(2) h(1) wc(1)])
    have "List.find (\<lambda>x. wl_ID x = wl_ID w) (pg_whitelist db) = Some h"
      using find_key [OF pg_ok_distinct(4) [OF assms(2)] h(1)] unfolding eq .
    then have "h = w" using find_key [OF pg_ok_distinct(4) [OF assms(2)] wc(1)] by (metis option.inject)
    then show ?thesis
      using Cons w by (simp add: pg_FindWhitelist_def pg_query_quiet [OF assms(1)] with_uuid_def assms(4) rows
          mem_FindWhitelist_def whitelistSelect_view [OF assms(2,3) wc(1)])
  qed
qed

text \<open>Count, minimum and maximum in one query against the loop of the in-memory store, which takes the zero time
  for unset.\<close>

definition denial_time :: "string \<Rightarrow> time \<Rightarrow> Request \<Rightarrow> time option" where
  "denial_time ip since r =
     (case rq_DecidedAt r of
        None \<Rightarrow> None
      | Some at \<Rightarrow> if rq_Status r = StatusDenied \<and> rq_SourceIP r = Some ip \<and> since \<le> at then Some at else None)"

definition denial_stats :: "time list \<Rightarrow> DenialStats" where
  "denial_stats ts = \<lparr> ds_Count = int (length ts), ds_First = (if ts = [] then ZeroTime else Min (set ts)),
     ds_Last = (if ts = [] then ZeroTime else Max (set ts)) \<rparr>"

lemma denial_stats_snoc:
  assumes "ZeroTime \<notin> set ts" "rq_DecidedAt r \<noteq> Some ZeroTime"
  shows "count_denial ip since (denial_stats ts) r =
    denial_stats (ts @ (case denial_time ip since r of None \<Rightarrow> [] | Some at \<Rightarrow> [at]))"
proof (cases "denial_time ip since r")
  case None
  then show ?thesis by (auto simp: denial_time_def count_denial_def split: option.splits if_splits)
next
  case (Some at)
  then have r: "rq_DecidedAt r = Some at" "rq_Status r = StatusDenied" "rq_SourceIP r = Some ip" "since \<le> at"
    by (auto simp: denial_time_def split: option.splits if_splits)
  show ?thesis
  proof (cases "ts = []")
    case True
    then show ?thesis using Some r by (simp add: count_denial_def denial_stats_def)
  next
    case False
    have "Min (set ts) \<in> set ts" "Max (set ts) \<in> set ts" using False by simp_all
    then have "Min (set ts) \<noteq> ZeroTime" "Max (set ts) \<noteq> ZeroTime" using assms(1) by metis+
    moreover have "Min (insert at (set ts)) = (if at < Min (set ts) then at else Min (set ts))"
      "Max (insert at (set ts)) = (if Max (set ts) < at then at else Max (set ts))"
      using False by (simp_all add: Min_insert Max_insert min_def max_def not_less not_le del: Min_less_iff Max_less_iff
          Min_gr_iff Max_ge_iff Min_le_iff Min_ge_iff Max_le_iff Max_gr_iff)
    ultimately show ?thesis using Some r False by (simp add: count_denial_def denial_stats_def)
  qed
qed

lemma denial_stats_fold:
  assumes "list_all (\<lambda>r. rq_DecidedAt r \<noteq> Some ZeroTime) rs" "ZeroTime \<notin> set ts"
  shows "foldl (count_denial ip since) (denial_stats ts) rs = denial_stats (ts @ List.map_filter (denial_time ip since) rs)"
  using assms
proof (induction rs arbitrary: ts)
  case (Cons r rs)
  let ?new = "case denial_time ip since r of None \<Rightarrow> [] | Some at \<Rightarrow> [at]"
  have "ZeroTime \<notin> set (ts @ ?new)"
    using Cons.prems by (auto simp: denial_time_def split: option.splits if_splits)
  then show ?case
    using Cons.IH [of "ts @ ?new"] Cons.prems denial_stats_snoc [OF Cons.prems(2), of r ip since]
    by (simp add: map_filter_simps split: option.splits)
qed (simp add: map_filter_simps)

lemma pg_CountDenials_mem:
  assumes "pg_quiet E" "pg_tidy db" "pe_inet E ip = Some ip"
  shows "pg_CountDenials E ip since db = mem_CountDenials ip (pe_time E since) (pg_abs db)"
proof -
  have "list_all (\<lambda>r. rq_DecidedAt r \<noteq> Some ZeroTime) (pg_requests db)" using assms(2) by (simp add: pg_tidy_def)
  note fold = denial_stats_fold [OF this, of "[]" ip "pe_time E since"]
  have "pg_CountDenials E ip since db = Inr (denial_stats (List.map_filter (denial_time ip (pe_time E since)) (pg_requests db)))"
    by (simp add: pg_CountDenials_def pg_query_quiet [OF assms(1)] with_inet_def assms(3) denial_stats_def
        denial_time_def [abs_def] Let_def)
  then show ?thesis using fold by (simp add: mem_CountDenials_def denial_stats_def)
qed

lemma sort_key_map: "(\<And>x. k (g x) = k x) \<Longrightarrow> sort_key k (map g xs) = map g (sort_key k xs)"
proof (induction xs)
  case (Cons x xs)
  have "insort_key k (g x) (map g ys) = map g (insort_key k x ys)" for ys
    by (induction ys) (simp_all add: Cons.prems)
  then show ?case using Cons by simp
qed simp

lemma pg_ListRequests_mem:
  assumes "pg_quiet E"
  shows "pg_ListRequests E f db = mem_ListRequests (f\<lparr> rf_Before := map_option (pe_time E) (rf_Before f) \<rparr>) (pg_abs db)"
proof -
  let ?f = "f\<lparr> rf_Before := map_option (pe_time E) (rf_Before f) \<rparr>"
  let ?k = "\<lambda>r. (rq_CreatedAt r, rq_ID r)"
  have w: "request_where E f db = request_matches (pg_abs db) ?f"
    by (rule ext) (auto simp: request_where_def request_matches_def serverName_def split: option.splits)
  have m: "sort_key ?k (map (requestView (pg_abs db)) xs) = map (requestView (pg_abs db)) (sort_key ?k xs)" for xs
    by (rule sort_key_map) (simp add: requestView_def)
  show ?thesis
    by (simp add: pg_ListRequests_def pg_query_quiet [OF assms] mem_ListRequests_def Let_def w m rev_map take_map
        requestSelect_view [abs_def])
qed

text \<open>C7: The queries of the PostgreSQL store that the rules and the routes decide on answer as those of the
  in-memory store do on the same rows, with times rounded to the precision of the database: the server of a
  token hash, a request, the whitelist entry of a login (the server's own before one for all servers), the
  block of an address, the rule of a country, the denials of an address with their first and last time, the
  registered phones, and a page of the history.\<close>

theorem postgres_answers_as_memory:
  assumes "pg_quiet E" "pg_ok db" "pg_tidy db"
    and "pe_uuid E rid = Some rid" "pe_uuid E sid = Some sid" "pe_inet E ip = Some ip" "bpchar country = country"
  shows "pg_ServerByTokenHash E hash db = mem_ServerByTokenHash hash (pg_abs db) \<and>
    pg_RequestByID E rid db = mem_RequestByID rid (pg_abs db) \<and>
    pg_FindWhitelist E user ctx sid now db = mem_FindWhitelist user ctx sid (pe_time E now) (pg_abs db) \<and>
    pg_BlockedIPByIP E ip db = mem_BlockedIPByIP ip (pg_abs db) \<and>
    pg_GeoRuleByCountry E country db = mem_GeoRuleByCountry country (pg_abs db) \<and>
    pg_CountDenials E ip since db = mem_CountDenials ip (pe_time E since) (pg_abs db) \<and>
    pg_ListDevices E db = mem_ListDevices (pg_abs db) \<and>
    pg_ListRequests E f db = mem_ListRequests (f\<lparr> rf_Before := map_option (pe_time E) (rf_Before f) \<rparr>) (pg_abs db)"
proof (intro conjI)
  show "pg_GeoRuleByCountry E country db = mem_GeoRuleByCountry country (pg_abs db)"
  proof (cases "List.find (\<lambda>g. gr_Country g = country) (pg_geoRules db)")
    case None
    then show ?thesis
      using assms(7) by (simp add: pg_GeoRuleByCountry_def pg_query_quiet [OF assms(1)] sel_row_def mem_GeoRuleByCountry_def
          pg_wrap_def)
  next
    case (Some g)
    then have "scanGeoRule g = g"
      using find_SomeD [OF Some] assms(3) by (auto simp: pg_tidy_def list_all_iff scanGeoRule_def)
    then show ?thesis
      using Some assms(7) by (simp add: pg_GeoRuleByCountry_def pg_query_quiet [OF assms(1)] sel_row_def
          mem_GeoRuleByCountry_def)
  qed
  show "pg_ServerByTokenHash E hash db = mem_ServerByTokenHash hash (pg_abs db)"
    by (simp add: pg_ServerByTokenHash_def pg_query_quiet [OF assms(1)] sel_row_def mem_ServerByTokenHash_def pg_wrap_def
        split: option.split)
  show "pg_BlockedIPByIP E ip db = mem_BlockedIPByIP ip (pg_abs db)"
    using assms(6) by (simp add: pg_BlockedIPByIP_def pg_query_quiet [OF assms(1)] with_inet_def sel_row_def
        mem_BlockedIPByIP_def pg_wrap_def split: option.split)
  show "pg_ListDevices E db = mem_ListDevices (pg_abs db)"
    by (simp add: pg_ListDevices_def pg_query_quiet [OF assms(1)] mem_ListDevices_def)
qed (use assms in \<open>simp_all add: pg_RequestByID_mem pg_FindWhitelist_mem pg_CountDenials_mem pg_ListRequests_mem\<close>)

lemma ex_pg_quiet: "pg_quiet ex_pg_env"
  by (simp add: pg_quiet_def ex_pg_env_def)

lemma ex_pg_tidy: "pg_tidy ex_pg_db"
  by (simp add: pg_tidy_def ex_pg_db_def pg_New_def ex_pg_request_def)

theorem postgres_answers_as_memory_witness:
  "\<exists>v. pg_RequestByID ex_pg_env ''r1'' ex_pg_db = Inr v \<and> mem_RequestByID ''r1'' (pg_abs ex_pg_db) = Inr v \<and>
     rq_ServerName v = ''web''"
proof -
  have "pg_RequestByID ex_pg_env ''r1'' ex_pg_db = mem_RequestByID ''r1'' (pg_abs ex_pg_db)"
    using postgres_answers_as_memory [OF ex_pg_quiet ex_pg_db_ok ex_pg_tidy, of "''r1''" "[]" "[]" "[]"]
    by (simp add: ex_pg_env_def bpchar_def TrimRight_byte_def)
  moreover have "\<exists>v. mem_RequestByID ''r1'' (pg_abs ex_pg_db) = Inr v \<and> rq_ServerName v = ''web''"
    by (simp add: mem_RequestByID_def ex_pg_db_def pg_New_def ex_pg_request_def requestView_def serverName_def)
  ultimately show ?thesis by auto
qed

end
