(* ===== verification/Conformance_Props.thy ===== *)
theory Conformance_Props
  imports Conformance Postgres_Props
begin

text \<open>
  Both stores pass the conformance suite, for every supply of distinct ids; PostgreSQL under an environment
  without faults that keeps microseconds. The tests are run by rewriting: \<open>feed\<close> gives the answer of a call to
  the rest of the test once it is a value, and the congruence rules keep the rest of the test untouched
  until then.
\<close>

section \<open>Running a test\<close>

definition feed :: "('a \<Rightarrow> 's test) \<Rightarrow> 'a \<Rightarrow> 's test" where
  "feed k x w = k x w"

definition feed_state :: "('a \<Rightarrow> 's test) \<Rightarrow> 's \<times> 'a \<Rightarrow> nat \<Rightarrow> trial" where
  "feed_state k p n = (case p of (s, r) \<Rightarrow> k r (s, n))"

lemma feed_simps:
  "feed k (Inl e) w = k (Inl e) w" "feed k (Inr a) w = k (Inr a) w" "feed j None w = j None w" "feed j (Some b) w = j (Some b) w"
  "feed_state l (s, r) n = feed l r (s, n)"
  by (simp_all add: feed_def feed_state_def)

lemma call_simps:
  "passed w = Passed" "new_id R k1 (s, n) = k1 (rg_ids R n) (s, Suc n)"
  "ask R q k2 (s, n) = feed k2 (q (rg_store R) s) (s, n)"
  "exec R u k3 (s, n) = feed_state k3 (u (rg_store R) s) n"
  "insert_row R v k4 (s, n) = feed_state k4 (v (rg_store R) (rg_ids R n) s) (Suc n)"
  by (simp_all add: passed_def new_id_def ask_def exec_def insert_row_def feed_def feed_state_def)

lemma check_simps:
  "check what True k w = k w" "check what False k w = Fatal what"
  "succeeds what (Inr a) j w = j a w" "succeeds what (Inl e) j w = Fatal what"
  "checkErr what err want k = check what (err = Some want) k"
  "no_error what err k = check what (err = None) k"
  "checkTime what t t' k = check what (t = t') k"
  "checkTimePtr what t1 t2 k = check what (t1 = t2) k"
  "checkStrPtr what s1 s2 k = check what (s1 = s2) k"
  "checkIDs what xs ys k = check what (xs = ys) k"
  by (auto simp: check_def fatal_def succeeds_def checkErr_def no_error_def checkTime_def checkTimePtr_def
      checkStrPtr_def checkIDs_def list.rel_eq fun_eq_iff split: option.splits)

lemmas test_defs =
  mustServer_def mustDevice_def mustRequest_def mustWhitelist_def mustBlock_def pendingRequest_def entry_def block_def
  check_pending_def check_approved_def check_rearmed_def list_is_def no_filter_def denied_def final_cases_def
  ipA_def ipB_def conf_at_def atPtr_def err_of_def deviceIDs_def requestIDs_def whitelistIDs_def blockedIDs_def


lemma test_cong:
  "x = x' \<Longrightarrow> feed k x w = feed k x' w"
  "p = p' \<Longrightarrow> feed_state k p n = feed_state k p' n"
  "w = w' \<Longrightarrow> new_id R k1 w = new_id R k1 w'"
  "w = w' \<Longrightarrow> ask R q k2 w = ask R q k2 w'"
  "w = w' \<Longrightarrow> exec R u k3 w = exec R u k3 w'"
  "w = w' \<Longrightarrow> insert_row R v k4 w = insert_row R v k4 w'"
  "b = b' \<Longrightarrow> check what b m = check what b' m"
  "r = r' \<Longrightarrow> succeeds what r j = succeeds what r' j"
  "err = err' \<Longrightarrow> checkErr what err want m = checkErr what err' want m"
  "err = err' \<Longrightarrow> no_error what err m = no_error what err' m"
  "t = t' \<Longrightarrow> checkTime what t u1 m = checkTime what t' u1 m"
  "t1 = t1' \<Longrightarrow> checkTimePtr what t1 t2 m = checkTimePtr what t1' t2 m"
  "s1 = s1' \<Longrightarrow> checkStrPtr what s1 s2 m = checkStrPtr what s1' s2 m"
  "xs = xs' \<Longrightarrow> checkIDs what xs ys m = checkIDs what xs' ys m"
  "name = name' \<Longrightarrow> mustServer R name c1 = mustServer R name' c1"
  "name = name' \<Longrightarrow> mustDevice R name label c2 = mustDevice R name' label c2"
  "rq = rq' \<Longrightarrow> mustRequest R rq c3 = mustRequest R rq' c3"
  "e = e' \<Longrightarrow> mustWhitelist R e now c4 = mustWhitelist R e' now c4"
  "bl = bl' \<Longrightarrow> mustBlock R bl c5 = mustBlock R bl' c5"
  "rq = rq' \<Longrightarrow> check_pending srv geo rq m = check_pending srv geo rq' m"
  "rq = rq' \<Longrightarrow> check_approved dev rq m = check_approved dev rq' m"
  "bl = bl' \<Longrightarrow> check_rearmed bl m = check_rearmed bl' m"
  "f = f' \<Longrightarrow> list_is R what f ys c6 = list_is R what f' ys c6"
  "d = d' \<Longrightarrow> denied R srv ip d m = denied R srv ip d' m"
  by simp_all

lemma foldr_cong_list: "as = bs \<Longrightarrow> foldr f as z = foldr f bs z"
  by simp

lemma conf_base_set: "conf_base \<noteq> ZeroTime"
  by (simp add: conf_base_def ZeroTime_def)

text \<open>Ids are distinct and not empty, as random UUIDs are.\<close>

definition fresh_ids :: "(nat \<Rightarrow> string) \<Rightarrow> bool" where
  "fresh_ids ids \<longleftrightarrow> inj ids \<and> (\<forall>n. ids n \<noteq> [])"

lemma fresh_ids_simps:
  assumes "fresh_ids ids"
  shows "ids i = ids j \<longleftrightarrow> i = j" "ids i \<noteq> []" "[] \<noteq> ids i"
  using assms by (simp_all add: fresh_ids_def inj_eq, metis)

lemmas run_simps = feed_simps call_simps check_simps test_defs enums Let_def conf_base_set
lemmas run_cong = test_cong foldr_cong_list let_weak_cong

lemmas servers_tests =
  servers_Create_def servers_ConflictOnName_def servers_ConflictOnHash_def servers_ByHashAndByName_def
  servers_NotFound_def servers_Touch_def

lemmas devices_tests =
  devices_UpsertCreatesThenRefreshes_def devices_ByID_def devices_ListOrderedByCreation_def devices_Delete_def
  devices_DeleteThenRegisterAgain_def devices_DeleteKeepsReferencesAndLabel_def

lemmas requests_tests =
  requests_CreatePending_def requests_CreateFinalStatuses_def requests_CreateEmptyStatusIsPending_def
  requests_CreateUnknownServer_def requests_ByIDNotFound_def requests_DecideApprove_def
  requests_DecideDenyWithoutDevice_def requests_DecideAfterExpiry_def requests_DecideUnknown_def
  requests_DecideAfterTimeout_def requests_MarkTimeout_def requests_List_def requests_CountDenials_def

lemmas whitelist_tests =
  whitelist_FindPrefersServerEntry_def whitelist_FindIgnoresExpiredAndOtherContext_def
  whitelist_ListForAdminAndForServer_def whitelist_ListDeletesExpiredRows_def
  whitelist_UpsertCreatesThenRefreshes_def whitelist_UpsertGlobalAndServerAreIndependent_def
  whitelist_UpsertUnknownServer_def whitelist_ByIDAndDelete_def

lemmas blockedips_tests =
  blocked_UpsertInserts_def blocked_ByIPFoundEvenWhenExpired_def blocked_Hit_def
  blocked_ListActiveNewestFirst_def blocked_UpsertRearmsKeepingID_def blocked_Unblock_def

lemmas georules_tests =
  geo_Create_def geo_Conflict_def geo_ByCountry_def geo_ListOrderedByCountry_def geo_Delete_def

text \<open>All subtests of a group pass on the store of a rig.\<close>

definition group_passes :: "'s rig \<Rightarrow> (string \<times> 's test) list \<Rightarrow> bool" where
  "group_passes R ts \<longleftrightarrow> list_all (\<lambda>x. snd x (rg_open R, 0) = Passed) ts"

lemma group_passes_simps:
  "group_passes R [] = True" "group_passes R ((name, t) # ts) = (t (rg_open R, 0) = Passed \<and> group_passes R ts)"
  by (simp_all add: group_passes_def)

lemma conforms_groups:
  "conforms R \<longleftrightarrow> conform_Ping R (rg_open R, 0) = Passed \<and> group_passes R (conformServers R) \<and>
     group_passes R (conformDevices R) \<and> group_passes R (conformRequests R) \<and> group_passes R (conformWhitelist R) \<and>
     group_passes R (conformBlockedIPs R) \<and> group_passes R (conformGeoRules R)"
  by (simp add: conforms_def Conformance_def group_passes_def list.pred_map comp_def case_prod_beta)

section \<open>The in-memory store\<close>

definition memory_rig :: "(nat \<Rightarrow> string) \<Rightarrow> memory rig" where
  "memory_rig ids = \<lparr> rg_store = memory_store, rg_open = mem_New, rg_ids = ids \<rparr>"

lemmas mem_run =
  memory_rig_def memory_store_def mem_New_def map_put_def map_del_def map_find_def unexpired_def
  mem_CreateServer_def mem_ServerByTokenHash_def mem_ServerByName_def mem_TouchServer_def mem_UpsertDevice_def
  mem_DeviceByID_def mem_ListDevices_def mem_DeleteDevice_def mem_CreateRequest_def mem_RequestByID_def
  mem_DecideRequest_def mem_MarkTimeout_def mem_ListRequests_def mem_CountDenials_def mem_FindWhitelist_def
  mem_ListWhitelist_def mem_UpsertWhitelist_def mem_WhitelistByID_def mem_DeleteWhitelist_def
  mem_BlockedIPByIP_def mem_RecordBlockedIPHit_def mem_ListBlockedIPs_def mem_UpsertBlockedIP_def
  mem_UnblockIP_def mem_ListGeoRules_def mem_GeoRuleByCountry_def mem_CreateGeoRule_def mem_DeleteGeoRule_def
  mem_Ping_def requestView_def whitelistView_def serverName_def deviceLabel_def request_matches_def count_denial_def
  BlockedIP_Active_def

lemma memory_Servers:
  assumes "fresh_ids ids"
  shows "group_passes (memory_rig ids) (conformServers (memory_rig ids))"
  unfolding conformServers_def group_passes_simps
  by (intro conjI TrueI; simp add: servers_tests run_simps mem_run fresh_ids_simps [OF assms] cong: run_cong)

lemma memory_Devices:
  assumes "fresh_ids ids"
  shows "group_passes (memory_rig ids) (conformDevices (memory_rig ids))"
  unfolding conformDevices_def group_passes_simps
  by (intro conjI TrueI; simp add: devices_tests run_simps mem_run fresh_ids_simps [OF assms] cong: run_cong)

lemma memory_Requests:
  assumes "fresh_ids ids"
  shows "group_passes (memory_rig ids) (conformRequests (memory_rig ids))"
  unfolding conformRequests_def group_passes_simps
  by (intro conjI TrueI; simp add: requests_tests run_simps mem_run fresh_ids_simps [OF assms] cong: run_cong)

lemma memory_Whitelist:
  assumes "fresh_ids ids"
  shows "group_passes (memory_rig ids) (conformWhitelist (memory_rig ids))"
  unfolding conformWhitelist_def group_passes_simps
  by (intro conjI TrueI; simp add: whitelist_tests run_simps mem_run fresh_ids_simps [OF assms] cong: run_cong)

lemma memory_BlockedIPs:
  assumes "fresh_ids ids"
  shows "group_passes (memory_rig ids) (conformBlockedIPs (memory_rig ids))"
  unfolding conformBlockedIPs_def group_passes_simps
  by (intro conjI TrueI; simp add: blockedips_tests run_simps mem_run fresh_ids_simps [OF assms] cong: run_cong)

lemma memory_GeoRules:
  assumes "fresh_ids ids"
  shows "group_passes (memory_rig ids) (conformGeoRules (memory_rig ids))"
  unfolding conformGeoRules_def group_passes_simps
  by (intro conjI TrueI; simp add: georules_tests run_simps mem_run fresh_ids_simps [OF assms] cong: run_cong)

section \<open>The PostgreSQL store\<close>

definition postgres_rig :: "pg_env \<Rightarrow> (nat \<Rightarrow> string) \<Rightarrow> pg_db rig" where
  "postgres_rig E ids = \<lparr> rg_store = postgres_store E, rg_open = pg_New, rg_ids = ids \<rparr>"

text \<open>A database without faults and other connections, which takes the generated ids for UUIDs and the
  addresses of the tests for addresses, and keeps times to the microsecond.\<close>

definition pg_undisturbed :: "pg_env \<Rightarrow> (nat \<Rightarrow> string) \<Rightarrow> bool" where
  "pg_undisturbed E ids \<longleftrightarrow>
     (\<forall>op. \<not> pe_fault E op) \<and> (\<forall>db. pe_between E db = db) \<and> (\<forall>n. pe_uuid E (ids n) = Some (ids n)) \<and>
     list_all (\<lambda>ip. pe_inet E ip = Some ip) [ipA, ipB, ''192.0.2.1'', ''192.0.2.2''] \<and>
     (\<forall>t. 1000 dvd t \<longrightarrow> pe_time E t = t)"

lemma undisturbed_simps:
  assumes "pg_undisturbed E ids"
  shows "pe_fault E op = False" "pe_between E db = db" "pe_uuid E (ids n) = Some (ids n)"
    "pe_inet E ''203.0.113.42'' = Some ''203.0.113.42''" "pe_inet E ''198.51.100.7'' = Some ''198.51.100.7''"
    "pe_inet E ''192.0.2.1'' = Some ''192.0.2.1''" "pe_inet E ''192.0.2.2'' = Some ''192.0.2.2''"
    "pe_time E conf_base = conf_base"
    "1000 dvd d \<Longrightarrow> pe_time E (conf_base + d) = conf_base + d"
    "1000 dvd d \<Longrightarrow> pe_time E (conf_base - d) = conf_base - d"
proof -
  have b: "1000 dvd conf_base" by (simp add: conf_base_def)
  have t: "1000 dvd t \<Longrightarrow> pe_time E t = t" for t using assms by (simp add: pg_undisturbed_def)
  show "pe_time E conf_base = conf_base" using b by (rule t)
  show "1000 dvd d \<Longrightarrow> pe_time E (conf_base + d) = conf_base + d" using b by (intro t) simp
  show "1000 dvd d \<Longrightarrow> pe_time E (conf_base - d) = conf_base - d" using b by (intro t) simp
qed (use assms in \<open>simp_all add: pg_undisturbed_def ipA_def ipB_def\<close>)

lemma code_eval:
  "c \<in> {''KP'', ''FR'', ''RU'', ''CN''} \<Longrightarrow> bpchar c = c \<and> TrimSpace c = c \<and> length (runes c) = 2"
  using runes_ascii [of c] TrimSpace_printable [of c]
  by (elim insertE emptyE) (simp_all add: bpchar_def TrimRight_byte_def)

lemmas pg_run =
  postgres_rig_def postgres_store_def pg_New_def pg_stmt_def pg_query_def pg_affected_def pg_wrap_def upd_rows_def
  count_rows_def sel_row_def with_uuid_def with_inet_def opt_cast_def int4_def has_server_def has_device_def
  has_request_def pg_Ping_def pg_CreateServer_def pg_ServerByTokenHash_def pg_ServerByName_def pg_TouchServer_def
  pg_UpsertDevice_def pg_DeviceByID_def pg_ListDevices_def pg_DeleteDevice_def scanGeoRule_def pg_ListGeoRules_def
  pg_GeoRuleByCountry_def pg_CreateGeoRule_def pg_DeleteGeoRule_def requestSelect_def pg_RequestByID_def
  valid_decided_by_def insert_request_def pg_CreateRequest_def decidable_def decided_row_def decide_statement_def
  pg_DecideRequest_def timeout_statement_def pg_MarkTimeout_def request_where_def pg_ListRequests_def
  pg_CountDenials_def whitelistSelect_def pg_FindWhitelist_def pg_ListWhitelist_def pg_WhitelistByID_def
  save_entry_def upsert_entry_def pg_UpsertWhitelist_def pg_DeleteWhitelist_def pg_BlockedIPByIP_def
  pg_RecordBlockedIPHit_def pg_ListBlockedIPs_def blocked_values_def pg_UpsertBlockedIP_def pg_UnblockIP_def
  pgUniqueViolation_def pgForeignKeyViolation_def ValidOS_def ValidPlatform_def ValidContext_def ValidStatus_def
  unexpired_def BlockedIP_Active_def map_filter_simps

lemma postgres_Servers:
  assumes "fresh_ids ids" "pg_undisturbed E ids"
  shows "group_passes (postgres_rig E ids) (conformServers (postgres_rig E ids))"
  unfolding conformServers_def group_passes_simps
  by (intro conjI TrueI; simp add: servers_tests run_simps pg_run fresh_ids_simps [OF assms(1)]
      undisturbed_simps [OF assms(2)] code_eval del: runes.simps cong: run_cong)

lemma postgres_Devices:
  assumes "fresh_ids ids" "pg_undisturbed E ids"
  shows "group_passes (postgres_rig E ids) (conformDevices (postgres_rig E ids))"
  unfolding conformDevices_def group_passes_simps
  by (intro conjI TrueI; simp add: devices_tests run_simps pg_run fresh_ids_simps [OF assms(1)]
      undisturbed_simps [OF assms(2)] code_eval del: runes.simps cong: run_cong)

lemma postgres_Requests:
  assumes "fresh_ids ids" "pg_undisturbed E ids"
  shows "group_passes (postgres_rig E ids) (conformRequests (postgres_rig E ids))"
  unfolding conformRequests_def group_passes_simps
  by (intro conjI TrueI; simp add: requests_tests run_simps pg_run fresh_ids_simps [OF assms(1)]
      undisturbed_simps [OF assms(2)] code_eval del: runes.simps cong: run_cong)

lemma postgres_Whitelist:
  assumes "fresh_ids ids" "pg_undisturbed E ids"
  shows "group_passes (postgres_rig E ids) (conformWhitelist (postgres_rig E ids))"
  unfolding conformWhitelist_def group_passes_simps
  by (intro conjI TrueI; simp add: whitelist_tests run_simps pg_run fresh_ids_simps [OF assms(1)]
      undisturbed_simps [OF assms(2)] code_eval del: runes.simps cong: run_cong)

lemma postgres_BlockedIPs:
  assumes "fresh_ids ids" "pg_undisturbed E ids"
  shows "group_passes (postgres_rig E ids) (conformBlockedIPs (postgres_rig E ids))"
  unfolding conformBlockedIPs_def group_passes_simps
  by (intro conjI TrueI; simp add: blockedips_tests run_simps pg_run fresh_ids_simps [OF assms(1)]
      undisturbed_simps [OF assms(2)] code_eval del: runes.simps cong: run_cong)

lemma postgres_GeoRules:
  assumes "fresh_ids ids" "pg_undisturbed E ids"
  shows "group_passes (postgres_rig E ids) (conformGeoRules (postgres_rig E ids))"
  unfolding conformGeoRules_def group_passes_simps
  by (intro conjI TrueI; simp add: georules_tests run_simps pg_run fresh_ids_simps [OF assms(1)]
      undisturbed_simps [OF assms(2)] code_eval del: runes.simps cong: run_cong)

section \<open>Both pass\<close>

text \<open>C8: The in-memory store and the PostgreSQL store pass the whole conformance suite, each of its 45 subtests
  on an empty store, for every supply of distinct ids. So the two stores agree on the promises of the
  interface that the suite writes down, and the handlers, which the rest of the development runs on the
  in-memory store, meet the same answers in production.\<close>

theorem both_stores_conform:
  assumes "fresh_ids ids" "pg_undisturbed E ids"
  shows "conforms (memory_rig ids) \<and> conforms (postgres_rig E ids) \<and>
    map fst (Conformance (memory_rig ids)) = map fst (Conformance (postgres_rig E ids)) \<and>
    length (Conformance (memory_rig ids)) = 45"
proof (intro conjI)
  have "conform_Ping (memory_rig ids) (rg_open (memory_rig ids), 0) = Passed"
    by (simp add: conform_Ping_def run_simps mem_run cong: run_cong)
  then show "conforms (memory_rig ids)"
    using memory_Servers memory_Devices memory_Requests memory_Whitelist memory_BlockedIPs memory_GeoRules assms(1)
    by (simp add: conforms_groups)
  have "conform_Ping (postgres_rig E ids) (rg_open (postgres_rig E ids), 0) = Passed"
    by (simp add: conform_Ping_def run_simps pg_run undisturbed_simps [OF assms(2)] cong: run_cong)
  then show "conforms (postgres_rig E ids)"
    using postgres_Servers postgres_Devices postgres_Requests postgres_Whitelist postgres_BlockedIPs postgres_GeoRules
      assms by (simp add: conforms_groups)
qed (simp_all add: Conformance_def conformServers_def conformDevices_def conformRequests_def conformWhitelist_def
    conformBlockedIPs_def conformGeoRules_def)

definition ex_ids :: "nat \<Rightarrow> string" where
  "ex_ids n = replicate (Suc n) CHR ''a''"

lemma ex_ids_fresh: "fresh_ids ex_ids"
  by (auto simp: fresh_ids_def ex_ids_def inj_def)

lemma ex_pg_undisturbed: "pg_undisturbed ex_pg_env ex_ids"
  by (simp add: pg_undisturbed_def ex_pg_env_def dvd_div_mult_self)

theorem both_stores_conform_witness:
  "conforms (memory_rig ex_ids) \<and> conforms (postgres_rig ex_pg_env ex_ids)"
  using both_stores_conform [OF ex_ids_fresh ex_pg_undisturbed] by simp

end
