(* ===== verification/Enroll_Props.thy ===== *)
theory Enroll_Props
  imports Cmd_Props Postgres_Props
begin

text \<open>
  Enrollment on the PostgreSQL store, where the command runs: the printed token works, and what a failed
  enrollment leaves behind.
\<close>

lemma pg_CreateServer_cases:
  assumes "pg_CreateServer E nid name hash os now db = (db', res)"
  obtains (unchanged) e where "db' = db" "res = Inl e"
  | (lost) e srv where "pe_fault E ''create server''" "pe_lost E ''create server''" "res = Inl e"
      "db' = db\<lparr> pg_servers := pg_servers db @ [srv] \<rparr>" "sv_Name srv = name" "sv_TokenHash srv = hash"
  | (inserted) srv where "res = Inr srv" "db' = db\<lparr> pg_servers := pg_servers db @ [srv] \<rparr>" "sv_ID srv = nid"
      "sv_Name srv = name" "sv_OS srv = os" "sv_TokenHash srv = hash" "hash \<notin> sv_TokenHash ` set (pg_servers db)"
proof -
  let ?srv = "\<lparr> sv_ID = nid, sv_Name = name, sv_TokenHash = hash, sv_OS = os, sv_CreatedAt = pe_time E now, sv_LastSeenAt = None \<rparr>"
  let ?taken = "list_ex (\<lambda>s. sv_Name s = name \<or> sv_TokenHash s = hash) (pg_servers db)"
  consider "\<not> ValidOS os \<or> ?taken" | "ValidOS os" "\<not> ?taken" by blast
  then show thesis
  proof cases
    case 1
    then obtain e where "(db', res) = (db, Inl e)" using assms by (auto simp: pg_CreateServer_def pg_stmt_def split: if_splits)
    then show thesis using unchanged by simp
  next
    case 2
    then have "hash \<notin> sv_TokenHash ` set (pg_servers db)" by (auto simp: list_ex_iff)
    with 2 assms unchanged [of "ErrOther ''create server''"] lost [of "ErrOther ''create server''" ?srv] inserted [of ?srv]
    show thesis by (auto simp: pg_CreateServer_def pg_stmt_def Let_def split: if_splits)
  qed
qed

lemma find_new: "\<forall>x\<in>set xs. \<not> P x \<Longrightarrow> P y \<Longrightarrow> List.find P (xs @ [y]) = Some y"
  by (induction xs) simp_all

text \<open>C32: Enrollment gives a token that works, and keeps no copy of it. When the command succeeds it prints
  exactly one line, a token of 43 characters; the servers table then has one more row, with that name and the hash
  of the token, and on every connection that works the agent's header with that token authenticates as this
  server (unless its hash is the admin's). When the command fails it prints nothing. The tables are then as they
  were, unless the answer to the INSERT was lost: then a row with that name is left, whose token nobody has.\<close>

theorem enrolled_token_works:
  assumes "pg_ok db" "nid \<notin> sv_ID ` set (pg_servers db)"
    and "\<And>n bs. rand n = Some bs \<Longrightarrow> length bs = n \<and> list_all (\<lambda>b. b < 256) bs"
    and "runEnroll flags getenv rand (Some (postgres_store E)) nid now db = (db', code, out)"
  shows "if code = 0
    then \<exists>name os tok srv. flags = Some (name, os) \<and> out = [tok] \<and> length tok = 43 \<and> pg_ok db' \<and>
           db' = db\<lparr> pg_servers := pg_servers db @ [srv] \<rparr> \<and> sv_ID srv = nid \<and> sv_Name srv = TrimSpace name \<and>
           sv_OS srv = os \<and> sv_TokenHash srv = HashToken tok \<and>
           (\<forall>E' adminHash. pg_quiet E' \<and> adminHash \<noteq> HashToken tok \<longrightarrow>
              Authenticate (postgres_store E') adminHash (client_Authorization tok) db'
                = Inr \<lparr> pr_Kind = KindServer, pr_Server = Some srv \<rparr>)
    else out = [] \<and>
      (db' = db \<or> pe_fault E ''create server'' \<and> pe_lost E ''create server'' \<and>
         (\<exists>name os srv. flags = Some (name, os) \<and> db' = db\<lparr> pg_servers := pg_servers db @ [srv] \<rparr> \<and>
            sv_Name srv = TrimSpace name))"
  using assms(4)
proof (cases rule: runEnroll_cases)
  case early
  then show ?thesis by simp
next
  case (refused name os tok e)
  then have "pg_CreateServer E nid (TrimSpace name) (HashToken tok) os now db = (db', Inl e)" by (simp add: postgres_store_def)
  then show ?thesis
    using refused(1-3) by (cases rule: pg_CreateServer_cases) auto
next
  case (enrolled name os tok srv)
  note tok = newToken_shape [OF enrolled(4) assms(3)]
  have run: "pg_CreateServer E nid (TrimSpace name) (HashToken tok) os now db = (db', Inr srv)"
    using enrolled(5) by (simp add: postgres_store_def)
  have ok: "pg_ok db'" by (rule pg_sim_ok [OF CreateServer_sim [OF run assms(2)] assms(1)])
  have hdr: "BearerToken (client_Authorization tok) = Some tok" using tok by (auto simp: BearerToken_client)
  from run show ?thesis
  proof (cases rule: pg_CreateServer_cases)
    case (inserted srv')
    have "List.find (\<lambda>s. sv_TokenHash s = HashToken tok) (pg_servers db @ [srv]) = Some srv"
      using inserted(1,6,7) by (intro find_new) force+
    then have "pg_ServerByTokenHash E' (HashToken tok) db' = Inr srv" if "pg_quiet E'" for E'
      using that inserted(1,2) by (simp add: pg_ServerByTokenHash_def pg_query_quiet sel_row_def)
    then have "Authenticate (postgres_store E') adminHash (client_Authorization tok) db'
        = Inr \<lparr> pr_Kind = KindServer, pr_Server = Some srv \<rparr>" if "pg_quiet E'" "adminHash \<noteq> HashToken tok" for E' adminHash
      using that hdr inserted(1,6) by (simp add: Authenticate_def ConstantTimeCompare_eq postgres_store_def)
    then show ?thesis using enrolled(1-3) tok ok inserted by auto
  qed simp_all
qed

theorem enrolled_token_works_witness:
  "\<exists>db' tok srv. runEnroll (Some (''web'', OSLinux)) (\<lambda>_. ''url'') (\<lambda>n. Some (replicate n 7)) (Some (postgres_store ex_pg_env))
       ''id1'' 5 pg_New = (db', 0, [tok]) \<and>
     Authenticate (postgres_store ex_pg_env) [] (client_Authorization tok) db' = Inr \<lparr> pr_Kind = KindServer, pr_Server = Some srv \<rparr>"
proof -
  have name: "TrimSpace ''web'' = ''web''" by (rule TrimSpace_printable) simp
  obtain db' tok where r: "runEnroll (Some (''web'', OSLinux)) (\<lambda>_. ''url'') (\<lambda>n. Some (replicate n 7)) (Some (postgres_store ex_pg_env))
      ''id1'' 5 pg_New = (db', 0, [tok])"
    by (simp add: runEnroll_def name ValidOS_def newToken_def postgres_store_def pg_CreateServer_def pg_stmt_def pg_New_def
        ex_pg_env_def Let_def)
  have "pg_quiet ex_pg_env" by (simp add: pg_quiet_def ex_pg_env_def)
  then have "\<exists>srv. Authenticate (postgres_store ex_pg_env) [] (client_Authorization tok) db' = Inr \<lparr> pr_Kind = KindServer, pr_Server = Some srv \<rparr>"
    using enrolled_token_works [OF pg_ok_New _ _ r] HashToken_nonempty [of tok, symmetric]
    by (simp add: pg_New_def list_all_iff) blast
  then show ?thesis using r by blast
qed

end
