(* ===== verification/Wait_Props.thy ===== *)
theory Wait_Props
  imports Login_Props Verdict_Props
begin

text \<open>
  A verdict reaches the agent: whatever happened before, a verdict that an admin gives while the handler of
  the login waits is the answer of that handler after its current sleep.
\<close>

section \<open>The wait, continued\<close>

text \<open>A wait that has not ended after some sleeps goes on from there.\<close>

lemma wait_continues:
  "waitAccessVerdict S poll late c deadline t evs s = (s1, Waiting) \<Longrightarrow>
   \<exists>t1. \<forall>rest. waitAccessVerdict S poll late c deadline t (evs @ rest) s =
     waitAccessVerdict S poll late c deadline t1 rest s1"
proof (induction evs arbitrary: t s)
  case (Cons ev evs)
  show ?case
  proof (cases ev)
    case (Woke lag env over)
    have "snd (finishWait S c w s') \<noteq> Waiting" for w s'
      by (auto simp: finishWait_def answerAccessRequest_def split: prod.splits sum.splits)
    then have fin: "finishWait S c w s' \<noteq> (s1, Waiting)" for w s' by (metis snd_conv)
    from Cons.prems fin obtain v where v: "wake_time poll deadline t lag over < deadline"
      "st_RequestByID S (rq_ID c) (env s) = Inr v" "rq_Status v = StatusPending"
      "waitAccessVerdict S poll late c deadline (wake_time poll deadline t lag over) evs (env s) = (s1, Waiting)"
      by (auto simp: Woke Let_def answerAccessRequest_def split: if_splits sum.splits prod.splits)
    from Cons.IH [OF v(4)] v(1-3) show ?thesis by (simp add: Woke)
  qed (use Cons.prems in simp)
qed auto

text \<open>The sleep during which the row is decided is the last one.\<close>

lemma decided_ends_wait:
  assumes "map_of (m_requests (env m)) (rq_ID c) = Some q" "rq_Status q \<noteq> StatusPending"
  shows "\<exists>m'. waitAccessVerdict memory_store poll late c deadline t (Woke lag env over # rest) m =
    (m', answerAccessRequest (requestView (env m) q))"
proof -
  have "mem_RequestByID (rq_ID c) (env m) = Inr (requestView (env m) q)"
    "mem_MarkTimeout (rq_ID c) w (env m) = (env m, Inr False)" for w
    using assms by (simp_all add: mem_RequestByID_def mem_MarkTimeout_def)
  then show ?thesis
    using assms(2) by (simp add: Let_def wiring finishWait_def requestView_def)
qed

section \<open>The row behind a verdict\<close>

lemma verdict_device_error: "verdict_device S body s = Inl e \<Longrightarrow> e \<noteq> Reply 200 out"
  by (auto simp: verdict_device_def Let_def split: option.splits if_splits sum.splits)

lemma verdict_200_row:
  assumes h: "h_store h = memory_store" and inv: "mem_inv m"
    and run: "verdict h cx r p m = (m', sent, Reply 200 (VerdictOut v))"
  shows "\<exists>q. map_of (m_requests m') (vr_RequestID v) = Some q \<and> rq_ID q = vr_RequestID v \<and>
    rq_Status q = vr_Status v \<and> rq_DecidedAt q = vr_DecidedAt v \<and> vr_Status v \<in> {StatusApproved, StatusDenied}"
proof -
  from run obtain body rid status dev ttl where
    st: "verdict_status (vb_Verdict body) = Some status"
    and d: "verdict_decide h cx body rid status dev ttl m = (m', sent, Reply 200 (VerdictOut v))"
    by (auto simp: verdict_def Let_def dest!: decodeJSON_error dest: verdict_device_error
        split: sum.splits option.splits if_splits)
  have noconf: "snd (verdictConflict S rid n s) \<noteq> Reply 200 (VerdictOut v)" for S n and s :: memory
    by (auto simp: verdictConflict_def Let_def split: sum.splits prod.splits)
  obtain m1 row where dec: "mem_DecideRequest rid status dev (cx_now cx) m = (m1, Inr row)"
    and after: "verdict_after h cx body row dev ttl m1 = (m', sent, Reply 200 (VerdictOut v))"
  proof -
    obtain m1 res where 1: "mem_DecideRequest rid status dev (cx_now cx) m = (m1, res)" by fastforce
    show thesis
    proof (cases res)
      case (Inl e)
      with 1 d h noconf show thesis
        by (auto simp: verdict_decide_def wiring split: if_splits prod.splits) (metis snd_conv)+
    next
      case (Inr row)
      with 1 d h that show thesis by (simp add: verdict_decide_def wiring)
    qed
  qed
  from dec obtain q where q: "map_of (m_requests m1) rid = Some q" "row = requestView m1 q" "rq_Status q = status"
    by (auto simp: mem_DecideRequest_def Let_def split: option.splits if_splits)
  have "mem_inv m1" using mem_DecideRequest_inv [OF inv, of rid status dev "cx_now cx"] dec by simp
  then have id: "rq_ID q = rid" using keyed_by_map_of [OF mem_inv_keyed(3) q(1)] by blast
  have "m_requests m' = m_requests m1"
    using after verdict_whitelist_requests [OF h] verdict_autoblock_requests [OF h]
    by (auto simp: verdict_after_def Let_def split: prod.splits sum.splits)
  then show ?thesis
    using verdict_after_request [OF after] q id verdict_status_values [OF st]
    by (intro exI [of _ q]) (simp add: requestView_def)
qed

section \<open>Through the handler\<close>

text \<open>The part of a login before the wait does not depend on the schedule.\<close>

lemma authenticate_sched: "authenticate h (cx\<lparr>cx_sched := evs\<rparr>) r s = authenticate h cx r s"
proof -
  have "cx_touch (cx\<lparr>cx_sched := evs\<rparr>) = cx_touch cx" by simp
  then show ?thesis unfolding authenticate_def by presburger
qed

lemma login_waits:
  assumes inv: "mem_inv m" and new: "cx_nid cx \<notin> map_keys (m_requests m)" and h: "h_store h = memory_store"
    and wait: "serve h (cx\<lparr>cx_sched := evs\<rparr>) (wire_post token bytes) m = (m1, sent, Waiting)"
  obtains m0 c q where "mem_inv m0" "rq_ID c = cx_nid cx" "map_of (m_requests m0) (cx_nid cx) = Some q"
    "rq_ID q = cx_nid cx"
    "\<And>evs'. serve h (cx\<lparr>cx_sched := evs'\<rparr>) (wire_post token bytes) m =
       (let (m', rep) = waitAccessVerdict memory_store (hc_PollInterval (h_cfg h)) (cx_late cx) c
          (cx_now cx + hc_VerdictWait (h_cfg h)) (cx_now cx) evs' m0 in (m', sent, rep))"
proof -
  let ?r = "wire_post token bytes"
  obtain ma res where au: "authenticate h cx ?r m = (ma, res)" by fastforce
  then have au': "authenticate h (cx\<lparr>cx_sched := evs'\<rparr>) ?r m = (ma, res)" for evs'
    by (simp add: authenticate_sched)
  have ne: "snd (snd (access_created h cx' oc c s)) \<noteq> Waiting" if "\<not> Outcome_Pending oc" for cx' oc c and s :: memory
    using that by (simp add: access_created_def answerAccessRequest_def split: prod.split)
  from wait au' [of evs] obtain p srv raw body where p: "res = Inr p" "pr_Server p = Some srv"
    "decodeJSON (js_access (h_json h)) (hq_Body ?r) = Inr raw" "normalizeAccessRequest raw (sv_Name srv) = Inr body"
    "pr_Kind p = KindServer"
    and dec: "access_decide h (cx\<lparr>cx_sched := evs\<rparr>) srv body ma = (m1, sent, Waiting)"
    by (auto simp: serve_post requireServer_def accessRequest_def dest!: decodeJSON_error
        split: sum.splits option.splits if_splits elim!: authenticate_cases)
  have all: "serve h (cx\<lparr>cx_sched := evs'\<rparr>) ?r m = access_decide h (cx\<lparr>cx_sched := evs'\<rparr>) srv body ma" for evs'
    using p au' by (simp add: serve_post requireServer_def accessRequest_def)
  have ma: "mem_inv ma" "map_of (m_requests ma) (cx_nid cx) = None"
    using au p(1,2,5) inv new h by (auto elim!: authenticate_cases simp: wiring mem_TouchServer_inv map_keys_iff)
  obtain s1 oc s2 c where ev: "Evaluate memory_store (cx_rules cx) (access_input srv body (access_geo h body)) ma = (s1, Inr oc)"
    and cr: "st_CreateRequest memory_store (cx_nid cx) (access_row h (cx_now cx) srv body (access_geo h body) oc) s1 = (s2, Inr c)"
    and pend: "Outcome_Pending oc"
    and w: "access_created h (cx\<lparr>cx_sched := evs\<rparr>) oc c s2 = (m1, sent, Waiting)"
    using dec h ne by (auto simp: access_decide_def Let_def split: prod.splits sum.splits) (metis snd_conv)
  have s1: "mem_inv s1" "map_of (m_requests s1) (cx_nid cx) = None"
    using mem_rules.Evaluate_spec [OF ma(1), of "cx_rules cx" "access_input srv body (access_geo h body)"]
      mem_rules.Evaluate_frame(1) [OF ev] ev ma(2) by auto
  have "oc_Status oc \<noteq> []" using pend by (simp add: Outcome_Pending_def enums)
  from mem_backend.access_create [OF s1 this cr] obtain q where q: "mem_inv s2" "map_of (m_requests s2) (cx_nid cx) = Some q"
    "rq_ID q = cx_nid cx" "rq_ID c = cx_nid cx" by blast
  have "serve h (cx\<lparr>cx_sched := evs'\<rparr>) ?r m =
      (let (m', rep) = waitAccessVerdict memory_store (hc_PollInterval (h_cfg h)) (cx_late cx) c
         (cx_now cx + hc_VerdictWait (h_cfg h)) (cx_now cx) evs' s2 in (m', sent, rep))" for evs'
    unfolding all using ev cr pend w h by (auto simp: access_decide_def access_created_def Let_def split: prod.splits)
  with q that show thesis by blast
qed

text \<open>C4: A verdict given while the agent waits reaches it. If the handler of a login has not answered after some
  sleeps, and an admin's verdict on its request is then accepted by the backend while the handler sleeps
  again, the handler answers the agent after that sleep, with this very decision: approve exactly when
  the admin approved. This holds for every earlier schedule, also when the deadline passes during the sleep.\<close>

theorem verdict_reaches_agent:
  assumes "mem_inv m" "cx_nid cx \<notin> map_keys (m_requests m)" "h_store h = memory_store"
    and "list_all mem_event evs"
    and waits: "serve h (cx\<lparr>cx_sched := evs\<rparr>) (wire_post token bytes) m = (m1, sent, Waiting)"
    and verdict: "verdict h cx' r p m1 = (m2, pushed, Reply 200 (VerdictOut v))" "vr_RequestID v = cx_nid cx"
  shows "\<exists>m' a. serve h (cx\<lparr>cx_sched := evs @ Woke lag (\<lambda>m. fst (verdict h cx' r p m)) over # rest\<rparr>)
      (wire_post token bytes) m = (m', sent, Reply 200 (AccessOut a)) \<and>
    ar_RequestID a = cx_nid cx \<and> ar_DecidedAt a = vr_DecidedAt v \<and>
    (ar_Verdict a = VerdictApprove \<longleftrightarrow> vr_Status v = StatusApproved) \<and>
    (ar_Verdict a = VerdictDeny \<longleftrightarrow> vr_Status v = StatusDenied)"
proof -
  obtain m0 c q where c: "mem_inv m0" "rq_ID c = cx_nid cx" "map_of (m_requests m0) (cx_nid cx) = Some q"
    "rq_ID q = cx_nid cx"
    and run: "\<And>evs'. serve h (cx\<lparr>cx_sched := evs'\<rparr>) (wire_post token bytes) m =
       (let (m', rep) = waitAccessVerdict memory_store (hc_PollInterval (h_cfg h)) (cx_late cx) c
          (cx_now cx + hc_VerdictWait (h_cfg h)) (cx_now cx) evs' m0 in (m', sent, rep))"
    using login_waits [OF assms(1-3) waits] by blast
  let ?wait = "\<lambda>t evs. waitAccessVerdict memory_store (hc_PollInterval (h_cfg h)) (cx_late cx) c
    (cx_now cx + hc_VerdictWait (h_cfg h)) t evs"
  have w: "?wait (cx_now cx) evs m0 = (m1, Waiting)" using run [of evs] waits by (auto split: prod.splits)
  have "mem_inv m1"
    using mem_req.waitAccessVerdict_sound [OF c(1) _ _ mem_event_ok [OF assms(4)] w] c(2-4) by simp
  from verdict_200_row [OF assms(3) this verdict(1)] obtain d where d: "map_of (m_requests m2) (cx_nid cx) = Some d"
    "rq_ID d = cx_nid cx" "rq_Status d = vr_Status v" "rq_DecidedAt d = vr_DecidedAt v"
    "vr_Status v \<in> {StatusApproved, StatusDenied}"
    using verdict(2) by auto
  have "rq_Status d \<noteq> StatusPending" using d(3,5) by (auto simp: enums)
  with decided_ends_wait [of "\<lambda>m. fst (verdict h cx' r p m)" m1 c d] d(1) c(2) verdict(1)
  have "\<exists>m'. ?wait t (Woke lag (\<lambda>m. fst (verdict h cx' r p m)) over # rest) m1 =
      (m', answerAccessRequest (requestView m2 d))" for t by simp
  with wait_continues [OF w] obtain m' where
    "?wait (cx_now cx) (evs @ Woke lag (\<lambda>m. fst (verdict h cx' r p m)) over # rest) m0 =
      (m', answerAccessRequest (requestView m2 d))"
    by metis
  with run d(2-5) show ?thesis
    by (auto simp: answerAccessRequest_def requestView_def VerdictFor_def enums)
qed

section \<open>An example\<close>

definition ex_rid2 :: string where "ex_rid2 = ''0a0b0c0d-0000-4000-8000-000000000002''"

lemma ex_rid2_uuid: "isUUID ex_rid2" "ToLower ex_rid2 = ex_rid2"
  by (simp add: isUUID_def ex_rid2_def is_hex_def, rule ToLower_lower, simp add: ex_rid2_def)

definition ex_live :: "memory Handler" where
  "ex_live = ex_handler (ex_body ''bob'') ((ex_verdict VerdictApprove)\<lparr>vb_RequestID := ex_rid2\<rparr>)"

lemma ex_live_waits:
  "\<exists>m1 sent q. serve ex_live (ex_ctx ex_rid2 []) (wire_post ''tok'' ''x'') ex_mem = (m1, sent, Waiting) \<and>
     map_of (m_requests m1) ex_rid2 = Some q \<and> rq_Status q = StatusPending \<and> rq_ID q = ex_rid2 \<and>
     rq_ExpiresAt q = Second + hc_RequestTTL handler_DefaultConfig"
proof -
  have g: "access_geo ex_live (ex_body ''bob'') = None" by (simp add: access_geo_def ex_body_def)
  show ?thesis
    unfolding ex_live_def ex_serve [OF _ ex_trim(3), simplified]
    using g
    by (simp add: access_decide_def ex_live_def ex_handler_sel ex_evaluate wiring ex_create access_row_def ex_server_id
        access_created_def Outcome_Pending_def ex_ctx_def Let_def)
qed

lemma ex_live_decides:
  assumes "map_of (m_requests m1) ex_rid2 = Some q" "rq_Status q = StatusPending" "rq_ID q = ex_rid2"
    "Second < rq_ExpiresAt q"
  shows "\<exists>m2 sent v. verdict ex_live (ex_ctx ''w9'' []) (wire_post ''adm'' ''x'') None m1 =
      (m2, sent, Reply 200 (VerdictOut v)) \<and> vr_RequestID v = ex_rid2 \<and> vr_Status v = StatusApproved"
proof -
  let ?v = "(ex_verdict VerdictApprove)\<lparr>vb_RequestID := ex_rid2\<rparr>"
  have d: "decodeJSON (js_verdict (h_json ex_live)) (hq_Body (wire_post ''adm'' ''x'')) = Inr ?v"
    unfolding ex_live_def by (simp add: wire_post_def ex_decode_verdict)
  have st: "verdict_status (vb_Verdict ?v) = Some StatusApproved" "verdict_ttl ?v = Inr 0"
    "verdict_device (h_store ex_live) ?v m1 = Inr None" "vb_Verdict ?v \<noteq> VerdictApproveAlways"
    by (simp_all add: verdict_status_def verdict_ttl_def verdict_device_def VerdictApprove_def VerdictApproveAlways_def)
  have start: "verdict ex_live (ex_ctx ''w9'' []) (wire_post ''adm'' ''x'') None m1 =
      verdict_decide ex_live (ex_ctx ''w9'' []) ?v ex_rid2 StatusApproved None 0 m1"
    using st by (simp add: verdict_def d ex_rid2_uuid)
  have "h_store ex_live = memory_store" "cx_now (ex_ctx ''w9'' []) = Second"
    by (simp_all add: ex_live_def ex_handler_sel ex_ctx_def)
  then show ?thesis
    unfolding start using assms st(4)
    by (simp add: verdict_decide_def wiring mem_DecideRequest_def Let_def verdict_after_def verdict_whitelist_def
        verdict_autoblock_def requestView_def StatusApproved_def StatusDenied_def split: option.split)
qed

theorem verdict_reaches_agent_witness:
  "\<exists>m' sent a. serve ex_live ((ex_ctx ex_rid2 [])\<lparr>cx_sched := [Woke 0
      (\<lambda>m. fst (verdict ex_live (ex_ctx ''w9'' []) (wire_post ''adm'' ''x'') None m)) 0]\<rparr>) (wire_post ''tok'' ''x'') ex_mem
      = (m', sent, Reply 200 (AccessOut a)) \<and> ar_Verdict a = VerdictApprove"
proof -
  obtain m1 sent q where w: "serve ex_live (ex_ctx ex_rid2 []) (wire_post ''tok'' ''x'') ex_mem = (m1, sent, Waiting)"
    and q: "map_of (m_requests m1) ex_rid2 = Some q" "rq_Status q = StatusPending" "rq_ID q = ex_rid2"
      "Second < rq_ExpiresAt q"
    using ex_live_waits by (auto simp: handler_DefaultConfig_def)
  obtain m2 pushed v where v: "verdict ex_live (ex_ctx ''w9'' []) (wire_post ''adm'' ''x'') None m1 =
      (m2, pushed, Reply 200 (VerdictOut v))" "vr_RequestID v = ex_rid2" "vr_Status v = StatusApproved"
    using ex_live_decides [OF q] by blast
  have "h_store ex_live = memory_store" "ex_rid2 \<notin> map_keys (m_requests ex_mem)"
    by (simp_all add: ex_live_def ex_handler_sel map_keys_def ex_mem_def ex_rid_def ex_rid2_def)
  then show ?thesis
    using verdict_reaches_agent [OF ex_mem_inv, of "ex_ctx ex_rid2 []" ex_live "[]" "''tok''" "''x''" m1 sent
        "ex_ctx ''w9'' []" "wire_post ''adm'' ''x''" None m2 pushed v 0 0 "[]"] w v
    by (simp add: ex_ctx_def) blast
qed

end
