(* ===== verification/Shared.thy ===== *)
theory Shared
  imports Store
begin

text \<open>
  One store used by several processes at once. The handlers are written over any store; here a store becomes
  one whose other users act between the calls of a handler, so that a handler run on it is a run under any
  interleaving. Between two writing calls others make a list of steps, and each query in between sees one of
  the states along these steps. The states gone through are logged, for the statements of properties.
\<close>

section \<open>States along the steps of others\<close>

fun trail :: "'s \<Rightarrow> ('s \<Rightarrow> 's) list \<Rightarrow> 's list" where
  "trail s [] = [s]"
| "trail s (e # es) = s # trail (e s) es"

text \<open>The steps of others before the next write, and after how many of them a query of a given name comes.\<close>

record 's others =
  ot_steps :: "('s \<Rightarrow> 's) list"
  ot_at :: "string \<Rightarrow> nat"

record 's shared =
  sh_now :: 's
  sh_next :: "'s others list"
  sh_log :: "'s list"

definition current :: "'s shared \<Rightarrow> 's list" where
  "current n = trail (sh_now n) (case sh_next n of [] \<Rightarrow> [] | o' # _ \<Rightarrow> ot_steps o')"

definition visited :: "'s shared \<Rightarrow> 's list" where
  "visited n = sh_log n @ current n"

definition seen :: "string \<Rightarrow> 's shared \<Rightarrow> 's" where
  "seen op n =
     current n ! (case sh_next n of [] \<Rightarrow> 0 | o' # _ \<Rightarrow> min (ot_at o' op) (length (ot_steps o')))"

definition shared_call :: "('s \<Rightarrow> 's \<times> 'r) \<Rightarrow> 's shared \<Rightarrow> 's shared \<times> 'r" where
  "shared_call f n =
     (case f (last (current n)) of
        (s', r) \<Rightarrow> (\<lparr> sh_now = s', sh_next = tl (sh_next n), sh_log = visited n \<rparr>, r))"

text \<open>What others do while a handler sleeps, with their steps between its next calls.\<close>

definition meanwhile :: "('s \<Rightarrow> 's) list \<Rightarrow> 's others list \<Rightarrow> 's shared \<Rightarrow> 's shared" where
  "meanwhile es next n =
     \<lparr> sh_now = last (trail (sh_now n) es), sh_next = next, sh_log = visited n @ trail (sh_now n) es \<rparr>"

definition others_all :: "(('s \<Rightarrow> 's) \<Rightarrow> bool) \<Rightarrow> 's others list \<Rightarrow> bool" where
  "others_all P os \<longleftrightarrow> list_all (\<lambda>o'. list_all P (ot_steps o')) os"

section \<open>The shared store\<close>

definition shared_store :: "'s Store \<Rightarrow> 's shared Store" where
  "shared_store S =
     \<lparr> st_Ping = (\<lambda>n. st_Ping S (seen ''Ping'' n)),
       st_CreateServer = (\<lambda>nid name hash os now. shared_call (st_CreateServer S nid name hash os now)),
       st_ServerByTokenHash = (\<lambda>hash n. st_ServerByTokenHash S hash (seen ''ServerByTokenHash'' n)),
       st_ServerByName = (\<lambda>name n. st_ServerByName S name (seen ''ServerByName'' n)),
       st_TouchServer = (\<lambda>sid now. shared_call (st_TouchServer S sid now)),
       st_UpsertDevice = (\<lambda>nid token platform label now. shared_call (st_UpsertDevice S nid token platform label now)),
       st_DeviceByID = (\<lambda>did n. st_DeviceByID S did (seen ''DeviceByID'' n)),
       st_ListDevices = (\<lambda>n. st_ListDevices S (seen ''ListDevices'' n)),
       st_DeleteDevice = (\<lambda>did now. shared_call (st_DeleteDevice S did now)),
       st_CreateRequest = (\<lambda>nid r. shared_call (st_CreateRequest S nid r)),
       st_RequestByID = (\<lambda>rid n. st_RequestByID S rid (seen ''RequestByID'' n)),
       st_DecideRequest = (\<lambda>rid status dev now. shared_call (st_DecideRequest S rid status dev now)),
       st_MarkTimeout = (\<lambda>rid now. shared_call (st_MarkTimeout S rid now)),
       st_ListRequests = (\<lambda>f n. st_ListRequests S f (seen ''ListRequests'' n)),
       st_CountDenials = (\<lambda>ip since n. st_CountDenials S ip since (seen ''CountDenials'' n)),
       st_FindWhitelist = (\<lambda>u c sid now n. st_FindWhitelist S u c sid now (seen ''FindWhitelist'' n)),
       st_ListWhitelist = (\<lambda>srv now. shared_call (st_ListWhitelist S srv now)),
       st_UpsertWhitelist = (\<lambda>nid e now. shared_call (st_UpsertWhitelist S nid e now)),
       st_WhitelistByID = (\<lambda>wid n. st_WhitelistByID S wid (seen ''WhitelistByID'' n)),
       st_DeleteWhitelist = (\<lambda>wid. shared_call (st_DeleteWhitelist S wid)),
       st_BlockedIPByIP = (\<lambda>ip n. st_BlockedIPByIP S ip (seen ''BlockedIPByIP'' n)),
       st_RecordBlockedIPHit = (\<lambda>bid now. shared_call (st_RecordBlockedIPHit S bid now)),
       st_ListBlockedIPs = (\<lambda>now n. st_ListBlockedIPs S now (seen ''ListBlockedIPs'' n)),
       st_UpsertBlockedIP = (\<lambda>nid b. shared_call (st_UpsertBlockedIP S nid b)),
       st_UnblockIP = (\<lambda>bid now. shared_call (st_UnblockIP S bid now)),
       st_ListGeoRules = (\<lambda>n. st_ListGeoRules S (seen ''ListGeoRules'' n)),
       st_GeoRuleByCountry = (\<lambda>country n. st_GeoRuleByCountry S country (seen ''GeoRuleByCountry'' n)),
       st_CreateGeoRule = (\<lambda>nid country note now. shared_call (st_CreateGeoRule S nid country note now)),
       st_DeleteGeoRule = (\<lambda>gid. shared_call (st_DeleteGeoRule S gid)) \<rparr>"

section \<open>Lemmas\<close>

lemma trail_not_Nil [simp]: "trail s es \<noteq> []"
  by (cases es) simp_all

lemma hd_trail [simp]: "hd (trail s es) = s"
  by (cases es) simp_all

lemma length_trail [simp]: "length (trail s es) = Suc (length es)"
  by (induction es arbitrary: s) simp_all

lemma current_not_Nil [simp]: "current n \<noteq> []"
  by (simp add: current_def)

lemma now_current: "sh_now n \<in> set (current n)"
  using hd_in_set [OF current_not_Nil] by (simp add: current_def)

lemma last_current: "last (current n) \<in> set (current n)"
  by (rule last_in_set) simp

lemma seen_current: "seen op n \<in> set (current n)"
  unfolding seen_def by (rule nth_mem) (auto simp: current_def split: list.split)

lemma current_visited: "set (current n) \<subseteq> set (visited n)"
  by (simp add: visited_def)

lemmas seen_visited = subsetD [OF current_visited seen_current]
  and now_visited = subsetD [OF current_visited now_current]

text \<open>A write happens after the steps of the others, and every state before it is logged.\<close>

lemma call_run:
  assumes "shared_call f n = (n', r)"
  shows "f (last (current n)) = (sh_now n', r)" "sh_next n' = tl (sh_next n)" "set (visited n) \<subseteq> set (visited n')"
  using assms by (auto simp: shared_call_def visited_def split: prod.splits)

lemma visited_call: "set (visited n) \<subseteq> set (visited (fst (shared_call f n)))"
  by (rule call_run(3) [OF prod.collapse [symmetric]])

lemma meanwhile_run:
  "sh_now (meanwhile es next n) = last (trail (sh_now n) es)" "sh_next (meanwhile es next n) = next"
  "set (visited n) \<subseteq> set (visited (meanwhile es next n))"
  by (auto simp: meanwhile_def visited_def)

text \<open>A relation that the steps of others respect holds along them.\<close>

lemma trail_rel:
  assumes "list_all (\<lambda>e. \<forall>s. I s \<longrightarrow> I (e s) \<and> R s (e s)) es" "I s" "t \<in> set (trail s es)"
    and refl: "\<And>s. R s s" and trans: "\<And>a b c. R a b \<Longrightarrow> R b c \<Longrightarrow> R a c"
  shows "I t \<and> R s t \<and> I (last (trail s es)) \<and> R t (last (trail s es))"
  using assms(1-3)
proof (induction es arbitrary: s t)
  case Nil
  then show ?case using refl by simp
next
  case (Cons e es)
  have e: "I (e s)" "R s (e s)" using Cons.prems(1,2) by auto
  have ok: "list_all (\<lambda>e. \<forall>s. I s \<longrightarrow> I (e s) \<and> R s (e s)) es" using Cons.prems(1) by simp
  note IH = Cons.IH [OF ok e(1)]
  have l: "R s (last (trail (e s) es))" "I (last (trail (e s) es))"
    using IH [OF last_in_set [OF trail_not_Nil]] trans [OF e(2)] by blast+
  from Cons.prems(3) consider "t = s" | "t \<in> set (trail (e s) es)" by auto
  then show ?case
  proof cases
    case 1
    then show ?thesis using l Cons.prems(2) refl by simp
  next
    case 2
    from IH [OF this] show ?thesis using trans [OF e(2)] by simp
  qed
qed

lemma others_all_mono: "(\<And>e. P e \<Longrightarrow> Q e) \<Longrightarrow> others_all P os \<Longrightarrow> others_all Q os"
  by (auto simp: others_all_def list_all_iff)

text \<open>Nobody else: the shared store is the store itself.\<close>

lemma alone: "sh_next n = [] \<Longrightarrow> seen op n = sh_now n" "sh_next n = [] \<Longrightarrow> last (current n) = sh_now n"
  by (simp_all add: seen_def current_def)

end
