(* ===== verification/Truthful.thy ===== *)
theory Truthful
  imports System Shared
begin

text \<open>
  What the login path needs of a store that may fail. The contracts of \<open>Store\<close> say that calls succeed; here a
  call may fail at any time, also after it took effect, and only what a successful call returned has to be
  true. The locale \<open>truthful_store\<close> is that contract, and its lemmas show that a login answered with a verdict
  is recorded with its ground on every such store, with other processes at work between any two of its calls.
\<close>

section \<open>The contract\<close>

text \<open>The steps of others: any that keep the invariant and respect the table of requests, and that do not use
  the fresh id \<open>nid\<close>. What others do while the handler sleeps is a list of such steps.\<close>

definition others_ok :: "('s \<Rightarrow> bool) \<Rightarrow> ('s \<Rightarrow> string \<Rightarrow> Request option) \<Rightarrow> string \<Rightarrow> ('s \<Rightarrow> 's) \<Rightarrow> bool" where
  "others_ok I row nid e \<longleftrightarrow>
     (\<forall>s. I s \<longrightarrow> I (e s) \<and> rows_evolve (row s) (row (e s)) \<and> (row s nid = None \<longrightarrow> row (e s) nid = None))"

definition shared_event :: "(('s \<Rightarrow> 's) \<Rightarrow> bool) \<Rightarrow> 's shared sleep_event \<Rightarrow> bool" where
  "shared_event P ev =
     (case ev of
        Cancelled \<Rightarrow> True
      | Woke _ env _ \<Rightarrow> \<exists>es next. env = meanwhile es next \<and> list_all P es \<and> others_all P next)"

lemma shared_events_mono:
  assumes "\<And>e. P e \<Longrightarrow> Q e" "list_all (shared_event P) evs"
  shows "list_all (shared_event Q) evs"
proof -
  have "shared_event Q ev" if ev: "shared_event P ev" for ev
  proof (cases ev)
    case (Woke lag env over)
    with ev obtain es nxt where "env = meanwhile es nxt" "list_all P es" "others_all P nxt"
      by (auto simp: shared_event_def)
    then have "env = meanwhile es nxt \<and> list_all Q es \<and> others_all Q nxt"
      using assms(1) others_all_mono [of P Q nxt] by (simp add: list_all_iff)
    then show ?thesis unfolding shared_event_def Woke by auto
  qed (simp add: shared_event_def)
  with assms(2) show ?thesis by (auto simp: list_all_iff)
qed

definition good :: "('s \<Rightarrow> bool) \<Rightarrow> ('s \<Rightarrow> string \<Rightarrow> Request option) \<Rightarrow> string \<Rightarrow> 's shared \<Rightarrow> bool" where
  "good I row nid n \<longleftrightarrow> I (sh_now n) \<and> others_all (others_ok I row nid) (sh_next n)"

text \<open>The answer of a wait that began with the row \<open>r\<close>: a later state of that row, read on the way.\<close>

definition wait_answer :: "('s \<Rightarrow> string \<Rightarrow> Request option) \<Rightarrow> 's shared \<Rightarrow> 's shared \<Rightarrow> Request \<Rightarrow> AccessRequestResponse \<Rightarrow> bool" where
  "wait_answer row n n' r a \<longleftrightarrow> set (visited n) \<subseteq> set (visited n') \<and>
     (\<exists>t\<in>set (visited n'). \<exists>r'. row t (rq_ID r) = Some r' \<and> same_login r r' \<and> decision_step r r' \<and>
        rq_Status r' \<noteq> StatusPending \<and> answers_row r' (Reply 200 (AccessOut a)))"

text \<open>
  \<open>row\<close>, \<open>entries\<close> and \<open>servers\<close> are the tables behind the state. \<open>canon\<close> says which ids the store reads back
  as they are, and \<open>clk\<close> is the precision of its clock. Between the insert of a request and its read-back
  others may already decide it, so \<open>CreateRequest_true\<close> speaks of the row as inserted and as read.
\<close>

locale truthful_store =
  fixes S :: "'s Store"
    and inv :: "'s \<Rightarrow> bool"
    and row :: "'s \<Rightarrow> string \<Rightarrow> Request option"
    and entries :: "'s \<Rightarrow> WhitelistEntry set"
    and servers :: "'s \<Rightarrow> Server set"
    and canon :: "string \<Rightarrow> bool"
    and clk :: "time \<Rightarrow> time"
  assumes ServerByTokenHash_true:
      "st_ServerByTokenHash S hash s = Inr srv \<Longrightarrow> srv \<in> servers s \<and> sv_TokenHash srv = hash"
    and TouchServer_keeps:
      "inv s \<Longrightarrow> st_TouchServer S sid now s = (s', e) \<Longrightarrow> inv s' \<and> row s' = row s \<and> entries s' = entries s"
    and RecordBlockedIPHit_keeps:
      "inv s \<Longrightarrow> st_RecordBlockedIPHit S bid now s = (s', e) \<Longrightarrow> inv s' \<and> row s' = row s \<and> entries s' = entries s"
    and FindWhitelist_true:
      "canon sid \<Longrightarrow> st_FindWhitelist S u c sid now s = Inr w \<Longrightarrow> \<exists>e\<in>entries s. wl_covers u c sid (clk now) e"
    and RequestByID_true:
      "canon rid \<Longrightarrow> st_RequestByID S rid s = Inr v \<Longrightarrow>
       \<exists>r. row s rid = Some r \<and> same_login r v \<and> same_decision r v"
    and CreateRequest_true:
      "inv s \<Longrightarrow> row s nid = None \<Longrightarrow> canon nid \<Longrightarrow> canon (rq_ServerID r) \<Longrightarrow>
       st_CreateRequest S nid r s = (s', Inr v) \<Longrightarrow>
       inv s' \<and> (\<exists>r0 r'. row s' nid = Some r' \<and> rq_ID r0 = nid \<and> rq_ServerID r0 = rq_ServerID r \<and>
         rq_Context r0 = rq_Context r \<and> rq_Username r0 = rq_Username r \<and>
         (rq_Status r \<noteq> [] \<longrightarrow> rq_Status r0 = rq_Status r) \<and>
         same_login r0 r' \<and> decision_step r0 r' \<and> same_login r' v \<and> same_decision r' v)"
    and MarkTimeout_true:
      "inv s \<Longrightarrow> canon rid \<Longrightarrow> row s rid = Some r \<Longrightarrow> st_MarkTimeout S rid now s = (s', Inr marked) \<Longrightarrow>
       inv s' \<and> rows_evolve (row s) (row s') \<and>
       (\<exists>r'. row s' rid = Some r' \<and> rq_Status r' \<noteq> StatusPending \<and>
          (marked \<longrightarrow> rq_Status r' = StatusTimeout \<and> rq_DecidedAt r' = None))"
begin

section \<open>Steps of others\<close>

lemma others_steps:
  assumes "list_all (others_ok inv row nid) es" "inv s" "t \<in> set (trail s es)"
  shows "inv t" "rows_evolve (row s) (row t)" "row s nid = None \<Longrightarrow> row t nid = None"
    "rows_evolve (row t) (row (last (trail s es)))"
proof -
  let ?R = "\<lambda>a b. rows_evolve (row a) (row b) \<and> (row a nid = None \<longrightarrow> row b nid = None)"
  have ok: "list_all (\<lambda>e. \<forall>s. inv s \<longrightarrow> inv (e s) \<and> ?R s (e s)) es"
    using assms(1) by (simp add: others_ok_def [abs_def] conj_assoc)
  have "inv t \<and> ?R s t \<and> inv (last (trail s es)) \<and> ?R t (last (trail s es))"
    by (rule trail_rel [OF ok assms(2,3)]) (auto intro: rows_evolve_trans)
  then show "inv t" "rows_evolve (row s) (row t)" "row s nid = None \<Longrightarrow> row t nid = None"
    "rows_evolve (row t) (row (last (trail s es)))" by blast+
qed

text \<open>A state of the shared store that is good: the invariant, and others that respect the table of requests.\<close>

lemma good_current:
  assumes "good inv row nid n" "t \<in> set (current n)"
  shows "inv t" "rows_evolve (row (sh_now n)) (row t)" "row (sh_now n) nid = None \<Longrightarrow> row t nid = None"
    "rows_evolve (row t) (row (last (current n)))"
proof -
  let ?es = "case sh_next n of [] \<Rightarrow> [] | o' # _ \<Rightarrow> ot_steps o'"
  have ok: "list_all (others_ok inv row nid) ?es" "inv (sh_now n)"
    using assms(1) by (auto simp: good_def others_all_def split: list.split)
  note * = others_steps [OF ok assms(2) [unfolded current_def]]
  show "inv t" "rows_evolve (row (sh_now n)) (row t)" "row (sh_now n) nid = None \<Longrightarrow> row t nid = None"
    "rows_evolve (row t) (row (last (current n)))" using * by (simp_all add: current_def)
qed

lemma good_tl: "good inv row nid n \<Longrightarrow> inv (sh_now n') \<Longrightarrow> sh_next n' = tl (sh_next n) \<Longrightarrow> good inv row nid n'"
  by (cases "sh_next n") (auto simp: good_def others_all_def)

text \<open>A call that leaves the table of requests alone.\<close>

lemma call_keeps:
  assumes "good inv row nid n" "shared_call f n = (n', r)" "row (sh_now n) nid = None"
    and "\<And>s s' r. inv s \<Longrightarrow> f s = (s', r) \<Longrightarrow> inv s' \<and> row s' = row s"
  shows "good inv row nid n' \<and> row (sh_now n') nid = None \<and> set (visited n) \<subseteq> set (visited n')"
proof -
  note run = call_run [OF assms(2)]
  note l = good_current [OF assms(1) last_current]
  from assms(4) [OF l(1) run(1)] have "inv (sh_now n')" "row (sh_now n') = row (last (current n))" by simp_all
  then show ?thesis using good_tl [OF assms(1) _ run(2)] l(3) [OF assms(3)] run(3) by simp
qed

lemma good_meanwhile:
  assumes "good inv row nid n" "list_all (others_ok inv row nid) es" "others_all (others_ok inv row nid) next"
  shows "good inv row nid (meanwhile es next n)" "rows_evolve (row (sh_now n)) (row (sh_now (meanwhile es next n)))"
proof -
  have "inv (sh_now n)" using assms(1) by (simp add: good_def)
  note * = others_steps [OF assms(2) this last_in_set [OF trail_not_Nil]]
  show "good inv row nid (meanwhile es next n)" using *(1) assms(3) by (simp add: good_def meanwhile_run)
  show "rows_evolve (row (sh_now n)) (row (sh_now (meanwhile es next n)))" using *(2) by (simp add: meanwhile_run)
qed

section \<open>The wait\<close>

lemma wait_answerI:
  assumes "set (visited n) \<subseteq> set (visited n')" "t \<in> set (visited n')" "row t (rq_ID r) = Some r'" "same_login r r'"
    "decision_step r r'" "rq_Status r' \<noteq> StatusPending" "answers_row r' (Reply 200 (AccessOut a))"
  shows "wait_answer row n n' r a"
  using assms unfolding wait_answer_def by blast

lemma wait_answer_later:
  assumes "wait_answer row n1 n' r1 a" "set (visited n) \<subseteq> set (visited n1)" "same_login r r1" "decision_step r r1"
  shows "wait_answer row n n' r a"
proof -
  have "rq_ID r1 = rq_ID r" using assms(3) by (simp add: same_login_def)
  with assms(1) obtain t r' where t: "t \<in> set (visited n')" "row t (rq_ID r) = Some r'" "same_login r1 r'"
    "decision_step r1 r'" "rq_Status r' \<noteq> StatusPending" "answers_row r' (Reply 200 (AccessOut a))"
    "set (visited n1) \<subseteq> set (visited n')"
    unfolding wait_answer_def by metis
  show ?thesis
  proof (rule wait_answerI [OF _ t(1,2) _ _ t(5,6)])
    show "set (visited n) \<subseteq> set (visited n')" using assms(2) t(7) by (rule subset_trans)
    show "same_login r r'" using assms(3) t(3) by (rule same_login_trans)
    show "decision_step r r'" using assms(3) t(3) assms(4) t(4) by (rule decision_step_trans)
  qed
qed

text \<open>What a query of the row sees.\<close>

lemma RequestByID_seen:
  assumes "good inv row nid n" "row (sh_now n) rid = Some r" "canon rid"
    and "st_RequestByID (shared_store S) rid n = Inr v"
  shows "\<exists>t\<in>set (visited n). \<exists>r'. row t rid = Some r' \<and> same_login r r' \<and> decision_step r r' \<and> same_decision r' v"
proof -
  let ?t = "seen ''RequestByID'' n"
  have "st_RequestByID S rid ?t = Inr v" using assms(4) by (simp add: shared_store_def)
  from RequestByID_true [OF assms(3) this] obtain r' where "row ?t rid = Some r'" "same_decision r' v" by blast
  moreover have "rows_evolve (row (sh_now n)) (row ?t)" by (rule good_current(2) [OF assms(1) seen_current])
  note rows_evolveD [OF this assms(2)]
  ultimately show ?thesis using seen_visited [of "''RequestByID''" n] by fastforce
qed

lemma finishWait_true:
  assumes g: "good inv row nid n" and r: "row (sh_now n) (rq_ID c) = Some r" "rq_ID r = rq_ID c" "canon (rq_ID c)"
    and fin: "finishWait (shared_store S) c now n = (n', Reply 200 (AccessOut a))"
  shows "wait_answer row n n' r a"
proof -
  obtain marked where m: "shared_call (st_MarkTimeout S (rq_ID c) now) n = (n', Inr marked)"
    using fin by (auto simp: finishWait_def shared_store_def split: prod.splits sum.splits if_splits)
  note run = call_run [OF m]
  note l = good_current [OF g last_current]
  obtain r1 where r1: "row (last (current n)) (rq_ID c) = Some r1" "same_login r r1" "decision_step r r1"
    using rows_evolveD [OF l(2) r(1)] by blast
  from MarkTimeout_true [OF l(1) r(3) r1(1) run(1)] obtain r2 where r2: "inv (sh_now n')"
    "rows_evolve (row (last (current n))) (row (sh_now n'))" "row (sh_now n') (rq_ID c) = Some r2"
    "rq_Status r2 \<noteq> StatusPending" "marked \<Longrightarrow> rq_Status r2 = StatusTimeout \<and> rq_DecidedAt r2 = None"
    by blast
  have s2: "same_login r r2" "decision_step r r2"
    using rows_evolveD [OF r2(2) r1(1)] r2(3) r1(2,3) by (auto intro: decision_step_trans same_login_trans)
  then have id: "rq_ID r2 = rq_ID c" using r(2) by (simp add: same_login_def)
  show ?thesis
  proof (cases marked)
    case True
    with fin m have "answerAccessRequest (c\<lparr>rq_Status := StatusTimeout, rq_DecidedAt := None\<rparr>) = Reply 200 (AccessOut a)"
      by (simp add: finishWait_def shared_store_def)
    with True r2(5) id have "answers_row r2 (Reply 200 (AccessOut a))"
      by (auto simp: answers_row_def answerAccessRequest_def split: prod.splits)
    then show ?thesis using r2(3,4) s2 r(2) by (intro wait_answerI [OF run(3) now_visited]) simp_all
  next
    case False
    with fin m obtain v where v: "st_RequestByID (shared_store S) (rq_ID c) n' = Inr v"
      "answerAccessRequest v = Reply 200 (AccessOut a)"
      by (auto simp: finishWait_def shared_store_def split: sum.splits)
    from RequestByID_seen [OF good_tl [OF g r2(1) run(2)] r2(3) r(3) v(1)] obtain t r3 where
      t: "t \<in> set (visited n')" "row t (rq_ID c) = Some r3" "same_login r2 r3" "decision_step r2 r3" "same_decision r3 v"
      by blast
    have "rq_Status r3 \<noteq> StatusPending" using decision_step_final [OF t(4) r2(4)] r2(4) by (simp add: same_decision_def)
    moreover have "answers_row r3 (Reply 200 (AccessOut a))" using answerAccessRequest_row [OF t(5)] v(2) by simp
    moreover have "same_login r r3" "decision_step r r3"
      using s2 t(3,4) by (blast intro: decision_step_trans same_login_trans)+
    ultimately show ?thesis using t(1,2) r(2) by (intro wait_answerI [OF run(3) t(1)]) simp_all
  qed
qed

lemma wait_true:
  assumes "good inv row nid n" "row (sh_now n) (rq_ID c) = Some r" "rq_ID r = rq_ID c" "canon (rq_ID c)"
    and "list_all (shared_event (others_ok inv row nid)) evs"
    and "waitAccessVerdict (shared_store S) poll late c deadline t evs n = (n', Reply 200 (AccessOut a))"
  shows "wait_answer row n n' r a"
  using assms
proof (induction evs arbitrary: t n r)
  case (Cons ev evs)
  show ?case
  proof (cases ev)
    case Cancelled
    with Cons.prems show ?thesis by simp
  next
    case (Woke lag env over)
    from Cons.prems(5) Woke obtain es nxt where env: "env = meanwhile es nxt" "list_all (others_ok inv row nid) es"
      "others_all (others_ok inv row nid) nxt"
      by (auto simp: shared_event_def)
    define n1 where "n1 = env n"
    have g: "good inv row nid n1" "rows_evolve (row (sh_now n)) (row (sh_now n1))"
      using good_meanwhile [OF Cons.prems(1) env(2,3)] by (simp_all add: n1_def env(1))
    have vis: "set (visited n) \<subseteq> set (visited n1)" by (simp add: n1_def env(1) meanwhile_run)
    obtain r1 where r1: "row (sh_now n1) (rq_ID c) = Some r1" "same_login r r1" "decision_step r r1"
      using rows_evolveD [OF g(2) Cons.prems(2)] by blast
    have id: "rq_ID r1 = rq_ID c" using r1(2) Cons.prems(3) by (simp add: same_login_def)
    from Cons.prems(6) consider
        w where "finishWait (shared_store S) c w n1 = (n', Reply 200 (AccessOut a))"
      | v where "st_RequestByID (shared_store S) (rq_ID c) n1 = Inr v" "rq_Status v \<noteq> StatusPending" "n' = n1"
          "answerAccessRequest v = Reply 200 (AccessOut a)"
      | w where "waitAccessVerdict (shared_store S) poll late c deadline w evs n1 = (n', Reply 200 (AccessOut a))"
      by (auto simp: Woke Let_def n1_def split: if_splits sum.splits)
    then have "wait_answer row n1 n' r1 a"
    proof cases
      case 1
      then show ?thesis by (rule finishWait_true [OF g(1) r1(1) id Cons.prems(4)])
    next
      case 2
      from RequestByID_seen [OF g(1) r1(1) Cons.prems(4) 2(1)] obtain t r2 where
        t: "t \<in> set (visited n1)" "row t (rq_ID c) = Some r2" "same_login r1 r2" "decision_step r1 r2" "same_decision r2 v"
        by blast
      have "answers_row r2 (Reply 200 (AccessOut a))" using answerAccessRequest_row [OF t(5)] 2(4) by simp
      moreover have "rq_Status r2 \<noteq> StatusPending" using t(5) 2(2) by (simp add: same_decision_def)
      ultimately show ?thesis using t id 2(3) by (intro wait_answerI [of _ _ t]) simp_all
    next
      case 3
      with Cons.IH [OF g(1) r1(1) id Cons.prems(4)] Cons.prems(5) show ?thesis by simp
    qed
    then show ?thesis by (rule wait_answer_later [OF _ vis r1(2,3)])
  qed
qed simp

section \<open>The handler\<close>

lemma Evaluate_keeps:
  assumes g: "good inv row nid n" and new: "row (sh_now n) nid = None"
    and ev: "Evaluate (shared_store S) now inp n = (n', res)"
  shows "good inv row nid n' \<and> row (sh_now n') nid = None \<and> set (visited n) \<subseteq> set (visited n')"
proof -
  have "n' = fst (evaluate_ip (shared_store S) now inp n)"
    using ev unfolding Evaluate_def by (auto split: prod.splits sum.splits option.splits)
  then consider "n' = n" | bid e where "shared_call (st_RecordBlockedIPHit S bid now) n = (n', e)"
    by (auto simp: evaluate_ip_def shared_store_def split: option.splits sum.splits prod.splits if_splits)
  then show ?thesis
  proof cases
    case 1
    then show ?thesis using g new by simp
  next
    case 2
    from call_keeps [OF g this new] show ?thesis using RecordBlockedIPHit_keeps by blast
  qed
qed

lemma approval_by_outcome:
  assumes "Evaluate (shared_store S) now (access_input srv body geo) n = (n1, Inr oc)" "canon (sv_ID srv)"
    and "rq_Status r = oc_Status oc" "answers_row r (Reply 200 (AccessOut a))" "ar_Verdict a = VerdictApprove"
  shows "\<exists>t\<in>set (visited n1). approval_ground (entries t) (clk now) body srv r"
proof -
  have "rq_Status r \<in> {StatusApproved, StatusWhitelisted, StatusNotified}"
    using VerdictFor_approve_iff [of "rq_Status r"] assms(4,5) by (auto simp: answers_row_def)
  with Evaluate_status [OF assms(1)] assms(3) consider "rq_Status r = StatusWhitelisted" | "rq_Status r = StatusNotified"
    by (auto simp: enums)
  then show ?thesis
  proof cases
    case 1
    with Evaluate_status [OF assms(1)] assms(3) obtain w where
      "st_FindWhitelist S (ab_Username body) (ab_Context body) (sv_ID srv) now (seen ''FindWhitelist'' n1) = Inr w"
      by (auto simp: access_input_def shared_store_def)
    from FindWhitelist_true [OF assms(2) this] 1 seen_visited show ?thesis by (auto simp: approval_ground_def)
  next
    case 2
    with Evaluate_status [OF assms(1)] assms(3) now_visited show ?thesis
      by (auto simp: approval_ground_def access_input_def)
  qed
qed

lemma access_decide_true:
  assumes g: "good inv row (cx_nid cx) n" and new: "row (sh_now n) (cx_nid cx) = None" and h: "h_store h = shared_store S"
    and canon: "canon (cx_nid cx)" "canon (sv_ID srv)"
    and evs: "list_all (shared_event (others_ok inv row (cx_nid cx))) (cx_sched cx)"
    and run: "access_decide h cx srv body n = (n', sent, Reply 200 (AccessOut a))"
  shows "set (visited n) \<subseteq> set (visited n') \<and> (\<exists>t1\<in>set (visited n'). \<exists>t2\<in>set (visited n'). \<exists>r.
    row t2 (cx_nid cx) = Some r \<and> access_answer (entries t1) (clk (cx_rules cx)) body srv r a)"
proof -
  define geo where "geo = access_geo h body"
  obtain n1 oc n2 c where ev: "Evaluate (shared_store S) (cx_rules cx) (access_input srv body geo) n = (n1, Inr oc)"
    and cr: "st_CreateRequest (shared_store S) (cx_nid cx) (access_row h (cx_now cx) srv body geo oc) n1 = (n2, Inr c)"
    and run2: "access_created h cx oc c n2 = (n', sent, Reply 200 (AccessOut a))"
    using run unfolding access_decide_def geo_def [symmetric] h by (auto simp: Let_def split: prod.splits sum.splits)
  have n1: "good inv row (cx_nid cx) n1" "row (sh_now n1) (cx_nid cx) = None" "set (visited n) \<subseteq> set (visited n1)"
    using Evaluate_keeps [OF g new ev] by simp_all
  have st: "oc_Status oc \<noteq> []" using Evaluate_status [OF ev] by (auto simp: enums)
  have "shared_call (st_CreateRequest S (cx_nid cx) (access_row h (cx_now cx) srv body geo oc)) n1 = (n2, Inr c)"
    using cr by (simp add: shared_store_def)
  note cr = call_run [OF this]
  note l = good_current [OF n1(1) last_current]
  have "canon (rq_ServerID (access_row h (cx_now cx) srv body geo oc))" using canon(2) by (simp add: access_row_def)
  from CreateRequest_true [OF l(1) l(3) [OF n1(2)] canon(1) this cr(1)] st obtain r0 r where
    r: "inv (sh_now n2)" "row (sh_now n2) (cx_nid cx) = Some r"
    "rq_ID r0 = cx_nid cx" "rq_ServerID r0 = sv_ID srv" "rq_Context r0 = ab_Context body"
    "rq_Username r0 = ab_Username body" "rq_Status r0 = oc_Status oc" "same_login r0 r" "decision_step r0 r"
    "same_login r c" "same_decision r c"
    by (auto simp: access_row_def)
  have vis: "set (visited n) \<subseteq> set (visited n2)" using n1(3) cr(3) by blast
  have login: "rq_ID r = cx_nid cx" "rq_ID c = cx_nid cx" "rq_Username r = ab_Username body" "rq_Context r = ab_Context body"
    "rq_ServerID r = sv_ID srv"
    using r(3-6,8,10) by (simp_all add: same_login_def)
  show ?thesis
  proof (cases "Outcome_Pending oc")
    case False
    then have ans: "n' = n2" "answers_row r (Reply 200 (AccessOut a))"
      using run2 answerAccessRequest_row [OF r(11)] by (auto simp: access_created_def)
    have stat: "rq_Status r = oc_Status oc" "rq_Status r \<noteq> StatusPending"
      using decision_step_final [OF r(9)] False r(7) by (simp_all add: Outcome_Pending_def same_decision_def)
    obtain t where "t \<in> set (visited n1)"
      "ar_Verdict a = VerdictApprove \<longrightarrow> approval_ground (entries t) (clk (cx_rules cx)) body srv r"
      using approval_by_outcome [OF ev canon(2) stat(1) ans(2)] now_visited [of n1] by blast
    then show ?thesis
      using ans stat login r(2) vis cr(3) now_visited [of n2] unfolding access_answer_def by blast
  next
    case True
    then have w: "waitAccessVerdict (shared_store S) (hc_PollInterval (h_cfg h)) (cx_late cx) c
        (cx_now cx + hc_VerdictWait (h_cfg h)) (cx_now cx) (cx_sched cx) n2 = (n', Reply 200 (AccessOut a))"
      using run2 h by (auto simp: access_created_def Let_def split: prod.splits)
    have g2: "good inv row (cx_nid cx) n2" by (rule good_tl [OF n1(1) r(1) cr(2)])
    have "wait_answer row n2 n' r a" by (rule wait_true [OF g2 _ _ _ evs w]) (use r(2) login canon(1) in simp_all)
    then obtain t r' where t: "set (visited n2) \<subseteq> set (visited n')" "t \<in> set (visited n')" "row t (cx_nid cx) = Some r'"
      "same_login r r'" "decision_step r r'" "rq_Status r' \<noteq> StatusPending" "answers_row r' (Reply 200 (AccessOut a))"
      unfolding wait_answer_def login(1) by blast
    have step: "same_login r0 r'" "decision_step r0 r'" using r(8,9) t(4,5) by (blast intro: same_login_trans decision_step_trans)+
    then have "admin_decided r' \<or> timed_out r'"
      using True r(7) t(6) by (auto simp: decision_step_def same_decision_def Outcome_Pending_def)
    then have "access_answer (entries t) (clk (cx_rules cx)) body srv r' a"
      using t(6,7) step(1) r(4-6) by (auto simp: access_answer_def same_login_def intro: approval_by_admin)
    then show ?thesis using t(1-3) vis by blast
  qed
qed

section \<open>The route\<close>

text \<open>A served login: the token is a server's, and the answer is recorded with its ground. The server, the
  whitelist entry and the row are each found in a state that was visited.\<close>

lemma served_login_true:
  assumes g: "good inv row (cx_nid cx) n" and new: "row (sh_now n) (cx_nid cx) = None" and h: "h_store h = shared_store S"
    and canon: "canon (cx_nid cx)" "\<And>t srv. t \<in> set (current n) \<Longrightarrow> srv \<in> servers t \<Longrightarrow> canon (sv_ID srv)"
    and evs: "list_all (shared_event (others_ok inv row (cx_nid cx))) (cx_sched cx)"
    and run: "serve h cx (wire_post token bytes) n = (n', sent, Reply 200 (AccessOut a))"
  shows "\<exists>t0\<in>set (visited n'). \<exists>t1\<in>set (visited n'). \<exists>t2\<in>set (visited n'). \<exists>srv raw body r. srv \<in> servers t0 \<and>
    HashToken (TrimSpace token) = sv_TokenHash srv \<and>
    js_access (h_json h) bytes = Some raw \<and> normalizeAccessRequest raw (sv_Name srv) = Inr body \<and>
    row t2 (cx_nid cx) = Some r \<and> access_answer (entries t1) (clk (cx_rules cx)) body srv r a"
proof -
  let ?r = "wire_post token bytes"
  obtain n1 p where au: "authenticate h cx ?r n = (n1, Inr p)" "pr_Kind p = KindServer"
    and acc: "accessRequest h cx ?r (Some p) n1 = (n', sent, Reply 200 (AccessOut a))"
  proof -
    obtain n1 res where 1: "authenticate h cx ?r n = (n1, res)" by fastforce
    have "e \<noteq> Reply 200 (AccessOut a)" if "res = Inl e" for e
      using 1 that by (auto elim!: authenticate_cases)
    with 1 run that show thesis by (auto simp: serve_post requireServer_def split: if_splits sum.splits)
  qed
  from au obtain srv where p: "pr_Server p = Some srv"
    "n1 = fst (st_TouchServer (shared_store S) (sv_ID srv) (cx_touch cx) n)"
    "Authenticate (shared_store S) (h_adminHash h) (hq_Authorization ?r) n = Inr p"
    using h by (auto elim!: authenticate_cases)
  from Authenticate_sound [OF p(3)] au(2) p(1) obtain tok where tok: "BearerToken (hq_Authorization ?r) = Some tok"
    "st_ServerByTokenHash (shared_store S) (HashToken tok) n = Inr srv"
    by (metis Kind.distinct(1) option.inject)
  define t0 where "t0 = seen ''ServerByTokenHash'' n"
  have "st_ServerByTokenHash S (HashToken tok) t0 = Inr srv" using tok(2) by (simp add: shared_store_def t0_def)
  from ServerByTokenHash_true [OF this] tok(1)
  have srv: "srv \<in> servers t0" "sv_TokenHash srv = HashToken tok" "tok = TrimSpace token"
    by (auto simp: wire_post_def BearerToken_client split: if_splits)
  obtain e where "shared_call (st_TouchServer S (sv_ID srv) (cx_touch cx)) n = (n1, e)"
    using p(2) by (metis prod.collapse Store.select_convs(5) shared_store_def)
  from call_keeps [OF g this new] TouchServer_keeps
  have n1: "good inv row (cx_nid cx) n1" "row (sh_now n1) (cx_nid cx) = None" "set (visited n) \<subseteq> set (visited n1)"
    by blast+
  from acc obtain raw body where nb: "decodeJSON (js_access (h_json h)) (hq_Body ?r) = Inr raw"
    "normalizeAccessRequest raw (sv_Name srv) = Inr body"
    "access_decide h cx srv body n1 = (n', sent, Reply 200 (AccessOut a))"
    using p(1) by (elim accessRequest_cases) auto
  have t0: "t0 \<in> set (visited n1)" using seen_visited n1(3) by (auto simp: t0_def)
  have "canon (sv_ID srv)" by (rule canon(2) [OF _ srv(1)]) (simp add: t0_def seen_current)
  from access_decide_true [OF n1(1,2) h canon(1) this evs nb(3)]
  obtain t1 t2 r where vis: "set (visited n1) \<subseteq> set (visited n')" and "t1 \<in> set (visited n')" "t2 \<in> set (visited n')" "row t2 (cx_nid cx) = Some r"
    "access_answer (entries t1) (clk (cx_rules cx)) body srv r a" by blast
  moreover have "js_access (h_json h) bytes = Some raw" using nb(1) by (auto simp: wire_post_def decodeJSON_ok_iff)
  ultimately show ?thesis using subsetD [OF vis t0] srv nb(2) by metis
qed

end

section \<open>The in-memory store\<close>

interpretation mem_true: truthful_store memory_store mem_inv "\<lambda>m. map_of (m_requests m)"
  "\<lambda>m. snd ` set (m_whitelist m)" "\<lambda>m. snd ` set (m_servers m)" "\<lambda>_. True" "\<lambda>t. t"
proof (unfold_locales, goal_cases)
  case (1 hash s srv)
  then show ?case
    by (auto simp: wiring mem_ServerByTokenHash_def split: option.splits dest!: map_find_SomeD intro: rev_image_eqI)
next
  case (2 s sid now s' e)
  then show ?case
    using mem_TouchServer_inv [of s sid now] by (auto simp: wiring mem_TouchServer_def split: option.splits)
next
  case (3 s bid now s' e)
  then show ?case
    using mem_RecordBlockedIPHit_inv [of s bid now] by (auto simp: wiring mem_RecordBlockedIPHit_def split: option.splits)
next
  case (4 sid u c now s w)
  then show ?case
    by (auto simp: wiring mem_FindWhitelist_def split: option.splits dest!: find_whitelist_SomeD)
next
  case (5 rid s v)
  then show ?case
    by (auto simp: wiring mem_RequestByID_def requestView_def same_login_def same_decision_def split: option.splits)
next
  case (6 s nid r s' v)
  then show ?case
    using mem_req.CreateRequest_ok [OF 6(1,2,5)]
    by (auto simp: same_login_def same_decision_def decision_step_def wiring mem_CreateRequest_def Let_def
        split: option.splits if_splits)
next
  case (7 s rid r now s' marked)
  then show ?case
    using mem_MarkTimeout_inv [of s rid now] mem_MarkTimeout_evolve [of s rid now]
    by (auto simp: wiring mem_MarkTimeout_def split: option.splits if_splits)
qed

end
