(* ===== verification/Shared_Props.thy ===== *)
theory Shared_Props
  imports Truthful Verdict_Props
begin

text \<open>
  Two admins at once: a verdict on a store others use at the same time. The late verdict of \<open>Verdict_Props\<close> is
  answered with the recorded outcome; here is the interleaving in which it is not.
\<close>

section \<open>A verdict that stalls\<close>

text \<open>The update of another verdict, whose handler read the clock at \<open>t\<close> and reaches the store later.\<close>

definition stalled_verdict :: "string \<Rightarrow> string option \<Rightarrow> time \<Rightarrow> memory \<Rightarrow> memory" where
  "stalled_verdict rid dev t m = fst (mem_DecideRequest rid StatusApproved dev t m)"

text \<open>The store in state \<open>m\<close>, where that update comes after the first write of a handler and after the reads
  that follow it, before its second write.\<close>

definition stalled_between :: "(memory \<Rightarrow> memory) \<Rightarrow> memory \<Rightarrow> memory shared" where
  "stalled_between e m =
     \<lparr> sh_now = m, sh_next = [\<lparr> ot_steps = [], ot_at = (\<lambda>_. 0) \<rparr>, \<lparr> ot_steps = [e], ot_at = (\<lambda>_. 0) \<rparr>], sh_log = [] \<rparr>"

lemma stalled_run:
  assumes "st_DecideRequest memory_store rid status dev now m = (m, r)"
  shows "\<exists>n1. st_DecideRequest (shared_store memory_store) rid status dev now (stalled_between e m) = (n1, r) \<and>
    seen op n1 = m \<and> last (current n1) = e m"
  using assms by (simp add: shared_store_def shared_call_def stalled_between_def current_def seen_def)

text \<open>C20: A late verdict can be answered with an outcome that is not the recorded one. A request is still pending
  when its time is over. Another admin's approval has read the clock in time and stalls. A second verdict finds
  the request expired and pending; then the approval lands, and marking the request as timed out changes nothing.
  Still the second admin is told that the request timed out, while it is recorded as approved.\<close>

theorem late_verdict_race:
  assumes h: "h_store h = shared_store memory_store"
    and body: "decodeJSON (js_verdict (h_json h)) (hq_Body r) = Inr body"
    and rid: "rid = ToLower (vb_RequestID body)" "isUUID rid"
    and st: "verdict_status (vb_Verdict body) = Some status"
    and n: "n = stalled_between (stalled_verdict rid other t) m"
    and ok: "verdict_ttl body = Inr ttl" "verdict_device (h_store h) body n = Inr dev"
    and row: "map_of (m_requests m) rid = Some q" "rq_Status q = StatusPending" "t < rq_ExpiresAt q" "rq_ExpiresAt q \<le> cx_now cx"
  shows "\<exists>n' c q'. verdict h cx r p n = (n', [], Reply 409 (ConflictOut c)) \<and> vc_Status c = StatusTimeout \<and>
    map_of (m_requests (sh_now n')) rid = Some q' \<and> rq_Status q' = StatusApproved \<and>
    rq_DecidedBy q' = Some DecidedByAdmin \<and> rq_DecidedAt q' = Some t"
proof -
  let ?S = "shared_store memory_store"
  let ?e = "stalled_verdict rid other t"
  have start: "verdict h cx r p n = verdict_decide h cx body rid status dev ttl n"
    using body rid st ok by (simp add: verdict_def)
  have "st_DecideRequest memory_store rid status dev (cx_now cx) m = (m, Inl ErrAlreadyDecided)"
    using row by (simp add: wiring mem_DecideRequest_def)
  from stalled_run [OF this, of ?e "''RequestByID''"] n obtain n1 where
    n1: "st_DecideRequest ?S rid status dev (cx_now cx) n = (n1, Inl ErrAlreadyDecided)"
    "seen ''RequestByID'' n1 = m" "last (current n1) = ?e m" by blast
  define q' where "q' = q\<lparr> rq_Status := StatusApproved, rq_DecidedBy := Some DecidedByAdmin,
                           rq_DecidedByDevice := other, rq_DecidedAt := Some t \<rparr>"
  have e: "map_of (m_requests (?e m)) rid = Some q'"
    using row by (simp add: stalled_verdict_def mem_DecideRequest_def Let_def q'_def)
  then have "st_MarkTimeout memory_store rid (cx_now cx) (?e m) = (?e m, Inr False)"
    by (simp add: wiring mem_MarkTimeout_def q'_def enums)
  then obtain n2 where n2: "st_MarkTimeout ?S rid (cx_now cx) n1 = (n2, Inr False)" "sh_now n2 = ?e m"
    by (simp add: shared_store_def shared_call_def n1(3))
  have "\<exists>v. st_RequestByID ?S rid n1 = Inr v \<and> rq_Status v = StatusPending"
    using row by (simp add: shared_store_def n1(2) wiring mem_RequestByID_def)
  then have "\<exists>c. verdictConflict ?S rid (cx_now cx) n1 = (n2, Reply 409 (ConflictOut c)) \<and> vc_Status c = StatusTimeout"
    using n2(1) by (auto simp: verdictConflict_def)
  with n1(1) h start have "\<exists>c. verdict h cx r p n = (n2, [], Reply 409 (ConflictOut c)) \<and> vc_Status c = StatusTimeout"
    by (auto simp: verdict_decide_def enums)
  with n2(2) e show ?thesis by (auto simp: q'_def)
qed

text \<open>The request of the example expires after 30 seconds; the approval read the clock at 29, the denial at 40.\<close>

definition ex_late_handler :: "memory shared Handler" where
  "ex_late_handler = \<lparr> h_store = shared_store memory_store, h_push = None, h_geo = None, h_adminHash = [],
     h_rules = rules_DefaultConfig, h_cfg = handler_DefaultConfig, h_json = ex_codec (ex_body ''bob'') (ex_verdict VerdictDeny),
     h_FormatTime = (\<lambda>_. []), h_ParseTime = (\<lambda>_. None) \<rparr>"

definition ex_late_ctx :: "memory shared Ctx" where
  "ex_late_ctx = \<lparr> cx_touch = 40 * Second, cx_now = 40 * Second, cx_rules = 40 * Second, cx_nid = ''n1'', cx_bid = ''b1'',
     cx_sched = [], cx_late = 0 \<rparr>"

theorem late_verdict_race_witness:
  "\<exists>n' c q'. verdict ex_late_handler ex_late_ctx (wire_post ''adm'' ''x'') None
      (stalled_between (stalled_verdict ex_rid None (29 * Second)) ex_mem) = (n', [], Reply 409 (ConflictOut c)) \<and>
    vc_Status c = StatusTimeout \<and> map_of (m_requests (sh_now n')) ex_rid = Some q' \<and> rq_Status q' = StatusApproved \<and>
    rq_DecidedBy q' = Some DecidedByAdmin \<and> rq_DecidedAt q' = Some (29 * Second)"
proof (rule late_verdict_race [where body = "ex_verdict VerdictDeny" and ttl = 0 and dev = None and q = ex_pending])
  show "map_of (m_requests ex_mem) ex_rid = Some ex_pending" by (simp add: ex_mem_def)
qed (simp_all add: ex_late_handler_def ex_late_ctx_def ex_codec_def decodeJSON_def maxBodyBytes_def wire_post_def ex_rid_uuid
       verdict_status_def verdict_ttl_def verdict_device_def ex_pending_def)

end
