(* ===== verification/Postgres_Access.thy ===== *)
theory Postgres_Access
  imports Truthful Login_Props Postgres_Props
begin

text \<open>
  The login path on the PostgreSQL store, with everything that can go wrong there: failing statements,
  statements that took effect although an error came back, and other connections at work between two
  statements. A connection is an environment whose other connections run store operations; the contract
  \<open>truthful_store\<close> is discharged for it, so the login lemmas hold in production.
\<close>

section \<open>Rows of the requests table\<close>

definition pg_row :: "pg_db \<Rightarrow> string \<Rightarrow> Request option" where
  "pg_row db rid = List.find (\<lambda>r. rq_ID r = rid) (pg_requests db)"

lemma pg_row_abs: "map_of (m_requests (pg_abs db)) = pg_row db"
  by (simp add: pg_row_def fun_eq_iff)

lemma steps_evolve:
  assumes "mem_steps (pg_abs db) (pg_abs db')"
  shows "rows_evolve (pg_row db) (pg_row db')"
  using mem_steps_evolve [OF assms] by (simp only: pg_row_abs)

lemma steps_ok: "mem_steps (pg_abs db) (pg_abs db') \<Longrightarrow> pg_ok db \<Longrightarrow> pg_ok db'"
  unfolding pg_ok_def by (rule mem_steps_inv)

lemma pg_row_id: "pg_row db rid = Some r \<Longrightarrow> rq_ID r = rid"
  by (auto simp: pg_row_def dest: find_SomeD)

lemma pg_RequestByID_row:
  assumes "pg_RequestByID E rid db = Inr v" "pe_uuid E rid = Some rid"
  shows "\<exists>r. pg_row db rid = Some r \<and> v = requestSelect db r"
  using assms
  by (auto simp: pg_RequestByID_def pg_query_def with_uuid_def sel_row_def pg_row_def split: if_splits sum.splits option.splits)

lemma requestSelect_same: "same_login r (requestSelect db r)" "same_decision r (requestSelect db r)"
  by (simp_all add: requestSelect_def same_login_def same_decision_def)

section \<open>The statements of a login\<close>

lemma pg_TouchServer_tables:
  assumes "pg_TouchServer E sid now db = (db', e)"
  shows "pg_requests db' = pg_requests db \<and> pg_whitelist db' = pg_whitelist db"
proof -
  obtain r where "pg_stmt E ''touch server'' (\<lambda>db. with_uuid E sid (\<lambda>u.
         let P = (\<lambda>s. sv_ID s = u)
         in Inr (db\<lparr> pg_servers := upd_rows P (\<lambda>s. s\<lparr> sv_LastSeenAt := Some (pe_time E now) \<rparr>) (pg_servers db) \<rparr>,
                 count_rows P (pg_servers db)))) db = (db', r)"
    using pg_affected_state [OF assms [unfolded pg_TouchServer_def]] by blast
  then show ?thesis by (cases rule: pg_stmt_cases) (auto simp: casts Let_def)
qed

lemma pg_RecordBlockedIPHit_tables:
  assumes "pg_RecordBlockedIPHit E bid now db = (db', e)"
  shows "pg_requests db' = pg_requests db \<and> pg_whitelist db' = pg_whitelist db"
proof -
  obtain r where "pg_stmt E ''record blocked ip hit'' (\<lambda>db. with_uuid E bid (\<lambda>u.
         let P = (\<lambda>b. bi_ID b = u)
         in if list_ex (\<lambda>b. P b \<and> \<not> int4 (bi_HitCount b + 1)) (pg_blocked db) then Inl pgOutOfRange
            else Inr (db\<lparr> pg_blocked := upd_rows P (\<lambda>b. b\<lparr> bi_HitCount := bi_HitCount b + 1,
                            bi_LastHitAt := Some (pe_time E now) \<rparr>) (pg_blocked db) \<rparr>,
                      count_rows P (pg_blocked db)))) db = (db', r)"
    using pg_affected_state [OF assms [unfolded pg_RecordBlockedIPHit_def]] by blast
  then show ?thesis by (cases rule: pg_stmt_cases) (auto simp: casts Let_def split: if_splits)
qed

lemma pg_FindWhitelist_covers:
  assumes "pg_FindWhitelist E user c sid now db = Inr w" "pe_uuid E sid = Some sid"
  shows "\<exists>e\<in>set (pg_whitelist db). wl_covers user c sid (pe_time E now) e"
proof -
  let ?P = "\<lambda>e. wl_Username e = user \<and> wl_Context e = c \<and> (wl_ServerID e = Some sid \<or> wl_ServerID e = None) \<and>
    unexpired (wl_ExpiresAt e) (pe_time E now)"
  let ?rows = "sort_key (\<lambda>e. wl_ServerID e = None) (filter ?P (pg_whitelist db))"
  have "?rows \<noteq> []"
  proof
    assume "?rows = []"
    with assms show False by (simp add: pg_FindWhitelist_def pg_query_def with_uuid_def Let_def split: if_splits)
  qed
  then have "hd ?rows \<in> set ?rows" by (rule hd_in_set)
  then have "hd ?rows \<in> set (filter ?P (pg_whitelist db))" by (simp only: set_sort)
  then obtain e where "e \<in> set (filter ?P (pg_whitelist db))" by blast
  then show ?thesis by (auto simp: wl_covers_unexpired)
qed

lemma insert_request_row:
  assumes "insert_request E nid r db = Inr (db', x)" "pg_row db nid = None" "pe_uuid E (rq_ServerID r) = Some (rq_ServerID r)"
  shows "x = nid \<and> (\<exists>r0. pg_row db' nid = Some r0 \<and> rq_ID r0 = nid \<and> rq_ServerID r0 = rq_ServerID r \<and>
    rq_Context r0 = rq_Context r \<and> rq_Username r0 = rq_Username r \<and> (rq_Status r \<noteq> [] \<longrightarrow> rq_Status r0 = rq_Status r))"
proof -
  obtain ip dev where db': "x = nid" "db' = db\<lparr> pg_requests := pg_requests db @
         [r\<lparr> rq_ID := nid, rq_ServerID := rq_ServerID r, rq_SourceIP := ip,
             rq_Status := (if rq_Status r = [] then StatusPending else rq_Status r),
             rq_DecidedByDevice := dev, rq_CreatedAt := pe_time E (rq_CreatedAt r),
             rq_ExpiresAt := pe_time E (rq_ExpiresAt r),
             rq_DecidedAt := map_option (pe_time E) (rq_DecidedAt r) \<rparr>] \<rparr>"
    using assms(1,3) unfolding insert_request_def Let_def casts by (auto split: if_split_asm)
  have "List.find P (xs @ [y]) = (if List.find P xs = None then (if P y then Some y else None) else List.find P xs)"
    for P and xs :: "Request list" and y by (induction xs) auto
  with assms(2) show ?thesis by (simp add: db' pg_row_def)
qed

section \<open>A connection\<close>

locale pg_connection =
  fixes E :: pg_env
  assumes calm: "pg_calm E"
begin

lemma CreateRequest_row:
  assumes "pg_ok db" "pg_row db nid = None" "pe_uuid E nid = Some nid" "pe_uuid E (rq_ServerID r) = Some (rq_ServerID r)"
    and run: "pg_CreateRequest E nid r db = (db', Inr v)"
  shows "pg_ok db' \<and> (\<exists>r0 r'. pg_row db' nid = Some r' \<and> rq_ID r0 = nid \<and> rq_ServerID r0 = rq_ServerID r \<and>
    rq_Context r0 = rq_Context r \<and> rq_Username r0 = rq_Username r \<and> (rq_Status r \<noteq> [] \<longrightarrow> rq_Status r0 = rq_Status r) \<and>
    same_login r0 r' \<and> decision_step r0 r' \<and> same_login r' v \<and> same_decision r' v)"
proof -
  have fresh: "nid \<notin> rq_ID ` set (pg_requests db)" using assms(2) by (auto simp: pg_row_def find_None_iff)
  obtain db1 x where ins: "insert_request E nid r db = Inr (db1, x)" "db' = pe_between E db1"
    "pg_RequestByID E x db' = Inr v"
    using run by (auto simp: pg_CreateRequest_def pg_stmt_def Let_def split: sum.splits prod.splits if_splits)
  from insert_request_row [OF ins(1) assms(2,4)] obtain r0 where r0: "x = nid" "pg_row db1 nid = Some r0" "rq_ID r0 = nid"
    "rq_ServerID r0 = rq_ServerID r" "rq_Context r0 = rq_Context r" "rq_Username r0 = rq_Username r"
    "rq_Status r \<noteq> [] \<longrightarrow> rq_Status r0 = rq_Status r"
    by blast
  have ok: "pg_ok db1" by (rule pg_sim_ok [OF insert_request_sim [OF ins(1) fresh] assms(1)])
  then have steps: "mem_steps (pg_abs db1) (pg_abs db')" using calm by (simp add: pg_calm_def ins(2))
  from rows_evolveD [OF steps_evolve [OF steps] r0(2)] pg_RequestByID_row [OF ins(3) [unfolded r0(1)] assms(3)]
  show ?thesis using r0 steps_ok [OF steps ok] requestSelect_same by auto
qed

lemma MarkTimeout_row:
  assumes "pg_ok db" "pe_uuid E rid = Some rid" "pg_row db rid = Some r"
    and run: "pg_MarkTimeout E rid now db = (db', Inr marked)"
  shows "pg_ok db' \<and> rows_evolve (pg_row db) (pg_row db') \<and>
    (\<exists>r'. pg_row db' rid = Some r' \<and> rq_Status r' \<noteq> StatusPending \<and>
       (marked \<longrightarrow> rq_Status r' = StatusTimeout \<and> rq_DecidedAt r' = None))"
proof -
  have steps: "mem_steps (pg_abs db) (pg_abs db')"
    using MarkTimeout_sim [OF assms(1) calm, of rid now] run by simp
  note ev = steps_evolve [OF steps]
  let ?P = "\<lambda>r. rq_ID r = rid \<and> rq_Status r = StatusPending"
  let ?f = "\<lambda>r. r\<lparr> rq_Status := StatusTimeout, rq_DecidedBy := Some DecidedByTimeout, rq_DecidedAt := None \<rparr>"
  define db1 where "db1 = db\<lparr> pg_requests := upd_rows ?P ?f (pg_requests db) \<rparr>"
  have st: "timeout_statement E rid db = Inr (db1, count_rows ?P (pg_requests db))"
    using assms(2) by (simp add: timeout_statement_def with_uuid_def db1_def Let_def)
  note n = count_rows_id [OF pg_ok_distinct(3) [OF assms(1)], of rid "\<lambda>r. rq_Status r = StatusPending"]
  show ?thesis
  proof (cases "rq_Status r = StatusPending")
    case True
    then have "db' = db1" "marked"
      using run st n assms(3)
      by (auto simp: pg_MarkTimeout_def pg_stmt_def pg_row_def split: if_splits sum.splits prod.splits)
    moreover have "pg_row db1 rid = Some (?f r)"
      using rows_update_id [OF pg_ok_distinct(3) [OF assms(1)], of ?f rid "\<lambda>r. rq_Status r = StatusPending"] True assms(3)
      by (simp add: db1_def pg_row_def map_of_rows [symmetric] del: map_of_rows)
    ultimately show ?thesis using steps_ok [OF steps assms(1)] ev by (simp add: enums)
  next
    case False
    then have "\<not> marked"
      using run st n assms(3)
      by (auto simp: pg_MarkTimeout_def pg_stmt_def pg_row_def Let_def split: if_splits sum.splits prod.splits)
    with rows_evolveD [OF ev assms(3)] False steps_ok [OF steps assms(1)] ev show ?thesis
      by (auto simp: decision_step_def same_decision_def)
  qed
qed

end

sublocale pg_connection \<subseteq> pg_true: truthful_store "postgres_store E" pg_ok pg_row
  "\<lambda>db. set (pg_whitelist db)" "\<lambda>db. set (pg_servers db)" "\<lambda>s. pe_uuid E s = Some s" "pe_time E"
proof (unfold_locales, goal_cases)
  case (1 hash db srv)
  then show ?case
    by (auto simp: postgres_store_def pg_ServerByTokenHash_def pg_query_def sel_row_def
        split: if_splits sum.splits option.splits dest: find_SomeD)
next
  case (2 db sid now db' e)
  then have run: "pg_TouchServer E sid now db = (db', e)" by (simp add: postgres_store_def)
  show ?case
    using pg_TouchServer_tables [OF run] pg_sim_ok [OF TouchServer_sim [OF 2(1) run] 2(1)] by (auto simp: pg_row_def fun_eq_iff)
next
  case (3 db bid now db' e)
  then have run: "pg_RecordBlockedIPHit E bid now db = (db', e)" by (simp add: postgres_store_def)
  show ?case
    using pg_RecordBlockedIPHit_tables [OF run] pg_sim_ok [OF RecordBlockedIPHit_sim [OF 3(1) run] 3(1)]
    by (auto simp: pg_row_def fun_eq_iff)
next
  case (4 sid u c now db w)
  then show ?case using pg_FindWhitelist_covers by (simp add: postgres_store_def)
next
  case (5 rid db v)
  then show ?case using pg_RequestByID_row [of E rid db v] requestSelect_same by (auto simp: postgres_store_def)
next
  case (6 db nid r db' v)
  then show ?case using CreateRequest_row by (simp add: postgres_store_def)
next
  case (7 db rid r now db' marked)
  then show ?case using MarkTimeout_row [of db rid r now db' marked] by (simp add: postgres_store_def)
qed

context pg_connection
begin

lemmas served_login_pg = pg_true.served_login_true

end

text \<open>Other connections, between the calls of the handler and while it sleeps: any operations of the store, for
  other rows than the new one.\<close>

definition pg_other :: "string \<Rightarrow> (pg_db \<Rightarrow> pg_db) \<Rightarrow> bool" where
  "pg_other nid e \<longleftrightarrow>
     (\<forall>db. pg_steps db (e db) \<and> (nid \<notin> rq_ID ` set (pg_requests db) \<longrightarrow> nid \<notin> rq_ID ` set (pg_requests (e db))))"

lemma pg_row_None: "pg_row db nid = None \<longleftrightarrow> nid \<notin> rq_ID ` set (pg_requests db)"
  by (force simp: pg_row_def find_None_iff)

lemma pg_other_ok: "pg_other nid e \<Longrightarrow> others_ok pg_ok pg_row nid e"
  using pg_steps_sim steps_evolve unfolding pg_other_def others_ok_def pg_row_None by blast

interpretation pg_microseconds: pg_connection ex_pg_env
  by unfold_locales (rule ex_pg_calm)

section \<open>A login in production\<close>

text \<open>C6: On the PostgreSQL store an answer to an agent is the recorded decision, whatever fails and whatever
  happens at the same time. Statements may fail, also after they took effect, and other connections run any
  operations between any two statements of the handler and while it sleeps. Still, a 200 answer is the decision
  in the row of the request, for a server whose token hash was presented, and an approval was made by an admin
  before the request expired, or is covered by an unexpired whitelist entry, or answers a request in notify
  mode. The server, the entry and the row were in their tables in states the database went through during the
  call. The ids in the servers table and the id of the new row are those the database generated, in the
  form it prints them.\<close>

theorem postgres_login_has_ground:
  assumes "pg_calm E" "pg_ok (sh_now n)" "h_store h = shared_store (postgres_store E)"
    and "cx_nid cx \<notin> rq_ID ` set (pg_requests (sh_now n))" "pe_uuid E (cx_nid cx) = Some (cx_nid cx)"
    and "list_all (\<lambda>db. list_all (\<lambda>srv. pe_uuid E (sv_ID srv) = Some (sv_ID srv)) (pg_servers db)) (current n)"
    and "others_all (pg_other (cx_nid cx)) (sh_next n)" "list_all (shared_event (pg_other (cx_nid cx))) (cx_sched cx)"
    and "serve h cx (wire_post token bytes) n = (n', sent, Reply 200 (AccessOut a))"
  shows "\<exists>t0 t1 t2 srv raw body r. {t0, t1, t2} \<subseteq> set (visited n') \<and> srv \<in> set (pg_servers t0) \<and>
    HashToken (TrimSpace token) = sv_TokenHash srv \<and>
    js_access (h_json h) bytes = Some raw \<and> normalizeAccessRequest raw (sv_Name srv) = Inr body \<and>
    r \<in> set (pg_requests t2) \<and> rq_ID r = cx_nid cx \<and>
    access_answer (set (pg_whitelist t1)) (pe_time E (cx_rules cx)) body srv r a"
proof -
  have new: "pg_row (sh_now n) (cx_nid cx) = None" using assms(4) by (simp add: pg_row_None)
  have g: "good pg_ok pg_row (cx_nid cx) n"
    using assms(2) others_all_mono [OF pg_other_ok assms(7)] by (simp add: good_def)
  have evs: "list_all (shared_event (others_ok pg_ok pg_row (cx_nid cx))) (cx_sched cx)"
    using shared_events_mono [OF pg_other_ok assms(8)] by simp
  obtain t0 t1 t2 srv raw body r where "{t0, t1, t2} \<subseteq> set (visited n')" "srv \<in> set (pg_servers t0)"
    "HashToken (TrimSpace token) = sv_TokenHash srv"
    "js_access (h_json h) bytes = Some raw" "normalizeAccessRequest raw (sv_Name srv) = Inr body"
    "pg_row t2 (cx_nid cx) = Some r" "access_answer (set (pg_whitelist t1)) (pe_time E (cx_rules cx)) body srv r a"
    using pg_connection.served_login_pg [OF pg_connection.intro [OF assms(1)] g new assms(3,5) _ evs assms(9)] assms(6)
    by (auto simp: list_all_iff)
  then show ?thesis using find_SomeD [of _ "pg_requests t2" r] unfolding pg_row_def by blast
qed

text \<open>A login of alice during which an admin revokes her entry: after the rules have found it, before the row of
  the request is written.\<close>

definition ex_pg_handler :: "pg_db shared Handler" where
  "ex_pg_handler = \<lparr> h_store = shared_store (postgres_store ex_pg_env), h_push = Some (\<lambda>_ _. True), h_geo = None,
     h_adminHash = [], h_rules = rules_DefaultConfig, h_cfg = handler_DefaultConfig,
     h_json = ex_codec (ex_body ''alice'') (ex_verdict ''deny''), h_FormatTime = (\<lambda>_. []), h_ParseTime = (\<lambda>_. None) \<rparr>"

definition ex_pg_ctx :: "pg_db shared Ctx" where
  "ex_pg_ctx = \<lparr> cx_touch = Second, cx_now = Second, cx_rules = Second, cx_nid = ''n1'', cx_bid = ''b1'', cx_sched = [],
     cx_late = 0 \<rparr>"

definition ex_pg_start :: pg_db where
  "ex_pg_start = pg_New\<lparr> pg_servers := [ex_server], pg_whitelist := [ex_entry] \<rparr>"

definition ex_revoke :: "pg_db \<Rightarrow> pg_db" where
  "ex_revoke db = fst (pg_DeleteWhitelist ex_pg_env (wl_ID ex_entry) db)"

definition ex_pg_shared :: "pg_db shared" where
  "ex_pg_shared = \<lparr> sh_now = ex_pg_start,
     sh_next = [\<lparr> ot_steps = [], ot_at = (\<lambda>_. 0) \<rparr>, \<lparr> ot_steps = [ex_revoke], ot_at = (\<lambda>_. 0) \<rparr>], sh_log = [] \<rparr>"

lemma ex_pg_start_ok: "pg_ok ex_pg_start"
  by (simp add: pg_ok_def mem_inv_def pg_abs_def ex_pg_start_def pg_New_def rows_map_def keyed_by_def unique_on_def
      map_keys_def wl_key_def ex_entry_def ex_server_def new_entry_def)

definition ex_pg_touched :: "pg_db shared" where
  "ex_pg_touched = \<lparr> sh_now = ex_pg_start\<lparr> pg_servers := [ex_server\<lparr> sv_LastSeenAt := Some Second \<rparr>] \<rparr>,
     sh_next = [\<lparr> ot_steps = [ex_revoke], ot_at = (\<lambda>_. 0) \<rparr>], sh_log = [ex_pg_start] \<rparr>"

lemma ex_pg_seen: "seen op ex_pg_shared = ex_pg_start" "last (current ex_pg_shared) = ex_pg_start"
  "visited ex_pg_shared = [ex_pg_start]" "seen op ex_pg_touched = sh_now ex_pg_touched"
  "last (current ex_pg_touched) = ex_revoke (sh_now ex_pg_touched)"
  by (simp_all add: seen_def visited_def current_def ex_pg_shared_def ex_pg_touched_def)

lemma ex_pg_revoked: "ex_revoke (sh_now ex_pg_touched) = (sh_now ex_pg_touched)\<lparr> pg_whitelist := [] \<rparr>"
  by (simp add: ex_revoke_def ex_pg_touched_def ex_pg_start_def pg_DeleteWhitelist_def pg_affected_def pg_stmt_def
      with_uuid_def ex_pg_env_def count_rows_def)

lemma ex_pg_alice:
  "\<exists>n' sent a. serve ex_pg_handler ex_pg_ctx (wire_post ''tok'' ''x'') ex_pg_shared = (n', sent, Reply 200 (AccessOut a)) \<and>
     ar_Verdict a = VerdictApprove \<and> pg_whitelist (sh_now n') = []"
proof -
  let ?S = "shared_store (postgres_store ex_pg_env)"
  let ?db = "sh_now ex_pg_touched"
  have touch: "st_TouchServer (postgres_store ex_pg_env) (sv_ID ex_server) Second ex_pg_start = (?db, None)"
    by (simp add: postgres_store_def pg_TouchServer_def pg_affected_def pg_stmt_def with_uuid_def upd_rows_def
        count_rows_def ex_pg_env_def ex_pg_start_def ex_server_def ex_pg_touched_def)
  have touched: "st_TouchServer ?S (sv_ID ex_server) Second ex_pg_shared = (ex_pg_touched, None)"
    by (simp add: shared_store_def shared_call_def ex_pg_seen touch)
       (simp add: ex_pg_touched_def ex_pg_shared_def)
  have lookup: "st_ServerByTokenHash ?S (HashToken ''tok'') ex_pg_shared = Inr ex_server"
    by (simp add: shared_store_def ex_pg_seen postgres_store_def pg_ServerByTokenHash_def pg_query_def sel_row_def
        ex_pg_env_def ex_pg_start_def ex_server_def)
  have sel: "h_store ex_pg_handler = ?S" "h_adminHash ex_pg_handler = []" "cx_touch ex_pg_ctx = Second"
    by (simp_all add: ex_pg_handler_def ex_pg_ctx_def)
  have au: "authenticate ex_pg_handler ex_pg_ctx (wire_post ''tok'' ''x'') ex_pg_shared =
      (ex_pg_touched, Inr \<lparr> pr_Kind = KindServer, pr_Server = Some ex_server \<rparr>)"
    by (simp add: authenticate_def Authenticate_def wire_post_def BearerToken_client trim_tok ConstantTimeCompare_eq
        sel lookup touched) (simp add: ex_server_def)
  have dec: "decodeJSON (js_access (h_json ex_pg_handler)) (hq_Body (wire_post ''tok'' ''x'')) = Inr (ex_body ''alice'')"
    by (simp add: decodeJSON_def ex_pg_handler_def ex_codec_def maxBodyBytes_def wire_post_def)
  have geo: "access_geo ex_pg_handler (ex_body ''alice'') = None" by (simp add: access_geo_def ex_body_def)
  then have run: "serve ex_pg_handler ex_pg_ctx (wire_post ''tok'' ''x'') ex_pg_shared =
      access_decide ex_pg_handler ex_pg_ctx ex_server (ex_body ''alice'') ex_pg_touched"
    using ex_normalize [OF _ ex_trim(1)] dec
    by (simp add: serve_post requireServer_def au accessRequest_def) (simp add: ex_server_def)
  have ev: "Evaluate ?S Second (access_input ex_server (ex_body ''alice'') None) ex_pg_touched =
      (ex_pg_touched, Inr (outcome StatusWhitelisted (Some DecidedByWhitelist)\<lparr>oc_Whitelist := Some (whitelistSelect ?db ex_entry)\<rparr>))"
    by (simp add: Evaluate_def evaluate_ip_def evaluate_geo_def evaluate_whitelist_def access_input_def ex_body_def
        ToUpper_def strings_Map_def shared_store_def ex_pg_seen)
       (simp add: postgres_store_def pg_FindWhitelist_def pg_query_def with_uuid_def ex_pg_env_def
        ex_pg_start_def ex_pg_touched_def ex_entry_def new_entry_def ex_server_def Let_def unexpired_def)
  define oc where "oc = outcome StatusWhitelisted (Some DecidedByWhitelist)\<lparr>oc_Whitelist := Some (whitelistSelect ?db ex_entry)\<rparr>"
  define row where "row = access_row ex_pg_handler Second ex_server (ex_body ''alice'') None oc"
  obtain db2 c where ins: "st_CreateRequest (postgres_store ex_pg_env) ''n1'' row (?db\<lparr> pg_whitelist := [] \<rparr>) = (db2, Inr c)"
    "rq_Status c = StatusWhitelisted" "pg_whitelist db2 = []"
    by (simp add: postgres_store_def pg_CreateRequest_def pg_stmt_def insert_request_def row_def oc_def access_row_def Let_def
        with_uuid_def opt_cast_def ex_pg_env_def ex_body_def ValidContext_def ValidStatus_def valid_decided_by_def has_server_def
        has_device_def ex_server_def ex_pg_touched_def ex_pg_start_def pg_New_def enums Outcome_Pending_def
        pg_RequestByID_def pg_query_def sel_row_def requestSelect_def)
  obtain n2 where "st_CreateRequest ?S ''n1'' row ex_pg_touched = (n2, Inr c)" "sh_now n2 = db2"
    by (simp add: shared_store_def shared_call_def ex_pg_seen ex_pg_revoked ins(1))
  then show ?thesis
    unfolding run using ins(2,3) ev
    by (simp add: access_decide_def geo sel ex_pg_ctx_def row_def [symmetric] oc_def [symmetric])
       (simp add: access_created_def oc_def Outcome_Pending_def answerAccessRequest_def VerdictFor_def enums)
qed

lemma ex_revoke_other: "pg_other nid ex_revoke"
proof -
  have "pg_steps db (ex_revoke db)" for db
    unfolding ex_revoke_def by (rule pg_steps.one_more [OF pg_steps.none]) (rule pg_step.DeleteWhitelist)
  moreover have "pg_requests (ex_revoke db) = pg_requests db" for db
    by (simp add: ex_revoke_def pg_DeleteWhitelist_def pg_affected_def pg_stmt_def with_uuid_def ex_pg_env_def
        split: prod.split sum.split)
  ultimately show ?thesis by (simp add: pg_other_def)
qed

theorem postgres_login_has_ground_witness:
  "\<exists>n' sent a t1 srv body r. serve ex_pg_handler ex_pg_ctx (wire_post ''tok'' ''x'') ex_pg_shared = (n', sent, Reply 200 (AccessOut a)) \<and>
     ar_Verdict a = VerdictApprove \<and> pg_whitelist (sh_now n') = [] \<and> t1 \<in> set (visited n') \<and>
     rq_ID r = ''n1'' \<and> access_answer (set (pg_whitelist t1)) Second body srv r a"
proof -
  obtain n' sent a where run: "serve ex_pg_handler ex_pg_ctx (wire_post ''tok'' ''x'') ex_pg_shared =
      (n', sent, Reply 200 (AccessOut a))" "ar_Verdict a = VerdictApprove" "pg_whitelist (sh_now n') = []"
    using ex_pg_alice by blast
  have "\<exists>t0 t1 t2 srv raw body r. {t0, t1, t2} \<subseteq> set (visited n') \<and> srv \<in> set (pg_servers t0) \<and>
    HashToken (TrimSpace ''tok'') = sv_TokenHash srv \<and>
    js_access (h_json ex_pg_handler) ''x'' = Some raw \<and> normalizeAccessRequest raw (sv_Name srv) = Inr body \<and>
    r \<in> set (pg_requests t2) \<and> rq_ID r = cx_nid ex_pg_ctx \<and>
    access_answer (set (pg_whitelist t1)) (pe_time ex_pg_env (cx_rules ex_pg_ctx)) body srv r a"
  proof (rule postgres_login_has_ground [OF ex_pg_calm _ _ _ _ _ _ _ run(1)])
    show "others_all (pg_other (cx_nid ex_pg_ctx)) (sh_next ex_pg_shared)"
      by (simp add: others_all_def ex_pg_shared_def ex_revoke_other)
  qed (simp_all add: ex_pg_handler_def ex_pg_ctx_def ex_pg_shared_def current_def ex_pg_start_ok,
      simp_all add: ex_pg_start_def pg_New_def ex_pg_env_def)
  moreover have "pe_time ex_pg_env (cx_rules ex_pg_ctx) = Second" "cx_nid ex_pg_ctx = ''n1''"
    by (simp_all add: ex_pg_env_def ex_pg_ctx_def)
  ultimately show ?thesis using run by auto
qed

end
