(* ===== verification/Verdict_Truth.thy ===== *)
theory Verdict_Truth
  imports Shared_Props Postgres_Access
begin

text \<open>
  What an admin is told, on a store that may fail and that others use at the same time. The contract of
  \<open>Truthful\<close> is extended by the laws of a verdict; the answers of \<^verbatim>\<open>POST /verdict\<close> are then the recorded
  decisions, with the exception \<open>Shared_Props\<close> shows: a 409 that says timeout.
\<close>

section \<open>The contract of a verdict\<close>

locale truthful_verdicts = truthful_store +
  assumes DecideRequest_evolves:
      "inv s \<Longrightarrow> status \<in> {StatusApproved, StatusDenied} \<Longrightarrow> st_DecideRequest S rid status dev now s = (s', x) \<Longrightarrow>
       inv s' \<and> rows_evolve (row s) (row s')"
    and DecideRequest_true:
      "inv s \<Longrightarrow> canon rid \<Longrightarrow> status \<in> {StatusApproved, StatusDenied} \<Longrightarrow>
       st_DecideRequest S rid status dev now s = (s', Inr v) \<Longrightarrow>
       \<exists>r. row s' rid = Some r \<and> rq_ID r = rid \<and> admin_decided r \<and> rq_Status r = status \<and> same_login r v \<and> same_decision r v"
begin

text \<open>The writes after the decision change nothing of what has been visited.\<close>

lemma verdict_after_visited:
  assumes "h_store h = shared_store S" "verdict_after h cx body v dev ttl n = (n', sent, rep)"
  shows "set (visited n) \<subseteq> set (visited n')"
proof -
  have w: "set (visited n) \<subseteq> set (visited (fst (verdict_whitelist h cx body v dev ttl n)))" for n
    using visited_call [of n "st_UpsertWhitelist S (cx_nid cx) (verdict_entry v dev ttl (cx_now cx)) (cx_now cx)"] assms(1)
    by (auto simp: verdict_whitelist_def shared_store_def split: prod.splits sum.splits)
  have d: "set (visited n) \<subseteq> set (visited (fst (RecordDenial (shared_store S) cfg nid ip now n)))" for cfg nid ip now n
    by (simp add: RecordDenial_def shared_store_def call_run(3) split: prod.split sum.split option.split)
  have denial: "RecordDenial (shared_store S) cfg nid ip now n = (n1, x) \<Longrightarrow> set (visited n) \<subseteq> set (visited n1)" for cfg nid ip now n n1 x
    using d [of n cfg nid ip now] by simp
  have b: "set (visited n) \<subseteq> set (visited (fst (verdict_autoblock h cx v n)))" for n
    using assms(1) by (simp add: verdict_autoblock_def denial split: prod.split sum.split option.split)
  show ?thesis
    using assms(2) w [of n] b by (fastforce simp: verdict_after_def Let_def split: prod.splits sum.splits)
qed

text \<open>A conflict is a final state of the row, and any outcome but a timeout is the recorded one.\<close>

lemma verdictConflict_true:
  assumes g: "good inv row nid n" and "canon rid"
    and run: "verdictConflict (shared_store S) rid now n = (n', Reply 409 (ConflictOut c))"
  shows "\<exists>t\<in>set (visited n'). \<exists>r. row t rid = Some r \<and> rq_Status r \<noteq> StatusPending \<and>
    (vc_Status c \<noteq> StatusTimeout \<longrightarrow> vc_Status c = rq_Status r \<and> vc_DecidedAt c = rq_DecidedAt r)"
proof -
  let ?t = "seen ''RequestByID'' n"
  obtain v where v: "st_RequestByID S rid ?t = Inr v"
    using run by (auto simp: verdictConflict_def shared_store_def split: sum.splits if_splits)
  from RequestByID_true [OF assms(2) v] obtain r where r: "row ?t rid = Some r" "same_decision r v" by blast
  show ?thesis
  proof (cases "rq_Status v = StatusPending")
    case False
    then have "n' = n" "vc_Status c = rq_Status v" "vc_DecidedAt c = rq_DecidedAt v"
      using run v by (auto simp: verdictConflict_def shared_store_def)
    moreover have "rq_Status r = rq_Status v" "rq_DecidedAt r = rq_DecidedAt v" using r(2) by (simp_all add: same_decision_def)
    ultimately show ?thesis using False r(1) seen_visited [of "''RequestByID''" n] by metis
  next
    case True
    then obtain marked where m: "shared_call (st_MarkTimeout S rid now) n = (n', Inr marked)" and c: "vc_Status c = StatusTimeout"
      using run v by (auto simp: verdictConflict_def shared_store_def split: prod.splits sum.splits)
    note l = good_current [OF g last_current]
    obtain r1 where "row (last (current n)) rid = Some r1"
      using rows_evolveD [OF good_current(4) [OF g seen_current] r(1)] by blast
    from MarkTimeout_true [OF l(1) assms(2) this call_run(1) [OF m]] obtain r2 where
      "row (sh_now n') rid = Some r2" "rq_Status r2 \<noteq> StatusPending" by blast
    then show ?thesis using c now_visited [of n'] by blast
  qed
qed

lemma verdict_decide_true:
  assumes g: "good inv row nid n" and h: "h_store h = shared_store S" and "canon rid" "status \<in> {StatusApproved, StatusDenied}"
    and run: "verdict_decide h cx body rid status dev ttl n = (n', sent, rep)"
  shows "(\<forall>v. rep = Reply 200 (VerdictOut v) \<longrightarrow> vr_RequestID v = rid \<and> vr_Status v = status \<and>
      (\<exists>t\<in>set (visited n'). \<exists>r. row t rid = Some r \<and> admin_decided r \<and> rq_Status r = status \<and> vr_DecidedAt v = rq_DecidedAt r)) \<and>
    (\<forall>c. rep = Reply 409 (ConflictOut c) \<longrightarrow> sent = [] \<and> (\<exists>t\<in>set (visited n'). \<exists>r. row t rid = Some r \<and> rq_Status r \<noteq> StatusPending \<and>
      (vc_Status c \<noteq> StatusTimeout \<longrightarrow> vc_Status c = rq_Status r \<and> vc_DecidedAt c = rq_DecidedAt r)))"
proof -
  obtain n1 x where d: "st_DecideRequest (shared_store S) rid status dev (cx_now cx) n = (n1, x)" by fastforce
  then have "shared_call (st_DecideRequest S rid status dev (cx_now cx)) n = (n1, x)" by (simp add: shared_store_def)
  note dr = call_run [OF this]
  note l = good_current [OF g last_current]
  have g1: "good inv row nid n1" using DecideRequest_evolves [OF l(1) assms(4) dr(1)] good_tl [OF g _ dr(2)] by simp
  show ?thesis
  proof (cases x)
    case (Inr q)
    then have after: "verdict_after h cx body q dev ttl n1 = (n', sent, rep)" using run d h by (simp add: verdict_decide_def)
    from DecideRequest_true [OF l(1) assms(3,4) dr(1) [unfolded Inr]] obtain r where r: "row (sh_now n1) rid = Some r"
      "rq_ID r = rid" "admin_decided r" "rq_Status r = status" "same_login r q" "same_decision r q" by blast
    have t: "sh_now n1 \<in> set (visited n')" using verdict_after_visited [OF h after] now_visited by blast
    have "vr_RequestID v = rid \<and> vr_Status v = status \<and> vr_DecidedAt v = rq_DecidedAt r" if "rep = Reply 200 (VerdictOut v)" for v
      using verdict_after_request [OF after [unfolded that]] r(2,4,5,6) by (simp add: same_login_def same_decision_def)
    moreover have "rep \<noteq> Reply 409 b" for b
      using after by (auto simp: verdict_after_def Let_def split: prod.splits sum.splits)
    ultimately show ?thesis using t r(1,3,4) by blast
  next
    case (Inl e)
    then have "verdictConflict (shared_store S) rid (cx_now cx) n1 = (n', Reply 409 (ConflictOut c)) \<and> sent = []"
      if "rep = Reply 409 (ConflictOut c)" for c
      using run d h that by (auto simp: verdict_decide_def split: if_splits prod.splits)
    moreover have "rep \<noteq> Reply 200 b" for b
      using run d h Inl
      by (auto simp: verdict_decide_def verdictConflict_def Let_def split: if_splits prod.splits sum.splits)
    ultimately show ?thesis using verdictConflict_true [OF g1 assms(3)] by blast
  qed
qed

end

section \<open>Both stores\<close>

interpretation mem_verdicts: truthful_verdicts memory_store mem_inv "\<lambda>m. map_of (m_requests m)"
  "\<lambda>m. snd ` set (m_whitelist m)" "\<lambda>m. snd ` set (m_servers m)" "\<lambda>_. True" "\<lambda>t. t"
proof (unfold_locales, goal_cases)
  case (1 s status rid dev now s' x)
  then show ?case
    using mem_DecideRequest_inv [of s rid status dev now] mem_DecideRequest_evolve [of status s rid dev now]
    by (simp add: wiring)
next
  case (2 s rid status dev now s' v)
  then obtain q where q: "map_of (m_requests s) rid = Some q" "rq_Status q = StatusPending" "now < rq_ExpiresAt q"
    by (auto simp: wiring mem_DecideRequest_def split: option.splits if_splits)
  then have "rq_ID q = rid" using keyed_by_map_of [OF mem_inv_keyed(3) [OF 2(1)]] by blast
  with q 2 show ?case by (auto simp: wiring mem_DecideRequest_def Let_def admin_decided_def)
qed

sublocale pg_connection \<subseteq> pg_verdicts: truthful_verdicts "postgres_store E" pg_ok pg_row
  "\<lambda>db. set (pg_whitelist db)" "\<lambda>db. set (pg_servers db)" "\<lambda>s. pe_uuid E s = Some s" "pe_time E"
proof (unfold_locales, goal_cases)
  case (1 db status rid dev now db' x)
  then show ?case
    using DecideRequest_sim [OF 1(1) calm 1(2), of rid dev now] steps_ok steps_evolve by (auto simp: postgres_store_def)
next
  case (2 db rid status dev now db' v)
  then have "pg_DecideRequest E rid status dev now db = (db', Inr v)" by (simp add: postgres_store_def)
  from confirmed_row [OF 2(1) calm 2(3) this] 2(2) obtain d q r where r: "pe_time E now < rq_ExpiresAt q"
    "List.find (\<lambda>x. rq_ID x = rid) (pg_requests db') = Some r" "v = requestSelect db' r"
    "same_login (decided_row status d (pe_time E now) q) r" "same_decision (decided_row status d (pe_time E now) q) r"
    by auto
  then have d: "rq_Status r = status" "rq_DecidedBy r = Some DecidedByAdmin" "rq_DecidedAt r = Some (pe_time E now)"
    "rq_ExpiresAt r = rq_ExpiresAt q"
    by (simp_all add: decided_row_def same_login_def same_decision_def)
  then have "admin_decided r" using 2(3) r(1) by (simp add: admin_decided_def)
  with r(2,3) d(1) requestSelect_same show ?case using pg_row_id [of db' rid r] by (simp add: pg_row_def)
qed

context pg_connection
begin

lemmas verdict_decide_pg = pg_verdicts.verdict_decide_true

end

section \<open>A verdict in production\<close>

text \<open>C10: What an admin is told about a verdict is what the PostgreSQL store recorded, whatever fails and whatever
  happens at the same time. Statements may fail, also after they took effect, and other connections run any
  operations between any two statements of the handler. Still, a 200 answer names the request and the verdict of
  the call, and this decision was recorded for it, by an admin before the request expired. A 409 notifies nobody;
  the request had been decided or timed out, and when the answer says anything but timeout it is the recorded
  outcome and its time. The row was in its table in a state the database went through during the call.\<close>

theorem postgres_verdict_truthful:
  assumes "pg_calm E" "pg_ok (sh_now n)" "h_store h = shared_store (postgres_store E)"
    and "others_all (pg_other (cx_nid cx)) (sh_next n)"
    and "decodeJSON (js_verdict (h_json h)) (hq_Body r) = Inr body"
    and "rid = ToLower (vb_RequestID body)" "pe_uuid E rid = Some rid"
    and "verdict h cx r p n = (n', sent, rep)"
  shows "(\<forall>v. rep = Reply 200 (VerdictOut v) \<longrightarrow> vr_RequestID v = rid \<and> verdict_status (vb_Verdict body) = Some (vr_Status v) \<and>
      (\<exists>t q. t \<in> set (visited n') \<and> q \<in> set (pg_requests t) \<and> rq_ID q = rid \<and> admin_decided q \<and>
         rq_Status q = vr_Status v \<and> rq_DecidedAt q = vr_DecidedAt v)) \<and>
    (\<forall>c. rep = Reply 409 (ConflictOut c) \<longrightarrow> sent = [] \<and>
      (\<exists>t q. t \<in> set (visited n') \<and> q \<in> set (pg_requests t) \<and> rq_ID q = rid \<and> rq_Status q \<noteq> StatusPending \<and>
         (vc_Status c \<noteq> StatusTimeout \<longrightarrow> rq_Status q = vc_Status c \<and> rq_DecidedAt q = vc_DecidedAt c)))"
proof -
  have g: "good pg_ok pg_row (cx_nid cx) n"
    using assms(2) others_all_mono [OF pg_other_ok assms(4)] by (simp add: good_def)
  have row: "q \<in> set (pg_requests t) \<and> rq_ID q = rid" if "pg_row t rid = Some q" for t q
    using that find_SomeD [of _ "pg_requests t" q] unfolding pg_row_def by blast
  from assms(8) consider e m where "rep = writeError e m"
    | status ttl dev where "verdict_status (vb_Verdict body) = Some status"
        "verdict_decide h cx body rid status dev ttl n = (n', sent, rep)"
    using assms(3,5,6)
    by (auto simp: verdict_def verdict_device_def Let_def split: if_splits option.splits sum.splits)
  then show ?thesis
  proof cases
    case 1
    then show ?thesis by simp
  next
    case 2
    note told = pg_connection.verdict_decide_pg [OF pg_connection.intro [OF assms(1)] g assms(3,7) verdict_status_values [OF 2(1)] 2(2)]
    show ?thesis
    proof (intro conjI allI impI)
      fix v
      assume "rep = Reply 200 (VerdictOut v)"
      with told show "vr_RequestID v = rid" "verdict_status (vb_Verdict body) = Some (vr_Status v)"
        "\<exists>t q. t \<in> set (visited n') \<and> q \<in> set (pg_requests t) \<and> rq_ID q = rid \<and> admin_decided q \<and>
           rq_Status q = vr_Status v \<and> rq_DecidedAt q = vr_DecidedAt v"
        using 2(1) row by fastforce+
    next
      fix c
      assume "rep = Reply 409 (ConflictOut c)"
      with told show "sent = []"
        "\<exists>t q. t \<in> set (visited n') \<and> q \<in> set (pg_requests t) \<and> rq_ID q = rid \<and> rq_Status q \<noteq> StatusPending \<and>
           (vc_Status c \<noteq> StatusTimeout \<longrightarrow> rq_Status q = vc_Status c \<and> rq_DecidedAt q = vc_DecidedAt c)"
        using row by (simp, metis (no_types, lifting))
    qed
  qed
qed

text \<open>An admin approves the request of alice, but another admin's denial comes first.\<close>

definition ex_told_db :: pg_db where
  "ex_told_db = ex_pg_db\<lparr> pg_requests := [ex_pg_request\<lparr> rq_ID := ex_rid \<rparr>] \<rparr>"

definition ex_denial :: "pg_db \<Rightarrow> pg_db" where
  "ex_denial db = fst (pg_DecideRequest ex_pg_env ex_rid StatusDenied None Second db)"

definition ex_told :: "pg_db shared" where
  "ex_told = \<lparr> sh_now = ex_told_db, sh_next = [\<lparr> ot_steps = [ex_denial], ot_at = (\<lambda>_. 0) \<rparr>], sh_log = [] \<rparr>"

definition ex_told_handler :: "pg_db shared Handler" where
  "ex_told_handler = ex_pg_handler\<lparr> h_json := ex_codec (ex_body ''alice'') (ex_verdict VerdictApprove) \<rparr>"

lemma ex_told_db_ok: "pg_ok ex_told_db"
  by (simp add: pg_ok_def mem_inv_def pg_abs_def ex_told_db_def ex_pg_db_def pg_New_def rows_map_def keyed_by_def unique_on_def
      map_keys_def ex_pg_request_def)

lemma ex_denial_other: "pg_other nid ex_denial"
proof -
  have "pg_steps db (ex_denial db)" for db
    unfolding ex_denial_def by (rule pg_steps.one_more [OF pg_steps.none]) (rule pg_step.DecideRequest [OF ex_pg_calm], simp)
  moreover have "map rq_ID (pg_requests (ex_denial db)) = map rq_ID (pg_requests db)" for db
    by (simp add: ex_denial_def pg_DecideRequest_def pg_stmt_def decide_statement_def with_uuid_def opt_cast_def ex_pg_env_def
        upd_rows_def decided_row_def Let_def comp_def if_distrib [of rq_ID] split: prod.split sum.split)
  then have "rq_ID ` set (pg_requests (ex_denial db)) = rq_ID ` set (pg_requests db)" for db by (metis set_map)
  ultimately show ?thesis by (simp add: pg_other_def)
qed

lemma ex_told_run:
  "\<exists>n' c. verdict ex_told_handler ex_pg_ctx (wire_post ''adm'' ''x'') None ex_told = (n', [], Reply 409 (ConflictOut c)) \<and>
     vc_Status c = StatusDenied"
proof -
  let ?S = "shared_store (postgres_store ex_pg_env)"
  define db1 where "db1 = ex_denial ex_told_db"
  have db1: "db1 = ex_told_db\<lparr> pg_requests := [ex_pg_request\<lparr> rq_ID := ex_rid, rq_Status := StatusDenied,
      rq_DecidedBy := Some DecidedByAdmin, rq_DecidedAt := Some Second \<rparr>] \<rparr>"
    by (simp add: db1_def ex_denial_def ex_told_db_def pg_DecideRequest_def pg_stmt_def decide_statement_def with_uuid_def
        opt_cast_def ex_pg_env_def ex_pg_db_def pg_New_def ex_pg_request_def count_rows_def decidable_def ValidStatus_def
        has_device_def upd_rows_def decided_row_def Let_def)
  define n1 where "n1 = \<lparr> sh_now = db1, sh_next = [], sh_log = [ex_told_db, db1] \<rparr>"
  have row: "\<exists>v. pg_RequestByID ex_pg_env ex_rid db1 = Inr v \<and> rq_Status v = StatusDenied"
    by (simp add: db1 pg_RequestByID_def pg_query_def with_uuid_def sel_row_def ex_pg_env_def requestSelect_def)
  have none: "\<not> decidable ex_rid t q" if "q \<in> set (pg_requests db1)" for t q using that by (simp add: db1 decidable_def enums)
  then have "decide_statement ex_pg_env ex_rid StatusApproved None Second db1 = Inr (db1, 0)"
    by (simp add: decide_statement_def with_uuid_def opt_cast_def ex_pg_env_def count_rows_def upd_rows_def Let_def map_idI)
  then have "pg_DecideRequest ex_pg_env ex_rid StatusApproved None Second db1 = (db1, Inl ErrAlreadyDecided)"
    using row by (auto simp: pg_DecideRequest_def pg_stmt_def Let_def) (simp_all add: ex_pg_env_def)
  then have d: "st_DecideRequest ?S ex_rid StatusApproved None Second ex_told = (n1, Inl ErrAlreadyDecided)"
    by (simp add: shared_store_def postgres_store_def shared_call_def current_def visited_def ex_told_def n1_def db1_def)
  have "\<exists>c. verdictConflict ?S ex_rid Second n1 = (n1, Reply 409 (ConflictOut c)) \<and> vc_Status c = StatusDenied"
    using row by (auto simp: verdictConflict_def shared_store_def postgres_store_def seen_def current_def n1_def enums)
  moreover have "verdict ex_told_handler ex_pg_ctx (wire_post ''adm'' ''x'') None ex_told =
      verdict_decide ex_told_handler ex_pg_ctx (ex_verdict VerdictApprove) ex_rid StatusApproved None 0 ex_told"
    by (simp add: verdict_def ex_told_handler_def ex_codec_def decodeJSON_def maxBodyBytes_def wire_post_def ex_rid_uuid
        verdict_status_def verdict_ttl_def verdict_device_def enums)
  ultimately show ?thesis
    using d by (auto simp: verdict_decide_def ex_told_handler_def ex_pg_handler_def ex_pg_ctx_def)
qed

theorem postgres_verdict_truthful_witness:
  "\<exists>n' c t q. verdict ex_told_handler ex_pg_ctx (wire_post ''adm'' ''x'') None ex_told = (n', [], Reply 409 (ConflictOut c)) \<and>
     vc_Status c = StatusDenied \<and> t \<in> set (visited n') \<and> q \<in> set (pg_requests t) \<and> rq_ID q = ex_rid \<and>
     rq_Status q = StatusDenied \<and> rq_DecidedAt q = vc_DecidedAt c"
proof -
  obtain n' c where run: "verdict ex_told_handler ex_pg_ctx (wire_post ''adm'' ''x'') None ex_told =
      (n', [], Reply 409 (ConflictOut c))" "vc_Status c = StatusDenied"
    using ex_told_run by blast
  have "others_all (pg_other (cx_nid ex_pg_ctx)) (sh_next ex_told)"
    by (simp add: others_all_def ex_told_def ex_denial_other)
  moreover have "decodeJSON (js_verdict (h_json ex_told_handler)) (hq_Body (wire_post ''adm'' ''x'')) = Inr (ex_verdict VerdictApprove)"
    by (simp add: ex_told_handler_def ex_codec_def decodeJSON_def maxBodyBytes_def wire_post_def)
  moreover have "pg_ok (sh_now ex_told)" "h_store ex_told_handler = shared_store (postgres_store ex_pg_env)"
    "ex_rid = ToLower (vb_RequestID (ex_verdict VerdictApprove))" "pe_uuid ex_pg_env ex_rid = Some ex_rid"
    by (simp_all add: ex_told_def ex_told_db_ok ex_told_handler_def ex_pg_handler_def ex_rid_uuid ex_pg_env_def)
  ultimately have "\<exists>t q. t \<in> set (visited n') \<and> q \<in> set (pg_requests t) \<and> rq_ID q = ex_rid \<and>
      rq_Status q = vc_Status c \<and> rq_DecidedAt q = vc_DecidedAt c"
    using postgres_verdict_truthful [OF ex_pg_calm _ _ _ _ _ _ run(1)] run(2) by (fastforce simp: enums)
  with run show ?thesis by auto
qed

end
