(* ===== verification/Outer.thy ===== *)
theory Outer
  imports Router
begin

text \<open>
  From a reply to the bytes a client gets. The other theories speak of a reply as a status and a value; here are
  the response writer that turns the plain-text errors of the mux into JSON, the writes of a handler to it, the text the mux writes for its own errors, and the outer handler
  of \<^verbatim>\<open>handler.New\<close>, which recovers from a panic. The lemmas show that the replies of \<open>serve\<close> are what is sent.
\<close>

section \<open>The response writer\<close>

text \<open>The struct, and below it the \<^verbatim>\<open>http.ResponseWriter\<close> of \<^verbatim>\<open>net/http\<close> that it embeds: the header lines set so far
  (the type of the body, and whether sniffing is off), then what is fixed on the connection, which is the status, the type as
  it stood when the status was sent, and the bytes of the body.\<close>

record jsonErrorWriter =
  jw_status :: nat
  jw_wrote :: bool
  jw_swallow :: bool
  jw_ct :: string
  jw_nosniff :: bool
  jw_sent :: "nat option"
  jw_sent_ct :: string
  jw_body :: string

definition jw_init :: jsonErrorWriter where
  "jw_init = \<lparr> jw_status = 0, jw_wrote = False, jw_swallow = False, jw_ct = [], jw_nosniff = False,
               jw_sent = None, jw_sent_ct = [], jw_body = [] \<rparr>"

text \<open>The embedded writer. The first final status counts, with the header lines of that moment; an informational one
  does not end the header. A write or a flush before any status sends 200 first, as does the server when a handler returns
  without one. The statuses below 200, 204 and 304 have no body. (A status outside 100 to 999 panics in \<^verbatim>\<open>net/http\<close>, and the body
  of an answer to a HEAD request is dropped there; no code here sends such a status, and the writes are those to another request.)\<close>

definition rw_WriteHeader :: "nat \<Rightarrow> jsonErrorWriter \<Rightarrow> jsonErrorWriter" where
  "rw_WriteHeader status w =
     (if jw_sent w \<noteq> None \<or> (status < 200 \<and> status \<noteq> 101) then w
      else w\<lparr> jw_sent := Some status, jw_sent_ct := jw_ct w \<rparr>)"

definition rw_Write :: "string \<Rightarrow> jsonErrorWriter \<Rightarrow> jsonErrorWriter" where
  "rw_Write bs w =
     (let w = rw_WriteHeader 200 w
      in case jw_sent w of
           Some st \<Rightarrow> if st < 200 \<or> st = 204 \<or> st = 304 then w else w\<lparr> jw_body := jw_body w @ bs \<rparr>
         | None \<Rightarrow> w)"

definition rw_Flush :: "jsonErrorWriter \<Rightarrow> jsonErrorWriter" where
  "rw_Flush w = rw_WriteHeader 200 w"

text \<open>The methods of the struct.\<close>

definition jw_error_json :: "string \<Rightarrow> string" where
  "jw_error_json msg = ''{\"error\":\"'' @ msg @ ''\"}'' @ [CHR 0x0A]"

definition jw_WriteHeader :: "nat \<Rightarrow> jsonErrorWriter \<Rightarrow> jsonErrorWriter" where
  "jw_WriteHeader status w =
     (if jw_wrote w then w
      else let w = w\<lparr> jw_wrote := True, jw_status := status \<rparr> in
           if (status = 404 \<or> status = 405) \<and> take 10 (jw_ct w) = ''text/plain'' then
             rw_Write (jw_error_json (if status = 405 then ''method not allowed'' else ''not found''))
               (rw_WriteHeader status
                 (w\<lparr> jw_swallow := True, jw_ct := ''application/json'', jw_nosniff := False \<rparr>))
           else rw_WriteHeader status w)"

definition jw_Write :: "string \<Rightarrow> jsonErrorWriter \<Rightarrow> jsonErrorWriter" where
  "jw_Write bs w =
     (let w = (if jw_wrote w then w else jw_WriteHeader 200 w)
      in if jw_swallow w then w else rw_Write bs w)"

definition jw_Flush :: "jsonErrorWriter \<Rightarrow> jsonErrorWriter" where
  "jw_Flush w = rw_Flush w"

section \<open>Writes\<close>

text \<open>\<open>enc\<close> is \<^verbatim>\<open>json.Encoder.Encode\<close>: one write of the value and a newline, or an error and no write.\<close>

definition writeJSON :: "(payload \<Rightarrow> string option) \<Rightarrow> nat \<Rightarrow> payload \<Rightarrow> jsonErrorWriter \<Rightarrow> jsonErrorWriter" where
  "writeJSON enc status v w =
     (let w = jw_WriteHeader status (w\<lparr> jw_ct := ''application/json'' \<rparr>)
      in case enc v of None \<Rightarrow> w | Some bs \<Rightarrow> jw_Write bs w)"

text \<open>\<^verbatim>\<open>http.Error\<close> of the standard library, with which the mux answers a path or a method it does not know.\<close>

definition http_Error :: "string \<Rightarrow> nat \<Rightarrow> jsonErrorWriter \<Rightarrow> jsonErrorWriter" where
  "http_Error msg code w =
     jw_Write (msg @ [CHR 0x0A])
       (jw_WriteHeader code (w\<lparr> jw_ct := ''text/plain; charset=utf-8'', jw_nosniff := True \<rparr>))"

text \<open>What code does to the writer it is given: the header that gives the type, a status, bytes, a value, a flush.\<close>

datatype response_write = SetType string | SetStatus nat | Bytes string | WriteJSON nat payload | WriteText string nat | Flushed

fun do_write :: "(payload \<Rightarrow> string option) \<Rightarrow> response_write \<Rightarrow> jsonErrorWriter \<Rightarrow> jsonErrorWriter" where
  "do_write enc (SetType ct) w = w\<lparr> jw_ct := ct \<rparr>"
| "do_write enc (SetStatus st) w = jw_WriteHeader st w"
| "do_write enc (Bytes bs) w = jw_Write bs w"
| "do_write enc (WriteJSON st v) w = writeJSON enc st v w"
| "do_write enc (WriteText msg code) w = http_Error msg code w"
| "do_write enc Flushed w = jw_Flush w"

section \<open>The outer handler\<close>

text \<open>The handler inside makes some writes and returns or panics.\<close>

definition outer :: "(payload \<Rightarrow> string option) \<Rightarrow> response_write list \<times> bool \<Rightarrow> jsonErrorWriter" where
  "outer enc run =
     (case run of
        (writes, panicked) \<Rightarrow>
          let jw = fold (do_write enc) writes jw_init
          in if panicked \<and> \<not> jw_wrote jw then writeJSON enc 500 (ErrorBody ''internal error'') jw else jw)"

text \<open>What a client sees when the handler has returned: the status, the type of the body that was given with it, and the body.\<close>

definition on_wire :: "jsonErrorWriter \<Rightarrow> nat \<times> string \<times> string" where
  "on_wire w = (case jw_sent w of Some st \<Rightarrow> (st, jw_sent_ct w, jw_body w) | None \<Rightarrow> (200, jw_ct w, []))"

text \<open>The writes of a reply. A handler answers with \<open>writeJSON\<close>, or with a status alone.\<close>

definition reply_writes :: "reply \<Rightarrow> response_write list" where
  "reply_writes rep =
     (case rep of
        Reply st NoBody \<Rightarrow> [SetStatus st]
      | Reply st v \<Rightarrow> [WriteJSON st v]
      | _ \<Rightarrow> [])"

section \<open>Lemmas\<close>

text \<open>Writes that only prepare, so that nothing has been sent, and the writes of a code that flushes nothing and sends final
  statuses only.\<close>

fun prepares :: "response_write \<Rightarrow> bool" where
  "prepares (SetType _) = True"
| "prepares _ = False"

fun settles :: "response_write \<Rightarrow> bool" where
  "settles (SetStatus st) = (200 \<le> st)"
| "settles (WriteJSON st v) = (200 \<le> st)"
| "settles (WriteText msg st) = (200 \<le> st)"
| "settles Flushed = False"
| "settles _ = True"

text \<open>As long as nothing is flushed, the status the access log prints is the one that was sent, and a header is sent with the
  first write.\<close>

definition jw_inv :: "jsonErrorWriter \<Rightarrow> bool" where
  "jw_inv w \<longleftrightarrow> (if jw_wrote w then jw_sent w = Some (jw_status w)
     else jw_sent w = None \<and> jw_status w = 0 \<and> jw_body w = [] \<and> \<not> jw_swallow w)"

lemma jw_inv_init: "jw_inv jw_init"
  by (simp add: jw_inv_def jw_init_def)

lemma rw_Write_keeps [simp]:
  "jw_wrote (rw_Write bs w) = jw_wrote w" "jw_status (rw_Write bs w) = jw_status w" "jw_swallow (rw_Write bs w) = jw_swallow w"
  "jw_sent w = Some st \<Longrightarrow> jw_sent (rw_Write bs w) = Some st"
  by (simp_all add: rw_Write_def rw_WriteHeader_def Let_def split: option.split)

lemma jw_WriteHeader_wrote [simp]: "jw_wrote (jw_WriteHeader st w)"
  by (simp add: jw_WriteHeader_def rw_WriteHeader_def Let_def)

lemma jw_Write_wrote [simp]: "jw_wrote (jw_Write bs w)"
  by (simp add: jw_Write_def Let_def)

lemma writeJSON_wrote [simp]: "jw_wrote (writeJSON enc st v w)"
  by (simp add: writeJSON_def Let_def split: option.split)

lemma jw_inv_WriteHeader: "jw_inv w \<Longrightarrow> 200 \<le> st \<Longrightarrow> jw_inv (jw_WriteHeader st w)"
  by (auto simp: jw_inv_def jw_WriteHeader_def rw_WriteHeader_def Let_def)

lemma jw_inv_Write: "jw_inv w \<Longrightarrow> jw_inv (jw_Write bs w)"
  using jw_inv_WriteHeader [of w 200] by (simp add: jw_inv_def jw_Write_def Let_def split: if_splits)

lemma jw_inv_type [simp]: "jw_inv (w\<lparr> jw_ct := ct \<rparr>) = jw_inv w" "jw_inv (w\<lparr> jw_ct := ct, jw_nosniff := b \<rparr>) = jw_inv w"
  by (simp_all add: jw_inv_def)

lemma jw_inv_writeJSON: "jw_inv w \<Longrightarrow> 200 \<le> st \<Longrightarrow> jw_inv (writeJSON enc st v w)"
  by (simp add: writeJSON_def Let_def jw_inv_WriteHeader jw_inv_Write split: option.split)

lemma jw_inv_do_write: "jw_inv w \<Longrightarrow> settles x \<Longrightarrow> jw_inv (do_write enc x w)"
  by (cases x) (simp_all add: jw_inv_WriteHeader jw_inv_Write jw_inv_writeJSON http_Error_def)

lemma jw_inv_fold: "jw_inv w \<Longrightarrow> list_all settles writes \<Longrightarrow> jw_inv (fold (do_write enc) writes w)"
  by (induction writes arbitrary: w) (simp_all add: jw_inv_do_write)

lemma jw_inv_outer: "list_all settles writes \<Longrightarrow> jw_inv (outer enc (writes, panicked))"
  by (simp add: outer_def Let_def jw_inv_writeJSON jw_inv_fold jw_inv_init)

lemma prepares_fold:
  "list_all prepares writes \<Longrightarrow> \<exists>ct. fold (do_write enc) writes jw_init = jw_init\<lparr> jw_ct := ct \<rparr>"
proof (induction writes rule: rev_induct)
  case Nil
  have "jw_init\<lparr> jw_ct := jw_ct jw_init \<rparr> = jw_init" by simp
  then show ?case by (metis fold_Nil id_apply)
next
  case (snoc x xs)
  then obtain ct where "fold (do_write enc) xs jw_init = jw_init\<lparr> jw_ct := ct \<rparr>" by auto
  with snoc.prems show ?case by (cases x) auto
qed

text \<open>A status that was sent stays.\<close>

lemma sent_WriteHeader: "jw_sent w = Some s \<Longrightarrow> jw_sent (jw_WriteHeader st w) = Some s"
  by (simp add: jw_WriteHeader_def rw_WriteHeader_def Let_def)

lemma sent_Write: "jw_sent w = Some s \<Longrightarrow> jw_sent (jw_Write bs w) = Some s"
  by (simp add: jw_Write_def Let_def sent_WriteHeader)

lemma sent_writeJSON: "jw_sent w = Some s \<Longrightarrow> jw_sent (writeJSON enc st v w) = Some s"
  by (simp add: writeJSON_def Let_def sent_WriteHeader sent_Write split: option.split)

lemma sent_do_write: "jw_sent w = Some s \<Longrightarrow> jw_sent (do_write enc x w) = Some s"
  by (cases x)
     (simp_all add: sent_WriteHeader sent_Write sent_writeJSON http_Error_def jw_Flush_def rw_Flush_def rw_WriteHeader_def)

lemma sent_fold: "jw_sent w = Some s \<Longrightarrow> jw_sent (fold (do_write enc) writes w) = Some s"
  by (induction writes arbitrary: w) (simp_all add: sent_do_write)

lemma sent_outer_flush: "jw_sent (outer enc (Flushed # writes, panicked)) = Some 200"
proof -
  have "jw_sent (jw_Flush jw_init) = Some 200" by (simp add: jw_Flush_def rw_Flush_def rw_WriteHeader_def jw_init_def)
  then have "jw_sent (fold (do_write enc) (Flushed # writes) jw_init) = Some 200" by (simp add: sent_fold)
  then show ?thesis by (simp add: outer_def Let_def sent_writeJSON)
qed

section \<open>What is sent\<close>

lemma wire_value:
  assumes "enc v = Some bs" "200 \<le> st" "st \<notin> {204, 304}"
  shows "on_wire (writeJSON enc st v (jw_init\<lparr> jw_ct := ct \<rparr>)) = (st, ''application/json'', bs)"
  using assms
  by (simp add: on_wire_def writeJSON_def jw_WriteHeader_def jw_Write_def rw_WriteHeader_def rw_Write_def jw_init_def Let_def)

lemma jw_init_type: "jw_init\<lparr> jw_ct := [] \<rparr> = jw_init"
  by (simp add: jw_init_def)

lemma wire_text:
  "code \<in> {404, 405} \<Longrightarrow> on_wire (http_Error msg code (jw_init\<lparr> jw_ct := ct \<rparr>)) =
     (code, ''application/json'', jw_error_json (if code = 405 then ''method not allowed'' else ''not found''))"
  by (auto simp: on_wire_def http_Error_def jw_WriteHeader_def jw_Write_def rw_WriteHeader_def rw_Write_def jw_init_def Let_def)

text \<open>C26: What a client gets is the reply of the handler in JSON, also for the errors the mux writes as text and for a
  panic. A reply with a value and a status that can have a body is sent with that status and exactly the encoded value, even when
  the handler panics afterwards. The texts of the mux for 404 and 405 arrive as the JSON errors \<open>serve\<close> gives. A panic before
  anything was sent is answered with the JSON error 500; after a write through the wrapper it changes nothing. As long as nobody
  flushes, the status in the access log is the one that was sent, and 0 if the handler wrote nothing, which the client gets as
  200. A flush before the first write sends 200 without telling the wrapper: whatever is written afterwards, and after a panic too,
  the client gets 200, while the log prints the status of the handler. (No route of the repository flushes.)\<close>

theorem outer_sends_reply:
  assumes enc: "enc (ErrorBody ''not found'') = Some (jw_error_json ''not found'')"
      "enc (ErrorBody ''method not allowed'') = Some (jw_error_json ''method not allowed'')"
      "enc (ErrorBody ''internal error'') = Some internal"
    and v: "v \<noteq> NoBody" "enc v = Some bs" and st: "200 \<le> st" "st \<notin> {204, 304}"
    and pre: "list_all prepares pre" and settled: "list_all settles writes"
  shows "on_wire (outer enc (reply_writes (Reply st v), panicked)) = (st, ''application/json'', bs) \<and>
    on_wire (outer enc ([WriteText msg 404], panicked)) = on_wire (outer enc (reply_writes (writeError 404 ''not found''), False)) \<and>
    on_wire (outer enc ([WriteText msg 405], panicked)) =
      on_wire (outer enc (reply_writes (writeError 405 ''method not allowed''), False)) \<and>
    on_wire (outer enc (pre, True)) = on_wire (outer enc (reply_writes internal_error, False)) \<and>
    (jw_wrote (fold (do_write enc) any jw_init) \<longrightarrow> outer enc (any, True) = outer enc (any, False)) \<and>
    (fst (on_wire (outer enc (writes, panicked))), jw_status (outer enc (writes, panicked))) =
      (case jw_sent (outer enc (writes, panicked)) of None \<Rightarrow> (200, 0) | Some code \<Rightarrow> (code, code)) \<and>
    fst (on_wire (outer enc (Flushed # any, panicked))) = 200 \<and>
    jw_status (outer enc (Flushed # reply_writes (Reply st v), panicked)) = st"
proof (intro conjI impI)
  have one: "reply_writes (Reply st v) = [WriteJSON st v]" if "v \<noteq> NoBody" for st v
    using that by (simp add: reply_writes_def split: payload.split)
  have sent: "on_wire (outer enc (reply_writes (Reply st v), p)) = (st, ''application/json'', bs)"
    if "v \<noteq> NoBody" "enc v = Some bs" "200 \<le> st" "st \<notin> {204, 304}" for st v bs p
    using wire_value [of enc v bs st "[]"] that by (simp add: outer_def one jw_init_type)
  show "on_wire (outer enc (reply_writes (Reply st v), panicked)) = (st, ''application/json'', bs)" by (rule sent [OF v st])
  have plain: "on_wire (outer enc ([WriteText msg code], panicked)) =
      (code, ''application/json'', jw_error_json (if code = 405 then ''method not allowed'' else ''not found''))"
    if "code \<in> {404, 405}" for code
    using wire_text [OF that, of msg "[]"] by (simp add: outer_def jw_init_type http_Error_def)
  show "on_wire (outer enc ([WriteText msg 404], panicked)) = on_wire (outer enc (reply_writes (writeError 404 ''not found''), False))"
    "on_wire (outer enc ([WriteText msg 405], panicked)) =
      on_wire (outer enc (reply_writes (writeError 405 ''method not allowed''), False))"
    by (simp_all add: plain sent enc)
  obtain ct where ct: "fold (do_write enc) pre jw_init = jw_init\<lparr> jw_ct := ct \<rparr>" using prepares_fold [OF pre] by blast
  have "\<not> jw_wrote (jw_init\<lparr> jw_ct := ct \<rparr>)" by (simp add: jw_init_def)
  then show "on_wire (outer enc (pre, True)) = on_wire (outer enc (reply_writes internal_error, False))"
    using wire_value [of enc "ErrorBody ''internal error''" internal 500 ct]
      sent [of "ErrorBody ''internal error''" internal 500 False] enc(3) by (simp add: outer_def ct)
  show "outer enc (any, True) = outer enc (any, False)" if "jw_wrote (fold (do_write enc) any jw_init)"
    using that by (simp add: outer_def)
  show "(fst (on_wire (outer enc (writes, panicked))), jw_status (outer enc (writes, panicked))) =
      (case jw_sent (outer enc (writes, panicked)) of None \<Rightarrow> (200, 0) | Some code \<Rightarrow> (code, code))"
    using jw_inv_outer [OF settled, of enc panicked] by (auto simp: jw_inv_def on_wire_def split: if_splits)
  show "fst (on_wire (outer enc (Flushed # any, panicked))) = 200"
    by (simp add: on_wire_def sent_outer_flush)
  show "jw_status (outer enc (Flushed # reply_writes (Reply st v), panicked)) = st"
    using v st by (simp add: outer_def one jw_Flush_def rw_Flush_def writeJSON_def jw_WriteHeader_def jw_Write_def
        rw_WriteHeader_def jw_init_def Let_def)
qed

definition ex_encode :: "payload \<Rightarrow> string option" where
  "ex_encode v = (case v of ErrorBody m \<Rightarrow> Some (jw_error_json m) | _ \<Rightarrow> None)"

theorem outer_sends_reply_witness:
  "on_wire (outer ex_encode (reply_writes (writeError 409 ''late''), True)) = (409, ''application/json'', jw_error_json ''late'') \<and>
   on_wire (outer ex_encode ([WriteText ''404 page not found'' 404], False)) =
     (404, ''application/json'', jw_error_json ''not found'') \<and>
   on_wire (outer ex_encode ([SetType ''text/html''], True)) = (500, ''application/json'', jw_error_json ''internal error'') \<and>
   fst (on_wire (outer ex_encode ([Flushed, WriteJSON 409 (ErrorBody ''late'')], True))) = 200"
proof -
  have enc: "ex_encode (ErrorBody m) = Some (jw_error_json m)" for m by (simp add: ex_encode_def)
  note * = outer_sends_reply [where enc = ex_encode and pre = "[SetType ''text/html'']" and writes = "[]",
      OF enc enc enc _ enc]
  have sent: "on_wire (outer ex_encode (reply_writes (writeError st m), p)) = (st, ''application/json'', jw_error_json m)"
    if "200 \<le> st" "st \<notin> {204, 304}" for st m p
    using * [OF _ that] by simp
  show ?thesis using * [of _ 409] sent by simp
qed

text \<open>Whatever is written after a header, the client sees one status and one body. A plain-text 404 or
  405, as the router writes them, becomes exactly the JSON error object; every other response passes
  byte for byte, and later headers are ignored.\<close>

theorem mux_errors_are_json:
  assumes "200 \<le> status" "status \<notin> {204, 304}"
  shows "(let w = fold jw_Write chunks (jw_WriteHeader status (jw_init\<lparr>jw_ct := ct\<rparr>))
    in jw_WriteHeader status' w = w \<and>
       on_wire w = (if status \<in> {404, 405} \<and> take 10 ct = ''text/plain''
        then (status, ''application/json'', jw_error_json (if status = 405 then ''method not allowed'' else ''not found''))
        else (status, ct, concat chunks)))"
proof -
  have wr: "jw_wrote w \<Longrightarrow> jw_sent w = Some status \<Longrightarrow> fold jw_Write chunks w =
      (if jw_swallow w then w else w\<lparr>jw_body := jw_body w @ concat chunks\<rparr>)" for w
    using assms by (induction chunks arbitrary: w) (simp_all add: jw_Write_def rw_Write_def rw_WriteHeader_def Let_def)
  show ?thesis
    using assms by (auto simp: wr jw_WriteHeader_def rw_WriteHeader_def rw_Write_def jw_init_def on_wire_def Let_def)
qed

end
