(* ===== verification/Postgres_Types.thy ===== *)
theory Postgres_Types
  imports Postgres_Props
begin

text \<open>
  The types of the columns: the CHECK constraints, the integer and CHAR columns and the foreign keys of the
  migrations hold in every state of the tables, whatever is passed to an operation and whatever fails.
\<close>

section \<open>Well-typed tables\<close>

definition typed_request :: "string set \<Rightarrow> string set \<Rightarrow> Request \<Rightarrow> bool" where
  "typed_request svs dvs r \<longleftrightarrow>
     ValidContext (rq_Context r) \<and> ValidStatus (rq_Status r) \<and> valid_decided_by (rq_DecidedBy r) \<and>
     rq_ServerID r \<in> svs \<and> set_option (rq_DecidedByDevice r) \<subseteq> dvs"

definition typed_entry :: "string set \<Rightarrow> string set \<Rightarrow> string set \<Rightarrow> WhitelistEntry \<Rightarrow> bool" where
  "typed_entry svs dvs rqs e \<longleftrightarrow>
     ValidContext (wl_Context e) \<and> set_option (wl_ServerID e) \<subseteq> svs \<and> set_option (wl_CreatedByDevice e) \<subseteq> dvs \<and>
     set_option (wl_CreatedFrom e) \<subseteq> rqs"

definition pg_typed :: "pg_db \<Rightarrow> bool" where
  "pg_typed db \<longleftrightarrow>
     list_all (\<lambda>s. ValidOS (sv_OS s)) (pg_servers db) \<and>
     list_all (\<lambda>d. ValidPlatform (dv_Platform d)) (pg_devices db) \<and>
     list_all (typed_request (sv_ID ` set (pg_servers db)) (dv_ID ` set (pg_devices db))) (pg_requests db) \<and>
     list_all (typed_entry (sv_ID ` set (pg_servers db)) (dv_ID ` set (pg_devices db)) (rq_ID ` set (pg_requests db)))
       (pg_whitelist db) \<and>
     list_all (\<lambda>b. int4 (bi_DenialCount b) \<and> int4 (bi_HitCount b)) (pg_blocked db) \<and>
     list_all (\<lambda>g. bpchar (gr_Country g) = gr_Country g \<and> length (runes (gr_Country g)) \<le> 2) (pg_geoRules db)"

lemma upd_rows_ids [simp]:
  "(\<And>r. key (f r) = key r) \<Longrightarrow> key ` set (upd_rows P f t) = key ` set t"
  unfolding upd_rows_def set_map image_image by (rule image_cong) simp_all

lemma upd_rows_all: "list_all Q t \<Longrightarrow> (\<And>r. Q r \<Longrightarrow> P r \<Longrightarrow> Q (f r)) \<Longrightarrow> list_all Q (upd_rows P f t)"
  by (auto simp: upd_rows_def list_all_iff)

lemma has_refs:
  "has_server db sid \<longleftrightarrow> sid \<in> sv_ID ` set (pg_servers db)"
  "has_device db dev \<longleftrightarrow> set_option dev \<subseteq> dv_ID ` set (pg_devices db)"
  "has_request db rid \<longleftrightarrow> set_option rid \<subseteq> rq_ID ` set (pg_requests db)"
  by (auto simp: has_server_def has_device_def has_request_def list_ex_iff split: option.splits)

lemma typed_mono:
  "svs \<subseteq> svs' \<Longrightarrow> dvs \<subseteq> dvs' \<Longrightarrow> typed_request svs dvs r \<Longrightarrow> typed_request svs' dvs' r"
  "svs \<subseteq> svs' \<Longrightarrow> dvs \<subseteq> dvs' \<Longrightarrow> rqs \<subseteq> rqs' \<Longrightarrow> typed_entry svs dvs rqs e \<Longrightarrow> typed_entry svs' dvs' rqs' e"
  by (auto simp: typed_request_def typed_entry_def)

lemma bpchar_idem: "bpchar (bpchar s) = bpchar s"
  by (simp add: bpchar_def TrimRight_byte_def)

section \<open>One statement\<close>

lemma typed_stmt:
  assumes "pg_typed db" "\<And>db' a. pg_typed db \<Longrightarrow> f db = Inr (db', a) \<Longrightarrow> pg_typed db'"
  shows "pg_typed (fst (pg_stmt E op f db))"
proof -
  obtain db' r where s: "pg_stmt E op f db = (db', r)" by fastforce
  then show ?thesis by (cases rule: pg_stmt_cases) (use assms s in auto)
qed

lemma typed_affected: "fst (pg_affected x) = fst x"
  by (auto simp: pg_affected_def split: prod.split sum.split)

text \<open>Updates of one table that keep ids and types.\<close>

lemma typed_servers:
  "pg_typed db \<Longrightarrow> (\<And>s. sv_ID (f s) = sv_ID s) \<Longrightarrow> (\<And>s. sv_OS (f s) = sv_OS s) \<Longrightarrow>
   pg_typed (db\<lparr> pg_servers := upd_rows P f (pg_servers db) \<rparr>)"
  by (auto simp: pg_typed_def intro!: upd_rows_all)

lemma typed_devices:
  "pg_typed db \<Longrightarrow> (\<And>d. dv_ID (f d) = dv_ID d) \<Longrightarrow>
   (\<And>d. ValidPlatform (dv_Platform d) \<Longrightarrow> ValidPlatform (dv_Platform (f d))) \<Longrightarrow>
   pg_typed (db\<lparr> pg_devices := upd_rows P f (pg_devices db) \<rparr>)"
  by (auto simp: pg_typed_def intro!: upd_rows_all)

lemma typed_requests:
  "pg_typed db \<Longrightarrow> (\<And>r. rq_ID (f r) = rq_ID r) \<Longrightarrow>
   (\<And>r. typed_request (sv_ID ` set (pg_servers db)) (dv_ID ` set (pg_devices db)) r \<Longrightarrow> P r \<Longrightarrow>
     typed_request (sv_ID ` set (pg_servers db)) (dv_ID ` set (pg_devices db)) (f r)) \<Longrightarrow>
   pg_typed (db\<lparr> pg_requests := upd_rows P f (pg_requests db) \<rparr>)"
  by (auto simp: pg_typed_def intro!: upd_rows_all)

text \<open>New rows.\<close>

lemma typed_refs_mono:
  assumes "svs \<subseteq> svs'" "dvs \<subseteq> dvs'" "rqs \<subseteq> rqs'"
  shows "list_all (typed_request svs dvs) rs \<Longrightarrow> list_all (typed_request svs' dvs') rs"
    "list_all (typed_entry svs dvs rqs) es \<Longrightarrow> list_all (typed_entry svs' dvs' rqs') es"
  using typed_mono(1) [OF assms(1,2)] typed_mono(2) [OF assms] by (auto simp: list_all_iff)

lemma typed_new_server: "pg_typed db \<Longrightarrow> ValidOS (sv_OS s) \<Longrightarrow> pg_typed (db\<lparr> pg_servers := pg_servers db @ [s] \<rparr>)"
  unfolding pg_typed_def by (auto elim!: typed_refs_mono [rotated 3])

lemma typed_new_device:
  "pg_typed db \<Longrightarrow> ValidPlatform (dv_Platform d) \<Longrightarrow> pg_typed (db\<lparr> pg_devices := pg_devices db @ [d] \<rparr>)"
  unfolding pg_typed_def by (auto elim!: typed_refs_mono [rotated 3])

lemma typed_new_request:
  "pg_typed db \<Longrightarrow> typed_request (sv_ID ` set (pg_servers db)) (dv_ID ` set (pg_devices db)) r \<Longrightarrow>
   pg_typed (db\<lparr> pg_requests := pg_requests db @ [r] \<rparr>)"
  unfolding pg_typed_def by (auto elim!: typed_refs_mono [rotated 3])

lemma typed_new_rule:
  "pg_typed db \<Longrightarrow> bpchar (gr_Country g) = gr_Country g \<Longrightarrow> length (runes (gr_Country g)) \<le> 2 \<Longrightarrow>
   pg_typed (db\<lparr> pg_geoRules := pg_geoRules db @ [g] \<rparr>)"
  by (simp add: pg_typed_def)

lemma typed_blocked:
  "pg_typed db \<Longrightarrow> list_all (\<lambda>b. int4 (bi_DenialCount b) \<and> int4 (bi_HitCount b)) bs \<Longrightarrow> pg_typed (db\<lparr> pg_blocked := bs \<rparr>)"
  by (simp add: pg_typed_def)

lemma typed_filter:
  "pg_typed db \<Longrightarrow> pg_typed (db\<lparr> pg_whitelist := filter P (pg_whitelist db) \<rparr>)"
  "pg_typed db \<Longrightarrow> pg_typed (db\<lparr> pg_geoRules := filter Q (pg_geoRules db) \<rparr>)"
  by (auto simp: pg_typed_def list_all_iff)

section \<open>Every operation\<close>

lemma CreateServer_typed: "pg_typed db \<Longrightarrow> pg_typed (fst (pg_CreateServer E nid name hash os now db))"
  unfolding pg_CreateServer_def
  by (erule typed_stmt) (auto simp: Let_def typed_new_server split: if_splits)

lemma TouchServer_typed: "pg_typed db \<Longrightarrow> pg_typed (fst (pg_TouchServer E sid now db))"
  unfolding pg_TouchServer_def typed_affected
  by (erule typed_stmt) (auto simp: casts Let_def intro!: typed_servers)

lemma UpsertDevice_typed: "pg_typed db \<Longrightarrow> pg_typed (fst (pg_UpsertDevice E nid token platform label now db))"
  unfolding pg_UpsertDevice_def
proof (erule typed_stmt, goal_cases)
  case (1 db' a)
  then have p: "ValidPlatform platform" by (auto split: if_splits)
  show ?case
  proof (cases "List.find (\<lambda>d. dv_FCMToken d = token) (pg_devices db)")
    case None
    with 1 p show ?thesis by (auto simp: Let_def typed_new_device)
  next
    case (Some d)
    with 1 p show ?thesis by (auto simp: Let_def intro!: typed_devices)
  qed
qed

lemma DeleteDevice_typed: "pg_typed db \<Longrightarrow> pg_typed (fst (pg_DeleteDevice E did now db))"
  unfolding pg_DeleteDevice_def typed_affected
  by (erule typed_stmt) (auto simp: casts Let_def intro!: typed_devices)

lemma CreateGeoRule_typed: "pg_typed db \<Longrightarrow> pg_typed (fst (pg_CreateGeoRule E nid country note now db))"
  unfolding pg_CreateGeoRule_def
  by (erule typed_stmt) (auto simp: Let_def bpchar_idem split: if_splits intro!: typed_new_rule)

lemma DeleteGeoRule_typed: "pg_typed db \<Longrightarrow> pg_typed (fst (pg_DeleteGeoRule E gid db))"
  unfolding pg_DeleteGeoRule_def typed_affected by (erule typed_stmt) (auto simp: casts typed_filter)

lemma DeleteWhitelist_typed: "pg_typed db \<Longrightarrow> pg_typed (fst (pg_DeleteWhitelist E wid db))"
  unfolding pg_DeleteWhitelist_def typed_affected by (erule typed_stmt) (auto simp: casts typed_filter)

lemma RecordBlockedIPHit_typed: "pg_typed db \<Longrightarrow> pg_typed (fst (pg_RecordBlockedIPHit E bid now db))"
  unfolding pg_RecordBlockedIPHit_def typed_affected
proof (erule typed_stmt, goal_cases)
  case (1 db' a)
  then show ?case
    by (auto simp: casts Let_def pg_typed_def list_all_iff list_ex_iff upd_rows_def split: if_splits)
qed

lemma UpsertBlockedIP_typed: "pg_typed db \<Longrightarrow> pg_typed (fst (pg_UpsertBlockedIP E nid b db))"
  unfolding pg_UpsertBlockedIP_def
proof (erule typed_stmt, goal_cases)
  case (1 db' a)
  have "int4 0" by (simp add: int4_def)
  with 1 show ?case
    by (auto simp: casts Let_def pg_typed_def list_all_iff upd_rows_def blocked_values_def split: if_splits option.splits)
qed

lemma UnblockIP_typed: "pg_typed db \<Longrightarrow> pg_typed (fst (pg_UnblockIP E bid now db))"
  unfolding pg_UnblockIP_def typed_affected
  by (erule typed_stmt) (auto simp: casts Let_def pg_typed_def list_all_iff upd_rows_def)

lemma insert_request_typed:
  assumes "pg_typed db" "insert_request E nid r db = Inr (db', x)"
  shows "pg_typed db'"
proof -
  obtain sid ip dev where v: "ValidContext (rq_Context r)" "ValidStatus (if rq_Status r = [] then StatusPending else rq_Status r)"
    "valid_decided_by (rq_DecidedBy r)" "has_server db sid" "has_device db dev"
    and db': "db' = db\<lparr> pg_requests := pg_requests db @
         [r\<lparr> rq_ID := nid, rq_ServerID := sid, rq_SourceIP := ip,
             rq_Status := (if rq_Status r = [] then StatusPending else rq_Status r),
             rq_DecidedByDevice := dev, rq_CreatedAt := pe_time E (rq_CreatedAt r),
             rq_ExpiresAt := pe_time E (rq_ExpiresAt r),
             rq_DecidedAt := map_option (pe_time E) (rq_DecidedAt r) \<rparr>] \<rparr>"
    using assms(2) unfolding insert_request_def Let_def casts by (auto split: if_split_asm)
  show ?thesis
    unfolding db' using v by (intro typed_new_request [OF assms(1)]) (simp add: typed_request_def has_refs)
qed

lemma decide_typed:
  assumes "pg_typed db" "decide_statement E rid status deviceID now db = Inr (db', n)"
  shows "pg_typed db'"
proof -
  obtain u dev where db': "db' = db\<lparr> pg_requests := upd_rows (decidable u (pe_time E now))
      (decided_row status dev (pe_time E now)) (pg_requests db) \<rparr>"
    and ok: "0 < count_rows (decidable u (pe_time E now)) (pg_requests db) \<Longrightarrow> ValidStatus status \<and> has_device db dev"
    using assms(2) unfolding decide_statement_def casts Let_def by (auto split: if_split_asm)
  show ?thesis
  proof (cases "0 < count_rows (decidable u (pe_time E now)) (pg_requests db)")
    case True
    with ok show ?thesis unfolding db'
      by (intro typed_requests [OF assms(1)])
         (auto simp: decided_row_def typed_request_def has_refs valid_decided_by_def)
  next
    case False
    then have "List.find (decidable u (pe_time E now)) (pg_requests db) = None" by (simp add: count_rows_zero [symmetric])
    then show ?thesis using assms(1) by (simp add: db' upd_rows_none)
  qed
qed

lemma timeout_typed:
  assumes "pg_typed db" "timeout_statement E rid db = Inr (db', n)"
  shows "pg_typed db'"
proof -
  have "ValidStatus StatusTimeout" by (simp add: ValidStatus_def enums)
  with assms show ?thesis
    unfolding timeout_statement_def casts Let_def
    by (auto intro!: typed_requests simp: typed_request_def valid_decided_by_def)
qed

lemma typed_entries:
  "pg_typed db \<Longrightarrow>
   list_all (typed_entry (sv_ID ` set (pg_servers db)) (dv_ID ` set (pg_devices db)) (rq_ID ` set (pg_requests db))) es \<Longrightarrow>
   pg_typed (db\<lparr> pg_whitelist := es \<rparr>)"
  by (simp add: pg_typed_def)

lemma save_entry_typed:
  assumes t: "pg_typed db" and save: "save_entry E nid e sid from' dev now db = Inr (db', x)"
  shows "pg_typed db'"
proof -
  define P :: "WhitelistEntry \<Rightarrow> bool" where "P = (\<lambda>x. wl_Username x = wl_Username e \<and> wl_Context x = wl_Context e \<and> wl_ServerID x = sid)"
  note run = save [unfolded save_entry_def Let_def, folded P_def]
  have all: "list_all (typed_entry (sv_ID ` set (pg_servers db)) (dv_ID ` set (pg_devices db)) (rq_ID ` set (pg_requests db)))
    (pg_whitelist db)" using t by (simp add: pg_typed_def)
  show ?thesis
  proof (cases "List.find P (pg_whitelist db)")
    case None
    with run have "ValidContext (wl_Context e)" "\<forall>s. sid = Some s \<longrightarrow> has_server db s" "has_request db from'" "has_device db dev"
      and db': "db' = db\<lparr> pg_whitelist := pg_whitelist db @ [e\<lparr> wl_ID := nid, wl_ServerID := sid,
          wl_ExpiresAt := map_option (pe_time E) (wl_ExpiresAt e), wl_CreatedAt := pe_time E now, wl_CreatedFrom := from',
          wl_CreatedByDevice := dev \<rparr>] \<rparr>"
      by (auto split: if_split_asm option.split_asm)
    then show ?thesis
      unfolding db' using all by (intro typed_entries [OF t]) (auto simp: typed_entry_def has_refs)
  next
    case (Some y)
    with run have "db' = db\<lparr> pg_whitelist := upd_rows P
        (\<lambda>x. x\<lparr> wl_ExpiresAt := map_option (pe_time E) (wl_ExpiresAt e) \<rparr>) (pg_whitelist db) \<rparr>"
      by (auto split: if_split_asm)
    moreover have "list_all (typed_entry (sv_ID ` set (pg_servers db)) (dv_ID ` set (pg_devices db)) (rq_ID ` set (pg_requests db)))
      (upd_rows P (\<lambda>x. x\<lparr> wl_ExpiresAt := map_option (pe_time E) (wl_ExpiresAt e) \<rparr>) (pg_whitelist db))"
      by (rule upd_rows_all [OF all]) (simp add: typed_entry_def)
    ultimately show ?thesis using typed_entries [OF t] by simp
  qed
qed

section \<open>Operations of two statements\<close>

text \<open>Other connections keep the types too.\<close>

definition typed_between :: "pg_env \<Rightarrow> bool" where
  "typed_between E \<longleftrightarrow> (\<forall>db. pg_typed db \<longrightarrow> pg_typed (pe_between E db))"

lemma CreateRequest_typed: "pg_typed db \<Longrightarrow> typed_between E \<Longrightarrow> pg_typed (fst (pg_CreateRequest E nid r db))"
  using typed_stmt [of db "insert_request E nid r" E "''create request''"] insert_request_typed [of db E nid r]
  by (auto simp: pg_CreateRequest_def typed_between_def Let_def split: prod.split sum.split)

lemma DecideRequest_typed: "pg_typed db \<Longrightarrow> typed_between E \<Longrightarrow> pg_typed (fst (pg_DecideRequest E rid status dev now db))"
  using typed_stmt [of db "decide_statement E rid status dev now" E "''decide request''"] decide_typed [of db E rid status dev now]
  by (auto simp: pg_DecideRequest_def typed_between_def Let_def split: prod.split sum.split)

lemma MarkTimeout_typed: "pg_typed db \<Longrightarrow> typed_between E \<Longrightarrow> pg_typed (fst (pg_MarkTimeout E rid now db))"
  using typed_stmt [of db "timeout_statement E rid" E "''mark timeout''"] timeout_typed [of db E rid]
  by (auto simp: pg_MarkTimeout_def typed_between_def Let_def split: prod.split sum.split)

lemma ListWhitelist_typed: "pg_typed db \<Longrightarrow> typed_between E \<Longrightarrow> pg_typed (fst (pg_ListWhitelist E sid now db))"
  using typed_stmt [of db "\<lambda>db. Inr (db\<lparr> pg_whitelist := filter (\<lambda>e. unexpired (wl_ExpiresAt e) (pe_time E now)) (pg_whitelist db) \<rparr>, ())"
      E "''delete expired whitelist''"] typed_filter(1)
  by (auto simp: pg_ListWhitelist_def typed_between_def Let_def split: prod.split sum.split)

lemma UpsertWhitelist_typed: "pg_typed db \<Longrightarrow> typed_between E \<Longrightarrow> pg_typed (fst (pg_UpsertWhitelist E nid e now db))"
proof -
  assume a: "pg_typed db" "typed_between E"
  have "pg_typed (fst (pg_stmt E ''upsert whitelist'' (upsert_entry E nid e now) db))"
    using a(1) by (rule typed_stmt) (auto simp: upsert_entry_def casts intro: save_entry_typed [OF a(1)])
  with a(2) show ?thesis
    by (auto simp: pg_UpsertWhitelist_def typed_between_def Let_def split: prod.split sum.split)
qed

text \<open>C11: The columns keep their types. Whatever an operation of the PostgreSQL store is given, and whether its
  statements succeed, fail or fail after taking effect, the tables stay well typed: operating systems,
  platforms, contexts, statuses and deciders are values of their enumerations, counters fit their 32 bits,
  country codes have at most two characters without trailing blanks, and every reference to a server, a
  device or a request has its row. In particular every request read back has a valid status.\<close>

theorem schema_types_kept:
  assumes "pg_typed db" "typed_between E"
  shows "pg_typed (fst (pg_CreateServer E nid name hash os now db)) \<and> pg_typed (fst (pg_TouchServer E sid now db)) \<and>
    pg_typed (fst (pg_UpsertDevice E nid token platform label now db)) \<and> pg_typed (fst (pg_DeleteDevice E sid now db)) \<and>
    pg_typed (fst (pg_CreateRequest E nid r db)) \<and> pg_typed (fst (pg_DecideRequest E rid status dev now db)) \<and>
    pg_typed (fst (pg_MarkTimeout E rid now db)) \<and> pg_typed (fst (pg_ListWhitelist E srv now db)) \<and>
    pg_typed (fst (pg_UpsertWhitelist E nid e now db)) \<and> pg_typed (fst (pg_DeleteWhitelist E rid db)) \<and>
    pg_typed (fst (pg_RecordBlockedIPHit E rid now db)) \<and> pg_typed (fst (pg_UpsertBlockedIP E nid b db)) \<and>
    pg_typed (fst (pg_UnblockIP E rid now db)) \<and> pg_typed (fst (pg_CreateGeoRule E nid country note now db)) \<and>
    pg_typed (fst (pg_DeleteGeoRule E rid db)) \<and>
    (\<forall>v. pg_RequestByID E rid db = Inr v \<longrightarrow> ValidStatus (rq_Status v) \<and> ValidContext (rq_Context v))"
proof (intro conjI allI impI)
  fix v assume "pg_RequestByID E rid db = Inr v"
  then obtain q where "q \<in> set (pg_requests db)" "v = requestSelect db q"
    by (auto simp: pg_RequestByID_def pg_query_def with_uuid_def sel_row_def split: if_splits sum.splits option.splits
        dest: find_SomeD)
  with assms(1) show "ValidStatus (rq_Status v)" "ValidContext (rq_Context v)"
    by (auto simp: pg_typed_def list_all_iff typed_request_def requestSelect_def)
qed (use assms in \<open>simp_all add: CreateServer_typed TouchServer_typed UpsertDevice_typed DeleteDevice_typed CreateRequest_typed
    DecideRequest_typed MarkTimeout_typed ListWhitelist_typed UpsertWhitelist_typed DeleteWhitelist_typed
    RecordBlockedIPHit_typed UpsertBlockedIP_typed UnblockIP_typed CreateGeoRule_typed DeleteGeoRule_typed\<close>)

theorem schema_types_kept_witness:
  "pg_typed (fst (pg_CreateServer ex_pg_env ''s1'' ''web'' ''hash'' ''linux'' 1500 pg_New)) \<and>
   pg_servers (fst (pg_CreateServer ex_pg_env ''s1'' ''web'' ''hash'' ''linux'' 1500 pg_New)) \<noteq> [] \<and>
   pg_typed (fst (pg_CreateServer ex_pg_env ''s1'' ''web'' ''hash'' ''plan9'' 1500 pg_New))"
proof -
  have "pg_typed pg_New" "typed_between ex_pg_env"
    by (simp_all add: pg_typed_def pg_New_def typed_between_def ex_pg_env_def)
  note kept = schema_types_kept [OF this, THEN conjunct1]
  have "pg_servers (fst (pg_CreateServer ex_pg_env ''s1'' ''web'' ''hash'' ''linux'' 1500 pg_New)) \<noteq> []"
    by (simp add: pg_CreateServer_def pg_stmt_def ValidOS_def enums ex_pg_env_def pg_New_def Let_def)
  then show ?thesis by (intro conjI kept)
qed

end
