(* ===== verification/Postgres_Columns.thy ===== *)
theory Postgres_Columns
  imports Postgres
begin

text \<open>
  The conversions of columns in \<^verbatim>\<open>backend/internal/db/postgres.go\<close>: nullable times and strings, and the JSON of the
  location. The tables of \<open>Postgres\<close> hold the values on the Go side of these conversions.
\<close>

record 'a sql_null =
  sn_Valid :: bool
  sn_Value :: 'a

definition utcPtr :: "time sql_null \<Rightarrow> time option" where
  "utcPtr t = (if \<not> sn_Valid t then None else Some (sn_Value t))"

definition strPtr :: "string sql_null \<Rightarrow> string option" where
  "strPtr s = (if \<not> sn_Valid s then None else Some (sn_Value s))"

datatype geo_error = EncodeGeo | DecodeGeo

text \<open>\<open>marshal\<close> and \<open>unmarshal\<close> are package \<^verbatim>\<open>json\<close> on the location. A column without bytes is NULL.\<close>

definition geoJSON :: "(Geo \<Rightarrow> string option) \<Rightarrow> Geo option \<Rightarrow> (geo_error, string option) result" where
  "geoJSON marshal g =
     (case g of
        None \<Rightarrow> Inr None
      | Some v \<Rightarrow> (case marshal v of None \<Rightarrow> Inl EncodeGeo | Some b \<Rightarrow> Inr (Some b)))"

definition geoFromJSON :: "(string \<Rightarrow> Geo option) \<Rightarrow> string \<Rightarrow> (geo_error, Geo option) result" where
  "geoFromJSON unmarshal b =
     (if b = [] then Inr None
      else (case unmarshal b of None \<Rightarrow> Inl DecodeGeo | Some g \<Rightarrow> Inr (Some g)))"

text \<open>What was written is read back, if the database returns a text that decodes to the same location.\<close>

lemma geo_column_roundtrip:
  assumes "\<And>v b. marshal v = Some b \<Longrightarrow> stored b \<noteq> [] \<and> unmarshal (stored b) = Some v"
    and "geoJSON marshal g = Inr col"
  shows "geoFromJSON unmarshal (case col of None \<Rightarrow> [] | Some b \<Rightarrow> stored b) = Inr g"
  using assms by (auto simp: geoJSON_def geoFromJSON_def split: option.splits)

lemma null_columns:
  "utcPtr \<lparr> sn_Valid = v \<noteq> None, sn_Value = (case v of None \<Rightarrow> t0 | Some t \<Rightarrow> t) \<rparr> = v"
  "strPtr \<lparr> sn_Valid = w \<noteq> None, sn_Value = (case w of None \<Rightarrow> s0 | Some s \<Rightarrow> s) \<rparr> = w"
  by (auto simp: utcPtr_def strPtr_def split: option.split)

end
