(* ===== verification/Go_Flag.thy ===== *)
theory Go_Flag
  imports Prelude
begin

text \<open>
  The part of Go's package \<^verbatim>\<open>flag\<close> that the commands of both programs use: string and boolean flags, set with one
  or two dashes, with the value after an equals sign or as the next argument.
\<close>

datatype flag_kind = StringFlag | BoolFlag

definition ParseBool :: "string \<Rightarrow> bool option" where
  "ParseBool s =
     (if s \<in> {''1'', ''t'', ''T'', ''TRUE'', ''true'', ''True''} then Some True
      else if s \<in> {''0'', ''f'', ''F'', ''FALSE'', ''false'', ''False''} then Some False
      else None)"

text \<open>A name and, after the first equals sign, the value.\<close>

definition flag_split :: "string \<Rightarrow> string \<times> string option" where
  "flag_split s =
     (case dropWhile (\<lambda>c. c \<noteq> CHR ''='') s of
        [] \<Rightarrow> (s, None)
      | _ # v \<Rightarrow> (takeWhile (\<lambda>c. c \<noteq> CHR ''='') s, Some v))"

text \<open>\<^verbatim>\<open>FlagSet.Parse\<close>: the values set, latest first, and the arguments left over. \<open>None\<close> is an error, a request
  for help included.\<close>

fun flag_Parse ::
  "(string \<Rightarrow> flag_kind option) \<Rightarrow> string list \<Rightarrow> (string \<times> string) list \<Rightarrow> ((string \<times> string) list \<times> string list) option" where
  "flag_Parse formal [] vals = Some (vals, [])"
| "flag_Parse formal (s # args) vals =
     (if length s < 2 \<or> hd s \<noteq> CHR ''-'' then Some (vals, s # args)
      else if s = ''--'' then Some (vals, args)
      else let name = (if s ! 1 = CHR ''-'' then drop 2 s else drop 1 s) in
        if name = [] \<or> hd name = CHR ''-'' \<or> hd name = CHR ''='' then None
        else let (n, v) = flag_split name in
          (case formal n of
             None \<Rightarrow> None
           | Some BoolFlag \<Rightarrow>
               (case ParseBool (case v of None \<Rightarrow> ''true'' | Some x \<Rightarrow> x) of
                  None \<Rightarrow> None
                | Some b \<Rightarrow> flag_Parse formal args ((n, if b then ''true'' else ''false'') # vals))
           | Some StringFlag \<Rightarrow>
               (case v of
                  Some x \<Rightarrow> flag_Parse formal args ((n, x) # vals)
                | None \<Rightarrow>
                    (case args of
                       [] \<Rightarrow> None
                     | x # args' \<Rightarrow> flag_Parse formal args' ((n, x) # vals)))))"

definition flag_value :: "(string \<times> string) list \<Rightarrow> string \<Rightarrow> string \<Rightarrow> string" where
  "flag_value vals name def = (case map_of vals name of None \<Rightarrow> def | Some v \<Rightarrow> v)"

lemma flag_split_eq: "CHR ''='' \<notin> set n \<Longrightarrow> flag_split (n @ CHR ''='' # v) = (n, Some v)"
  by (subgoal_tac "dropWhile (\<lambda>c. c \<noteq> CHR ''='') n = [] \<and> takeWhile (\<lambda>c. c \<noteq> CHR ''='') n = n")
    (auto simp: flag_split_def dropWhile_append takeWhile_append dropWhile_eq_Nil_conv takeWhile_eq_all_conv)

end
