(* ===== verification/Agent_Cmd.thy ===== *)
theory Agent_Cmd
  imports Check Agent_Watch Go_Flag
begin

text \<open>
  The agent as a command (\<^verbatim>\<open>agent/cmd/ssh-sentinel\<close>): the arguments, the paths and the
  configuration file (\<^verbatim>\<open>agent/internal/config\<close>), the variants of each operating system, the system log
  (\<^verbatim>\<open>agent/internal/auditlog/system_*.go\<close>) and the dispatch to the subcommands.
\<close>

section \<open>Paths and the configuration file\<close>

record Paths =
  pa_Config :: string
  pa_BreakGlass :: string
  pa_Cache :: string

text \<open>\<open>join\<close> is \<^verbatim>\<open>filepath.Join\<close> of the operating system.\<close>

definition DefaultPaths :: "string \<Rightarrow> (string \<Rightarrow> string) \<Rightarrow> (string \<Rightarrow> string \<Rightarrow> string) \<Rightarrow> Paths" where
  "DefaultPaths goos getenv join =
     (let p = (if goos = ''windows'' then
                 let base = getenv ''ProgramData'';
                     base = (if base = [] then ''C:'' @ [CHR 0x5C] @ ''ProgramData'' else base);
                     dir = join base ''ssh-sentinel''
                 in \<lparr> pa_Config = join dir ''config.json'', pa_BreakGlass = join dir ''breakglass'',
                      pa_Cache = join dir ''whitelist.json'' \<rparr>
               else \<lparr> pa_Config = ''/etc/ssh-sentinel/config.json'', pa_BreakGlass = ''/etc/ssh-sentinel/breakglass'',
                      pa_Cache = ''/var/lib/ssh-sentinel/whitelist.json'' \<rparr>)
      in if getenv ''SSH_SENTINEL_CONFIG'' \<noteq> [] then p\<lparr> pa_Config := getenv ''SSH_SENTINEL_CONFIG'' \<rparr> else p)"

datatype load_error = ConfigNotFound | ConfigUnread | ConfigNotJSON | ConfigInvalid config_error

text \<open>\<open>decode\<close> is the JSON decoder that refuses unknown keys, \<open>parse\<close> is \<^verbatim>\<open>url.Parse\<close>.\<close>

definition config_Parse ::
  "(string \<Rightarrow> AgentConfig option) \<Rightarrow> (string \<Rightarrow> (string \<times> string) option) \<Rightarrow> string \<Rightarrow> (load_error, AgentConfig) result" where
  "config_Parse decode parse data =
     (case decode data of
        None \<Rightarrow> Inl ConfigNotJSON
      | Some c \<Rightarrow> (case config_finish parse c of Inl e \<Rightarrow> Inl (ConfigInvalid e) | Inr c' \<Rightarrow> Inr c'))"

definition config_Load ::
  "(string \<Rightarrow> AgentConfig option) \<Rightarrow> (string \<Rightarrow> (string \<times> string) option) \<Rightarrow> read_file \<Rightarrow> (load_error, AgentConfig) result" where
  "config_Load decode parse f =
     (case f of
        NoFile \<Rightarrow> Inl ConfigNotFound
      | ReadFailed \<Rightarrow> Inl ConfigUnread
      | Contents data \<Rightarrow> config_Parse decode parse data)"

section \<open>Variants of the operating systems\<close>

text \<open>On Windows the check of \<^verbatim>\<open>perm_windows.go\<close> accepts every file, so the file counts as one only root can
  write; only Linux has a command line to read.\<close>

definition checkPrivate_windows :: "FileInfo \<Rightarrow> list_error option" where
  "checkPrivate_windows info = None"

definition private_file :: "string \<Rightarrow> open_file \<Rightarrow> open_file" where
  "private_file goos f =
     (case f of
        Opened info data \<Rightarrow>
          if goos = ''windows'' \<and> checkPrivate_windows info = None then Opened \<lparr> fi_Perm = 0, fi_Uid = Some 0 \<rparr> data
          else f
      | _ \<Rightarrow> f)"

definition SudoCommand_other :: "string option" where
  "SudoCommand_other = None"

definition NewSystemSource_other :: "string \<Rightarrow> duration \<Rightarrow> WevtutilSource option" where
  "NewSystemSource_other channel lookback = None"

section \<open>The system log\<close>

datatype log_priority = LogWarning | LogInfo

datatype log_record =
    SyslogRecord log_priority string
  | EventRecord nat nat string
  | StderrText string

datatype system_logger = SyslogLogger | EventLogger | WriterLogger

definition NewSystem_unix :: "bool \<Rightarrow> system_logger" where
  "NewSystem_unix available = (if available then SyslogLogger else WriterLogger)"

text \<open>\<open>handle\<close> is what \<^verbatim>\<open>RegisterEventSourceW\<close> returns. The source's name has no zero byte.\<close>

definition NewSystem_windows :: "nat \<Rightarrow> system_logger" where
  "NewSystem_windows handle = (if handle = 0 then WriterLogger else EventLogger)"

definition syslog_Log :: "Line \<Rightarrow> log_record list" where
  "syslog_Log l =
     (if ln_Decision l = audit_Deny then [SyslogRecord LogWarning (Line_String l)]
      else [SyslogRecord LogInfo (Line_String l)])"

definition eventlogWarning :: nat where "eventlogWarning = 0x0002"

definition eventlogInformation :: nat where "eventlogInformation = 0x0004"

definition eventID :: nat where "eventID = 100"

text \<open>A text with a zero byte has no UTF-16 form, and the line is lost.\<close>

definition event_Log :: "Line \<Rightarrow> log_record list" where
  "event_Log l =
     (if CHR 0x00 \<in> set (Line_String l) then []
      else [EventRecord (if ln_Decision l = audit_Deny then eventlogWarning else eventlogInformation) eventID
              (Line_String l)])"

definition writer_Log :: "Line \<Rightarrow> log_record list" where
  "writer_Log l = [StderrText (Line_String l @ [CHR 0x0A])]"

definition system_Log :: "system_logger \<Rightarrow> Line \<Rightarrow> log_record list" where
  "system_Log lg = (case lg of SyslogLogger \<Rightarrow> syslog_Log | EventLogger \<Rightarrow> event_Log | WriterLogger \<Rightarrow> writer_Log)"

section \<open>The commands\<close>

text \<open>What a command finds on its host. A file is read as the whole of it, or opened and examined.\<close>

record AgentHost =
  ah_GOOS :: string
  ah_getenv :: "string \<Rightarrow> string"
  ah_join :: "string \<Rightarrow> string \<Rightarrow> string"
  ah_read :: "string \<Rightarrow> read_file"
  ah_open :: "string \<Rightarrow> open_file"
  ah_euid :: nat
  ah_hostname :: string
  ah_cmdline :: "string option"
  ah_decode :: "string \<Rightarrow> AgentConfig option"
  ah_url :: "string \<Rightarrow> (string \<times> string) option"
  ah_unmarshal :: "string \<Rightarrow> Cache option"
  ah_marshal :: "Cache \<Rightarrow> string"
  ah_connect :: "AgentConfig \<Rightarrow> ClientRequest \<Rightarrow> duration \<Rightarrow> call_result"
  ah_fetch :: "AgentConfig \<Rightarrow> (client_error, ClientEntry list) result"
  ah_save :: "string \<Rightarrow> string \<Rightarrow> filesys \<Rightarrow> filesys \<times> bool"
  ah_round :: watch_round
  ah_rounds :: "watch_round list"
  ah_Now :: time

definition host_paths :: "AgentHost \<Rightarrow> Paths" where
  "host_paths H = DefaultPaths (ah_GOOS H) (ah_getenv H) (ah_join H)"

definition host_config :: "AgentHost \<Rightarrow> (load_error, AgentConfig) result" where
  "host_config H = config_Load (ah_decode H) (ah_url H) (ah_read H (pa_Config (host_paths H)))"

definition loaded :: "(load_error, AgentConfig) result \<Rightarrow> AgentConfig option" where
  "loaded r = (case r of Inl _ \<Rightarrow> None | Inr c \<Rightarrow> Some c)"

text \<open>The part of the dependencies that the environment and the paths give.\<close>

definition pam_deps :: "AgentHost \<Rightarrow> Deps" where
  "pam_deps H =
     \<lparr> dp_Context = [], dp_Mode = cfg_ModeEnforce, dp_User = ah_getenv H ''PAM_USER'', dp_RHost = ah_getenv H ''PAM_RHOST'',
       dp_TTY = ah_getenv H ''PAM_TTY'', dp_Command = None, dp_Hostname = [], dp_euid = ah_euid H,
       dp_BreakGlass = private_file (ah_GOOS H) (ah_open H (pa_BreakGlass (host_paths H))),
       dp_Cache = ah_read H (pa_Cache (host_paths H)), dp_unmarshal = ah_unmarshal H, dp_Client = None,
       dp_Timeout = 30 * Second, dp_Now = ah_Now H \<rparr>"

definition check_flags :: "string \<Rightarrow> flag_kind option" where
  "check_flags = map_of [(''context'', StringFlag)]"

definition cmd_check :: "AgentHost \<Rightarrow> string list \<Rightarrow> nat \<times> Line list" where
  "cmd_check H args =
     (case flag_Parse check_flags args [] of
        None \<Rightarrow> (2, [])
      | Some (vals, rest) \<Rightarrow>
          if rest \<noteq> [] then (2, [])
          else runCheck (flag_value vals ''context'' ''ssh'') (pam_deps H) (ah_connect H) (loaded (host_config H))
                 (ah_hostname H) (if ah_GOOS H = ''linux'' then ah_cmdline H else SudoCommand_other))"

definition cmd_sync :: "AgentHost \<Rightarrow> string list \<Rightarrow> filesys \<Rightarrow> filesys \<times> nat" where
  "cmd_sync H args fs =
     runSync args (loaded (host_config H)) (ah_fetch H) (ah_Now H) (ah_marshal H) (ah_save H (pa_Cache (host_paths H))) fs"

definition watch_flags :: "string \<Rightarrow> flag_kind option" where
  "watch_flags = map_of [(''once'', BoolFlag), (''channel'', StringFlag)]"

definition cmd_watch :: "AgentHost \<Rightarrow> string list \<Rightarrow> nat \<times> Line list" where
  "cmd_watch H args =
     (case flag_Parse watch_flags args [] of
        None \<Rightarrow> (2, [])
      | Some (vals, rest) \<Rightarrow>
          runWatch (flag_value vals ''once'' ''false'' = ''true'') (flag_value vals ''channel'' ''OpenSSH/Operational'') rest
            (loaded (host_config H)) (ah_GOOS H = ''windows'') (ah_hostname H) (ah_round H) (ah_rounds H))"

text \<open>The files afterwards, the exit code and the audit lines.\<close>

definition agent_run :: "AgentHost \<Rightarrow> string list \<Rightarrow> filesys \<Rightarrow> filesys \<times> nat \<times> Line list" where
  "agent_run H args fs =
     (case args of
        [] \<Rightarrow> (fs, 2, [])
      | cmd # args' \<Rightarrow>
          if cmd = ''check'' then (fs, cmd_check H args')
          else if cmd = ''sync'' then (case cmd_sync H args' fs of (fs', code) \<Rightarrow> (fs', code, []))
          else if cmd = ''watch'' then (fs, cmd_watch H args')
          else if cmd = ''version'' \<or> cmd = ''help'' \<or> cmd = ''-h'' \<or> cmd = ''--help'' then (fs, 0, [])
          else (fs, 2, []))"

section \<open>Lemmas\<close>

text \<open>The documented spellings of the flag, whatever its value contains.\<close>

lemma check_flag_forms:
  "flag_Parse check_flags [''--context='' @ v] [] = Some ([(''context'', v)], [])"
  "flag_Parse check_flags [''-context='' @ v] [] = Some ([(''context'', v)], [])"
  "flag_Parse check_flags [''--context'', v] [] = Some ([(''context'', v)], [])"
  using flag_split_eq [of "''context''" v] by (simp_all add: check_flags_def flag_split_def)

text \<open>Neither the break-glass file nor the cache can be moved by the variable that moves the configuration.\<close>

lemma paths_fixed:
  assumes "\<And>n. n \<noteq> ''SSH_SENTINEL_CONFIG'' \<Longrightarrow> getenv n = getenv' n"
  shows "pa_BreakGlass (DefaultPaths goos getenv join) = pa_BreakGlass (DefaultPaths goos getenv' join)"
    "pa_Cache (DefaultPaths goos getenv join) = pa_Cache (DefaultPaths goos getenv' join)"
  using assms [of "''ProgramData''"] by (simp_all add: DefaultPaths_def Let_def)

lemma private_file_unix [simp]: "goos \<noteq> ''windows'' \<Longrightarrow> private_file goos f = f"
  by (auto simp: private_file_def split: open_file.split)

lemma private_file_windows:
  "checkPrivate euid info' = None" if "private_file ''windows'' (Opened info data) = Opened info' data"
  using that by (auto simp: private_file_def checkPrivate_windows_def checkPrivate_def)

lemma config_Load_ok: "config_Load decode parse f = Inr c \<Longrightarrow> \<exists>c0. config_finish parse c0 = Inr c"
  by (auto simp: config_Load_def config_Parse_def split: read_file.splits option.splits sum.splits)

text \<open>No line is lost in the Windows event log, and every logger writes the line as it is.\<close>

lemma system_Log_one:
  "\<exists>p. system_Log lg l = [p] \<and> p \<in> {SyslogRecord LogWarning (Line_String l), SyslogRecord LogInfo (Line_String l),
     EventRecord eventlogWarning eventID (Line_String l), EventRecord eventlogInformation eventID (Line_String l),
     StderrText (Line_String l @ [CHR 0x0A])}"
proof -
  have "CHR 0x00 \<notin> set (Line_String l)" using Line_String_printable [of "CHR 0x00" l] by auto
  then show ?thesis
    by (cases lg) (auto simp: system_Log_def syslog_Log_def event_Log_def writer_Log_def)
qed

end
