(* ===== verification/Agent_Cmd_Props.thy ===== *)
theory Agent_Cmd_Props
  imports Agent_Cmd Agent_Props
begin

text \<open>
  The property of the agent as PAM runs it: from the arguments and the environment to the exit code.
\<close>

section \<open>The PAM hook from its command line\<close>

lemma runCheck_Run:
  assumes "ctx = ''ssh'' \<or> ctx = ''sudo''"
  obtains d where "runCheck ctx pam connect cfg host cmdline = Run d" "dp_User d = dp_User pam" "dp_Context d = ctx"
    "dp_RHost d = dp_RHost pam"
    "break_glass d = break_glass pam" "cached d = cached (pam\<lparr> dp_Context := ctx \<rparr>)" "dp_Client d = map_option connect cfg"
    "dp_Mode d = (case cfg of None \<Rightarrow> cfg_ModeEnforce | Some c \<Rightarrow> gc_Mode c)"
  using assms by (cases cfg) (auto simp: runCheck_def Let_def break_glass_def cached_def)

lemma exit_code_2: "fst (Run d) \<noteq> 2" and exit_code_0: "fst (Run d) = 0 \<longleftrightarrow> fst (Run d) = ExitAllow"
  using Run_exit [of d] by (auto simp: ExitAllow_def ExitDeny_def)

text \<open>The configuration a host gives is one that passed validation.\<close>

lemma host_config_ok:
  assumes "host_config H = Inr c"
  shows "gc_ServerToken c \<noteq> []" "gc_Mode c = cfg_ModeEnforce \<or> gc_Mode c = cfg_ModeNotify"
    "\<exists>scheme host. ah_url H (gc_BackendURL c) = Some (scheme, host) \<and> (scheme = ''https'' \<or> scheme = ''http'' \<and> gc_AllowHTTP c)"
proof -
  obtain c0 where "config_finish (ah_url H) c0 = Inr c" using config_Load_ok [OF assms [unfolded host_config_def]] ..
  then show "gc_ServerToken c \<noteq> []" "gc_Mode c = cfg_ModeEnforce \<or> gc_Mode c = cfg_ModeNotify"
    "\<exists>scheme host. ah_url H (gc_BackendURL c) = Some (scheme, host) \<and> (scheme = ''https'' \<or> scheme = ''http'' \<and> gc_AllowHTTP c)"
    by (rule config_finish_cases; blast)+
qed

lemma loaded_iff: "loaded r = Some c \<longleftrightarrow> r = Inr c" "loaded r = None \<longleftrightarrow> (\<exists>e. r = Inl e)"
  by (auto simp: loaded_def split: sum.splits)

text \<open>What may open a login. The backend of a valid configuration approves this user and context, or the mode is
  notify; when it can not be reached the cache counts.\<close>

definition backend_ground :: "AgentHost \<Rightarrow> string \<Rightarrow> AgentConfig \<Rightarrow> bool" where
  "backend_ground H ctx c \<longleftrightarrow>
     gc_ServerToken c \<noteq> [] \<and>
     (\<exists>scheme host. ah_url H (gc_BackendURL c) = Some (scheme, host) \<and> (scheme = ''https'' \<or> scheme = ''http'' \<and> gc_AllowHTTP c)) \<and>
     (\<exists>q t. cq_Username q = ah_getenv H ''PAM_USER'' \<and> cq_Context q = ctx \<and> cq_Mode q = gc_Mode c \<and>
        (case ah_connect H c q t of
           Answered resp \<Rightarrow> gc_Mode c = cfg_ModeNotify \<or> cp_Verdict resp = ''approve''
         | CallError e \<Rightarrow> gc_Mode c = cfg_ModeNotify \<or> \<not> IsRejected e \<and> cached (pam_deps H\<lparr> dp_Context := ctx \<rparr>)
         | Panicked \<Rightarrow> False))"

lemma backend_groundI:
  assumes "host_config H = Inr c" "cq_Username q = ah_getenv H ''PAM_USER''" "cq_Context q = ctx" "cq_Mode q = gc_Mode c"
    and "case ah_connect H c q t of
           Answered resp \<Rightarrow> gc_Mode c = cfg_ModeNotify \<or> cp_Verdict resp = ''approve''
         | CallError e \<Rightarrow> gc_Mode c = cfg_ModeNotify \<or> \<not> IsRejected e \<and> cached (pam_deps H\<lparr> dp_Context := ctx \<rparr>)
         | Panicked \<Rightarrow> False"
  shows "backend_ground H ctx c"
  unfolding backend_ground_def using host_config_ok(1,3) [OF assms(1)] assms(2-5) by blast

definition check_ground :: "AgentHost \<Rightarrow> string \<Rightarrow> bool" where
  "check_ground H ctx \<longleftrightarrow>
     ah_getenv H ''PAM_USER'' \<noteq> [] \<and>
     (break_glass (pam_deps H) \<or>
      (case host_config H of
         Inl _ \<Rightarrow> cached (pam_deps H\<lparr> dp_Context := ctx \<rparr>)
       | Inr c \<Rightarrow> backend_ground H ctx c))"

lemma check_has_ground:
  assumes "fst (runCheck ctx (pam_deps H) (ah_connect H) (loaded (host_config H)) host cmdline) = 0"
    and "ctx = ''ssh'' \<or> ctx = ''sudo''"
  shows "check_ground H ctx"
proof (rule runCheck_Run [OF assms(2), of "pam_deps H" "ah_connect H" "loaded (host_config H)" host cmdline])
  fix d
  assume d: "runCheck ctx (pam_deps H) (ah_connect H) (loaded (host_config H)) host cmdline = Run d"
    "dp_User d = dp_User (pam_deps H)" "dp_Context d = ctx" "dp_RHost d = dp_RHost (pam_deps H)"
    "break_glass d = break_glass (pam_deps H)" "cached d = cached (pam_deps H\<lparr> dp_Context := ctx \<rparr>)"
    "dp_Client d = map_option (ah_connect H) (loaded (host_config H))"
    "dp_Mode d = (case loaded (host_config H) of None \<Rightarrow> cfg_ModeEnforce | Some c \<Rightarrow> gc_Mode c)"
  have user: "dp_User (pam_deps H) = ah_getenv H ''PAM_USER''" by (simp add: pam_deps_def)
  have run: "fst (Run d) = ExitAllow" using assms(1) d(1) by (simp add: ExitAllow_def)
  show "check_ground H ctx"
  proof (cases "host_config H")
    case (Inl e)
    with run d(2-8) user show ?thesis by (simp add: Run_allow_iff check_ground_def loaded_def)
  next
    case (Inr c)
    have q: "cq_Username (check_request d m) = ah_getenv H ''PAM_USER''" "cq_Context (check_request d m) = ctx"
      "cq_Mode (check_request d m) = m" for m using d(2,3) user by (simp_all add: check_request_def)
    have "break_glass d \<or> backend_ground H ctx c"
    proof (cases "gc_Mode c = cfg_ModeNotify")
      case True
      with run d(2-8) Inr have "break_glass d \<or>
          ah_connect H c (check_request d (gc_Mode c)) (min (budget d) notifyTimeout) \<noteq> Panicked"
        by (simp add: Run_allow_iff loaded_def)
      with True show ?thesis by (auto intro!: backend_groundI [where t = "min (budget d) notifyTimeout", OF Inr q] split: call_result.split)
    next
      case False
      then have m: "gc_Mode c = cfg_ModeEnforce" using host_config_ok(2) [OF Inr] by simp
      with run d(2-8) Inr have "break_glass d \<or>
          (case ah_connect H c (check_request d (gc_Mode c)) (budget d) of Answered resp \<Rightarrow> cp_Verdict resp = ''approve''
           | CallError e \<Rightarrow> \<not> IsRejected e \<and> cached d | Panicked \<Rightarrow> False)"
        by (simp add: Run_allow_iff loaded_def)
      then show ?thesis
        using d(6) by (auto intro!: backend_groundI [where t = "budget d", OF Inr q] split: call_result.splits)
    qed
    with run d(2,5) user Inr show ?thesis by (simp add: check_ground_def Run_allow_iff)
  qed
qed

lemma cmd_check_cases:
  obtains (usage) "cmd_check H args = (2, [])"
  | (ran) vals ctx d where "flag_Parse check_flags args [] = Some (vals, [])" "ctx = flag_value vals ''context'' ''ssh''"
      "ctx = ''ssh'' \<or> ctx = ''sudo''" "cmd_check H args = Run d" "fst (Run d) = 0 \<Longrightarrow> check_ground H ctx"
proof (cases "flag_Parse check_flags args []")
  case None
  with usage show thesis by (simp add: cmd_check_def)
next
  case (Some p)
  obtain vals rest where p: "p = (vals, rest)" by fastforce
  define ctx where "ctx = flag_value vals ''context'' ''ssh''"
  define run where "run = runCheck ctx (pam_deps H) (ah_connect H) (loaded (host_config H)) (ah_hostname H)
    (if ah_GOOS H = ''linux'' then ah_cmdline H else SudoCommand_other)"
  have cmd: "cmd_check H args = (if rest \<noteq> [] then (2, []) else run)"
    by (simp add: cmd_check_def Some p ctx_def run_def)
  show thesis
  proof (cases "rest = [] \<and> (ctx = ''ssh'' \<or> ctx = ''sudo'')")
    case True
    then have c: "ctx = ''ssh'' \<or> ctx = ''sudo''" by simp
    obtain d where d: "run = Run d" unfolding run_def by (rule runCheck_Run [OF c])
    have "fst (Run d) = 0 \<Longrightarrow> check_ground H ctx"
      using check_has_ground [OF _ c] d unfolding run_def by metis
    then show thesis using True Some p cmd d by (intro ran [OF _ ctx_def c]) simp_all
  next
    case False
    with usage cmd show thesis by (auto simp: run_def runCheck_def split: if_splits)
  qed
qed

text \<open>C12: The agent's command fails closed. Run by PAM with any arguments, on any host, the check changes no file and
  exits 0, 1 or 2; it writes one audit line, or none when it exits 2 because it does not understand its
  arguments. It exits 0, which opens the login, only with the context ssh or sudo and a user, and then only
  if the break-glass file at its fixed path names the user, or a configuration file was read and valid (a
  server token, an https backend unless http is allowed explicitly) and the backend of that
  configuration approved this user and context or the mode is notify, or the cache at its fixed path
  allows the user and there was no usable configuration or the backend could not be reached. The
  variable that moves the configuration file moves neither list.\<close>

theorem check_command_fails_closed:
  assumes "agent_run H (''check'' # args) fs = (fs', code, lines)"
  shows "fs' = fs \<and> code \<in> {0, 1, 2} \<and> length lines = (if code = 2 then 0 else 1) \<and>
    (code = 0 \<longrightarrow> (\<exists>vals ctx. flag_Parse check_flags args [] = Some (vals, []) \<and>
       ctx = flag_value vals ''context'' ''ssh'' \<and> (ctx = ''ssh'' \<or> ctx = ''sudo'') \<and> check_ground H ctx)) \<and>
    (\<forall>path. let H' = H\<lparr> ah_getenv := (ah_getenv H)(''SSH_SENTINEL_CONFIG'' := path) \<rparr>
            in dp_BreakGlass (pam_deps H') = dp_BreakGlass (pam_deps H) \<and> dp_Cache (pam_deps H') = dp_Cache (pam_deps H))"
proof -
  have run: "cmd_check H args = (code, lines)" "fs' = fs" using assms by (simp_all add: agent_run_def)
  have fixed: "\<forall>path. let H' = H\<lparr> ah_getenv := (ah_getenv H)(''SSH_SENTINEL_CONFIG'' := path) \<rparr>
            in dp_BreakGlass (pam_deps H') = dp_BreakGlass (pam_deps H) \<and> dp_Cache (pam_deps H') = dp_Cache (pam_deps H)"
    using paths_fixed [of "(ah_getenv H)(''SSH_SENTINEL_CONFIG'' := _)" "ah_getenv H"]
    by (simp add: pam_deps_def host_paths_def Let_def)
  show ?thesis
  proof (cases rule: cmd_check_cases [of H args])
    case usage
    with run fixed show ?thesis by simp
  next
    case (ran vals ctx d)
    then have "Run d = (code, lines)" using run by simp
    moreover from this have "code = 0 \<or> code = 1" "length lines = 1"
      using Run_exit [of d] Run_one_line [of d] by (auto simp: ExitAllow_def ExitDeny_def one_line_def)
    ultimately show ?thesis using run(2) fixed ran by auto
  qed
qed

text \<open>A host whose break-glass file names alice, without a configuration.\<close>

definition ex_host :: AgentHost where
  "ex_host =
     \<lparr> ah_GOOS = ''linux'', ah_getenv = (\<lambda>n. if n = ''PAM_USER'' then ''alice'' else []), ah_join = (@),
       ah_read = (\<lambda>_. NoFile), ah_open = (\<lambda>path. if path = ''/etc/ssh-sentinel/breakglass'' then dp_BreakGlass ex_deps else FileMissing),
       ah_euid = 0, ah_hostname = ''web1'', ah_cmdline = None, ah_decode = (\<lambda>_. None), ah_url = (\<lambda>_. None),
       ah_unmarshal = (\<lambda>_. None), ah_marshal = (\<lambda>_. []), ah_connect = (\<lambda>_ _ _. Panicked),
       ah_fetch = (\<lambda>_. Inr []), ah_save = (\<lambda>_ _ fs. (fs, True)), 
       ah_round = \<lparr> wr_lib = \<lparr> wx_run = (\<lambda>_. ToolMissing), wx_xml = (\<lambda>_. None), wx_time = (\<lambda>_. None) \<rparr>,
         wr_call = (\<lambda>_. Inl UnreachableError), wr_done = True, wr_stop = True \<rparr>, ah_rounds = [], ah_Now = Second \<rparr>"

theorem check_command_fails_closed_witness:
  "fst (snd (agent_run ex_host [''check'', ''--context=sudo''] (\<lambda>_. None))) = 0 \<and> check_ground ex_host ''sudo'' \<and>
   length (snd (snd (agent_run ex_host [''check'', ''--context=sudo''] (\<lambda>_. None)))) = 1"
proof -
  obtain fs code lines where run: "agent_run ex_host [''check'', ''--context=sudo''] (\<lambda>_. None) = (fs, code, lines)"
    using prod_cases3 by blast
  have flags: "flag_Parse check_flags [''--context=sudo''] [] = Some ([(''context'', ''sudo'')], [])"
    using check_flag_forms(1) [of "''sudo''"] by simp
  have bg: "BreakGlass_Contains (fst (ReadBreakGlass 0 (dp_BreakGlass ex_deps))) ''alice''"
    by (simp add: ex_deps_def BreakGlass_Contains_def ReadBreakGlass_def checkPrivate_def scan_lines_def scannable_def
        breakglass_line_def dropCR_def TrimSpace_printable)
  have "code = 0"
    using run flags bg
    by (auto simp: agent_run_def cmd_check_def flag_value_def runCheck_def Let_def Run_def pam_deps_def ex_host_def
        host_paths_def DefaultPaths_def host_config_def config_Load_def loaded_def finish_def ExitAllow_def)
  with check_command_fails_closed [OF run] run flags show ?thesis by (auto simp: flag_value_def)
qed

end
