(* ===== verification/Server_Run.thy ===== *)
theory Server_Run
  imports Server_Cmd Go_Flag
begin

text \<open>
  The backend as a process (\<^verbatim>\<open>backend/cmd/server/main.go\<close>, \<^verbatim>\<open>serve.go\<close>, \<^verbatim>\<open>migrate.go\<close>): dispatch, start-up, the end of the
  HTTP server with its drain, and opening the database (\<^verbatim>\<open>backend/internal/db/postgres.go\<close>).
\<close>

section \<open>Opening the database\<close>

text \<open>The pool as \<^verbatim>\<open>Open\<close> leaves it; the limits are those of \<^verbatim>\<open>SetMaxOpenConns\<close>, \<^verbatim>\<open>SetMaxIdleConns\<close> and
  \<^verbatim>\<open>SetConnMaxLifetime\<close>. \<open>open_ok\<close> and \<open>ping_ok\<close> say whether the driver accepts the URL and the database answers.\<close>

record pool =
  pl_URL :: string
  pl_MaxOpen :: nat
  pl_MaxIdle :: nat
  pl_MaxLifetime :: duration

datatype open_error = DriverRefused | ConnectFailed

definition db_Open :: "bool \<Rightarrow> bool \<Rightarrow> string \<Rightarrow> (open_error, pool) result" where
  "db_Open open_ok ping_ok url =
     (if \<not> open_ok then Inl DriverRefused
      else if \<not> ping_ok then Inl ConnectFailed
      else Inr \<lparr> pl_URL = url, pl_MaxOpen = 10, pl_MaxIdle = 5, pl_MaxLifetime = 30 * Minute \<rparr>)"

section \<open>The migrate command\<close>

definition migrateTimeout :: duration where "migrateTimeout = 2 * Minute"

text \<open>\<open>pg\<close> is what opening the database gives, \<open>migrate\<close> is \<open>Migrate\<close> on the opened database with its failures,
  the end of the time budget among them. The result is the database, the exit code and the output.\<close>

definition runMigrate ::
  "(string \<Rightarrow> string) \<Rightarrow> (string \<Rightarrow> (open_error, pool) result) \<Rightarrow> ('d migrated \<Rightarrow> 'd migrated \<times> migrate_error option) \<Rightarrow>
     'd migrated \<Rightarrow> 'd migrated \<times> nat \<times> string list" where
  "runMigrate getenv pg migrate db =
     (let url = getenv ''DATABASE_URL'' in
      if url = [] then (db, 1, [])
      else (case pg url of
              Inl _ \<Rightarrow> (db, 1, [])
            | Inr _ \<Rightarrow>
                (case migrate db of
                   (db', Some _) \<Rightarrow> (db', 1, [])
                 | (db', None) \<Rightarrow> (db', 0, [''migrations applied'']))))"

section \<open>Serving\<close>

definition readHeaderTimeout :: duration where "readHeaderTimeout = 10 * Second"

definition readTimeout :: duration where "readTimeout = 30 * Second"

definition idleTimeout :: duration where "idleTimeout = 120 * Second"

definition startupTimeout :: duration where "startupTimeout = 30 * Second"

definition drainTimeout :: duration where "drainTimeout = 30 * Second"

record 's http_server =
  hs_Addr :: string
  hs_Handler :: "'s Handler"
  hs_ReadHeaderTimeout :: duration
  hs_ReadTimeout :: duration
  hs_WriteTimeout :: duration
  hs_IdleTimeout :: duration

text \<open>How the server ends: the listener returns, with an error or because the server is closed; or a stop signal
  comes while requests run, each with the time it still needs. \<^verbatim>\<open>Shutdown\<close> waits for them until its deadline and
  reports an error if one is left or the listeners could not be closed.\<close>

datatype serve_end = ListenReturned bool | StopSignal "duration list" bool

definition Shutdown :: "duration \<Rightarrow> duration list \<Rightarrow> bool \<Rightarrow> bool" where
  "Shutdown timeout inflight closed \<longleftrightarrow> list_all (\<lambda>d. d < timeout) inflight \<and> closed"

definition serve_exit :: "serve_end \<Rightarrow> nat" where
  "serve_exit e =
     (case e of
        ListenReturned failed \<Rightarrow> if failed then 1 else 0
      | StopSignal inflight closed \<Rightarrow> if Shutdown drainTimeout inflight closed then 0 else 1)"

text \<open>\<open>app\<close> is \<open>app_New\<close> with what it opens. The result is the database, the server if one was started, and the
  exit code.\<close>

definition runServe ::
  "(string \<Rightarrow> string) \<Rightarrow> (AppConfig \<Rightarrow> (start_error, 's Handler) result) \<Rightarrow>
     ('d migrated \<Rightarrow> 'd migrated \<times> migrate_error option) \<Rightarrow> serve_end \<Rightarrow> 'd migrated \<Rightarrow>
     'd migrated \<times> 's http_server option \<times> nat" where
  "runServe getenv app migrate ending db =
     (case LoadConfig getenv of
        Inl _ \<Rightarrow> (db, None, 1)
      | Inr cfg \<Rightarrow>
          (case app cfg of
             Inl _ \<Rightarrow> (db, None, 1)
           | Inr h \<Rightarrow>
               (case migrate db of
                  (db', Some _) \<Rightarrow> (db', None, 1)
                | (db', None) \<Rightarrow>
                    (db', Some \<lparr> hs_Addr = ac_ListenAddr cfg, hs_Handler = h, hs_ReadHeaderTimeout = readHeaderTimeout,
                                 hs_ReadTimeout = readTimeout, hs_WriteTimeout = 0, hs_IdleTimeout = idleTimeout \<rparr>,
                     serve_exit ending))))"

section \<open>Dispatch\<close>

text \<open>The flags of \<^verbatim>\<open>enroll\<close>; arguments left over are ignored.\<close>

definition enroll_flags :: "string list \<Rightarrow> (string \<times> string) option" where
  "enroll_flags args =
     map_option (\<lambda>(vals, rest). (flag_value vals ''name'' [], flag_value vals ''os'' OSLinux))
       (flag_Parse (map_of [(''name'', StringFlag), (''os'', StringFlag)]) args [])"

text \<open>What the subcommands find: the parts of \<open>runServe\<close>, \<open>runMigrate\<close>, \<open>runEnroll\<close> and \<open>runHealthcheck\<close> that are not
  the environment or the state.\<close>

record ('s, 'd) ServerHost =
  sh_getenv :: "string \<Rightarrow> string"
  sh_app :: "AppConfig \<Rightarrow> (start_error, 's Handler) result"
  sh_pool :: "string \<Rightarrow> (open_error, pool) result"
  sh_migrate :: "'d migrated \<Rightarrow> 'd migrated \<times> migrate_error option"
  sh_ending :: serve_end
  sh_rand :: "nat \<Rightarrow> nat list option"
  sh_store :: "'s Store option"
  sh_newID :: string
  sh_now :: time
  sh_get :: "string \<Rightarrow> nat option"
  sh_version :: string

record ('s, 'd) server_result =
  sr_schema :: "'d migrated"
  sr_rows :: 's
  sr_listening :: "'s http_server option"
  sr_exit :: nat
  sr_stdout :: "string list"

definition server_done :: "'d migrated \<Rightarrow> 's \<Rightarrow> nat \<Rightarrow> string list \<Rightarrow> ('s, 'd) server_result" where
  "server_done db s code out = \<lparr> sr_schema = db, sr_rows = s, sr_listening = None, sr_exit = code, sr_stdout = out \<rparr>"

text \<open>The text of \<^verbatim>\<open>usage\<close> and the log lines are left out of the output.\<close>

definition server_run :: "('s, 'd) ServerHost \<Rightarrow> string list \<Rightarrow> 'd migrated \<Rightarrow> 's \<Rightarrow> ('s, 'd) server_result" where
  "server_run H args0 db s =
     (let (cmd, args) = (case args0 of [] \<Rightarrow> (''serve'', []) | c # rest \<Rightarrow> (c, rest)) in
      if cmd = ''serve'' then
        (case runServe (sh_getenv H) (sh_app H) (sh_migrate H) (sh_ending H) db of
           (db', srv, code) \<Rightarrow> (server_done db' s code [])\<lparr> sr_listening := srv \<rparr>)
      else if cmd = ''migrate'' then
        (case runMigrate (sh_getenv H) (sh_pool H) (sh_migrate H) db of (db', code, out) \<Rightarrow> server_done db' s code out)
      else if cmd = ''enroll'' then
        (case runEnroll (enroll_flags args) (sh_getenv H) (sh_rand H) (sh_store H) (sh_newID H) (sh_now H) s of
           (s', code, out) \<Rightarrow> server_done db s' code out)
      else if cmd = ''healthcheck'' then server_done db s (runHealthcheck (sh_getenv H) (sh_get H)) []
      else if cmd = ''version'' then server_done db s 0 [sh_version H]
      else if cmd = ''help'' \<or> cmd = ''-h'' \<or> cmd = ''--help'' then server_done db s 0 []
      else server_done db s 2 [])"

section \<open>Lemmas\<close>

lemma runServe_listens:
  assumes "runServe getenv app migrate ending db = (db', Some srv, code)"
  obtains cfg h where "LoadConfig getenv = Inr cfg" "app cfg = Inr h" "migrate db = (db', None)"
    "hs_Addr srv = ac_ListenAddr cfg" "hs_Handler srv = h" "hs_WriteTimeout srv = 0" "code = serve_exit ending"
  using assms by (auto simp: runServe_def split: sum.splits prod.splits option.splits)

lemma runServe_fails: "runServe getenv app migrate ending db = (db', None, code) \<Longrightarrow> code = 1"
  by (auto simp: runServe_def split: sum.splits prod.splits option.splits)

text \<open>Every request that can finish within the drain time does.\<close>

lemma drain_enough:
  "(\<forall>inflight. list_all (\<lambda>d. d \<le> wait) inflight \<longrightarrow> serve_exit (StopSignal inflight True) = 0) \<longleftrightarrow> wait < drainTimeout"
proof
  assume "\<forall>inflight. list_all (\<lambda>d. d \<le> wait) inflight \<longrightarrow> serve_exit (StopSignal inflight True) = 0"
  then have "serve_exit (StopSignal [wait] True) = 0" by simp
  then show "wait < drainTimeout" by (simp add: serve_exit_def Shutdown_def split: if_splits)
next
  assume "wait < drainTimeout"
  then show "\<forall>inflight. list_all (\<lambda>d. d \<le> wait) inflight \<longrightarrow> serve_exit (StopSignal inflight True) = 0"
    by (fastforce simp: serve_exit_def Shutdown_def list_all_iff)
qed

end
