(* ===== verification/Server_Run_Props.thy ===== *)
theory Server_Run_Props
  imports Server_Run Cmd_Props App_Props
begin

text \<open>
  The property of the backend's process: it serves only when it is configured and its schema is complete.
\<close>

section \<open>Start and stop\<close>

text \<open>C31: The API listens only when it is ready. Started without a command or with serve, from any state that replicas and
  their failures can leave, the process opens its listener only after the environment passed validation (so the
  admin token is not empty), the application was built from that configuration, and every migration file is
  recorded and applied in order, none twice; otherwise it exits 1 and serves nothing. No other command
  listens. The process exits 0 when the server was closed, and after a stop signal exactly when the listeners
  close and each running request ends in less than 30 seconds.\<close>

theorem serve_only_when_ready:
  fixes H :: "('s, 'd) ServerHost"
  assumes "replicas read exec (migration_names entries) d0 db pos" "distinct (map fst entries)"
    and "sh_migrate H = Migrate entries read exec f0 f"
  shows "case sr_listening (server_run H args db s) of
      None \<Rightarrow> (args = [] \<or> hd args = ''serve'' \<longrightarrow> sr_exit (server_run H args db s) = 1)
    | Some srv \<Rightarrow>
        (args = [] \<or> hd args = ''serve'') \<and>
        (sr_exit (server_run H args db s) = 0 \<longleftrightarrow>
           (case sh_ending H of ListenReturned failed \<Rightarrow> \<not> failed
            | StopSignal inflight closed \<Rightarrow> closed \<and> list_all (\<lambda>d. d < 30 * Second) inflight)) \<and>
        (\<exists>cfg. LoadConfig (sh_getenv H) = Inr cfg \<and> ac_AdminToken cfg \<noteq> [] \<and> ac_DatabaseURL cfg \<noteq> [] \<and>
           sh_app H cfg = Inr (hs_Handler srv) \<and> hs_Addr srv = ac_ListenAddr cfg) \<and>
        run_files read exec (migration_names entries) d0 = Some (mg_schema (sr_schema (server_run H args db s))) \<and>
        mg_versions (sr_schema (server_run H args db s)) = Some (map TrimSuffix_sql (migration_names entries))"
    (is "case sr_listening ?r of None \<Rightarrow> _ | Some srv \<Rightarrow> ?ready srv")
proof (cases "args = [] \<or> hd args = ''serve''")
  case True
  obtain db' srv code where run: "runServe (sh_getenv H) (sh_app H) (sh_migrate H) (sh_ending H) db = (db', srv, code)"
    using prod_cases3 by blast
  have r: "?r = (server_done db' s code [])\<lparr> sr_listening := srv \<rparr>"
    using True run by (cases args) (simp_all add: server_run_def)
  show ?thesis
  proof (cases srv)
    case None
    with run runServe_fails show ?thesis by (fastforce simp: r server_done_def)
  next
    case (Some v)
    show ?thesis
    proof (rule runServe_listens [OF run [unfolded Some]])
      fix cfg h
      assume l: "LoadConfig (sh_getenv H) = Inr cfg" "sh_app H cfg = Inr h" "sh_migrate H db = (db', None)"
        "hs_Addr v = ac_ListenAddr cfg" "hs_Handler v = h" "hs_WriteTimeout v = 0" "code = serve_exit (sh_ending H)"
      have "ac_AdminToken cfg \<noteq> []" "ac_DatabaseURL cfg \<noteq> []" using LoadConfig_cases [OF l(1)] by blast+
      moreover have "serve_exit e = 0 \<longleftrightarrow> (case e of ListenReturned failed \<Rightarrow> \<not> failed
            | StopSignal inflight closed \<Rightarrow> closed \<and> list_all (\<lambda>d. d < 30 * Second) inflight)" for e
        by (auto simp: serve_exit_def Shutdown_def drainTimeout_def split: serve_end.split)
      ultimately show ?thesis using l True Migrate_complete [OF assms(1,2)] assms(3)
        by (simp add: r Some server_done_def)
    qed
  qed
next
  case False
  then have "sr_listening ?r = None"
    by (cases args) (auto simp: server_run_def server_done_def split: prod.split)
  with False show ?thesis by simp
qed

text \<open>A host with the environment of the examples and one migration file, stopped while a login waits.\<close>

definition ex_process :: "(memory, string list) ServerHost" where
  "ex_process =
     \<lparr> sh_getenv = ex_env ''3600'',
       sh_app = app_New (Some memory_store) None (\<lambda>_. None) (ex_codec (ex_body []) (ex_verdict [])) (\<lambda>_. []) (\<lambda>_. None),
       sh_pool = db_Open True True, sh_migrate = Migrate ex_entries Some (\<lambda>body d. Some (d @ [body])) ex_no_faults (\<lambda>_. ex_no_faults),
       sh_ending = StopSignal [25 * Second] True, sh_rand = (\<lambda>_. None), sh_store = Some memory_store, sh_newID = ''id1'',
       sh_now = 5, sh_get = (\<lambda>_. None), sh_version = ''dev'' \<rparr>"

theorem serve_only_when_ready_witness:
  "\<exists>srv. sr_listening (server_run ex_process [] \<lparr> mg_schema = [], mg_versions = None \<rparr> mem_New) = Some srv \<and>
     hs_Addr srv = '':8080'' \<and>
     sr_exit (server_run ex_process [] \<lparr> mg_schema = [], mg_versions = None \<rparr> mem_New) = 0 \<and>
     mg_versions (sr_schema (server_run ex_process [] \<lparr> mg_schema = [], mg_versions = None \<rparr> mem_New)) = Some [''001_init'']"
proof -
  let ?e = "\<lambda>body d. Some (d @ [body])"
  let ?db = "\<lparr> mg_schema = [], mg_versions = None \<rparr>"
  have r: "replicas Some ?e (migration_names ex_entries) [] ?db (\<lambda>_. 0)" by (rule replicas.fresh)
  have m: "sh_migrate ex_process = Migrate ex_entries Some ?e ex_no_faults (\<lambda>_. ex_no_faults)" by (simp add: ex_process_def)
  have cfg: "LoadConfig (sh_getenv ex_process) = Inr (ex_app 3600)"
    unfolding ex_process_def by (simp add: ex_env_loads ex_hour)
  obtain h where h: "sh_app ex_process (ex_app 3600) = Inr h"
    by (simp add: ex_process_def app_New_def PushEnabled_def ex_app_def)
  obtain db' where mig: "sh_migrate ex_process ?db = (db', None)"
    by (simp add: ex_process_def Migrate_def ex_names create_versions_def applyMigration_def migrationStep_def ex_no_faults_def
        TrimSuffix_sql_def)
  obtain srv where l: "sr_listening (server_run ex_process [] ?db mem_New) = Some srv"
    by (simp add: server_run_def runServe_def cfg h mig server_done_def)
  have "sh_ending ex_process = StopSignal [25 * Second] True" by (simp add: ex_process_def)
  with serve_only_when_ready [OF r ex_distinct m, of "[]" mem_New] l cfg show ?thesis
    by (auto simp: ex_names ex_app_def DefaultListenAddr_def TrimSuffix_sql_def)
qed

text \<open>With the longest wait the configuration allows, a shutdown can cut off a waiting login.\<close>

theorem drain_shorter_than_wait:
  "\<exists>getenv cfg. LoadConfig getenv = Inr cfg \<and> serve_exit (StopSignal [DefaultVerdictWait] True) = 0 \<and>
     serve_exit (StopSignal [ac_VerdictWait cfg] True) = 1"
proof -
  define env where "env = (ex_env ''3600'')(''VERDICT_WAIT_SECONDS'' := ''55'')"
  have t: "TrimSpace ''55'' = ''55''" "Atoi ''55'' = Some 55"
    by (rule TrimSpace_printable, simp) (simp add: Atoi_def digits_value_def is_digit_def)
  have "LoadConfig env = Inr (ex_app 3600\<lparr> ac_VerdictWait := seconds_duration 55 \<rparr>)"
    by (simp add: LoadConfig_def env_def ex_env_def intVar_def ex_env_words ex_app_def ex_hour t
        DefaultAutoblockThreshold_def minVerdictWaitSeconds_def maxVerdictWaitSeconds_def)
  moreover have "serve_exit (StopSignal [DefaultVerdictWait] True) = 0"
    "serve_exit (StopSignal [seconds_duration 55] True) = 1"
    by (simp_all add: serve_exit_def Shutdown_def drainTimeout_def DefaultVerdictWait_def seconds_duration_exact)
  ultimately show ?thesis by (intro exI [of _ env] exI [of _ "ex_app 3600\<lparr> ac_VerdictWait := seconds_duration 55 \<rparr>"]) simp
qed

end
