(* ===== verification/Clock.thy ===== *)
theory Clock
  imports Access
begin

text \<open>
  The clocks of \<^verbatim>\<open>backend/internal/model/clock.go\<close>: the interface as a locale, the system clock and the fake clock of
  the handler tests as its interpretations, and the handler's sleep as a sleep of either.
\<close>

section \<open>The two clocks\<close>

datatype ctx_error = ContextDone

text \<open>What the \<^verbatim>\<open>select\<close> of \<^verbatim>\<open>SystemClock.Sleep\<close> sees first: the end of the context, some time after the start, or the
  timer, which fires no earlier than asked and at once for a duration that is not positive. The state of the system
  clock is the current instant with the outcomes of the sleeps to come; after the last one the context ends.\<close>

datatype timer_event = CtxDone nat | TimerFired nat

record system_clock =
  sc_now :: time
  sc_events :: "timer_event list"

definition SystemClock_Now :: "system_clock \<Rightarrow> time" where
  "SystemClock_Now c = sc_now c"

definition SystemClock_Sleep :: "duration \<Rightarrow> system_clock \<Rightarrow> system_clock \<times> ctx_error option" where
  "SystemClock_Sleep d c =
     (case sc_events c of
        [] \<Rightarrow> (c, Some ContextDone)
      | CtxDone n # evs \<Rightarrow> (\<lparr> sc_now = sc_now c + int n, sc_events = evs \<rparr>, Some ContextDone)
      | TimerFired over # evs \<Rightarrow> (\<lparr> sc_now = sc_now c + max 0 d + int over, sc_events = evs \<rparr>, None))"

text \<open>The fake clock. \<open>fk_done\<close> says whether the context has ended; \<open>OnSleep\<close>, if set, is called with the new time and
  may change the state the test works on (a hook that moves the clock itself is left out).\<close>

record 's FakeClock =
  fk_now :: time
  fk_done :: bool
  fk_OnSleep :: "(time \<Rightarrow> 's \<Rightarrow> 's) option"
  fk_state :: 's

definition NewFakeClock :: "time \<Rightarrow> 's \<Rightarrow> 's FakeClock" where
  "NewFakeClock t s = \<lparr> fk_now = t, fk_done = False, fk_OnSleep = None, fk_state = s \<rparr>"

definition FakeClock_Now :: "'s FakeClock \<Rightarrow> time" where
  "FakeClock_Now c = fk_now c"

definition FakeClock_Set :: "time \<Rightarrow> 's FakeClock \<Rightarrow> 's FakeClock" where
  "FakeClock_Set t c = c\<lparr> fk_now := t \<rparr>"

definition FakeClock_Advance :: "duration \<Rightarrow> 's FakeClock \<Rightarrow> 's FakeClock" where
  "FakeClock_Advance d c = c\<lparr> fk_now := fk_now c + d \<rparr>"

definition FakeClock_Sleep :: "duration \<Rightarrow> 's FakeClock \<Rightarrow> 's FakeClock \<times> ctx_error option" where
  "FakeClock_Sleep d c =
     (if fk_done c then (c, Some ContextDone)
      else let c = FakeClock_Advance d c
           in (case fk_OnSleep c of
                 None \<Rightarrow> (c, None)
               | Some f \<Rightarrow> (c\<lparr> fk_state := f (FakeClock_Now c) (fk_state c) \<rparr>, None)))"

section \<open>The interface\<close>

locale clock =
  fixes now :: "'c \<Rightarrow> time" and sleep :: "duration \<Rightarrow> 'c \<Rightarrow> 'c \<times> ctx_error option"
  assumes sleep_advances: "sleep d c = (c', None) \<Longrightarrow> now c + d \<le> now c'"

fun sleeps :: "('c \<Rightarrow> 'c \<times> ctx_error option) \<Rightarrow> nat \<Rightarrow> 'c \<Rightarrow> 'c option" where
  "sleeps sl 0 c = Some c"
| "sleeps sl (Suc n) c = (case sl c of (c', Some _) \<Rightarrow> None | (c', None) \<Rightarrow> sleeps sl n c')"

context clock
begin

text \<open>So many sleeps without an error take at least so long, whatever the clock.\<close>

lemma sleeps_take: "sleeps (sleep d) n c = Some c' \<Longrightarrow> now c + int n * d \<le> now c'"
proof (induction n arbitrary: c)
  case (Suc n)
  then obtain c1 where c1: "sleep d c = (c1, None)" "sleeps (sleep d) n c1 = Some c'"
    by (auto split: prod.splits option.splits)
  have "now c + d \<le> now c1" using c1(1) by (rule sleep_advances)
  with Suc.IH [OF c1(2)] show ?case by (simp add: algebra_simps)
qed simp

text \<open>A deadline is passed after finitely many sleeps of a positive length.\<close>

lemma deadline_passes:
  "0 < d \<Longrightarrow> deadline - now c \<le> int n * d \<Longrightarrow> sleeps (sleep d) n c = Some c' \<Longrightarrow> \<not> now c' < deadline"
  using sleeps_take [of d n c c'] by linarith

end

interpretation sys: clock SystemClock_Now SystemClock_Sleep
  by unfold_locales (auto simp: SystemClock_Now_def SystemClock_Sleep_def split: list.splits timer_event.splits)

interpretation fake: clock FakeClock_Now FakeClock_Sleep
  by unfold_locales
    (auto simp: FakeClock_Now_def FakeClock_Sleep_def FakeClock_Advance_def Let_def split: if_splits option.splits)

section \<open>The handler's sleep\<close>

text \<open>The clock readings along the wait are those of the system clock, when its timer fires \<open>over\<close> late.\<close>

lemma wake_time_system:
  assumes "sc_now c = t + int lag" "sc_events c = TimerFired over # evs"
    and "d = (if deadline - sc_now c < poll then deadline - sc_now c else poll)"
  shows "SystemClock_Sleep d c = (\<lparr> sc_now = wake_time poll deadline t lag over, sc_events = evs \<rparr>, None)"
  using assms by (simp add: SystemClock_Sleep_def wake_time_def Let_def)

text \<open>The fake clock is exact before the deadline: no lag, and no waking late.\<close>

lemma wake_time_fake:
  assumes "\<not> fk_done c" "fk_now c = t" "t \<le> deadline" "0 \<le> poll"
    and "d = (if deadline - t < poll then deadline - t else poll)"
  shows "\<exists>c'. FakeClock_Sleep d c = (c', None) \<and> fk_now c' = wake_time poll deadline t 0 0 \<and> \<not> fk_done c'"
  using assms
  by (auto simp: FakeClock_Sleep_def FakeClock_Advance_def wake_time_def Let_def split: option.split)

lemmas system_deadline = sys.deadline_passes and fake_deadline = fake.deadline_passes

end
