(* ===== verification/Spec2Isabelle.thy ===== *)
theory Spec2Isabelle
  imports Login_Props Verdict_Props Store_Props Route_Props Agent_Props App_Props Geo_Props Fcm_Props Watch_Props Cmd_Props
    Conformance_Props
    Enroll_Props Wait_Props Verdict_Truth Outer Postgres_Types Postgres_Columns Agent_Cmd_Props Server_Run_Props Clock
begin

text \<open>
  SSH Sentinel: an agent on each server asks a backend before it lets an SSH login or a sudo through, and
  the backend asks the phones of the admins. This development models both Go programs and proves what
  makes them safe to put in front of a login.

  \<^bold>\<open>Parts and how they interact.\<close> The agent's PAM hook (\<^verbatim>\<open>src/agent\<close>) reads two local lists and calls
  \<^verbatim>\<open>POST /access-request\<close>. The backend (\<^verbatim>\<open>src/backend\<close>) authenticates the server, runs the rules, stores a
  row, pushes it to the phones and polls the row; a phone's \<^verbatim>\<open>POST /verdict\<close> decides the row. All state is
  behind the interface \<^verbatim>\<open>db.Store\<close>.

  \<^bold>\<open>Theories.\<close>
  \<^item> \<open>Prelude\<close>, \<open>Go_Strings\<close>, \<open>Sha256\<close>, \<open>Netip\<close>: Go maps as association lists, int64 durations with their
    wrap-around, and the parts of the standard library the program uses (runes and strings, SHA-256 on
    32-bit words, parsing and printing of addresses with the round trip).
  \<^item> \<open>Model\<close>: \<^verbatim>\<open>internal/model\<close>, rows, bodies, enumerations, conversions.
  \<^item> \<open>Store\<close>: the interface as a record of operations, and what its comments promise as locales
    (\<open>request_store\<close>, \<open>server_store\<close>, \<open>block_store\<close> and its extension \<open>autoblock_store\<close>, \<open>whitelist_store\<close>,
    \<open>geo_store\<close>). \<open>Memory\<close> and \<open>Memory_Laws\<close>: the in-memory store of \<^verbatim>\<open>internal/db/dbtest\<close>, its invariant, the
    step relation of all its operations, and the interpretation of every locale on it. \<open>Postgres\<close> and
    \<open>Postgres_Sim\<close>: the store of \<^verbatim>\<open>internal/db/postgres*.go\<close>, its statements on tables under the constraints of
    the migrations, and the simulation by steps of the in-memory store; \<open>Postgres_Columns\<close>: the conversions of its
    columns. \<open>Shared\<close>: a store that other processes use between any two calls of a handler, made of any store.
    \<open>Truthful\<close>: what the login path needs of a store whose operations may fail, as the locale
    \<open>truthful_store\<close>, interpreted in memory here and, through a sublocale, on PostgreSQL in \<open>Postgres_Access\<close>;
    \<open>Verdict_Truth\<close> extends it by the laws of a verdict (\<open>truthful_verdicts\<close>), for both stores.
    \<open>Conformance\<close>: the suite of \<^verbatim>\<open>dbtest/conformance.go\<close> as executable tests over any store.
  \<^item> \<open>Rules\<close> (\<^verbatim>\<open>internal/rules\<close>), \<open>Auth\<close> (\<^verbatim>\<open>internal/auth\<close>), \<open>Respond\<close>, \<open>Handlers\<close>, \<open>Access\<close>, \<open>Verdict\<close>, \<open>Router\<close>
    (\<^verbatim>\<open>internal/handler\<close>): one definition per function, over any store. \<open>Outer\<close>: the response writer over that of
    \<^verbatim>\<open>net/http\<close> (implicit 200, flush, statuses without a body) and the outer handler, from a reply or a panic to the bytes that are sent.
  \<^item> \<open>Agent_Lists\<close>, \<open>Audit_Line\<close>, \<open>Client\<close>, \<open>Check\<close>: the agent's packages \<^verbatim>\<open>whitelist\<close>, \<^verbatim>\<open>auditlog\<close>, \<^verbatim>\<open>client\<close>,
    \<^verbatim>\<open>config\<close>, \<^verbatim>\<open>check\<close> and the commands over them; the locale \<open>requester\<close> is what the hook needs of a client.
  \<^item> \<open>Agent_Watch\<close>: the Windows watcher (\<^verbatim>\<open>watch\<close>): messages, the output of wevtutil, bookmark, polling loop.
  \<^item> \<open>App_Config\<close> (\<^verbatim>\<open>internal/app\<close>), \<open>Geo_Lookup\<close> (\<^verbatim>\<open>internal/geo\<close>), \<open>Fcm\<close> (\<^verbatim>\<open>internal/fcm\<close>, with \<open>Base64\<close>),
    \<open>Server_Cmd\<close> (\<^verbatim>\<open>cmd/server\<close>, \<^verbatim>\<open>internal/db/migrate.go\<close>, \<^verbatim>\<open>adapters/scaleway\<close>): configuration and wiring, the two
    outgoing clients with their caches, enrollment, health probe, migrations, the function's start.
  \<^item> \<open>Go_Flag\<close>: package \<^verbatim>\<open>flag\<close>. \<open>Agent_Cmd\<close> (\<^verbatim>\<open>agent/cmd/ssh-sentinel\<close>) and \<open>Server_Run\<close> (\<^verbatim>\<open>cmd/server\<close>): the two programs from
    their arguments to the exit code, with the paths and the file of the agent's configuration, the system
    loggers, the start, the end and the drain of the HTTP server. \<open>Clock\<close> (\<^verbatim>\<open>internal/model/clock.go\<close>): the locale \<open>clock\<close>
    with both clocks as its interpretations.
  \<^item> \<open>System\<close>: the agent's calls served by the backend's routes. \<open>Example\<close>: a small installation for the
    witnesses.
  \<^item> \<open>Login_Props\<close>, \<open>Verdict_Props\<close>, \<open>Store_Props\<close>, \<open>Postgres_Props\<close>, \<open>Conformance_Props\<close>, \<open>Route_Props\<close>,
    \<open>Agent_Props\<close>, \<open>Watch_Props\<close>, \<open>App_Props\<close>, \<open>Geo_Props\<close>, \<open>Fcm_Props\<close>, \<open>Cmd_Props\<close>, \<open>Enroll_Props\<close>, \<open>Wait_Props\<close>,
    \<open>Shared_Props\<close>, \<open>Verdict_Truth\<close>, \<open>Outer\<close>, \<open>Postgres_Access\<close>, \<open>Postgres_Types\<close>, \<open>Agent_Cmd_Props\<close>, \<open>Server_Run_Props\<close> and this theory: the properties.

  \<^bold>\<open>State and effects.\<close> A handler takes its dependencies, a context with the clock readings and fresh ids of
  the call, the request and the state of the store, and gives the new state, the pushes and the reply.
  The wait of an access request runs along a list of sleep events; during each of them other processes
  may change the store by any sequence of operations. The list is the only fuel in the model: the wait
  is proved to have ended once the sleeps fill the wait window, 26 of them with the default timing. The
  watcher's loop runs along a list of rounds. Caches and migrations are shared by concurrent callers, so
  their properties speak of every state that any interleaving of locked regions or transactions reaches. On a
  shared store others also act between the calls of a handler: a list of steps before each write, of which each
  query before that write sees some prefix. The states gone through are logged, and a property that says what was
  in the tables names one of them.

  \<^bold>\<open>What is shown.\<close> A login in enforce mode opens only with a reason on record; the first verdict wins under
  every interleaving, in memory and in PostgreSQL, which refines the in-memory store with statements that
  fail or are lost and keeps its columns well typed; both stores pass the conformance suite; an approval has a
  ground on PostgreSQL too, with other connections at work between any two statements, and so has the answer to
  a verdict, but for one race, which is shown: a late verdict can be told timeout while an approval is recorded;
  the wait ends, and a verdict given during it reaches the agent; no store failure
  approves; rules, auto-block and whitelist behave as specified; the agent's command fails closed whatever its
  arguments; the backend listens only with a valid configuration and a complete schema; tokens confine callers; replies, errors of the mux and
  panics are sent as JSON, unless something flushed first, which no route does; the agent's decision table, its lists, its cache and its audit line;
  a backend that starts is configured safely; an enrolled token works on PostgreSQL, and a lost INSERT leaves only a row nobody has the token of; migrations are applied once and in
  order; access tokens and locations are used only while fresh; the watcher reports each login once.

  \<^bold>\<open>Parameters.\<close> JSON decoding and encoding, \<^verbatim>\<open>url.Parse\<close>, \<^verbatim>\<open>filepath.Join\<close>, the text form of times, the network, XML, PEM,
  X.509 and RSA, wevtutil, and the casts and the time precision of the database are arguments; for the
  handlers the geo lookup and FCM are arguments too. A property that needs something of them names it as
  a hypothesis and has a witness where it holds.

  \<^bold>\<open>Not modelled.\<close> Log lines and printed usage, which code may panic, HTTP transport and listeners, the
  embedding of the migration files, the mobile app and the infrastructure files.
\<close>

section \<open>The agent on the backend\<close>

text \<open>C1: End to end, a login in enforce mode opens only with a reason on record. When the agent's hook lets a
  user in over the real client and the real routes, the break-glass file names the user, or the backend
  gave no answer and the agent's cache covers the login, or the backend's store now holds a row for
  this user, context and the server whose token was sent, approved by an admin before it expired or
  covered by an unexpired whitelist entry. Of JSON it is assumed that the request body decodes to what
  was encoded and that a decoded answer carries the verdict that was encoded.\<close>

theorem enforced_login_has_ground:
  assumes "mem_inv m" "cx_nid cx \<notin> map_keys (m_requests m)" "h_store h = memory_store"
    and "list_all mem_event (cx_sched cx)"
    and "js_access (h_json h) (wr_request W (check_request d cfg_ModeEnforce)) =
      Some (to_body (check_request d cfg_ModeEnforce))"
    and "\<And>a resp. u (take client_maxBody (wr_reply W (AccessOut a))) = Some resp \<Longrightarrow>
      cp_Verdict resp = ar_Verdict a"
    and "dp_Client d = Some (client_call ue u (backend_exchange h cx m token W lost))"
    and "dp_Mode d = cfg_ModeEnforce" "fst (Run d) = ExitAllow"
  shows "break_glass d \<or>
    (cached d \<and> client_AccessRequest ue u
       (backend_exchange h cx m token W lost (check_request d cfg_ModeEnforce) (budget d)) = Inl UnreachableError) \<or>
    (\<exists>srv row. srv \<in> snd ` set (m_servers m) \<and> HashToken (TrimSpace token) = sv_TokenHash srv \<and>
       map_of (m_requests (fst (serve h cx (wire_post token (wr_request W (check_request d cfg_ModeEnforce))) m)))
         (cx_nid cx) = Some row \<and>
       rq_Username row = TrimSpace (dp_User d) \<and> rq_ServerID row = sv_ID srv \<and>
       rq_Context row = (if dp_Context d = [] then ContextSSH else dp_Context d) \<and>
       (rq_Status row = StatusApproved \<and> admin_decided row \<or>
        rq_Status row = StatusWhitelisted \<and>
          (\<exists>e\<in>snd ` set (m_whitelist m).
             wl_covers (rq_Username row) (rq_Context row) (sv_ID srv) (cx_rules cx) e)))"
proof -
  let ?q = "check_request d cfg_ModeEnforce"
  let ?x = "backend_exchange h cx m token W lost ?q (budget d)"
  have run: "break_glass d \<or> (case client_AccessRequest ue u ?x of
      Inr resp \<Rightarrow> cp_Verdict resp = ''approve'' | Inl e \<Rightarrow> \<not> IsRejected e \<and> cached d)"
    using assms(7-9)
    by (auto simp: Run_def run_enforce_def break_glass_def BreakGlass_Contains_def client_call_def run_cache_code
        cached_def split: if_splits sum.splits)
  show ?thesis
  proof (cases "client_AccessRequest ue u ?x")
    case (Inl e)
    with run show ?thesis by (cases e) (auto simp: IsRejected_def)
  next
    case (Inr resp)
    with run consider "break_glass d" | "cp_Verdict resp = ''approve''" by auto
    then show ?thesis
    proof cases
      case 2
      from accepted_answer [OF Inr] obtain m' sent a where
        sv: "serve h cx (wire_post token (wr_request W ?q)) m = (m', sent, Reply 200 (AccessOut a))"
        and "u (take client_maxBody (wr_reply W (AccessOut a))) = Some resp" by blast
      with assms(6) [of a resp] 2 have appr: "ar_Verdict a = VerdictApprove" by (simp add: VerdictApprove_def)
      have "requireServer accessRequest h cx (wire_post token (wr_request W ?q)) None m =
          (m', sent, Reply 200 (AccessOut a))"
        using sv by (simp add: serve_post)
      from served_login [OF assms(1-4) this] obtain tok srv raw body row where sl:
        "BearerToken (hq_Authorization (wire_post token (wr_request W ?q))) = Some tok"
        "srv \<in> snd ` set (m_servers m)" "HashToken tok = sv_TokenHash srv"
        "decodeJSON (js_access (h_json h)) (hq_Body (wire_post token (wr_request W ?q))) = Inr raw"
        "normalizeAccessRequest raw (sv_Name srv) = Inr body" "map_of (m_requests m') (cx_nid cx) = Some row"
        "access_answer (snd ` set (m_whitelist m)) (cx_rules cx) body srv row a"
        by blast
      have tok: "tok = TrimSpace token" and raw: "raw = to_body ?q"
        using sl(1,4) assms(5) by (auto simp: wire_post_def BearerToken_client decodeJSON_ok_iff split: if_splits)
      have body: "ab_Username body = TrimSpace (dp_User d)" "ab_Mode body \<noteq> ModeNotify"
        "ab_Context body = (if dp_Context d = [] then ContextSSH else dp_Context d)"
        using normalize_fields(1-3) [OF sl(5)]
        by (auto simp: raw to_body_def check_request_def cfg_ModeEnforce_def enums)
      from sl(7) appr body have "rq_Username row = TrimSpace (dp_User d)" "rq_ServerID row = sv_ID srv"
        "rq_Context row = (if dp_Context d = [] then ContextSSH else dp_Context d)"
        "rq_Status row = StatusApproved \<and> admin_decided row \<or> rq_Status row = StatusWhitelisted \<and>
          (\<exists>e\<in>snd ` set (m_whitelist m). wl_covers (rq_Username row) (rq_Context row) (sv_ID srv) (cx_rules cx) e)"
        by (auto simp: access_answer_def approval_ground_def)
      with sl(2,3,6) tok sv show ?thesis by (intro disjI2 exI [of _ srv] exI [of _ row]) simp
    qed simp
  qed
qed

text \<open>A wire for the examples: an answer is written as its verdict alone.\<close>

definition ex_wire :: Wire where
  "ex_wire = \<lparr> wr_request = (\<lambda>_. ''x''), wr_reply = (\<lambda>p. case p of AccessOut a \<Rightarrow> ar_Verdict a | _ \<Rightarrow> []) \<rparr>"

definition ex_unmarshal :: "string \<Rightarrow> ClientResponse option" where
  "ex_unmarshal b =
     (if b = ''approve'' \<or> b = ''deny''
      then Some \<lparr> cp_RequestID = [], cp_Verdict = b, cp_Reason = [], cp_DecidedAt = None \<rparr> else None)"

lemma ex_unmarshal_verdict:
  "ex_unmarshal (take client_maxBody (wr_reply ex_wire (AccessOut a))) = Some resp \<Longrightarrow> cp_Verdict resp = ar_Verdict a"
proof -
  have short: "take n x = y \<Longrightarrow> length y < n \<Longrightarrow> x = y" for n and x y :: string by auto
  show "ex_unmarshal (take client_maxBody (wr_reply ex_wire (AccessOut a))) = Some resp \<Longrightarrow> cp_Verdict resp = ar_Verdict a"
    using short [of client_maxBody "ar_Verdict a" "''approve''"] short [of client_maxBody "ar_Verdict a" "''deny''"]
    by (auto simp: ex_unmarshal_def ex_wire_def client_maxBody_def split: if_splits)
qed

definition ex_login :: "(ClientRequest \<Rightarrow> duration \<Rightarrow> call_result) \<Rightarrow> Deps" where
  "ex_login call = ex_deps\<lparr> dp_BreakGlass := FileMissing, dp_RHost := [], dp_TTY := [], dp_Client := Some call \<rparr>"

definition ex_call :: "ClientRequest \<Rightarrow> duration \<Rightarrow> call_result" where
  "ex_call = client_call (\<lambda>_. None) ex_unmarshal (backend_exchange
     (ex_handler ((ex_body ''alice'')\<lparr>ab_TTY := Some []\<rparr>) (ex_verdict ''deny'')) (ex_ctx ''n1'' []) ex_mem ''tok'' ex_wire False)"

lemma ex_login_body: "to_body (check_request (ex_login call) cfg_ModeEnforce) = (ex_body ''alice'')\<lparr>ab_TTY := Some []\<rparr>"
  by (simp add: to_body_def check_request_def ex_login_def ex_deps_def ex_body_def cfg_ModeEnforce_def)

lemma ex_login_normal: "normalizeAccessRequest ((ex_body ''alice'')\<lparr>ab_TTY := Some []\<rparr>) ''web1'' = Inr (ex_body ''alice'')"
  using ex_normalize [of "''alice''"] ex_trim
  by (simp add: normalizeAccessRequest_def ex_body_def ValidContext_def ValidMode_def enums
      normalize_source_ip_def accessNilIfEmpty_def)

lemma ex_login_allowed: "fst (Run (ex_login ex_call)) = ExitAllow"
proof -
  let ?h = "ex_handler ((ex_body ''alice'')\<lparr>ab_TTY := Some []\<rparr>) (ex_verdict ''deny'')"
  obtain m' sent a where "serve ?h (ex_ctx ''n1'' []) (wire_post ''tok'' ''x'') ex_mem =
      (m', sent, Reply 200 (AccessOut a))" "ar_Verdict a = VerdictApprove"
    using ex_decide_alice unfolding ex_serve_raw [OF ex_login_normal] by blast
  then have "ex_call q t = Answered \<lparr> cp_RequestID = [], cp_Verdict = ''approve'', cp_Reason = [], cp_DecidedAt = None \<rparr>" for q t
    by (simp add: ex_call_def client_call_def client_AccessRequest_def client_do_def backend_exchange_def
        wire_reply_def ex_wire_def client_maxBody_def ex_unmarshal_def VerdictApprove_def)
  then show ?thesis
    by (simp add: Run_def run_enforce_def ex_login_def ex_deps_def ReadBreakGlass_def BreakGlass_Contains_def)
qed

theorem enforced_login_has_ground_witness:
  "\<exists>srv row. srv \<in> snd ` set (m_servers ex_mem) \<and> HashToken (TrimSpace ''tok'') = sv_TokenHash srv \<and>
     rq_Username row = TrimSpace ''alice'' \<and> rq_ServerID row = sv_ID srv \<and> rq_Context row = ''ssh'' \<and>
     (rq_Status row = StatusApproved \<and> admin_decided row \<or>
      rq_Status row = StatusWhitelisted \<and>
        (\<exists>e\<in>snd ` set (m_whitelist ex_mem).
           wl_covers (rq_Username row) (rq_Context row) (sv_ID srv) (cx_rules (ex_ctx ''n1'' [])) e))"
proof -
  let ?h = "ex_handler ((ex_body ''alice'')\<lparr>ab_TTY := Some []\<rparr>) (ex_verdict ''deny'')"
  have no: "\<not> break_glass (ex_login ex_call)" "\<not> cached (ex_login ex_call)"
    by (simp_all add: break_glass_def cached_def ex_login_def ex_deps_def ReadBreakGlass_def LoadCache_def)
  have sel: "dp_Client (ex_login ex_call) = Some ex_call" "dp_Mode (ex_login ex_call) = cfg_ModeEnforce"
    "dp_User (ex_login ex_call) = ''alice''" "dp_Context (ex_login ex_call) = ''ssh''"
    by (simp_all add: ex_login_def ex_deps_def)
  have "cx_nid (ex_ctx ''n1'' []) \<notin> map_keys (m_requests ex_mem)" "list_all mem_event (cx_sched (ex_ctx ''n1'' []))"
    by (simp_all add: ex_ctx_def map_keys_def ex_mem_def ex_rid_def)
  moreover have "js_access (h_json ?h) (wr_request ex_wire (check_request (ex_login ex_call) cfg_ModeEnforce)) =
      Some (to_body (check_request (ex_login ex_call) cfg_ModeEnforce))"
    by (simp add: ex_login_body ex_handler_def ex_codec_def)
  ultimately show ?thesis
    using enforced_login_has_ground [OF ex_mem_inv, of "ex_ctx ''n1'' []" ?h ex_wire "ex_login ex_call" ex_unmarshal
        "\<lambda>_. None" "''tok''" False] ex_unmarshal_verdict ex_login_allowed no sel
    by (simp add: ex_handler_sel ex_call_def) blast
qed

text \<open>C14: The agent's cache agrees with the backend. A server that fetches the whitelist gets a list; after a
  refresh with it the cache lets a user in, at any later time, exactly when one of the backend's entries
  at the moment of the fetch covers user, context, this server and that time. Entries of other servers
  never reach the agent. Of JSON it is assumed that the list served decodes to its entries.\<close>

theorem cache_agrees_with_backend:
  assumes "mem_inv m" "h_store h = memory_store" "cx_now cx \<le> t"
    and "Authenticate memory_store (h_adminHash h) (client_Authorization token) m = Inr p"
    and "pr_Kind p = KindServer" "pr_Server p = Some srv"
    and "\<And>m' rows. serve h cx (wire_get_whitelist token) m = (m', [], Reply 200 (WhitelistListOut rows)) \<Longrightarrow>
      u (take client_maxBody (wr_reply W (WhitelistListOut rows))) = Some (map to_client_entry rows)"
  shows "\<exists>m' rep items. serve h cx (wire_get_whitelist token) m = (m', [], rep) \<and>
    client_Whitelist ue u (wire_reply W False rep) = Inr items \<and>
    (Cache_Allows (sync_cache now items) user c t \<longleftrightarrow>
     (\<exists>e\<in>snd ` set (m_whitelist m). wl_covers user c (sv_ID srv) t e))"
proof -
  define m1 where "m1 = fst (mem_TouchServer (sv_ID srv) (cx_touch cx) m)"
  have m1: "mem_inv m1" "m_whitelist m1 = m_whitelist m"
    using assms(1) by (simp_all add: m1_def mem_TouchServer_inv)
  have au: "authenticate h cx (wire_get_whitelist token) m = (m1, Inr p)"
    using assms(2,4-6) by (simp add: authenticate_def wire_get_whitelist_def wiring m1_def)
  from mem_wl.ListWhitelist_ok [OF m1(1), of "Some (sv_ID srv)" "cx_now cx"] obtain m2 rows where
    l0: "st_ListWhitelist memory_store (Some (sv_ID srv)) (cx_now cx) m1 = (m2, Inr rows)"
    and m2: "snd ` set (m_whitelist m2) = {e \<in> snd ` set (m_whitelist m1). unexpired (wl_ExpiresAt e) (cx_now cx)}"
    and into: "\<forall>e\<in>snd ` set (m_whitelist m2). wl_in_scope (Some (sv_ID srv)) e \<longrightarrow> (\<exists>v\<in>set rows. same_entry e v)"
    and out: "\<forall>v\<in>set rows. \<exists>e\<in>snd ` set (m_whitelist m2). wl_in_scope (Some (sv_ID srv)) e \<and> same_entry e v"
    by blast
  define items where "items = map to_client_entry (map ToWhitelistItem rows)"
  have sv: "serve h cx (wire_get_whitelist token) m = (m2, [], Reply 200 (WhitelistListOut (map ToWhitelistItem rows)))"
    using au assms(2,5,6) l0 by (simp add: serve_get_whitelist requireAny_def listWhitelist_def Let_def)
  have "Cache_Allows (sync_cache now items) user c t \<longleftrightarrow>
      (\<exists>v\<in>set rows. wl_Username v = user \<and> wl_Context v = c \<and> unexpired (wl_ExpiresAt v) t)"
    by (auto simp: Cache_Allows_iff sync_cache_def items_def to_client_entry_def ToWhitelistItem_def)
  also have "\<dots> \<longleftrightarrow> (\<exists>e\<in>snd ` set (m_whitelist m). wl_covers user c (sv_ID srv) t e)"
  proof
    assume "\<exists>v\<in>set rows. wl_Username v = user \<and> wl_Context v = c \<and> unexpired (wl_ExpiresAt v) t"
    then obtain v where v: "v \<in> set rows" "wl_Username v = user" "wl_Context v = c" "unexpired (wl_ExpiresAt v) t" by blast
    from out v(1) obtain e where "e \<in> snd ` set (m_whitelist m2)" "wl_in_scope (Some (sv_ID srv)) e" "same_entry e v"
      by blast
    with v m2 [unfolded m1(2)] show "\<exists>e\<in>snd ` set (m_whitelist m). wl_covers user c (sv_ID srv) t e"
      by (intro bexI [of _ e]) (auto simp: wl_covers_unexpired same_entry_def wl_in_scope_def)
  next
    assume "\<exists>e\<in>snd ` set (m_whitelist m). wl_covers user c (sv_ID srv) t e"
    then obtain e where e: "e \<in> snd ` set (m_whitelist m)" "wl_covers user c (sv_ID srv) t e" by blast
    with m2 [unfolded m1(2)] unexpired_mono [OF _ assms(3)] have "e \<in> snd ` set (m_whitelist m2)" by (auto simp: wl_covers_unexpired)
    moreover have "wl_in_scope (Some (sv_ID srv)) e" using e(2) by (auto simp: wl_covers_unexpired wl_in_scope_def)
    ultimately obtain v where "v \<in> set rows" "same_entry e v" using into by blast
    with e(2) show "\<exists>v\<in>set rows. wl_Username v = user \<and> wl_Context v = c \<and> unexpired (wl_ExpiresAt v) t"
      by (intro bexI [of _ v]) (auto simp: wl_covers_unexpired same_entry_def)
  qed
  finally have "Cache_Allows (sync_cache now items) user c t \<longleftrightarrow>
      (\<exists>e\<in>snd ` set (m_whitelist m). wl_covers user c (sv_ID srv) t e)" .
  moreover have "client_Whitelist ue u (wire_reply W False (Reply 200 (WhitelistListOut (map ToWhitelistItem rows)))) = Inr items"
    using assms(7) [OF sv]
    by (simp add: client_Whitelist_def client_do_def wire_reply_def items_def)
  ultimately show ?thesis using sv by blast
qed

definition ex_listed :: ClientEntry where
  "ex_listed = \<lparr> cw_ID = ''w1'', cw_Username = ''alice'', cw_Context = ''ssh'', cw_Server = Some ''web1'',
                 cw_ExpiresAt = None \<rparr>"

lemma ex_list_served:
  assumes "serve (ex_handler b v) (ex_ctx [] []) (wire_get_whitelist ''tok'') ex_mem =
    (m', [], Reply 200 (WhitelistListOut rows))"
  shows "map to_client_entry rows = [ex_listed]"
proof -
  have "authenticate (ex_handler b v) (ex_ctx [] []) (wire_get_whitelist ''tok'') ex_mem =
      (ex_seen, Inr \<lparr> pr_Kind = KindServer, pr_Server = Some ex_server \<rparr>)"
    unfolding ex_seen_def by (rule ex_authenticate) (simp_all add: wire_get_whitelist_def ex_ctx_def)
  with assms show ?thesis
    by (auto simp: serve_get_whitelist requireAny_def listWhitelist_def ex_handler_sel wiring mem_ListWhitelist_def
        ex_seen_def ex_mem_def ex_entry_def new_entry_def ex_server_def ex_ctx_def whitelistView_def serverName_def
        deviceLabel_def ToWhitelistItem_def to_client_entry_def ex_listed_def Let_def)
qed

theorem cache_agrees_with_backend_witness:
  "\<exists>m' rep items. serve (ex_handler (ex_body []) (ex_verdict [])) (ex_ctx [] []) (wire_get_whitelist ''tok'') ex_mem =
      (m', [], rep) \<and>
    client_Whitelist (\<lambda>_. None) (\<lambda>_. Some [ex_listed]) (wire_reply ex_wire False rep) = Inr items \<and>
    (Cache_Allows (sync_cache Second items) ''alice'' ''ssh'' (2 * Second) \<longleftrightarrow>
     (\<exists>e\<in>snd ` set (m_whitelist ex_mem). wl_covers ''alice'' ''ssh'' (sv_ID ex_server) (2 * Second) e))"
  by (rule cache_agrees_with_backend
        [OF ex_mem_inv, where p = "\<lparr> pr_Kind = KindServer, pr_Server = Some ex_server \<rparr>"])
     (simp_all add: ex_handler_sel ex_Authenticate ex_ctx_def ex_list_served [unfolded ex_ctx_def])

end
